(* ===== verification/Prelude.thy ===== *)
theory Prelude
  imports Main "HOL-Library.Word"
begin

text \<open>
  Shared vocabulary of the development: machine integers, the two address types of
  \<^verbatim>\<open>src/src/magic.h\<close>, C strings and the part of the C library that the program's
  parsing and printing rest on (\<^verbatim>\<open>strtol\<close>, \<^verbatim>\<open>strtok\<close>, \<^verbatim>\<open>printf\<close> number conversions),
  with the generic lemmas on them that the component theories share.
\<close>

unbundle bit_operations_syntax

section \<open>Machine integers and results\<close>

type_synonym u8 = "8 word"
type_synonym u16 = "16 word"
type_synonym u32 = "32 word"
type_synonym u64 = "64 word"
type_synonym pid_t = int

datatype SprayResult = SP_OK | SP_ERR

text \<open>A function that stores its result through a pointer and returns \<^verbatim>\<open>SprayResult\<close>
  is an \<open>option\<close>: \<open>Some v\<close> is \<^verbatim>\<open>SP_OK\<close> with \<open>v\<close> stored, \<open>None\<close> is \<^verbatim>\<open>SP_ERR\<close> with
  the destination untouched.\<close>

text \<open>A computation that may leave what the C standard defines (a read or a pointer out of
  bounds) has the outcome \<open>UB\<close> there.\<close>

datatype 'a c_result = Defined 'a | UB

fun c_bind :: "'a c_result \<Rightarrow> ('a \<Rightarrow> 'b c_result) \<Rightarrow> 'b c_result" where
  "c_bind (Defined a) f = f a"
| "c_bind UB f = UB"

lemma c_bind_Defined_iff: "c_bind m f = Defined b \<longleftrightarrow> (\<exists>a. m = Defined a \<and> f a = Defined b)"
  by (cases m) auto

text \<open>
  A failed \<^verbatim>\<open>assert\<close> aborts the debugger: \<open>Abort\<close>. A computation that may also run for ever
  is an \<open>'a exec\<close>, where \<open>None\<close> means that it does not come to an end.
\<close>

datatype 'a run = Ret 'a | Abort

type_synonym 'a exec = "'a run option"

fun run_bind :: "'a run \<Rightarrow> ('a \<Rightarrow> 'b run) \<Rightarrow> 'b run" where
  "run_bind (Ret a) f = f a"
| "run_bind Abort f = Abort"

abbreviation exec_bind :: "'a exec \<Rightarrow> ('a \<Rightarrow> 'b exec) \<Rightarrow> 'b exec" where
  "exec_bind m f \<equiv> Option.bind m (\<lambda>r. case r of Ret a \<Rightarrow> f a | Abort \<Rightarrow> Some Abort)"

abbreviation exec_ret :: "'a \<Rightarrow> 'a exec" where
  "exec_ret a \<equiv> Some (Ret a)"

lemma run_bind_Ret_iff: "run_bind m f = Ret b \<longleftrightarrow> (\<exists>a. m = Ret a \<and> f a = Ret b)"
  by (cases m) auto

section \<open>Collections of facts\<close>

named_theorems c_lib \<open>equations of the C library functions on the shapes the code uses\<close>
named_theorems magic_numbers \<open>definitions of the program's numeric constants\<close>

section \<open>Lists\<close>

lemma take_drop_nth_eq:
  "i < length xs \<Longrightarrow> drop i xs = xs ! i # drop (Suc i) xs"
  by (simp add: Cons_nth_drop_Suc)

lemma takeWhile_all [simp]: "\<forall>x \<in> set xs. P x \<Longrightarrow> takeWhile P xs = xs"
  by (simp add: takeWhile_eq_all_conv)

lemma dropWhile_all [simp]: "\<forall>x \<in> set xs. P x \<Longrightarrow> dropWhile P xs = []"
  by simp

lemma dropWhile_head [simp]: "\<not> P x \<Longrightarrow> dropWhile P (x # xs) = x # xs"
  by simp

lemma find_Some_set: "find P xs = Some x \<Longrightarrow> x \<in> set xs \<and> P x"
  by (induction xs) (auto split: if_splits)

section \<open>Words as naturals and integers\<close>

lemma unat_u64_less: "unat (v::u64) < 2 ^ 64"
  using unsigned_less [of v, where ?'a = nat] by simp

lemma unat_u8_less: "unat (b::u8) < 2 ^ 8"
  using unsigned_less [of b, where ?'a = nat] by simp

lemma sint_u64_bounds: "- (2 ^ 63) \<le> sint (v::u64)" "sint v < 2 ^ 63"
  using sint_ge [of v] sint_lt [of v] by simp_all

lemma unat_u64_drop_bit: "unat (drop_bit k (v::u64)) = unat v div 2 ^ k"
  by (subst unat_drop_bit_eq) (rule drop_bit_eq_div)

lemma unat_ucast_byte: "unat (ucast (v::u64) :: u8) = unat v mod 2 ^ 8"
  by (simp add: unsigned_ucast_eq take_bit_eq_mod)

lemma byte_and_mask [simp]: "(b::u8) AND 0xff = b"
proof -
  have "(0xff :: u8) = -1" by simp
  then show ?thesis by (metis and.right_neutral)
qed

section \<open>Characters and digits\<close>

definition digit_char :: "nat \<Rightarrow> char" where
  "digit_char d = (if d < 10 then char_of (48 + d) else char_of (87 + d))"

definition isspace :: "char \<Rightarrow> bool" where
  "isspace c = (of_char c \<in> {9, 10, 11, 12, 13, 32 :: nat})"

text \<open>The value of a digit in bases up to 36, as \<^verbatim>\<open>strtol\<close> reads it.\<close>

definition digit_val :: "char \<Rightarrow> nat option" where
  "digit_val c =
     (let n = of_char c :: nat in
      if 48 \<le> n \<and> n \<le> 57 then Some (n - 48)
      else if 97 \<le> n \<and> n \<le> 122 then Some (n - 87)
      else if 65 \<le> n \<and> n \<le> 90 then Some (n - 55)
      else None)"

definition is_digit_of :: "nat \<Rightarrow> char \<Rightarrow> bool" where
  "is_digit_of base c = (case digit_val c of Some d \<Rightarrow> d < base | None \<Rightarrow> False)"

lemma of_char_digit_char:
  "d < 36 \<Longrightarrow> of_char (digit_char d) = (if d < 10 then 48 + d else 87 + d)"
  by (simp add: digit_char_def)

lemma digit_val_digit_char [simp]: "d < 36 \<Longrightarrow> digit_val (digit_char d) = Some d"
  by (auto simp: digit_val_def of_char_digit_char Let_def)

lemma is_digit_of_digit_char [simp]: "d < base \<Longrightarrow> base \<le> 36 \<Longrightarrow> is_digit_of base (digit_char d)"
  by (simp add: is_digit_of_def)

lemma isspace_digit_char [simp]: "d < 36 \<Longrightarrow> \<not> isspace (digit_char d)"
  by (auto simp: isspace_def of_char_digit_char)

section \<open>Printing and reading numbers\<close>

text \<open>The digits that \<^verbatim>\<open>printf\<close>'s conversions print for an unsigned number in a base.\<close>

fun show_base :: "nat \<Rightarrow> nat \<Rightarrow> string" where
  "show_base base n =
     (if n < base \<or> base < 2 then [digit_char n]
      else show_base base (n div base) @ [digit_char (n mod base)])"

declare show_base.simps [simp del]

definition read_base :: "nat \<Rightarrow> string \<Rightarrow> nat" where
  "read_base base s =
     foldl (\<lambda>acc c. acc * base + (case digit_val c of Some d \<Rightarrow> d | None \<Rightarrow> 0)) 0 s"

lemma read_base_snoc:
  "read_base base (s @ [c]) =
     read_base base s * base + (case digit_val c of Some d \<Rightarrow> d | None \<Rightarrow> 0)"
  by (simp add: read_base_def)

lemma show_base_not_Nil [simp]: "show_base base n \<noteq> []"
  by (subst show_base.simps) simp

lemma show_base_digits:
  "2 \<le> base \<Longrightarrow> base \<le> 36 \<Longrightarrow> c \<in> set (show_base base n) \<Longrightarrow> \<exists>d < base. c = digit_char d"
proof (induction base n rule: show_base.induct)
  case (1 base n)
  show ?case
  proof (cases "n < base \<or> base < 2")
    case True
    with "1.prems" have "c = digit_char n" by (subst (asm) show_base.simps) simp
    moreover have "n < base" using True "1.prems"(1) by auto
    ultimately show ?thesis by blast
  next
    case False
    with "1.prems"(3) have "c \<in> set (show_base base (n div base)) \<or> c = digit_char (n mod base)"
      by (subst (asm) show_base.simps) auto
    moreover have "n mod base < base" using "1.prems"(1) by simp
    ultimately show ?thesis using False "1.IH" "1.prems" by blast
  qed
qed

lemma read_show_base [simp]:
  assumes "2 \<le> base" "base \<le> 36"
  shows "read_base base (show_base base n) = n"
  using assms
proof (induction base n rule: show_base.induct)
  case (1 base n)
  show ?case
  proof (cases "n < base \<or> base < 2")
    case True
    with "1.prems" show ?thesis by (subst show_base.simps) (simp add: read_base_def)
  next
    case False
    then have "show_base base n = show_base base (n div base) @ [digit_char (n mod base)]"
      by (subst show_base.simps) simp
    moreover have "n mod base < 36"
      using "1.prems" False by (meson less_le_trans mod_less_divisor not_less zero_less_numeral
        dual_order.strict_trans1)
    ultimately show ?thesis using 1 False by (simp add: read_base_snoc)
  qed
qed

lemma length_show_base:
  "2 \<le> base \<Longrightarrow> n < base ^ k \<Longrightarrow> 0 < k \<Longrightarrow> length (show_base base n) \<le> k"
proof (induction base n arbitrary: k rule: show_base.induct)
  case (1 base n)
  show ?case
  proof (cases "n < base \<or> base < 2")
    case True
    with "1.prems"(3) show ?thesis by (subst show_base.simps) simp
  next
    case False
    then have "k \<noteq> 1" using "1.prems" by auto
    then obtain j where j: "k = Suc j" "0 < j" using "1.prems"(3) by (cases k) auto
    with "1.prems"(1,2) have "n div base < base ^ j"
      by (simp add: less_mult_imp_div_less mult.commute)
    with 1 False j show ?thesis by (subst show_base.simps) simp
  qed
qed

lemma read_base_append:
  "read_base base (s @ t) = read_base base s * base ^ length t + read_base base t"
proof (induction t rule: rev_induct)
  case (snoc c t)
  then show ?case by (simp add: read_base_snoc append_assoc [symmetric] algebra_simps
      del: append_assoc)
qed (simp add: read_base_def)

lemma show_base_is_digit:
  "2 \<le> base \<Longrightarrow> base \<le> 36 \<Longrightarrow> \<forall>c \<in> set (show_base base n). is_digit_of base c"
  using show_base_digits by fastforce

lemma read_base_zeros [simp]:
  "read_base base (replicate k (CHR ''0'') @ s) = read_base base s"
proof (induction k)
  case (Suc k)
  have "digit_val (CHR ''0'') = Some 0" by (simp add: digit_val_def)
  with Suc show ?case by (simp add: read_base_def)
qed simp

text \<open>\<^verbatim>\<open>%0<w>\<close>: left padding with zeros up to a minimal width.\<close>

definition zero_pad :: "nat \<Rightarrow> string \<Rightarrow> string" where
  "zero_pad w s = replicate (w - length s) (CHR ''0'') @ s"

lemma length_zero_pad [simp]: "length (zero_pad w s) = max w (length s)"
  by (simp add: zero_pad_def)

text \<open>\<^verbatim>\<open>%ld\<close> and its kin: a minus sign and the decimal digits of the magnitude.\<close>

definition show_int :: "int \<Rightarrow> string" where
  "show_int i = (if i < 0 then CHR ''-'' # show_base 10 (nat (- i)) else show_base 10 (nat i))"

text \<open>\<^verbatim>\<open>snprintf (buf, n, ...)\<close> keeps at most \<open>n - 1\<close> characters.\<close>

definition snprintf :: "nat \<Rightarrow> string \<Rightarrow> string" where
  "snprintf n s = take (n - 1) s"

lemma snprintf_fits [c_lib]: "length s < n \<Longrightarrow> snprintf n s = s"
  by (simp add: snprintf_def)

section \<open>strtol\<close>

text \<open>
  \<^verbatim>\<open>strtol (str, &end, base)\<close> on a 64-bit \<^verbatim>\<open>long\<close>: skip white space, an optional sign, for
  base 16 an optional \<^verbatim>\<open>0x\<close> that is followed by a hexadecimal digit, then the longest run of
  digits; the value is clamped to the range of \<^verbatim>\<open>long\<close>. The second component is the rest
  of the string at \<^verbatim>\<open>end\<close>; with no digits it is the whole string.
\<close>

definition LONG_MAX :: int where "LONG_MAX = 2 ^ 63 - 1"
definition LONG_MIN :: int where "LONG_MIN = - (2 ^ 63)"

definition clamp_long :: "int \<Rightarrow> int" where
  "clamp_long v = (if v > LONG_MAX then LONG_MAX else if v < LONG_MIN then LONG_MIN else v)"

fun split_sign :: "string \<Rightarrow> bool \<times> string" where
  "split_sign (c # s) =
     (if c = CHR ''-'' then (True, s) else if c = CHR ''+'' then (False, s) else (False, c # s))"
| "split_sign [] = (False, [])"

fun skip_0x :: "nat \<Rightarrow> string \<Rightarrow> string" where
  "skip_0x base (a # b # c # s) =
     (if base = 16 \<and> a = CHR ''0'' \<and> (b = CHR ''x'' \<or> b = CHR ''X'') \<and> is_digit_of 16 c
      then c # s else a # b # c # s)"
| "skip_0x base s = s"

definition strtol :: "nat \<Rightarrow> string \<Rightarrow> int \<times> string" where
  "strtol base str =
     (let (neg, s) = split_sign (dropWhile isspace str);
          t = skip_0x base s;
          ds = takeWhile (is_digit_of base) t
      in if ds = [] then (0, str)
         else (clamp_long (if neg then - int (read_base base ds) else int (read_base base ds)),
               dropWhile (is_digit_of base) t))"

lemma is_digit_not_sign:
  "is_digit_of base c \<Longrightarrow> c \<noteq> CHR ''-'' \<and> c \<noteq> CHR ''+'' \<and> \<not> isspace c"
  by (auto simp: is_digit_of_def digit_val_def isspace_def split: if_splits option.splits)

lemma skip_0x_digits:
  assumes "\<forall>c \<in> set s. is_digit_of base c" "base \<le> 16"
  shows "skip_0x base s = s"
proof (cases "(base, s)" rule: skip_0x.cases)
  case (1 base' a b c s')
  have "\<not> is_digit_of base (CHR ''x'')" "\<not> is_digit_of base (CHR ''X'')"
    using assms(2) by (auto simp: is_digit_of_def digit_val_def)
  with 1 assms show ?thesis by auto
qed auto

lemma strtol_digits [c_lib]:
  assumes "s \<noteq> []" "\<forall>c \<in> set s. is_digit_of base c" "base \<le> 16"
  shows "strtol base s = (clamp_long (int (read_base base s)), [])"
proof -
  obtain c t where s: "s = c # t" using assms(1) by (cases s) auto
  with assms(2) is_digit_not_sign have "\<not> isspace c" "split_sign s = (False, s)" by auto
  with s assms show ?thesis by (simp add: strtol_def skip_0x_digits)
qed

lemma strtol_neg_digits [c_lib]:
  assumes "s \<noteq> []" "\<forall>c \<in> set s. is_digit_of base c" "base \<le> 16"
  shows "strtol base (CHR ''-'' # s) = (clamp_long (- int (read_base base s)), [])"
  using assms by (simp add: strtol_def skip_0x_digits isspace_def)

lemma strtol_0x_digits [c_lib]:
  assumes "s \<noteq> []" "\<forall>c \<in> set s. is_digit_of 16 c"
  shows "strtol 16 (CHR ''0'' # CHR ''x'' # s) = (clamp_long (int (read_base 16 s)), [])"
proof -
  obtain c t where "s = c # t" using assms(1) by (cases s) auto
  with assms show ?thesis by (simp add: strtol_def isspace_def)
qed

end
