(* ===== verification/Magic.thy ===== *)
theory Magic
  imports Prelude
begin

text \<open>
  \<^verbatim>\<open>src/src/magic.c\<close> and \<^verbatim>\<open>src/src/magic.h\<close>: the numeric constants, the two kinds of
  addresses and the conversions between them, the output filters and the rendering of a
  64-bit value under each of them, and the shortening of source file paths.
\<close>

section \<open>Constants\<close>

definition INT3 :: u64 where [magic_numbers]: "INT3 = 0xcc"
definition BTM_BYTE_MASK :: u64 where [magic_numbers]: "BTM_BYTE_MASK = 0xff"
definition N_REGISTERS :: nat where [magic_numbers]: "N_REGISTERS = 27"
definition SINGLE_STEP_SEARCH_LIMIT :: nat where
  [magic_numbers]: "SINGLE_STEP_SEARCH_LIMIT = 128"
definition PROC_MAPS_FILEPATH_LEN :: nat where
  [magic_numbers]: "PROC_MAPS_FILEPATH_LEN = 19"

section \<open>Addresses\<close>

text \<open>
  \<^verbatim>\<open>real_addr\<close> is an address in the running process, \<^verbatim>\<open>dbg_addr\<close> one in the executable
  file; they are different types in C and here.
\<close>

datatype real_addr = RealAddr (real_value: u64)
datatype dbg_addr = DbgAddr (dbg_value: u64)

instantiation real_addr :: linorder
begin
definition less_eq_real_addr :: "real_addr \<Rightarrow> real_addr \<Rightarrow> bool" where
  "less_eq_real_addr a b \<longleftrightarrow> real_value a \<le> real_value b"
definition less_real_addr :: "real_addr \<Rightarrow> real_addr \<Rightarrow> bool" where
  "less_real_addr a b \<longleftrightarrow> real_value a < real_value b"
instance
  by standard
    (auto simp: less_eq_real_addr_def less_real_addr_def real_addr.expand intro: real_addr.expand)
end

instantiation dbg_addr :: linorder
begin
definition less_eq_dbg_addr :: "dbg_addr \<Rightarrow> dbg_addr \<Rightarrow> bool" where
  "less_eq_dbg_addr a b \<longleftrightarrow> dbg_value a \<le> dbg_value b"
definition less_dbg_addr :: "dbg_addr \<Rightarrow> dbg_addr \<Rightarrow> bool" where
  "less_dbg_addr a b \<longleftrightarrow> dbg_value a < dbg_value b"
instance
  by standard
    (auto simp: less_eq_dbg_addr_def less_dbg_addr_def dbg_addr.expand intro: dbg_addr.expand)
end

lemmas addr_order = less_eq_dbg_addr_def less_dbg_addr_def
  less_eq_real_addr_def less_real_addr_def

definition real_to_dbg :: "real_addr \<Rightarrow> real_addr \<Rightarrow> dbg_addr" where
  "real_to_dbg offset r = DbgAddr (real_value r - real_value offset)"

definition dbg_to_real :: "real_addr \<Rightarrow> dbg_addr \<Rightarrow> real_addr" where
  "dbg_to_real offset d = RealAddr (dbg_value d + real_value offset)"

section \<open>Strings\<close>

definition str_eq :: "string \<Rightarrow> string \<Rightarrow> bool" where
  "str_eq a b \<longleftrightarrow> a = b"

section \<open>Output filters\<close>

datatype FormatFilter = FMT_NONE | FMT_HEX | FMT_BITS | FMT_ADDR | FMT_DEC | FMT_BYTES

fun parse_format :: "string option \<Rightarrow> FormatFilter" where
  "parse_format (Some str) =
     (if str_eq str ''hex'' then FMT_HEX
      else if str_eq str ''bits'' then FMT_BITS
      else if str_eq str ''addr'' then FMT_ADDR
      else if str_eq str ''dec'' then FMT_DEC
      else if str_eq str ''bytes'' then FMT_BYTES
      else FMT_NONE)"
| "parse_format None = FMT_NONE"

definition default_format :: "FormatFilter \<Rightarrow> FormatFilter \<Rightarrow> FormatFilter" where
  "default_format current dflt = (if current = FMT_NONE then dflt else current)"

subsection \<open>The printf patterns of the filters\<close>

definition bit_char :: "u64 \<Rightarrow> u64 \<Rightarrow> char" where
  "bit_char i m = (if i AND m \<noteq> 0 then CHR ''1'' else CHR ''0'')"

definition printf_bits_int8 :: "u64 \<Rightarrow> string" where
  "printf_bits_int8 i =
     [bit_char i 0x80, bit_char i 0x40, bit_char i 0x20, bit_char i 0x10,
      bit_char i 0x08, bit_char i 0x04, bit_char i 0x02, bit_char i 0x01]"

definition printf_bits_int16 :: "u64 \<Rightarrow> string" where
  "printf_bits_int16 i = printf_bits_int8 (drop_bit 8 i) @ '' '' @ printf_bits_int8 i"
definition printf_bits_int32 :: "u64 \<Rightarrow> string" where
  "printf_bits_int32 i = printf_bits_int16 (drop_bit 16 i) @ '' '' @ printf_bits_int16 i"
definition printf_bits_int64 :: "u64 \<Rightarrow> string" where
  "printf_bits_int64 i = printf_bits_int32 (drop_bit 32 i) @ '' '' @ printf_bits_int32 i"

text \<open>\<^verbatim>\<open>%02hx\<close> of a byte.\<close>

definition printf_hex2 :: "u8 \<Rightarrow> string" where
  "printf_hex2 b = zero_pad 2 (show_base 16 (unat b))"

definition printf_bytes_int16 :: "u64 \<Rightarrow> string" where
  "printf_bytes_int16 i =
     printf_hex2 (ucast (drop_bit 8 i) AND 0xff) @ '' '' @ printf_hex2 (ucast i AND 0xff)"
definition printf_bytes_int32 :: "u64 \<Rightarrow> string" where
  "printf_bytes_int32 i = printf_bytes_int16 (drop_bit 16 i) @ '' '' @ printf_bytes_int16 i"
definition printf_bytes_int64 :: "u64 \<Rightarrow> string" where
  "printf_bytes_int64 i = printf_bytes_int32 (drop_bit 32 i) @ '' '' @ printf_bytes_int32 i"

text \<open>\<^verbatim>\<open>ADDR_FORMAT\<close>, \<^verbatim>\<open>"0x%016lx"\<close>, and \<^verbatim>\<open>HEX_FORMAT\<close>, \<^verbatim>\<open>"0x%lx"\<close>.\<close>

definition addr_format :: "u64 \<Rightarrow> string" where
  "addr_format v = ''0x'' @ zero_pad 16 (show_base 16 (unat v))"
definition hex_format :: "u64 \<Rightarrow> string" where
  "hex_format v = ''0x'' @ show_base 16 (unat v)"
definition dec_format :: "u64 \<Rightarrow> string" where
  "dec_format v = show_int (sint v)"

text \<open>The text that a conversion produces before \<^verbatim>\<open>snprintf\<close> cuts it to the buffer.\<close>

fun format_text :: "u64 \<Rightarrow> FormatFilter \<Rightarrow> string" where
  "format_text v FMT_NONE = dec_format v"
| "format_text v FMT_DEC = dec_format v"
| "format_text v FMT_HEX = hex_format v"
| "format_text v FMT_BITS = printf_bits_int64 v"
| "format_text v FMT_ADDR = addr_format v"
| "format_text v FMT_BYTES = printf_bytes_int64 v"

definition print_format :: "u64 \<Rightarrow> FormatFilter \<Rightarrow> string" where
  "print_format v flt = (let n = 513 in snprintf n (format_text v flt))"

section \<open>Relative file paths\<close>

text \<open>
  \<^verbatim>\<open>relative_filepath\<close> compares two NUL-terminated arrays character by character, with no
  check for the end of either. A read at index \<^verbatim>\<open>strlen\<close> gives the NUL, a read beyond it is
  out of the array's bounds. The result is the string from a position on, where a position
  beyond the terminator is out of bounds as well.
\<close>

definition c_char_at :: "string \<Rightarrow> nat \<Rightarrow> char option" where
  "c_char_at s i =
     (if i < length s then Some (s ! i) else if i = length s then Some (CHR 0x00) else None)"

definition c_string_at :: "string \<Rightarrow> nat \<Rightarrow> string c_result" where
  "c_string_at s i = (if i \<le> length s then Defined (drop i s) else UB)"

function common_prefix_end :: "string \<Rightarrow> string \<Rightarrow> nat \<Rightarrow> nat c_result" where
  "common_prefix_end cwd path i =
     (case (c_char_at cwd i, c_char_at path i) of
        (Some a, Some b) \<Rightarrow> if a = b then common_prefix_end cwd path (Suc i) else Defined i
      | _ \<Rightarrow> UB)"
  by pat_completeness auto
termination
  by (relation "measure (\<lambda>(cwd, path, i). Suc (length cwd) - i)")
    (auto simp: c_char_at_def split: if_splits)

declare common_prefix_end.simps [simp del]

text \<open>\<open>cwd\<close> is what \<^verbatim>\<open>getcwd\<close> returns; \<open>None\<close> is its failure.\<close>

definition relative_filepath :: "string option \<Rightarrow> string option \<Rightarrow> string option c_result" where
  "relative_filepath cwd abs_filepath =
     (case abs_filepath of
        None \<Rightarrow> Defined None
      | Some path \<Rightarrow>
          (case cwd of
             None \<Rightarrow> Defined None
           | Some dir \<Rightarrow>
               (case common_prefix_end dir path 0 of
                  UB \<Rightarrow> UB
                | Defined i \<Rightarrow>
                    if i = 0 then Defined (Some path)
                    else (case c_string_at path (i + 1) of
                            Defined s \<Rightarrow> Defined (Some s)
                          | UB \<Rightarrow> UB))))"

section \<open>Facts about addresses and filters\<close>

lemma real_to_dbg_to_real [simp]: "dbg_to_real off (real_to_dbg off r) = r"
  by (simp add: real_to_dbg_def dbg_to_real_def)

lemma dbg_to_real_to_dbg [simp]: "real_to_dbg off (dbg_to_real off d) = d"
  by (simp add: real_to_dbg_def dbg_to_real_def)

text \<open>No rendering is cut: the 513 bytes that the code allocates are enough.\<close>

lemma length_printf_hex2: "length (printf_hex2 b) = 2"
proof -
  have "unat b < 16 ^ 2" using unat_u8_less [of b] by simp
  then have "length (show_base 16 (unat b)) \<le> 2" by (rule length_show_base [rotated]) simp_all
  then show ?thesis by (simp add: printf_hex2_def)
qed

lemma length_show_hex: "length (show_base 16 (unat (v::u64))) \<le> 16"
proof (rule length_show_base)
  show "unat v < 16 ^ 16" using unat_u64_less [of v] by simp
qed simp_all

lemma length_show_dec:
  assumes "n < 2 ^ 64"
  shows "length (show_base 10 n) \<le> 20"
proof (rule length_show_base)
  have "(2::nat) ^ 64 < 10 ^ 20" by simp
  with assms show "n < 10 ^ 20" by (rule less_trans)
qed simp_all

lemma length_show_int:
  assumes "- (2 ^ 63) \<le> i" "i < 2 ^ 63"
  shows "length (show_int i) \<le> 21"
proof -
  have "nat (- i) < 2 ^ 64" "nat i < 2 ^ 64" using assms by auto
  then show ?thesis using length_show_dec [of "nat (- i)"] length_show_dec [of "nat i"]
    by (simp add: show_int_def)
qed

lemma length_format_text: "length (format_text v flt) \<le> 71"
  using length_show_int [OF sint_u64_bounds, of v] length_show_hex [of v]
  by (cases flt)
    (simp_all add: dec_format_def hex_format_def addr_format_def printf_bits_int64_def
      printf_bits_int32_def printf_bits_int16_def printf_bits_int8_def printf_bytes_int64_def
      printf_bytes_int32_def printf_bytes_int16_def length_printf_hex2)

lemma print_format_text: "print_format v flt = format_text v flt"
  using length_format_text [of v flt] by (simp add: print_format_def snprintf_fits)

subsection \<open>Reading the renderings back\<close>

definition strip_blanks :: "string \<Rightarrow> string" where
  "strip_blanks s = filter (\<lambda>c. c \<noteq> CHR '' '') s"

lemma strip_blanks_append [simp]: "strip_blanks (s @ t) = strip_blanks s @ strip_blanks t"
  by (simp add: strip_blanks_def)

lemma strip_blanks_blank [simp]: "strip_blanks (CHR '' '' # s) = strip_blanks s"
  by (simp add: strip_blanks_def)

lemma split_mod:
  "(n div 2 ^ a mod 2 ^ b) * 2 ^ a + n mod 2 ^ a = n mod (2 ^ (a + b) :: nat)"
  by (metis mod_mult2_eq mult.commute power_add add.commute)

lemma is_digit_not_blank: "is_digit_of base c \<Longrightarrow> c \<noteq> CHR '' ''"
  using is_digit_not_sign [of base c] by (auto simp: isspace_def)

lemma strip_hex2: "strip_blanks (printf_hex2 b) = printf_hex2 b"
proof -
  have "c \<noteq> CHR '' ''" if "c \<in> set (show_base 16 (unat b))" for c
    using show_base_is_digit [of 16 "unat b"] is_digit_not_blank [of 16 c] that by simp
  then have "\<forall>c \<in> set (printf_hex2 b). c \<noteq> CHR '' ''"
    by (auto simp: printf_hex2_def zero_pad_def)
  then show ?thesis by (simp add: strip_blanks_def)
qed

lemma read_hex2: "read_base 16 (printf_hex2 b) = unat b"
  by (simp add: printf_hex2_def zero_pad_def)

lemma bytes_int16:
  "read_base 16 (strip_blanks (printf_bytes_int16 v)) = unat v mod 2 ^ 16 \<and>
   length (strip_blanks (printf_bytes_int16 v)) = 4"
  using split_mod [of "unat v" 8 8]
  by (simp add: printf_bytes_int16_def strip_hex2 read_base_append read_hex2
      length_printf_hex2 unat_ucast_byte unat_u64_drop_bit)

lemma bytes_int32:
  "read_base 16 (strip_blanks (printf_bytes_int32 v)) = unat v mod 2 ^ 32 \<and>
   length (strip_blanks (printf_bytes_int32 v)) = 8"
  using split_mod [of "unat v" 16 16]
  by (simp add: printf_bytes_int32_def read_base_append bytes_int16 unat_u64_drop_bit)

lemma bytes_int64:
  "read_base 16 (strip_blanks (printf_bytes_int64 v)) = unat v"
  using split_mod [of "unat v" 32 32] unat_u64_less [of v]
  by (simp add: printf_bytes_int64_def read_base_append bytes_int32 unat_u64_drop_bit)

lemma digit_val_bit: "digit_val (if P then CHR ''1'' else CHR ''0'') = Some (of_bool P)"
  by (simp add: digit_val_def)

lemma bit_char_exp: "bit_char v (2 ^ k) = (if bit v k then CHR ''1'' else CHR ''0'')"
  by (simp add: bit_char_def and_exp_eq_0_iff_not_bit)

lemma bits_int8_bit:
  "printf_bits_int8 v =
     map (\<lambda>k. if bit v k then CHR ''1'' else CHR ''0'') [7, 6, 5, 4, 3, 2, 1, 0]"
  using bit_char_exp [of v 7] bit_char_exp [of v 6] bit_char_exp [of v 5] bit_char_exp [of v 4]
    bit_char_exp [of v 3] bit_char_exp [of v 2] bit_char_exp [of v 1] bit_char_exp [of v 0]
  by (simp add: printf_bits_int8_def)

lemma unat_mod_bits8:
  "unat (v::u64) mod 2 ^ 8 =
     (\<Sum>k \<leftarrow> [0, 1, 2, 3, 4, 5, 6, 7]. of_bool (bit v k) * 2 ^ k)"
proof -
  have "unat v mod 2 ^ 8 = horner_sum of_bool 2 (map (bit (unat v)) [0..<8])"
    by (simp only: horner_sum_bit_eq_take_bit take_bit_eq_mod)
  moreover have "[0..<8] = [0, 1, 2, 3, 4, 5, 6, 7 :: nat]" by (simp add: upt_rec)
  ultimately show ?thesis by (simp add: bit_unsigned_iff split del: if_split)
qed

lemma bits_int8:
  "read_base 2 (strip_blanks (printf_bits_int8 v)) = unat v mod 2 ^ 8 \<and>
   length (strip_blanks (printf_bits_int8 v)) = 8"
proof
  have strip: "strip_blanks (printf_bits_int8 v) = printf_bits_int8 v"
    unfolding strip_blanks_def bits_int8_bit by (rule filter_True) auto
  show "length (strip_blanks (printf_bits_int8 v)) = 8"
    unfolding strip by (simp add: bits_int8_bit)
  show "read_base 2 (strip_blanks (printf_bits_int8 v)) = unat v mod 2 ^ 8"
    unfolding strip unat_mod_bits8
    by (simp add: bits_int8_bit read_base_def digit_val_bit split del: if_split)
qed

lemma bits_int16:
  "read_base 2 (strip_blanks (printf_bits_int16 v)) = unat v mod 2 ^ 16 \<and>
   length (strip_blanks (printf_bits_int16 v)) = 16"
  using split_mod [of "unat v" 8 8]
  by (simp add: printf_bits_int16_def read_base_append bits_int8 unat_u64_drop_bit)

lemma bits_int32:
  "read_base 2 (strip_blanks (printf_bits_int32 v)) = unat v mod 2 ^ 32 \<and>
   length (strip_blanks (printf_bits_int32 v)) = 32"
  using split_mod [of "unat v" 16 16]
  by (simp add: printf_bits_int32_def read_base_append bits_int16 unat_u64_drop_bit)

lemma bits_int64:
  "read_base 2 (strip_blanks (printf_bits_int64 v)) = unat v"
  using split_mod [of "unat v" 32 32] unat_u64_less [of v]
  by (simp add: printf_bits_int64_def read_base_append bits_int32 unat_u64_drop_bit)

section \<open>Facts about relative file paths\<close>

text \<open>The loop stops at the first position where the two arrays differ.\<close>

lemma common_prefix_end_Defined:
  "common_prefix_end cwd path i = Defined j \<Longrightarrow>
     i \<le> j \<and> j \<le> length cwd \<and> j \<le> length path \<and> c_char_at cwd j \<noteq> c_char_at path j \<and>
     (\<forall>k. i \<le> k \<longrightarrow> k < j \<longrightarrow> c_char_at cwd k = c_char_at path k)"
proof (induction cwd path i rule: common_prefix_end.induct)
  case (1 cwd path i)
  show ?case
  proof (cases "\<exists>a. c_char_at cwd i = Some a \<and> c_char_at path i = Some a")
    case True
    then obtain a where a: "c_char_at cwd i = Some a" "c_char_at path i = Some a" by auto
    with "1.prems" have "common_prefix_end cwd path (Suc i) = Defined j"
      by (subst (asm) common_prefix_end.simps) simp
    with "1.IH" a have IH: "Suc i \<le> j" "j \<le> length cwd" "j \<le> length path"
      "c_char_at cwd j \<noteq> c_char_at path j"
      "\<And>k. Suc i \<le> k \<Longrightarrow> k < j \<Longrightarrow> c_char_at cwd k = c_char_at path k" by blast+
    have "c_char_at cwd k = c_char_at path k" if "i \<le> k" "k < j" for k
      using that a IH(5) [of k] by (cases "k = i") auto
    with IH show ?thesis by auto
  next
    case False
    with "1.prems" show ?thesis
      by (subst (asm) common_prefix_end.simps)
        (auto split: option.splits if_splits simp: c_char_at_def)
  qed
qed

lemma common_prefix_end_step:
  "i < length cwd \<Longrightarrow> i < length path \<Longrightarrow> cwd ! i = path ! i \<Longrightarrow>
   common_prefix_end cwd path i = common_prefix_end cwd path (Suc i)"
  by (subst common_prefix_end.simps) (simp add: c_char_at_def)

lemma common_prefix_end_skip:
  "i \<le> length p \<Longrightarrow>
   common_prefix_end (p @ a) (p @ b) i = common_prefix_end (p @ a) (p @ b) (length p)"
proof (induction "length p - i" arbitrary: i)
  case (Suc n)
  then have i: "i < length p" and "n = length p - Suc i" by auto
  then have "common_prefix_end (p @ a) (p @ b) (Suc i) =
      common_prefix_end (p @ a) (p @ b) (length p)" using Suc.hyps by simp
  with i show ?case
    using common_prefix_end_step [of i "p @ a" "p @ b"] by (simp add: nth_append)
qed simp

lemma common_prefix_end_diff:
  assumes "a = [] \<or> hd a \<noteq> CHR 0x00" "b = [] \<or> hd b \<noteq> CHR 0x00"
    and "a = [] \<longrightarrow> b \<noteq> []" "a \<noteq> [] \<longrightarrow> b \<noteq> [] \<longrightarrow> hd a \<noteq> hd b"
  shows "common_prefix_end (p @ a) (p @ b) 0 = Defined (length p)"
proof -
  have "common_prefix_end (p @ a) (p @ b) (length p) = Defined (length p)"
    using assms
    by (subst common_prefix_end.simps)
      (cases a; cases b; auto simp: c_char_at_def nth_append)
  then show ?thesis using common_prefix_end_skip [of 0 p a b] by simp
qed

lemma common_prefix_end_equal: "common_prefix_end p p 0 = UB"
proof -
  have "common_prefix_end p p (Suc (length p)) = UB"
    by (subst common_prefix_end.simps) (simp add: c_char_at_def)
  then have "common_prefix_end p p (length p) = UB"
    by (subst common_prefix_end.simps) (simp add: c_char_at_def)
  then show ?thesis using common_prefix_end_skip [of 0 p "[]" "[]"] by simp
qed

lemma relative_filepath_inside_gen:
  assumes "cwd \<noteq> []"
  shows "relative_filepath (Some cwd) (Some (cwd @ CHR ''/'' # rel)) = Defined (Some rel)"
proof -
  have "common_prefix_end (cwd @ []) (cwd @ CHR ''/'' # rel) 0 = Defined (length cwd)"
    by (rule common_prefix_end_diff) simp_all
  with assms show ?thesis by (simp add: relative_filepath_def c_string_at_def)
qed

lemma relative_filepath_diverging:
  assumes "p \<noteq> []" "c \<noteq> d" "c \<noteq> CHR 0x00" "d \<noteq> CHR 0x00"
  shows "relative_filepath (Some (p @ d # t)) (Some (p @ c # s)) = Defined (Some s)"
proof -
  have "common_prefix_end (p @ d # t) (p @ c # s) 0 = Defined (length p)"
    using assms by (intro common_prefix_end_diff) simp_all
  with assms show ?thesis by (simp add: relative_filepath_def c_string_at_def)
qed

lemma relative_filepath_not_absolute:
  assumes "cwd = d # t" "path = c # s" "c \<noteq> d"
  shows "relative_filepath (Some cwd) (Some path) = Defined (Some path)"
  using assms by (simp add: relative_filepath_def common_prefix_end.simps c_char_at_def)

lemma relative_filepath_of_cwd: "relative_filepath (Some p) (Some p) = UB"
  by (simp add: relative_filepath_def common_prefix_end_equal)

end
