(* ===== verification/Dwarf_Search.thy ===== *)
theory Dwarf_Search
  imports Magic
begin

text \<open>
  The interface of libdwarf that \<^verbatim>\<open>src/src/spray_dwarf.c\<close> uses, and the search through the
  tree of debugging information entries (DIEs) on which everything else in that file is
  built: \<^verbatim>\<open>sd_search_dwarf_die\<close> and \<^verbatim>\<open>sd_search_dwarf_dbg\<close>. The main result is that the
  two nested loops visit exactly the DIEs of all compilation units, in preorder, up to the
  first one that the callback accepts, and leave libdwarf's iterator where it started.
\<close>

section \<open>libdwarf\<close>

text \<open>The three outcomes of a libdwarf call; a value comes with the first.\<close>

datatype 'a dwres = DW_OK 'a | DW_NO_ENTRY | DW_ERROR
datatype dw_code = DW_DLV_OK | DW_DLV_NO_ENTRY | DW_DLV_ERROR

fun code_of :: "'a dwres \<Rightarrow> dw_code" where
  "code_of (DW_OK _) = DW_DLV_OK"
| "code_of DW_NO_ENTRY = DW_DLV_NO_ENTRY"
| "code_of DW_ERROR = DW_DLV_ERROR"

fun map_dwres :: "('a \<Rightarrow> 'b) \<Rightarrow> 'a dwres \<Rightarrow> 'b dwres" where
  "map_dwres g (DW_OK a) = DW_OK (g a)"
| "map_dwres g DW_NO_ENTRY = DW_NO_ENTRY"
| "map_dwres g DW_ERROR = DW_ERROR"

fun bind_dwres :: "'a dwres \<Rightarrow> ('a \<Rightarrow> 'b dwres) \<Rightarrow> 'b dwres" where
  "bind_dwres (DW_OK a) g = g a"
| "bind_dwres DW_NO_ENTRY g = DW_NO_ENTRY"
| "bind_dwres DW_ERROR g = DW_ERROR"

datatype form_class = CLASS_EXPRLOC | CLASS_LOCLIST | CLASS_LOCLISTSPTR | CLASS_BLOCK | CLASS_OTHER

text \<open>
  The library is a parameter: a record of the functions that the program calls, over
  opaque handles \<open>'d\<close> (DIEs, attributes, lines, location lists and their entries) and the
  state \<open>'w\<close> of the iteration over compilation units that \<^verbatim>\<open>Dwarf_Debug\<close> hides. Only
  \<open>lw_next_cu\<close> changes that state; \<open>lw_cu_die\<close> is \<^verbatim>\<open>dwarf_siblingof_b\<close> with no DIE. Calls that
  release memory and the error objects are left out, and so are results the code ignores;
  \<open>Die_Memory\<close> has the search again with the DIEs that it opens and frees.
\<close>

record ('d, 'w) libdwarf =
  lw_init_path :: "string \<Rightarrow> 'w dwres"
  lw_next_cu :: "bool \<Rightarrow> 'w \<Rightarrow> unit dwres \<times> 'w"
  lw_cu_die :: "bool \<Rightarrow> 'w \<Rightarrow> 'd dwres"
  lw_child :: "'d \<Rightarrow> 'd dwres"
  lw_siblingof :: "bool \<Rightarrow> 'd \<Rightarrow> 'd dwres"
  lw_tag :: "'d \<Rightarrow> nat dwres"
  lw_lowpc :: "'d \<Rightarrow> u64 dwres"
  lw_highpc :: "'d \<Rightarrow> (u64 \<times> nat) dwres"
  lw_addr_form_is_indexed :: "nat \<Rightarrow> bool"
  lw_die_text :: "'d \<Rightarrow> nat \<Rightarrow> string dwres"
  lw_diename :: "'d \<Rightarrow> string dwres"
  lw_hasattr :: "'d \<Rightarrow> nat \<Rightarrow> int dwres"
  lw_attr :: "'d \<Rightarrow> nat \<Rightarrow> 'd dwres"
  lw_formudata :: "'d option \<Rightarrow> u64 dwres"
  lw_cu_offset_of :: "'d \<Rightarrow> u64 dwres"
  lw_offdie :: "u64 \<Rightarrow> bool \<Rightarrow> 'd dwres"
  lw_srcfiles :: "'d \<Rightarrow> string list dwres"
  lw_dietype_offset :: "'d \<Rightarrow> (u64 \<times> bool) dwres"
  lw_bytesize :: "'d \<Rightarrow> u64 dwres"
  lw_version_of_die :: "'d \<Rightarrow> (nat \<times> nat) dwres"
  lw_whatform :: "'d \<Rightarrow> nat dwres"
  lw_whatattr :: "'d \<Rightarrow> nat dwres"
  lw_form_class :: "nat \<Rightarrow> nat \<Rightarrow> nat \<Rightarrow> nat \<Rightarrow> form_class"
  lw_srclines :: "'d \<Rightarrow> (nat \<times> 'd) dwres"
  lw_lines_of_context :: "'d \<Rightarrow> 'd list dwres"
  lw_lineno :: "'d \<Rightarrow> u64 dwres"
  lw_lineoff :: "'d \<Rightarrow> u64 dwres"
  lw_lineaddr :: "'d \<Rightarrow> u64 dwres"
  lw_linesrc :: "'d \<Rightarrow> string dwres"
  lw_linebeginstatement :: "'d \<Rightarrow> int dwres"
  lw_prologue_end :: "'d \<Rightarrow> int dwres"
  lw_get_loclist :: "'d \<Rightarrow> ('d \<times> nat) dwres"
  lw_locdesc_entry :: "'d \<Rightarrow> nat \<Rightarrow> (int \<times> u64 \<times> u64 \<times> nat \<times> 'd) dwres"
  lw_location_op :: "'d \<Rightarrow> nat \<Rightarrow> (u8 \<times> u64 \<times> u64 \<times> u64) dwres"

section \<open>Searching\<close>

text \<open>
  A search callback gets the DIE, the level in the tree and the data collected so far; it
  says whether the search is over. What the search looks for is an argument that the
  callback has been applied to already.
\<close>

type_synonym ('d, 'f) callback = "'d \<Rightarrow> nat \<Rightarrow> 'f \<Rightarrow> bool \<times> 'f"

text \<open>
  \<open>sd_search_die_loop\<close> is the \<^verbatim>\<open>while (1)\<close> of \<^verbatim>\<open>sd_search_dwarf_die\<close>, with \<^verbatim>\<open>cur_die\<close> as its
  variable. The recursive call on the child, which first tries the child itself and then
  enters the loop, is written out in it; \<open>search_die_loop_unfold\<close> below gives the loop back in terms
  of the function. \<open>None\<close> is a search that does not end.
\<close>

partial_function (option) sd_search_die_loop ::
  "('d, 'w) libdwarf \<Rightarrow> bool \<Rightarrow> nat \<Rightarrow> ('d, 'f) callback \<Rightarrow> 'd \<Rightarrow> 'f \<Rightarrow> (dw_code \<times> 'f) option" where
  "sd_search_die_loop L is_info level cb cur_die f =
     Option.bind
       (case lw_child L cur_die of
          DW_ERROR \<Rightarrow> Some (DW_DLV_ERROR, f)
        | DW_NO_ENTRY \<Rightarrow> Some (DW_DLV_NO_ENTRY, f)
        | DW_OK child_die \<Rightarrow>
            (case cb child_die (level + 1) f of (found, f') \<Rightarrow>
               if found then Some (DW_DLV_OK, f')
               else sd_search_die_loop L is_info (level + 1) cb child_die f'))
       (\<lambda>(res, f1).
          case res of
            DW_DLV_ERROR \<Rightarrow> Some (DW_DLV_ERROR, f1)
          | DW_DLV_OK \<Rightarrow> Some (DW_DLV_OK, f1)
          | DW_DLV_NO_ENTRY \<Rightarrow>
              (case lw_siblingof L is_info cur_die of
                 DW_NO_ENTRY \<Rightarrow> Some (DW_DLV_NO_ENTRY, f1)
               | DW_ERROR \<Rightarrow> Some (DW_DLV_ERROR, f1)
               | DW_OK sib_die \<Rightarrow>
                   (case cb sib_die level f1 of (found, f2) \<Rightarrow>
                      if found then Some (DW_DLV_OK, f2)
                      else sd_search_die_loop L is_info level cb sib_die f2)))"

definition sd_search_dwarf_die ::
  "('d, 'w) libdwarf \<Rightarrow> bool \<Rightarrow> nat \<Rightarrow> ('d, 'f) callback \<Rightarrow> 'd \<Rightarrow> 'f \<Rightarrow> (dw_code \<times> 'f) option" where
  "sd_search_dwarf_die L is_info level cb in_die f =
     (case cb in_die level f of (in_die_found, f') \<Rightarrow>
        if in_die_found then Some (DW_DLV_OK, f')
        else sd_search_die_loop L is_info level cb in_die f')"

text \<open>The loop of \<^verbatim>\<open>sd_search_dwarf_dbg\<close>, with its variables \<^verbatim>\<open>is_info\<close> and \<^verbatim>\<open>search_finished\<close>.\<close>

partial_function (option) sd_search_dbg_loop ::
  "('d, 'w) libdwarf \<Rightarrow> ('d, 'f) callback \<Rightarrow> bool \<Rightarrow> bool \<Rightarrow> 'f \<Rightarrow> 'w
     \<Rightarrow> (dw_code \<times> 'f \<times> 'w) option" where
  "sd_search_dbg_loop L cb is_info search_finished f w =
     (case lw_next_cu L is_info w of (res, w') \<Rightarrow>
        (case res of
           DW_ERROR \<Rightarrow> Some (DW_DLV_ERROR, f, w')
         | DW_NO_ENTRY \<Rightarrow>
             if is_info then sd_search_dbg_loop L cb False search_finished f w'
             else if search_finished then Some (DW_DLV_OK, f, w')
             else Some (DW_DLV_NO_ENTRY, f, w')
         | DW_OK _ \<Rightarrow>
             if search_finished then sd_search_dbg_loop L cb is_info search_finished f w'
             else
               (case lw_cu_die L is_info w' of
                  DW_ERROR \<Rightarrow> Some (DW_DLV_ERROR, f, w')
                | DW_NO_ENTRY \<Rightarrow> Some (DW_DLV_NO_ENTRY, f, w')
                | DW_OK cu_die \<Rightarrow>
                    Option.bind (sd_search_dwarf_die L is_info 0 cb cu_die f)
                      (\<lambda>(res, f').
                         case res of
                           DW_DLV_ERROR \<Rightarrow> Some (DW_DLV_ERROR, f', w')
                         | DW_DLV_OK \<Rightarrow> sd_search_dbg_loop L cb is_info True f' w'
                         | DW_DLV_NO_ENTRY \<Rightarrow>
                             sd_search_dbg_loop L cb is_info search_finished f' w'))))"

definition sd_search_dwarf_dbg ::
  "('d, 'w) libdwarf \<Rightarrow> ('d, 'f) callback \<Rightarrow> 'f \<Rightarrow> 'w \<Rightarrow> (dw_code \<times> 'f \<times> 'w) option" where
  "sd_search_dwarf_dbg L cb f w = sd_search_dbg_loop L cb True False f w"

lemma search_die_loop_unfold:
  "sd_search_die_loop L is_info level cb cur_die f =
     Option.bind
       (case lw_child L cur_die of
          DW_ERROR \<Rightarrow> Some (DW_DLV_ERROR, f)
        | DW_NO_ENTRY \<Rightarrow> Some (DW_DLV_NO_ENTRY, f)
        | DW_OK child_die \<Rightarrow> sd_search_dwarf_die L is_info (level + 1) cb child_die f)
       (\<lambda>(res, f1).
          case res of
            DW_DLV_ERROR \<Rightarrow> Some (DW_DLV_ERROR, f1)
          | DW_DLV_OK \<Rightarrow> Some (DW_DLV_OK, f1)
          | DW_DLV_NO_ENTRY \<Rightarrow>
              (case lw_siblingof L is_info cur_die of
                 DW_NO_ENTRY \<Rightarrow> Some (DW_DLV_NO_ENTRY, f1)
               | DW_ERROR \<Rightarrow> Some (DW_DLV_ERROR, f1)
               | DW_OK sib_die \<Rightarrow> sd_search_dwarf_die L is_info level cb sib_die f1))"
  by (subst sd_search_die_loop.simps) (simp only: sd_search_dwarf_die_def)

section \<open>Specification: the DIEs of all compilation units in preorder\<close>

datatype 'd dtree = DNode 'd "'d dtree list"

fun root :: "'d dtree \<Rightarrow> 'd" where
  "root (DNode d _) = d"

fun first_die :: "'d dtree list \<Rightarrow> 'd dwres" where
  "first_die [] = DW_NO_ENTRY"
| "first_die (t # _) = DW_OK (root t)"

text \<open>libdwarf's child and sibling links present a list of sibling trees.\<close>

fun forest_ok :: "('d, 'w) libdwarf \<Rightarrow> bool \<Rightarrow> 'd dtree list \<Rightarrow> bool" where
  "forest_ok L is_info [] = True"
| "forest_ok L is_info (DNode d cs # ts) =
     (lw_child L d = first_die cs \<and> lw_siblingof L is_info d = first_die ts \<and>
      forest_ok L is_info cs \<and> forest_ok L is_info ts)"

fun preorder :: "nat \<Rightarrow> 'd dtree list \<Rightarrow> ('d \<times> nat) list" where
  "preorder level [] = []"
| "preorder level (DNode d cs # ts) =
     (d, level) # preorder (level + 1) cs @ preorder level ts"

text \<open>Call the callback on one DIE after the other until it accepts.\<close>

fun scan :: "('d, 'f) callback \<Rightarrow> ('d \<times> nat) list \<Rightarrow> 'f \<Rightarrow> bool \<times> 'f" where
  "scan cb [] f = (False, f)"
| "scan cb ((d, level) # xs) f =
     (case cb d level f of (found, f') \<Rightarrow> if found then (True, f') else scan cb xs f')"

definition search_code :: "bool \<Rightarrow> dw_code" where
  "search_code found = (if found then DW_DLV_OK else DW_DLV_NO_ENTRY)"

lemma scan_append:
  "scan cb (xs @ ys) f =
     (case scan cb xs f of (found, f') \<Rightarrow> if found then (True, f') else scan cb ys f')"
  by (induction cb xs f rule: scan.induct) (auto split: prod.splits)

definition scan_result :: "bool \<times> 'f \<Rightarrow> (dw_code \<times> 'f) option" where
  "scan_result r = Some (search_code (fst r), snd r)"

text \<open>The loop, entered with a DIE whose own test has failed, scans the rest of its level.\<close>

lemma search_die_loop_scan:
  "forest_ok L is_info (DNode d cs # ts) \<Longrightarrow>
   sd_search_die_loop L is_info level cb d f =
     scan_result (scan cb (preorder (level + 1) cs @ preorder level ts) f)"
proof (induction "DNode d cs # ts" arbitrary: d cs ts level f rule: measure_induct_rule
    [where f = "size_list size"])
  case (less d cs ts)
  have sub: "sd_search_dwarf_die L is_info l cb (root t) g =
      scan_result (scan cb (preorder l (t # us)) g)"
    if "forest_ok L is_info (t # us)"
      and "size_list size (t # us) < size_list size (DNode d cs # ts)" for t us l g
  proof (cases t)
    case (DNode e es)
    with less.hyps [of e es us l] that show ?thesis
      by (auto simp: sd_search_dwarf_die_def search_code_def scan_result_def split: prod.splits)
  qed
  have child: "(case lw_child L d of
        DW_ERROR \<Rightarrow> Some (DW_DLV_ERROR, f)
      | DW_NO_ENTRY \<Rightarrow> Some (DW_DLV_NO_ENTRY, f)
      | DW_OK c \<Rightarrow> sd_search_dwarf_die L is_info (level + 1) cb c f) =
      scan_result (scan cb (preorder (level + 1) cs) f)"
    using less.prems sub by (cases cs) (auto simp: scan_result_def search_code_def)
  have sibling: "(case lw_siblingof L is_info d of
        DW_NO_ENTRY \<Rightarrow> Some (DW_DLV_NO_ENTRY, g)
      | DW_ERROR \<Rightarrow> Some (DW_DLV_ERROR, g)
      | DW_OK c \<Rightarrow> sd_search_dwarf_die L is_info level cb c g) =
      scan_result (scan cb (preorder level ts) g)" for g
    using less.prems sub by (cases ts) (auto simp: scan_result_def search_code_def)
  show ?case
    by (subst search_die_loop_unfold, subst child)
      (auto simp: sibling scan_append scan_result_def search_code_def split: prod.splits)
qed

lemma search_dwarf_die_scan:
  "forest_ok L is_info [t] \<Longrightarrow>
   sd_search_dwarf_die L is_info level cb (root t) f = scan_result (scan cb (preorder level [t]) f)"
proof (cases t)
  case (DNode d cs)
  moreover assume "forest_ok L is_info [t]"
  ultimately show ?thesis
    using search_die_loop_scan [of L is_info d cs "[]" level cb]
    by (auto simp: sd_search_dwarf_die_def scan_result_def search_code_def split: prod.splits)
qed

text \<open>
  How libdwarf walks the compilation units of one section: for each unit its tree of DIEs,
  then no entry, which also takes the iterator back to the start of the section.
\<close>

fun cu_walk :: "('d, 'w) libdwarf \<Rightarrow> bool \<Rightarrow> 'w \<Rightarrow> 'd dtree list \<Rightarrow> 'w \<Rightarrow> bool" where
  "cu_walk L is_info w [] w' = (lw_next_cu L is_info w = (DW_NO_ENTRY, w'))"
| "cu_walk L is_info w (t # ts) w' =
     (case lw_next_cu L is_info w of (res, w1) \<Rightarrow>
        res = DW_OK () \<and> lw_cu_die L is_info w1 = DW_OK (root t) \<and>
        forest_ok L is_info [t] \<and> cu_walk L is_info w1 ts w')"

definition dwarf_ok :: "('d, 'w) libdwarf \<Rightarrow> 'w \<Rightarrow> 'd dtree list \<Rightarrow> 'd dtree list \<Rightarrow> bool" where
  "dwarf_ok L w info types = (\<exists>w1. cu_walk L True w info w1 \<and> cu_walk L False w1 types w)"

definition dies :: "'d dtree list \<Rightarrow> ('d \<times> nat) list" where
  "dies trees = concat (map (\<lambda>t. preorder 0 [t]) trees)"

lemma dies_simps [simp]:
  "dies [] = []" "dies (t # ts) = preorder 0 [t] @ dies ts" "dies (ts @ us) = dies ts @ dies us"
  by (simp_all add: dies_def)

text \<open>A pass over one section, when nothing was found before and when something was.\<close>

lemma search_dbg_loop_finished:
  "cu_walk L False w trees w' \<Longrightarrow> sd_search_dbg_loop L cb False True f w = Some (DW_DLV_OK, f, w')"
  by (induction trees arbitrary: w; subst sd_search_dbg_loop.simps) (auto split: prod.splits)

lemma search_dbg_loop_finished_info:
  "cu_walk L True w trees w' \<Longrightarrow> cu_walk L False w' types w'' \<Longrightarrow>
   sd_search_dbg_loop L cb True True f w = Some (DW_DLV_OK, f, w'')"
proof (induction trees arbitrary: w)
  case Nil
  then show ?case
    by (subst sd_search_dbg_loop.simps) (simp add: search_dbg_loop_finished)
next
  case (Cons t ts)
  then show ?case
    by (subst sd_search_dbg_loop.simps) (auto split: prod.splits)
qed

lemma search_dbg_loop_types:
  "cu_walk L False w trees w' \<Longrightarrow>
   sd_search_dbg_loop L cb False False f w =
     Some (search_code (fst (scan cb (dies trees) f)), snd (scan cb (dies trees) f), w')"
proof (induction trees arbitrary: w f)
  case Nil
  then show ?case
    by (subst sd_search_dbg_loop.simps) (simp add: search_code_def)
next
  case (Cons t ts)
  then obtain w1 where "lw_next_cu L False w = (DW_OK (), w1)" "lw_cu_die L False w1 = DW_OK (root t)"
    "forest_ok L False [t]" and walk: "cu_walk L False w1 ts w'"
    by (auto split: prod.splits)
  then have "sd_search_dbg_loop L cb False False f w =
      (case scan cb (preorder 0 [t]) f of (found, f') \<Rightarrow>
         sd_search_dbg_loop L cb False found f' w1)"
    by (subst sd_search_dbg_loop.simps)
      (auto simp: search_dwarf_die_scan scan_result_def search_code_def split: prod.splits)
  then show ?case
    using Cons.IH [OF walk] search_dbg_loop_finished [OF walk]
    by (auto simp: scan_append search_code_def split: prod.splits)
qed

lemma search_dbg_loop_info:
  "cu_walk L True w trees w1 \<Longrightarrow> cu_walk L False w1 types w' \<Longrightarrow>
   sd_search_dbg_loop L cb True False f w =
     Some (search_code (fst (scan cb (dies (trees @ types)) f)),
           snd (scan cb (dies (trees @ types)) f), w')"
proof (induction trees arbitrary: w f)
  case Nil
  then show ?case
    by (subst sd_search_dbg_loop.simps) (simp add: search_dbg_loop_types)
next
  case (Cons t ts)
  then obtain w2 where "lw_next_cu L True w = (DW_OK (), w2)" "lw_cu_die L True w2 = DW_OK (root t)"
    "forest_ok L True [t]" and walk: "cu_walk L True w2 ts w1"
    by (auto split: prod.splits)
  then have "sd_search_dbg_loop L cb True False f w =
      (case scan cb (preorder 0 [t]) f of (found, f') \<Rightarrow>
         sd_search_dbg_loop L cb True found f' w2)"
    by (subst sd_search_dbg_loop.simps)
      (auto simp: search_dwarf_die_scan scan_result_def search_code_def split: prod.splits)
  then show ?case
    using Cons.IH [OF walk Cons.prems(2)] search_dbg_loop_finished_info [OF walk Cons.prems(2)]
    by (auto simp: scan_append search_code_def split: prod.splits)
qed

lemma search_dwarf_dbg_scan:
  "dwarf_ok L w info types \<Longrightarrow>
   sd_search_dwarf_dbg L cb f w =
     Some (search_code (fst (scan cb (dies (info @ types)) f)),
           snd (scan cb (dies (info @ types)) f), w)"
  by (auto simp: sd_search_dwarf_dbg_def dwarf_ok_def search_dbg_loop_info)

text \<open>Functions that search thread the iterator's state through; \<open>None\<close> is divergence.\<close>

type_synonym ('w, 'a) dw_state = "'w \<Rightarrow> ('a \<times> 'w) option"

definition dw_bind :: "('w, 'a) dw_state \<Rightarrow> ('a \<Rightarrow> ('w, 'b) dw_state) \<Rightarrow> ('w, 'b) dw_state" where
  "dw_bind m g w = (case m w of None \<Rightarrow> None | Some (a, w') \<Rightarrow> g a w')"

definition dw_return :: "'a \<Rightarrow> ('w, 'a) dw_state" where
  "dw_return a w = Some (a, w)"

lemma dw_bind_Some [simp]: "m w = Some (a, w') \<Longrightarrow> dw_bind m g w = g a w'"
  by (simp add: dw_bind_def)

lemma dw_return_apply [simp]: "dw_return a w = Some (a, w)"
  by (simp add: dw_return_def)

section \<open>Two shapes of callbacks\<close>

text \<open>A callback that stops at the first DIE that has a match, which it stores.\<close>

definition finds :: "('d, 'f) callback \<Rightarrow> ('d \<Rightarrow> 'f option) \<Rightarrow> bool" where
  "finds cb m \<longleftrightarrow>
     (\<forall>d level f. cb d level f = (case m d of None \<Rightarrow> (False, f) | Some v \<Rightarrow> (True, v)))"

fun first_match :: "('d \<Rightarrow> 'f option) \<Rightarrow> ('d \<times> nat) list \<Rightarrow> 'f option" where
  "first_match m [] = None"
| "first_match m ((d, _) # ds) = (case m d of None \<Rightarrow> first_match m ds | Some v \<Rightarrow> Some v)"

lemma first_match_append:
  "first_match m (xs @ ys) =
     (case first_match m xs of None \<Rightarrow> first_match m ys | Some v \<Rightarrow> Some v)"
  by (induction m xs rule: first_match.induct) (auto split: option.splits)

lemma first_match_None_iff:
  "first_match m ds = None \<longleftrightarrow> (\<forall>(d, l) \<in> set ds. m d = None)"
  by (induction m ds rule: first_match.induct) (auto split: option.splits)

lemma first_match_SomeI:
  "\<forall>(e, k) \<in> set xs. m e = None \<Longrightarrow> m d = Some v \<Longrightarrow>
   first_match m (xs @ (d, l) # ys) = Some v"
  using first_match_None_iff [of m xs] by (simp add: first_match_append)

lemma first_match_SomeD:
  "first_match m ds = Some v \<Longrightarrow>
     \<exists>xs d l ys. ds = xs @ (d, l) # ys \<and> (\<forall>(e, k) \<in> set xs. m e = None) \<and> m d = Some v"
proof (induction m ds rule: first_match.induct)
  case (2 m d l ds)
  show ?case
  proof (cases "m d")
    case None
    with 2 obtain xs e k ys where
      "ds = xs @ (e, k) # ys" "\<forall>(e, k) \<in> set xs. m e = None" "m e = Some v"
      by auto
    with None show ?thesis
      by (intro exI [of _ "(d, l) # xs"]) auto
  next
    case (Some u)
    with 2 show ?thesis by (intro exI [of _ "[]"]) auto
  qed
qed simp

lemma scan_finds:
  assumes "finds cb m"
  shows "scan cb ds f = (case first_match m ds of None \<Rightarrow> (False, f) | Some v \<Rightarrow> (True, v))"
proof (induction ds)
  case (Cons x ds)
  then show ?case
    using assms by (cases x) (auto simp: finds_def split: option.splits prod.splits)
qed simp

lemma search_finds:
  assumes "dwarf_ok L w info types" and "finds cb m"
  shows "sd_search_dwarf_dbg L cb f w =
    (case first_match m (dies (info @ types)) of
       None \<Rightarrow> Some (DW_DLV_NO_ENTRY, f, w)
     | Some v \<Rightarrow> Some (DW_DLV_OK, v, w))"
  using search_dwarf_dbg_scan [OF assms(1), of cb f] scan_finds [OF assms(2)]
  by (auto simp: search_code_def split: option.splits)

text \<open>A callback that never stops and appends what it collects from each DIE.\<close>

definition collects :: "('d, 'x list) callback \<Rightarrow> ('d \<Rightarrow> nat \<Rightarrow> 'x list) \<Rightarrow> bool" where
  "collects cb g \<longleftrightarrow> (\<forall>d level f. cb d level f = (False, f @ g d level))"

lemma scan_collects:
  "collects cb g \<Longrightarrow> scan cb ds f = (False, f @ concat (map (\<lambda>(d, l). g d l) ds))"
  by (induction ds arbitrary: f) (auto simp: collects_def)

lemma search_collects:
  assumes "dwarf_ok L w info types" and "collects cb g"
  shows "sd_search_dwarf_dbg L cb f w =
    Some (DW_DLV_NO_ENTRY, f @ concat (map (\<lambda>(d, l). g d l) (dies (info @ types))), w)"
  using search_dwarf_dbg_scan [OF assms(1), of cb f] scan_collects [OF assms(2)]
  by (simp add: search_code_def)

end
