(* ===== verification/Dwarf_Die.thy ===== *)
theory Dwarf_Die
  imports Dwarf_Search
begin

text \<open>
  What \<^verbatim>\<open>src/src/spray_dwarf.c\<close> reads off a single DIE, and the searches that look for one
  DIE: the check that every compilation unit was built by Clang, the source file of a
  program counter, a subprogram's location attribute. Each search is proved to return what
  the first matching DIE in preorder gives.
\<close>

section \<open>DWARF constants\<close>

definition DW_TAG_formal_parameter :: nat where "DW_TAG_formal_parameter = 0x05"
definition DW_TAG_compile_unit :: nat where "DW_TAG_compile_unit = 0x11"
definition DW_TAG_subprogram :: nat where "DW_TAG_subprogram = 0x2e"
definition DW_TAG_variable :: nat where "DW_TAG_variable = 0x34"
definition DW_AT_location :: nat where "DW_AT_location = 0x02"
definition DW_AT_name :: nat where "DW_AT_name = 0x03"
definition DW_AT_comp_dir :: nat where "DW_AT_comp_dir = 0x1b"
definition DW_AT_producer :: nat where "DW_AT_producer = 0x25"
definition DW_AT_decl_file :: nat where "DW_AT_decl_file = 0x3a"
definition DW_AT_decl_line :: nat where "DW_AT_decl_line = 0x3b"
definition DW_AT_frame_base :: nat where "DW_AT_frame_base = 0x40"
definition DW_AT_type :: nat where "DW_AT_type = 0x49"
definition DW_FORM_addr :: nat where "DW_FORM_addr = 0x01"

lemmas dwarf_constants =
  DW_TAG_formal_parameter_def DW_TAG_compile_unit_def DW_TAG_subprogram_def DW_TAG_variable_def
  DW_AT_location_def DW_AT_name_def DW_AT_comp_dir_def DW_AT_producer_def DW_AT_decl_file_def
  DW_AT_decl_line_def DW_AT_frame_base_def DW_AT_type_def DW_FORM_addr_def

definition what_dwarf_result :: "dw_code \<Rightarrow> string" where
  "what_dwarf_result r =
     (case r of
        DW_DLV_OK \<Rightarrow> ''DW_DLV_OK''
      | DW_DLV_ERROR \<Rightarrow> ''DW_DLV_ERROR''
      | DW_DLV_NO_ENTRY \<Rightarrow> ''DW_DLV_NO_ENTRY'')"

section \<open>Program counter ranges\<close>

text \<open>The high PC is an offset from the low PC unless its form is that of an address.\<close>

definition sd_get_high_and_low_pc :: "('d, 'w) libdwarf \<Rightarrow> 'd \<Rightarrow> (u64 \<times> u64) dwres" where
  "sd_get_high_and_low_pc L die =
     bind_dwres (lw_lowpc L die) (\<lambda>lowpc_buf.
     bind_dwres (lw_highpc L die) (\<lambda>(highpc_buf, high_form).
       DW_OK (lowpc_buf,
              if high_form \<noteq> DW_FORM_addr \<and> \<not> lw_addr_form_is_indexed L high_form
              then highpc_buf + lowpc_buf else highpc_buf)))"

definition sd_check_pc_in_die :: "('d, 'w) libdwarf \<Rightarrow> 'd \<Rightarrow> u64 \<Rightarrow> bool dwres" where
  "sd_check_pc_in_die L die pc =
     bind_dwres (sd_get_high_and_low_pc L die) (\<lambda>(lowpc, highpc).
       if lowpc \<le> pc \<and> pc \<le> highpc then DW_OK True else DW_OK False)"

definition sd_has_tag :: "('d, 'w) libdwarf \<Rightarrow> 'd \<Rightarrow> nat \<Rightarrow> bool" where
  "sd_has_tag L die tagnum =
     (case lw_tag L die of DW_OK die_tag \<Rightarrow> die_tag = tagnum | _ \<Rightarrow> False)"

section \<open>The compiler check\<close>

text \<open>Whether \<^verbatim>\<open>strstr\<close> finds a needle.\<close>

fun strstr :: "string \<Rightarrow> string \<Rightarrow> bool" where
  "strstr [] needle = (needle = [])"
| "strstr (c # cs) needle = (take (length needle) (c # cs) = needle \<or> strstr cs needle)"

lemma strstr_iff: "strstr s needle \<longleftrightarrow> (\<exists>xs ys. s = xs @ needle @ ys)"
proof (induction s)
  case (Cons c cs)
  show ?case
  proof
    assume "strstr (c # cs) needle"
    then show "\<exists>xs ys. c # cs = xs @ needle @ ys"
    proof (cases "take (length needle) (c # cs) = needle")
      case True
      then have "c # cs = [] @ needle @ drop (length needle) (c # cs)"
        by (metis append_Nil append_take_drop_id)
      then show ?thesis by blast
    next
      case False
      with \<open>strstr (c # cs) needle\<close> Cons.IH show ?thesis
        by (metis append_Cons strstr.simps(2))
    qed
  next
    assume "\<exists>xs ys. c # cs = xs @ needle @ ys"
    then obtain xs ys where eq: "c # cs = xs @ needle @ ys" by blast
    show "strstr (c # cs) needle"
    proof (cases xs)
      case Nil
      with eq have "take (length needle) (c # cs) = needle" by simp
      then show ?thesis by simp
    next
      case (Cons x xs')
      with eq have "cs = xs' @ needle @ ys" by simp
      with Cons.IH show ?thesis by auto
    qed
  qed
qed auto

definition callback__is_valid_compiler :: "('d, 'w) libdwarf \<Rightarrow> ('d, unit) callback" where
  "callback__is_valid_compiler L die level f =
     (if sd_has_tag L die DW_TAG_compile_unit then
        (case lw_die_text L die DW_AT_producer of
           DW_OK die_compiler \<Rightarrow> (if strstr die_compiler ''clang'' then (False, f) else (True, f))
         | _ \<Rightarrow> (True, f))
      else (False, f))"

definition sd_is_valid_compiler :: "('d, 'w) libdwarf \<Rightarrow> 'w \<Rightarrow> (bool \<times> 'w) option" where
  "sd_is_valid_compiler L w =
     map_option
       (\<lambda>(res, f, w').
          (case res of DW_DLV_OK \<Rightarrow> False | DW_DLV_NO_ENTRY \<Rightarrow> True | DW_DLV_ERROR \<Rightarrow> False, w'))
       (sd_search_dwarf_dbg L (callback__is_valid_compiler L) () w)"

definition sd_dwarf_init :: "('d, 'w) libdwarf \<Rightarrow> string \<Rightarrow> 'w option option" where
  "sd_dwarf_init L filepath =
     (case lw_init_path L filepath of
        DW_OK w \<Rightarrow>
          map_option (\<lambda>(valid, w'). if \<not> valid then None else Some w') (sd_is_valid_compiler L w)
      | _ \<Rightarrow> Some None)"

definition built_by_clang :: "('d, 'w) libdwarf \<Rightarrow> 'd \<Rightarrow> bool" where
  "built_by_clang L die =
     (\<exists>p. lw_die_text L die DW_AT_producer = DW_OK p \<and> strstr p ''clang'')"

lemma finds_invalid_compiler:
  "finds (callback__is_valid_compiler L)
     (\<lambda>d. if sd_has_tag L d DW_TAG_compile_unit \<and> \<not> built_by_clang L d then Some () else None)"
  by (auto simp: finds_def callback__is_valid_compiler_def built_by_clang_def split: dwres.splits)

lemma is_valid_compiler_iff:
  assumes "dwarf_ok L w info types"
  shows "sd_is_valid_compiler L w =
    Some (\<forall>(d, l) \<in> set (dies (info @ types)).
            sd_has_tag L d DW_TAG_compile_unit \<longrightarrow> built_by_clang L d, w)"
proof -
  let ?m = "\<lambda>d. if sd_has_tag L d DW_TAG_compile_unit \<and> \<not> built_by_clang L d
    then Some () else None"
  have iff: "(\<forall>(d, l) \<in> set (dies (info @ types)).
            sd_has_tag L d DW_TAG_compile_unit \<longrightarrow> built_by_clang L d) =
        (first_match ?m (dies (info @ types)) = None)"
    by (simp only: first_match_None_iff) (rule ball_cong [OF refl], simp split: prod.splits)
  have "sd_is_valid_compiler L w = Some (first_match ?m (dies (info @ types)) = None, w)"
    by (simp add: sd_is_valid_compiler_def search_finds [OF assms finds_invalid_compiler]
      split: option.splits)
  then show ?thesis by (simp only: iff)
qed

section \<open>Attributes of a DIE\<close>

definition dwarf_bool_to_bool :: "int \<Rightarrow> bool" where
  "dwarf_bool_to_bool dwarf_bool = (if dwarf_bool = 0 then False else True)"

definition sd_has_at :: "('d, 'w) libdwarf \<Rightarrow> 'd \<Rightarrow> nat \<Rightarrow> bool" where
  "sd_has_at L die attrnum =
     (case lw_hasattr L die attrnum of DW_OK has_at \<Rightarrow> dwarf_bool_to_bool has_at | _ \<Rightarrow> False)"

text \<open>\<open>None\<close> is the null pointer.\<close>

definition sd_get_filepath :: "('d, 'w) libdwarf \<Rightarrow> 'd \<Rightarrow> string option" where
  "sd_get_filepath L die =
     (if sd_has_at L die DW_AT_name \<and> sd_has_at L die DW_AT_comp_dir then
        (case lw_diename L die of
           DW_OK file_name \<Rightarrow>
             (case lw_die_text L die DW_AT_comp_dir of
                DW_OK dir_name \<Rightarrow> Some (dir_name @ ''/'' @ file_name)
              | _ \<Rightarrow> None)
         | _ \<Rightarrow> None)
      else if sd_has_at L die DW_AT_decl_file then
        (case lw_die_text L die DW_AT_decl_file of
           DW_OK decl_file \<Rightarrow> Some decl_file
         | _ \<Rightarrow> None)
      else None)"

definition callback__find_subprog_name_by_pc ::
  "('d, 'w) libdwarf \<Rightarrow> u64 \<Rightarrow> ('d, string option) callback" where
  "callback__find_subprog_name_by_pc L pc die level fn_name =
     (if sd_has_tag L die DW_TAG_subprogram then
        (case sd_check_pc_in_die L die pc of
           DW_OK found_pc \<Rightarrow>
             (if \<not> found_pc then (False, fn_name)
              else
                (case lw_die_text L die DW_AT_name of
                   DW_OK attr_buf \<Rightarrow> (True, Some attr_buf)
                 | _ \<Rightarrow> (False, fn_name)))
         | _ \<Rightarrow> (False, fn_name))
      else (False, fn_name))"

definition callback__find_filepath_by_pc ::
  "('d, 'w) libdwarf \<Rightarrow> u64 \<Rightarrow> ('d, string option) callback" where
  "callback__find_filepath_by_pc L pc die level filepath =
     (case sd_check_pc_in_die L die pc of
        DW_OK found_pc \<Rightarrow>
          (if \<not> found_pc then (False, filepath) else (True, sd_get_filepath L die))
      | _ \<Rightarrow> (False, filepath))"

definition sd_filepath_from_pc ::
  "('d, 'w) libdwarf \<Rightarrow> dbg_addr \<Rightarrow> 'w \<Rightarrow> (string option \<times> 'w) option" where
  "sd_filepath_from_pc L pc w =
     map_option (\<lambda>(res, filepath, w'). (if res \<noteq> DW_DLV_OK then None else filepath, w'))
       (sd_search_dwarf_dbg L (callback__find_filepath_by_pc L (dbg_value pc)) None w)"

definition sd_is_subprog_with_name :: "('d, 'w) libdwarf \<Rightarrow> 'd \<Rightarrow> string \<Rightarrow> bool" where
  "sd_is_subprog_with_name L die name =
     (case lw_tag L die of
        DW_OK die_tag \<Rightarrow>
          (if die_tag = DW_TAG_subprogram then
             (case lw_die_text L die DW_AT_name of
                DW_OK fn_name_buf \<Rightarrow> str_eq fn_name_buf name
              | _ \<Rightarrow> False)
           else False)
      | _ \<Rightarrow> False)"

section \<open>The compilation unit of a DIE and its source files\<close>

definition sd_get_cu_of_die :: "('d, 'w) libdwarf \<Rightarrow> 'd \<Rightarrow> 'd option" where
  "sd_get_cu_of_die L die =
     (case lw_cu_offset_of L die of
        DW_OK cu_offset \<Rightarrow>
          (case (case lw_offdie L cu_offset True of
                   DW_NO_ENTRY \<Rightarrow> lw_offdie L cu_offset False
                 | res \<Rightarrow> res) of
             DW_OK cu_die \<Rightarrow> Some cu_die
           | _ \<Rightarrow> None)
      | _ \<Rightarrow> None)"

definition sd_get_die_source_files :: "('d, 'w) libdwarf \<Rightarrow> 'd \<Rightarrow> string list option" where
  "sd_get_die_source_files L die =
     (case sd_get_cu_of_die L die of
        None \<Rightarrow> None
      | Some cu_die \<Rightarrow>
          (case lw_srcfiles L cu_die of
             DW_OK files \<Rightarrow> Some files
           | _ \<Rightarrow> None))"

section \<open>Location attributes\<close>

text \<open>An \<^verbatim>\<open>SdLocattr\<close> is the attribute's handle.\<close>

definition sd_init_loc_attr :: "('d, 'w) libdwarf \<Rightarrow> 'd \<Rightarrow> 'd \<Rightarrow> 'd option" where
  "sd_init_loc_attr L die loc =
     (case lw_version_of_die L die of
        DW_OK (version, offset_size) \<Rightarrow>
          (case lw_whatform L loc of
             DW_OK form \<Rightarrow>
               (case lw_whatattr L loc of
                  DW_OK num \<Rightarrow>
                    (if lw_form_class L version num offset_size form
                          \<in> {CLASS_EXPRLOC, CLASS_LOCLIST, CLASS_LOCLISTSPTR, CLASS_BLOCK}
                     then Some loc else None)
                | _ \<Rightarrow> None)
           | _ \<Rightarrow> None)
      | _ \<Rightarrow> None)"

definition callback_find_subprog_loc_attr_by_subprog_name ::
  "('d, 'w) libdwarf \<Rightarrow> string \<Rightarrow> nat \<Rightarrow> ('d, 'd option) callback" where
  "callback_find_subprog_loc_attr_by_subprog_name L name attr_num die level loc_attr =
     (if sd_is_subprog_with_name L die name then
        (case lw_attr L die attr_num of
           DW_OK attr \<Rightarrow>
             (case sd_init_loc_attr L die attr of
                Some a \<Rightarrow> (True, Some a)
              | None \<Rightarrow> (False, loc_attr))
         | _ \<Rightarrow> (False, loc_attr))
      else (False, loc_attr))"

text \<open>The outer option is termination, the inner one \<^verbatim>\<open>SP_ERR\<close>; an attribute is a handle or
  the null pointer.\<close>

definition sd_get_subprog_loc_attr ::
  "('d, 'w) libdwarf \<Rightarrow> string \<Rightarrow> nat \<Rightarrow> 'w \<Rightarrow> ('d option option \<times> 'w) option" where
  "sd_get_subprog_loc_attr L subprog_name attr_num w =
     map_option (\<lambda>(res, loc_attr, w'). (if res \<noteq> DW_DLV_OK then None else Some loc_attr, w'))
       (sd_search_dwarf_dbg L
          (callback_find_subprog_loc_attr_by_subprog_name L subprog_name attr_num) None w)"

section \<open>The searches, specified\<close>

definition pc_match :: "('d, 'w) libdwarf \<Rightarrow> u64 \<Rightarrow> 'd \<Rightarrow> string option option" where
  "pc_match L pc d =
     (if sd_check_pc_in_die L d pc = DW_OK True then Some (sd_get_filepath L d) else None)"

definition loc_attr_match :: "('d, 'w) libdwarf \<Rightarrow> string \<Rightarrow> nat \<Rightarrow> 'd \<Rightarrow> 'd option option" where
  "loc_attr_match L name attr_num d =
     (if sd_is_subprog_with_name L d name then
        (case lw_attr L d attr_num of
           DW_OK attr \<Rightarrow> map_option Some (sd_init_loc_attr L d attr)
         | _ \<Rightarrow> None)
      else None)"

lemma finds_filepath_by_pc: "finds (callback__find_filepath_by_pc L pc) (pc_match L pc)"
  by (auto simp: finds_def callback__find_filepath_by_pc_def pc_match_def split: dwres.splits)

lemma finds_subprog_loc_attr:
  "finds (callback_find_subprog_loc_attr_by_subprog_name L name a) (loc_attr_match L name a)"
  by (auto simp: finds_def callback_find_subprog_loc_attr_by_subprog_name_def loc_attr_match_def
      split: dwres.splits option.splits)

lemma filepath_from_pc_first:
  assumes "dwarf_ok L w info types"
  shows "sd_filepath_from_pc L pc w =
    Some (case first_match (pc_match L (dbg_value pc)) (dies (info @ types)) of
            None \<Rightarrow> None | Some p \<Rightarrow> p, w)"
  by (cases "first_match (pc_match L (dbg_value pc)) (dies (info @ types))")
    (simp_all add: sd_filepath_from_pc_def search_finds [OF assms finds_filepath_by_pc])

lemma get_subprog_loc_attr_first:
  assumes "dwarf_ok L w info types"
  shows "sd_get_subprog_loc_attr L name a w =
    Some (first_match (loc_attr_match L name a) (dies (info @ types)), w)"
  by (cases "first_match (loc_attr_match L name a) (dies (info @ types))")
    (simp_all add: sd_get_subprog_loc_attr_def search_finds [OF assms finds_subprog_loc_attr])

end
