(* ===== verification/Dwarf_Ops.thy ===== *)
theory Dwarf_Ops
  imports Prelude
begin

text \<open>
  The two tables of DWARF operators in \<^verbatim>\<open>src/src/spray_dwarf.c\<close>: the names that
  \<^verbatim>\<open>print_loclist\<close> prints and the numbers of operands. An entry is indexed by the opcode's
  number in \<^verbatim>\<open>dwarf.h\<close>; a table is the concatenation of the groups in the source.
\<close>

section \<open>Names of operators\<close>

definition stack_names :: "(nat \<times> string) list" where
  "stack_names =
    [(0x03, ''DW_OP_addr''), (0x06, ''DW_OP_deref''), (0x08, ''DW_OP_const1u''),
     (0x09, ''DW_OP_const1s''), (0x0a, ''DW_OP_const2u''), (0x0b, ''DW_OP_const2s''),
     (0x0c, ''DW_OP_const4u''), (0x0d, ''DW_OP_const4s''), (0x0e, ''DW_OP_const4u''),
     (0x0f, ''DW_OP_const8s''), (0x10, ''DW_OP_constu''), (0x11, ''DW_OP_consts''),
     (0x12, ''DW_OP_dup''), (0x13, ''DW_OP_drop''), (0x14, ''DW_OP_over''),
     (0x15, ''DW_OP_pick''), (0x16, ''DW_OP_swap''), (0x17, ''DW_OP_rot''),
     (0x18, ''DW_OP_xderef''), (0x19, ''DW_OP_abs''), (0x1a, ''DW_OP_and''),
     (0x1b, ''DW_OP_div''), (0x1c, ''DW_OP_minus''), (0x1d, ''DW_OP_mod''),
     (0x1e, ''DW_OP_mul''), (0x1f, ''DW_OP_neg''), (0x20, ''DW_OP_not''),
     (0x21, ''DW_OP_or''), (0x22, ''DW_OP_plus''), (0x23, ''DW_OP_plus_uconst''),
     (0x24, ''DW_OP_shl''), (0x25, ''DW_OP_shr''), (0x26, ''DW_OP_shra''),
     (0x27, ''DW_OP_xor''), (0x28, ''DW_OP_bra''), (0x29, ''DW_OP_eq''),
     (0x2a, ''DW_OP_ge''), (0x2b, ''DW_OP_gt''), (0x2c, ''DW_OP_le''), (0x2d, ''DW_OP_lt''),
     (0x2e, ''DW_OP_ne''), (0x2f, ''DW_OP_skip'')]"

definition literal_names :: "(nat \<times> string) list" where
  "literal_names =
    [(0x30, ''DW_OP_lit0''), (0x31, ''DW_OP_lit1''), (0x32, ''DW_OP_lit2''),
     (0x33, ''DW_OP_lit3''), (0x34, ''DW_OP_lit4''), (0x35, ''DW_OP_lit5''),
     (0x36, ''DW_OP_lit6''), (0x37, ''DW_OP_lit7''), (0x38, ''DW_OP_lit8''),
     (0x39, ''DW_OP_lit9''), (0x3a, ''DW_OP_lit_10''), (0x3b, ''DW_OP_lit11''),
     (0x3c, ''DW_OP_lit12''), (0x3d, ''DW_OP_lit13''), (0x3e, ''DW_OP_lit14''),
     (0x3f, ''DW_OP_lit15''), (0x40, ''DW_OP_lit16''), (0x41, ''DW_OP_lit17''),
     (0x42, ''DW_OP_lit18''), (0x43, ''DW_OP_lit19''), (0x44, ''DW_OP_lit20''),
     (0x45, ''DW_OP_lit21''), (0x46, ''DW_OP_lit22''), (0x47, ''DW_OP_lit23''),
     (0x48, ''DW_OP_lit24''), (0x49, ''DW_OP_lit25''), (0x4a, ''DW_OP_lit26''),
     (0x4b, ''DW_OP_lit27''), (0x4c, ''DW_OP_lit28''), (0x4d, ''DW_OP_lit29''),
     (0x4e, ''DW_OP_lit30''), (0x4f, ''DW_OP_lit31'')]"

definition register_names :: "(nat \<times> string) list" where
  "register_names =
    [(0x50, ''DW_OP_reg0''), (0x51, ''DW_OP_reg1''), (0x52, ''DW_OP_reg2''),
     (0x53, ''DW_OP_reg3''), (0x54, ''DW_OP_reg4''), (0x55, ''DW_OP_reg5''),
     (0x56, ''DW_OP_reg6''), (0x57, ''DW_OP_reg7''), (0x58, ''DW_OP_reg8''),
     (0x59, ''DW_OP_reg9''), (0x5a, ''DW_OP_reg10''), (0x5b, ''DW_OP_reg11''),
     (0x5c, ''DW_OP_reg12''), (0x5d, ''DW_OP_reg13''), (0x5e, ''DW_OP_reg14''),
     (0x5f, ''DW_OP_reg15''), (0x60, ''DW_OP_reg16''), (0x61, ''DW_OP_reg17''),
     (0x62, ''DW_OP_reg18''), (0x63, ''DW_OP_reg19''), (0x64, ''DW_OP_reg20''),
     (0x65, ''DW_OP_reg21''), (0x66, ''DW_OP_reg22''), (0x67, ''DW_OP_reg23''),
     (0x68, ''DW_OP_reg24''), (0x69, ''DW_OP_reg25''), (0x6a, ''DW_OP_reg26''),
     (0x6b, ''DW_OP_reg27''), (0x6c, ''DW_OP_reg28''), (0x6d, ''DW_OP_reg29''),
     (0x6e, ''DW_OP_reg30''), (0x6f, ''DW_OP_reg31'')]"

definition base_register_names :: "(nat \<times> string) list" where
  "base_register_names =
    [(0x70, ''DW_OP_breg0''), (0x71, ''DW_OP_breg1''), (0x72, ''DW_OP_breg2''),
     (0x73, ''DW_OP_breg3''), (0x74, ''DW_OP_breg4''), (0x75, ''DW_OP_breg5''),
     (0x76, ''DW_OP_breg6''), (0x77, ''DW_OP_breg7''), (0x78, ''DW_OP_breg8''),
     (0x79, ''DW_OP_breg9''), (0x7a, ''DW_OP_breg10''), (0x7b, ''DW_OP_breg11''),
     (0x7c, ''DW_OP_breg12''), (0x7d, ''DW_OP_breg13''), (0x7e, ''DW_OP_breg14''),
     (0x7f, ''DW_OP_breg15''), (0x80, ''DW_OP_breg16''), (0x81, ''DW_OP_breg17''),
     (0x82, ''DW_OP_breg18''), (0x83, ''DW_OP_breg19''), (0x84, ''DW_OP_breg20''),
     (0x85, ''DW_OP_breg21''), (0x86, ''DW_OP_breg22''), (0x87, ''DW_OP_breg23''),
     (0x88, ''DW_OP_breg24''), (0x89, ''DW_OP_breg25''), (0x8a, ''DW_OP_breg26''),
     (0x8b, ''DW_OP_breg27''), (0x8c, ''DW_OP_breg28''), (0x8d, ''DW_OP_breg29''),
     (0x8e, ''DW_OP_breg30''), (0x8f, ''DW_OP_breg31'')]"

definition location_names :: "(nat \<times> string) list" where
  "location_names =
    [(0x90, ''DW_OP_regx''), (0x91, ''DW_OP_fbreg''), (0x92, ''DW_OP_bregx''),
     (0x93, ''DW_OP_piece''), (0x94, ''DW_OP_deref_size''), (0x95, ''DW_OP_xderef_size''),
     (0x96, ''DW_OP_nop''), (0x97, ''DW_OP_push_object_address''), (0x98, ''DW_OP_call2''),
     (0x99, ''DW_OP_call4''), (0x9a, ''DW_OP_call_ref''),
     (0x9b, ''DW_OP_form_tls_address''), (0x9c, ''DW_OP_call_frame_cfa''),
     (0x9d, ''DW_OP_bit_piece''), (0x9e, ''DW_OP_implicit_value''),
     (0x9f, ''DW_OP_stack_value''), (0xa0, ''DW_OP_implicit_pointer''),
     (0xa1, ''DW_OP_addrx''), (0xa2, ''DW_OP_constx''), (0xa3, ''DW_OP_entry_value''),
     (0xa4, ''DW_OP_const_type''), (0xa5, ''DW_OP_regval_type''),
     (0xa6, ''DW_OP_deref_type''), (0xa7, ''DW_OP_xderef_type''), (0xa8, ''DW_OP_convert''),
     (0xa9, ''DW_OP_reinterpret'')]"

definition gnu_names :: "(nat \<times> string) list" where
  "gnu_names =
    [(0xe0, ''DW_OP_GNU_push_tls_address''), (0xf0, ''DW_OP_GNU_uninit''),
     (0xf1, ''DW_OP_GNU_encoded_addr''), (0xf2, ''DW_OP_GNU_implicit_pointer''),
     (0xf3, ''DW_OP_GNU_entry_value''), (0xf4, ''DW_OP_GNU_const_type''),
     (0xf5, ''DW_OP_GNU_regval_type''), (0xf6, ''DW_OP_GNU_deref_type''),
     (0xf7, ''DW_OP_GNU_convert''), (0xf9, ''DW_OP_GNU_reinterpret''),
     (0xfa, ''DW_OP_GNU_parameter_ref''), (0xfb, ''DW_OP_GNU_addr_index''),
     (0xfc, ''DW_OP_GNU_const_index''), (0xfd, ''DW_OP_GNU_variable_value''),
     (0xff, ''DW_OP_hi_user'')]"

text \<open>The ranges that are filled with one string; an entry that is not set is a null pointer.\<close>

definition unused_names :: "(nat \<times> string) list" where
  "unused_names =
     map (\<lambda>i. (i, ''<invalid opcode>'')) [170..<224] @
     map (\<lambda>i. (i, ''<unused implementation-defined opcode>'')) [225..<240] @
     [(254, ''<unused implementation-defined opcode>'')]"

definition operator_names :: "(nat \<times> string) list" where
  "operator_names =
     stack_names @ literal_names @ register_names @ base_register_names @ location_names @
     gnu_names @ unused_names"

definition sd_what_operator :: "u8 \<Rightarrow> string option" where
  "sd_what_operator opcode = map_of operator_names (unat opcode)"

section \<open>Numbers of operands\<close>

definition stack_n_operands :: "(nat \<times> nat) list" where
  "stack_n_operands =
    [(0x03, 1), (0x06, 0), (0x08, 1), (0x09, 1), (0x0a, 1), (0x0b, 1), (0x0c, 1), (0x0d, 1),
     (0x0e, 1), (0x0f, 1), (0x10, 1), (0x11, 1), (0x12, 0), (0x13, 0), (0x14, 0), (0x15, 1),
     (0x16, 0), (0x17, 0), (0x18, 0), (0x19, 0), (0x1a, 0), (0x1b, 0), (0x1c, 0), (0x1d, 0),
     (0x1e, 0), (0x1f, 0), (0x20, 0), (0x21, 0), (0x22, 0), (0x23, 1), (0x24, 0), (0x25, 0),
     (0x26, 0), (0x27, 0), (0x28, 1), (0x29, 0), (0x2a, 0), (0x2b, 0), (0x2c, 0), (0x2d, 0),
     (0x2e, 0), (0x2f, 1)]"

definition literal_n_operands :: "(nat \<times> nat) list" where
  "literal_n_operands =
    [(0x30, 0), (0x31, 0), (0x32, 0), (0x33, 0), (0x34, 0), (0x35, 0), (0x36, 0), (0x37, 0),
     (0x38, 0), (0x39, 0), (0x3a, 0), (0x3b, 0), (0x3c, 0), (0x3d, 0), (0x3e, 0), (0x3f, 0),
     (0x40, 0), (0x41, 0), (0x42, 0), (0x43, 0), (0x44, 0), (0x45, 0), (0x46, 0), (0x47, 0),
     (0x48, 0), (0x49, 0), (0x4a, 0), (0x4b, 0), (0x4c, 0), (0x4d, 0), (0x4e, 0), (0x4f, 0)]"

definition register_n_operands :: "(nat \<times> nat) list" where
  "register_n_operands =
    [(0x50, 0), (0x51, 0), (0x52, 0), (0x53, 0), (0x54, 0), (0x55, 0), (0x56, 0), (0x57, 0),
     (0x58, 0), (0x59, 0), (0x5a, 0), (0x5b, 0), (0x5c, 0), (0x5d, 0), (0x5e, 0), (0x5f, 0),
     (0x60, 0), (0x61, 0), (0x62, 0), (0x63, 0), (0x64, 0), (0x65, 0), (0x66, 0), (0x67, 0),
     (0x68, 0), (0x69, 0), (0x6a, 0), (0x6b, 0), (0x6c, 0), (0x6d, 0), (0x6e, 0), (0x6f, 0)]"

definition base_register_n_operands :: "(nat \<times> nat) list" where
  "base_register_n_operands =
    [(0x70, 1), (0x71, 1), (0x72, 1), (0x73, 1), (0x74, 1), (0x75, 1), (0x76, 1), (0x77, 1),
     (0x78, 1), (0x79, 1), (0x7a, 1), (0x7b, 1), (0x7c, 1), (0x7d, 1), (0x7e, 1), (0x7f, 1),
     (0x80, 1), (0x81, 1), (0x82, 1), (0x83, 1), (0x84, 1), (0x85, 1), (0x86, 1), (0x87, 1),
     (0x88, 1), (0x89, 1), (0x8a, 1), (0x8b, 1), (0x8c, 1), (0x8d, 1), (0x8e, 1), (0x8f, 1)]"

definition location_n_operands :: "(nat \<times> nat) list" where
  "location_n_operands =
    [(0x90, 1), (0x91, 1), (0x92, 2), (0x93, 1), (0x94, 1), (0x95, 1), (0x96, 0), (0x97, 0),
     (0x98, 1), (0x99, 1), (0x9a, 1), (0x9b, 0), (0x9c, 0), (0x9d, 2), (0x9e, 2), (0x9f, 0),
     (0xa0, 2), (0xa1, 1), (0xa2, 1), (0xa3, 2), (0xa4, 3), (0xa5, 2), (0xa6, 2), (0xa7, 2),
     (0xa8, 1), (0xa9, 1)]"

text \<open>Everything else is zero.\<close>

definition n_operands_table :: "(nat \<times> nat) list" where
  "n_operands_table =
     stack_n_operands @ literal_n_operands @ register_n_operands @ base_register_n_operands @
     location_n_operands @ map (\<lambda>i. (i, 3)) [170..<224] @ map (\<lambda>i. (i, 3)) [224..<256]"

definition sd_n_operands :: "u8 \<Rightarrow> nat" where
  "sd_n_operands opcode =
     (case map_of n_operands_table (unat opcode) of None \<Rightarrow> 0 | Some n \<Rightarrow> n)"

lemmas operator_name_tables =
  stack_names_def literal_names_def register_names_def base_register_names_def
  location_names_def gnu_names_def unused_names_def operator_names_def

lemmas n_operands_tables =
  stack_n_operands_def literal_n_operands_def register_n_operands_def
  base_register_n_operands_def location_n_operands_def n_operands_table_def

section \<open>Facts\<close>

text \<open>An operation has room for three operands, and no operator asks for more.\<close>

lemma n_operands_table_le: "(i, n) \<in> set n_operands_table \<Longrightarrow> n \<le> 3"
  by (auto simp: n_operands_tables)

lemma n_operands_le: "sd_n_operands opcode \<le> 3"
  by (auto simp: sd_n_operands_def split: option.splits dest!: map_of_SomeD n_operands_table_le)

text \<open>The opcodes that have no name: the holes of the standard, and \<^verbatim>\<open>0xf8\<close>.\<close>

lemma name_group_keys:
  "map fst stack_names = 3 # 6 # [8..<0x30]"
  "map fst literal_names = [0x30..<0x50]"
  "map fst register_names = [0x50..<0x70]"
  "map fst base_register_names = [0x70..<0x90]"
  "map fst location_names = [0x90..<0xaa]"
  "map fst gnu_names = 0xe0 # [0xf0..<0xf8] @ [0xf9..<0xfe] @ [0xff]"
  "map fst unused_names = [0xaa..<0xe0] @ [0xe1..<0xf0] @ [0xfe]"
         apply (simp add: stack_names_def)
        apply (simp add: literal_names_def)
       apply (simp add: register_names_def)
      apply (simp add: base_register_names_def)
     apply (simp add: location_names_def)
    apply (simp add: gnu_names_def)
   apply (simp add: unused_names_def comp_def)
  done

lemma operator_names_keys:
  "set (map fst operator_names) = {..<256} - {0, 1, 2, 4, 5, 7, 0xf8}"
proof -
  have "set (map fst operator_names) =
      insert 3 (insert 6 {8..<0x30}) \<union> ({0x30..<0x50} \<union> ({0x50..<0x70} \<union> ({0x70..<0x90} \<union>
      ({0x90..<0xaa} \<union> (insert 0xe0 ({0xf0..<0xf8} \<union> ({0xf9..<0xfe} \<union> {0xff})) \<union>
      ({0xaa..<0xe0} \<union> ({0xe1..<0xf0} \<union> {0xfe})))))))"
    unfolding operator_names_def map_append name_group_keys set_append set_upt list.set ..
  also have "\<dots> = {..<256} - {0, 1, 2, 4, 5, 7, 0xf8}"
    by (rule set_eqI) (simp, presburger)
  finally show ?thesis .
qed

lemma what_operator_None_iff:
  "sd_what_operator opcode = None \<longleftrightarrow> opcode \<in> {0, 1, 2, 4, 5, 7, 0xf8}"
proof -
  have "sd_what_operator opcode = None \<longleftrightarrow> unat opcode \<notin> set (map fst operator_names)"
    by (simp add: sd_what_operator_def map_of_eq_None_iff)
  also have "\<dots> \<longleftrightarrow> unat opcode \<in> {0, 1, 2, 4, 5, 7, 0xf8}"
    using unat_u8_less [of opcode] by (subst operator_names_keys) auto
  also have "\<dots> \<longleftrightarrow> unat opcode \<in> unat ` {0, 1, 2, 4, 5, 7, 0xf8 :: u8}"
    by simp
  also have "\<dots> \<longleftrightarrow> opcode \<in> {0, 1, 2, 4, 5, 7, 0xf8}"
    by (simp add: word_unat_eq_iff)
  finally show ?thesis .
qed

end
