(* ===== verification/Elf.thy ===== *)
theory Elf
  imports Magic
begin

text \<open>
  Parsing of ELF files and the symbol table, \<^verbatim>\<open>src/src/spray_elf.c\<close> and \<^verbatim>\<open>spray_elf.h\<close>. The
  file is a list of bytes that \<^verbatim>\<open>mmap\<close> presents; structures are read at byte offsets as a
  little-endian machine reads them, and a read behind the mapping is undefined.
\<close>

section \<open>The mapped file\<close>

type_synonym bytes = "u8 list"

definition PAGE :: nat where [magic_numbers]: "PAGE = 4096"

text \<open>\<^verbatim>\<open>mmap\<close> fills the last page with zeros.\<close>

definition mapped_size :: "bytes \<Rightarrow> nat" where
  "mapped_size bs = (length bs + PAGE - 1) div PAGE * PAGE"

definition byte_at :: "bytes \<Rightarrow> nat \<Rightarrow> u8 c_result" where
  "byte_at bs i =
     (if i < length bs then Defined (bs ! i)
      else if i < mapped_size bs then Defined 0 else UB)"

text \<open>An unsigned little-endian integer of \<open>n\<close> bytes.\<close>

fun uint_at :: "bytes \<Rightarrow> nat \<Rightarrow> nat \<Rightarrow> nat c_result" where
  "uint_at bs i 0 = Defined 0"
| "uint_at bs i (Suc n) =
     c_bind (byte_at bs i) (\<lambda>b. c_bind (uint_at bs (i + 1) n) (\<lambda>v. Defined (unat b + 256 * v)))"

definition u16_at :: "bytes \<Rightarrow> nat \<Rightarrow> u16 c_result" where
  "u16_at bs i = c_bind (uint_at bs i 2) (\<lambda>v. Defined (of_nat v))"

definition u32_at :: "bytes \<Rightarrow> nat \<Rightarrow> u32 c_result" where
  "u32_at bs i = c_bind (uint_at bs i 4) (\<lambda>v. Defined (of_nat v))"

definition u64_at :: "bytes \<Rightarrow> nat \<Rightarrow> u64 c_result" where
  "u64_at bs i = c_bind (uint_at bs i 8) (\<lambda>v. Defined (of_nat v))"

text \<open>
  Is the NUL-terminated string at an offset equal to a given string? \<^verbatim>\<open>strcmp\<close> does not read
  behind the first difference.
\<close>

fun str_eq_at :: "bytes \<Rightarrow> nat \<Rightarrow> string \<Rightarrow> bool c_result" where
  "str_eq_at bs i [] = c_bind (byte_at bs i) (\<lambda>b. Defined (b = 0))"
| "str_eq_at bs i (c # cs) =
     c_bind (byte_at bs i) (\<lambda>b. if b = of_char c then str_eq_at bs (i + 1) cs else Defined False)"

text \<open>The string at an offset; the second argument bounds the number of characters to read.\<close>

fun string_at_bounded :: "bytes \<Rightarrow> nat \<Rightarrow> nat \<Rightarrow> string c_result" where
  "string_at_bounded bs i 0 = UB"
| "string_at_bounded bs i (Suc n) =
     c_bind (byte_at bs i) (\<lambda>b.
       if b = 0 then Defined []
       else c_bind (string_at_bounded bs (i + 1) n) (\<lambda>s. Defined (char_of (unat b) # s)))"

definition string_at :: "bytes \<Rightarrow> nat \<Rightarrow> string c_result" where
  "string_at bs i = string_at_bounded bs i (Suc (mapped_size bs))"

section \<open>The structures of \<^verbatim>\<open>elf.h\<close>\<close>

record Elf64_Ehdr =
  ei_mag :: "u8 list"
  ei_class :: u8
  ei_data :: u8
  ei_version :: u8
  ei_osabi :: u8
  ei_abiversion :: u8
  e_type :: u16
  e_machine :: u16
  e_version :: u32
  e_phoff :: u64
  e_shoff :: u64
  e_phentsize :: u16
  e_phnum :: u16
  e_shentsize :: u16
  e_shnum :: u16
  e_shstrndx :: u16

record Elf64_Shdr =
  sh_name :: u32
  sh_type :: u32
  sh_flags :: u64
  sh_offset :: u64
  sh_size :: u64
  sh_link :: u32
  sh_info :: u32
  sh_entsize :: u64

record Elf64_Sym =
  st_name :: u32
  st_info :: u8
  st_other :: u8
  st_value :: u64
  st_size :: u64

definition SIZEOF_EHDR :: nat where [magic_numbers]: "SIZEOF_EHDR = 64"
definition SIZEOF_SHDR :: nat where [magic_numbers]: "SIZEOF_SHDR = 64"
definition SIZEOF_PHDR :: nat where [magic_numbers]: "SIZEOF_PHDR = 56"
definition SIZEOF_SYM :: nat where [magic_numbers]: "SIZEOF_SYM = 24"

definition ehdr_at :: "bytes \<Rightarrow> nat \<Rightarrow> Elf64_Ehdr c_result" where
  "ehdr_at bs off =
     c_bind (byte_at bs off) (\<lambda>m0. c_bind (byte_at bs (off + 1)) (\<lambda>m1.
     c_bind (byte_at bs (off + 2)) (\<lambda>m2. c_bind (byte_at bs (off + 3)) (\<lambda>m3.
     c_bind (byte_at bs (off + 4)) (\<lambda>class. c_bind (byte_at bs (off + 5)) (\<lambda>data.
     c_bind (byte_at bs (off + 6)) (\<lambda>version. c_bind (byte_at bs (off + 7)) (\<lambda>osabi.
     c_bind (byte_at bs (off + 8)) (\<lambda>abiversion.
     c_bind (u16_at bs (off + 16)) (\<lambda>type. c_bind (u16_at bs (off + 18)) (\<lambda>machine.
     c_bind (u32_at bs (off + 20)) (\<lambda>ver.
     c_bind (u64_at bs (off + 32)) (\<lambda>phoff. c_bind (u64_at bs (off + 40)) (\<lambda>shoff.
     c_bind (u16_at bs (off + 54)) (\<lambda>phentsize. c_bind (u16_at bs (off + 56)) (\<lambda>phnum.
     c_bind (u16_at bs (off + 58)) (\<lambda>shentsize. c_bind (u16_at bs (off + 60)) (\<lambda>shnum.
     c_bind (u16_at bs (off + 62)) (\<lambda>shstrndx.
       Defined \<lparr>ei_mag = [m0, m1, m2, m3], ei_class = class, ei_data = data,
         ei_version = version, ei_osabi = osabi, ei_abiversion = abiversion,
         e_type = type, e_machine = machine, e_version = ver, e_phoff = phoff, e_shoff = shoff,
         e_phentsize = phentsize, e_phnum = phnum, e_shentsize = shentsize, e_shnum = shnum,
         e_shstrndx = shstrndx\<rparr>)))))))))))))))))))"

definition shdr_at :: "bytes \<Rightarrow> nat \<Rightarrow> Elf64_Shdr c_result" where
  "shdr_at bs off =
     c_bind (u32_at bs off) (\<lambda>name. c_bind (u32_at bs (off + 4)) (\<lambda>type.
     c_bind (u64_at bs (off + 8)) (\<lambda>flags. c_bind (u64_at bs (off + 24)) (\<lambda>offset.
     c_bind (u64_at bs (off + 32)) (\<lambda>sz. c_bind (u32_at bs (off + 40)) (\<lambda>link.
     c_bind (u32_at bs (off + 44)) (\<lambda>info. c_bind (u64_at bs (off + 56)) (\<lambda>entsize.
       Defined \<lparr>sh_name = name, sh_type = type, sh_flags = flags, sh_offset = offset,
         sh_size = sz, sh_link = link, sh_info = info, sh_entsize = entsize\<rparr>))))))))"

definition symtab_at :: "bytes \<Rightarrow> nat \<Rightarrow> Elf64_Sym c_result" where
  "symtab_at bs off =
     c_bind (u32_at bs off) (\<lambda>name. c_bind (byte_at bs (off + 4)) (\<lambda>info.
     c_bind (byte_at bs (off + 5)) (\<lambda>other. c_bind (u64_at bs (off + 8)) (\<lambda>val.
     c_bind (u64_at bs (off + 16)) (\<lambda>sz.
       Defined \<lparr>st_name = name, st_info = info, st_other = other, st_value = val, st_size = sz\<rparr>)))))"

section \<open>Results of parsing\<close>

datatype ElfType = ELF_TYPE_NONE | ELF_TYPE_REL | ELF_TYPE_EXEC | ELF_TYPE_DYN | ELF_TYPE_CORE
datatype Endianness = ELF_ENDIAN_BIG | ELF_ENDIAN_LITTLE
datatype ElfParseResult = ELF_PARSE_OK | ELF_PARSE_IO_ERR | ELF_PARSE_INVALID | ELF_PARSE_DISLIKE

definition elf_parse_result_name :: "ElfParseResult \<Rightarrow> string" where
  "elf_parse_result_name res =
     (case res of
        ELF_PARSE_OK \<Rightarrow> ''parsed file successfully''
      | ELF_PARSE_IO_ERR \<Rightarrow> ''file I/O error''
      | ELF_PARSE_INVALID \<Rightarrow> ''invalid file contents''
      | ELF_PARSE_DISLIKE \<Rightarrow> ''unsupported file contents'')"

text \<open>A pointer to a table of headers is the offset of its first one.\<close>

record ElfProgTable =
  n_prog_headers :: u32
  prog_headers :: nat

record ElfSectTable =
  n_sect_headers :: u32
  symtab_idx :: u32
  shstrtab_idx :: u32
  strtab_idx :: u32
  sect_headers :: nat

record ElfFile =
  elf_type :: ElfType
  endianness :: Endianness
  prog_table :: ElfProgTable
  sect_table :: ElfSectTable
  data :: bytes

text \<open>What \<^verbatim>\<open>parse_elf_header\<close> stores through its pointers.\<close>

record ElfHeaderInfo =
  hdr_type :: ElfType
  hdr_endianness :: Endianness
  prog_table_off :: u64
  sect_table_off :: u64
  n_prog_hdrs :: u32
  n_sect_hdrs :: u32
  hdr_shstrtab_idx :: u32

definition CHECK_SECTION_HEADER :: u32 where [magic_numbers]: "CHECK_SECTION_HEADER = 0xffff"

definition elf_type_of :: "u16 \<Rightarrow> ElfType" where
  "elf_type_of t =
     (if t = 0 then ELF_TYPE_NONE else if t = 1 then ELF_TYPE_REL else if t = 2 then ELF_TYPE_EXEC
      else if t = 3 then ELF_TYPE_DYN else ELF_TYPE_CORE)"

text \<open>
  The constants are those of \<^verbatim>\<open>elf.h\<close>: class 2 is 64 bit, data encoding 1 and 2 are little and
  big endian, the ABIs 0 and 3 are System V and Linux, machine 62 is x86-64.
\<close>

definition parse_elf_header :: "Elf64_Ehdr \<Rightarrow> ElfParseResult + ElfHeaderInfo" where
  "parse_elf_header elf_src =
     (if ei_mag elf_src ! 0 \<noteq> 0x7f \<or> ei_mag elf_src ! 1 \<noteq> 0x45 \<or>
         ei_mag elf_src ! 2 \<noteq> 0x4c \<or> ei_mag elf_src ! 3 \<noteq> 0x46
      then Inl ELF_PARSE_INVALID
      else if ei_class elf_src \<noteq> 2 then Inl ELF_PARSE_DISLIKE
      else if ei_data elf_src \<noteq> 1 \<and> ei_data elf_src \<noteq> 2 then Inl ELF_PARSE_DISLIKE
      else if ei_osabi elf_src \<noteq> 3 \<and> ei_osabi elf_src \<noteq> 0 then Inl ELF_PARSE_DISLIKE
      else if ei_version elf_src \<noteq> 1 \<or> ei_abiversion elf_src \<noteq> 0 \<or> e_version elf_src \<noteq> 1
      then Inl ELF_PARSE_INVALID
      else if \<not> e_type elf_src \<le> 4 then Inl ELF_PARSE_INVALID
      else if e_machine elf_src \<noteq> 62 then Inl ELF_PARSE_DISLIKE
      else if e_phoff elf_src = 0 then Inl ELF_PARSE_DISLIKE
      else if e_shoff elf_src = 0 then Inl ELF_PARSE_DISLIKE
      else if unat (e_phentsize elf_src) \<noteq> SIZEOF_PHDR \<or> unat (e_shentsize elf_src) \<noteq> SIZEOF_SHDR
      then Inl ELF_PARSE_DISLIKE
      else Inr
        \<lparr>hdr_type = elf_type_of (e_type elf_src),
         hdr_endianness = (if ei_data elf_src = 1 then ELF_ENDIAN_LITTLE else ELF_ENDIAN_BIG),
         prog_table_off = e_phoff elf_src,
         sect_table_off = e_shoff elf_src,
         n_prog_hdrs =
           (if e_phnum elf_src = 0xffff then CHECK_SECTION_HEADER else ucast (e_phnum elf_src)),
         n_sect_hdrs =
           (if e_shnum elf_src = 0 then CHECK_SECTION_HEADER else ucast (e_shnum elf_src)),
         hdr_shstrtab_idx =
           (if e_shstrndx elf_src = 0xffff then CHECK_SECTION_HEADER
            else ucast (e_shstrndx elf_src))\<rparr>)"

text \<open>The initial section header is read only if one of the values has to come from it.\<close>

definition parse_init_section :: "bytes \<Rightarrow> nat \<Rightarrow> ElfHeaderInfo \<Rightarrow> ElfHeaderInfo c_result" where
  "parse_init_section bs init_off h =
     (if n_prog_hdrs h = CHECK_SECTION_HEADER \<or> n_sect_hdrs h = CHECK_SECTION_HEADER \<or>
         hdr_shstrtab_idx h = CHECK_SECTION_HEADER
      then
        c_bind (shdr_at bs init_off) (\<lambda>init_section_header.
          Defined (h
            \<lparr>n_prog_hdrs := (if n_prog_hdrs h = CHECK_SECTION_HEADER
                             then sh_info init_section_header else n_prog_hdrs h),
             n_sect_hdrs := (if n_sect_hdrs h = CHECK_SECTION_HEADER
                             then ucast (sh_size init_section_header) else n_sect_hdrs h),
             hdr_shstrtab_idx := (if hdr_shstrtab_idx h = CHECK_SECTION_HEADER
                                  then sh_link init_section_header else hdr_shstrtab_idx h)\<rparr>))
      else Defined h)"

text \<open>The flags are passed on as an \<^verbatim>\<open>int\<close>.\<close>

definition elf_is_set :: "32 word \<Rightarrow> 32 word \<Rightarrow> bool" where
  "elf_is_set v m = (v AND m \<noteq> 0)"

definition is_unset :: "32 word \<Rightarrow> 32 word \<Rightarrow> bool" where
  "is_unset v m = (v AND m = 0)"

definition SHF_ALLOC :: "32 word" where [magic_numbers]: "SHF_ALLOC = 2"

definition is_valid_symtab :: "bytes \<Rightarrow> Elf64_Shdr \<Rightarrow> nat \<Rightarrow> bool c_result" where
  "is_valid_symtab bs shdr name =
     c_bind (str_eq_at bs name ''.symtab'') (\<lambda>named.
       Defined (named \<and> sh_type shdr = 2 \<and> is_unset (ucast (sh_flags shdr)) SHF_ALLOC \<and>
                unat (sh_entsize shdr) = SIZEOF_SYM))"

definition is_valid_strtab :: "bytes \<Rightarrow> Elf64_Shdr \<Rightarrow> nat \<Rightarrow> bool c_result" where
  "is_valid_strtab bs shdr name =
     c_bind (str_eq_at bs name ''.strtab'') (\<lambda>named.
       Defined (named \<and> sh_type shdr = 3 \<and> is_unset (ucast (sh_flags shdr)) SHF_ALLOC))"

text \<open>
  The loop of \<^verbatim>\<open>find_table_sections\<close>, from section \<open>i\<close> on with \<open>n\<close> sections left; an index of
  zero has not been set yet.
\<close>

primrec find_tables_loop ::
  "bytes \<Rightarrow> nat \<Rightarrow> nat \<Rightarrow> nat \<Rightarrow> nat \<Rightarrow> nat \<Rightarrow> nat \<Rightarrow> (nat \<times> nat) c_result" where
  "find_tables_loop bs headers shstrtab i 0 symtab strtab = Defined (symtab, strtab)"
| "find_tables_loop bs headers shstrtab i (Suc n) symtab strtab =
     c_bind (shdr_at bs (headers + SIZEOF_SHDR * i)) (\<lambda>cur_hdr.
     c_bind (is_valid_symtab bs cur_hdr (shstrtab + unat (sh_name cur_hdr))) (\<lambda>is_symtab.
       if is_symtab \<and> symtab = 0 then find_tables_loop bs headers shstrtab (i + 1) n i strtab
       else c_bind (is_valid_strtab bs cur_hdr (shstrtab + unat (sh_name cur_hdr))) (\<lambda>is_strtab.
         if is_strtab \<and> strtab = 0
         then find_tables_loop bs headers shstrtab (i + 1) n symtab i
         else find_tables_loop bs headers shstrtab (i + 1) n symtab strtab)))"

definition find_table_sections ::
  "bytes \<Rightarrow> nat \<Rightarrow> u32 \<Rightarrow> nat \<Rightarrow> (nat \<times> nat) option c_result" where
  "find_table_sections bs headers n_hdrs shstrtab =
     c_bind (find_tables_loop bs headers shstrtab 0 (unat n_hdrs) 0 0) (\<lambda>(symtab, strtab).
       if symtab \<noteq> 0 \<and> strtab \<noteq> 0 then Defined (Some (symtab, strtab)) else Defined None)"

text \<open>
  The file system is a parameter: the contents of the file if it can be opened, sized and
  mapped (an empty file cannot be mapped), and whether \<^verbatim>\<open>munmap\<close> succeeds.
\<close>

record elf_io =
  file_contents :: "string \<Rightarrow> bytes option"
  munmap_ok :: bool

definition unmap_with :: "elf_io \<Rightarrow> ElfParseResult \<Rightarrow> ElfParseResult" where
  "unmap_with io res = (if \<not> munmap_ok io then ELF_PARSE_IO_ERR else res)"

text \<open>What is stored on success.\<close>

definition elf_file_of :: "bytes \<Rightarrow> ElfHeaderInfo \<Rightarrow> nat \<Rightarrow> nat \<Rightarrow> nat \<Rightarrow> ElfFile" where
  "elf_file_of bs h headers s t =
     \<lparr>elf_type = hdr_type h, endianness = hdr_endianness h,
      prog_table = \<lparr>n_prog_headers = n_prog_hdrs h, prog_headers = unat (prog_table_off h)\<rparr>,
      sect_table = \<lparr>n_sect_headers = n_sect_hdrs h, symtab_idx = of_nat s,
        shstrtab_idx = hdr_shstrtab_idx h, strtab_idx = of_nat t, sect_headers = headers\<rparr>,
      data = bs\<rparr>"

definition parse_tables ::
  "elf_io \<Rightarrow> bytes \<Rightarrow> ElfHeaderInfo \<Rightarrow> (ElfParseResult + ElfFile) c_result" where
  "parse_tables io bs h0 =
     (let headers = unat (sect_table_off h0) in
      c_bind (parse_init_section bs headers h0) (\<lambda>h.
      c_bind (shdr_at bs (headers + SIZEOF_SHDR * unat (hdr_shstrtab_idx h))) (\<lambda>shstrtab_hdr.
      c_bind (find_table_sections bs headers (n_sect_hdrs h) (unat (sh_offset shstrtab_hdr)))
        (\<lambda>tables.
           case tables of
             None \<Rightarrow> Defined (Inl (unmap_with io ELF_PARSE_INVALID))
           | Some (symtab, strtab) \<Rightarrow>
               Defined (Inr (elf_file_of bs h headers symtab strtab))))))"

definition se_parse_elf :: "elf_io \<Rightarrow> string \<Rightarrow> (ElfParseResult + ElfFile) c_result" where
  "se_parse_elf io filepath =
     (case file_contents io filepath of
        None \<Rightarrow> Defined (Inl ELF_PARSE_IO_ERR)
      | Some bs \<Rightarrow>
          if bs = [] then Defined (Inl ELF_PARSE_IO_ERR)
          else
            c_bind (ehdr_at bs 0) (\<lambda>elf_header.
              case parse_elf_header elf_header of
                Inl res \<Rightarrow> Defined (Inl (unmap_with io res))
              | Inr h0 \<Rightarrow> parse_tables io bs h0))"

definition se_free_elf :: "elf_io \<Rightarrow> ElfFile \<Rightarrow> SprayResult" where
  "se_free_elf io elf = (if \<not> munmap_ok io then SP_ERR else SP_OK)"

section \<open>The symbol table\<close>

definition se_symbol_binding :: "Elf64_Sym \<Rightarrow> nat" where
  "se_symbol_binding symb = unat (drop_bit 4 (st_info symb))"

definition se_symbol_type :: "Elf64_Sym \<Rightarrow> nat" where
  "se_symbol_type symb = unat (st_info symb AND 0xf)"

definition se_symbol_visibility :: "Elf64_Sym \<Rightarrow> nat" where
  "se_symbol_visibility symb = unat (st_other symb)"

definition se_symbol_start_addr :: "Elf64_Sym \<Rightarrow> dbg_addr" where
  "se_symbol_start_addr symb = DbgAddr (st_value symb)"

definition se_symbol_end_addr :: "Elf64_Sym \<Rightarrow> dbg_addr" where
  "se_symbol_end_addr symb = DbgAddr (st_value symb + st_size symb)"

definition section_header :: "ElfFile \<Rightarrow> u32 \<Rightarrow> Elf64_Shdr c_result" where
  "section_header elf idx =
     shdr_at (data elf) (sect_headers (sect_table elf) + SIZEOF_SHDR * unat idx)"

text \<open>The name is a pointer into the file, its offset; \<open>symbol_name\<close> reads the string there.\<close>

definition se_symbol_name :: "Elf64_Sym \<Rightarrow> ElfFile \<Rightarrow> nat c_result" where
  "se_symbol_name symb elf =
     c_bind (section_header elf (strtab_idx (sect_table elf))) (\<lambda>strtab_hdr.
       Defined (unat (sh_offset strtab_hdr) + unat (st_name symb)))"

definition symbol_name :: "Elf64_Sym \<Rightarrow> ElfFile \<Rightarrow> string c_result" where
  "symbol_name symb elf = c_bind (se_symbol_name symb elf) (string_at (data elf))"

text \<open>
  Both lookups run over the symbols \<open>i, ..., i + n - 1\<close>; the test may itself read the file.
  A pointer to a symbol is the symbol, because the mapping does not change.
\<close>

fun find_symbol ::
  "bytes \<Rightarrow> nat \<Rightarrow> (Elf64_Sym \<Rightarrow> bool c_result) \<Rightarrow> nat \<Rightarrow> nat \<Rightarrow> Elf64_Sym option c_result" where
  "find_symbol bs symtab test i 0 = Defined None"
| "find_symbol bs symtab test i (Suc n) =
     c_bind (symtab_at bs (symtab + SIZEOF_SYM * i)) (\<lambda>symb.
     c_bind (test symb) (\<lambda>found.
       if found then Defined (Some symb) else find_symbol bs symtab test (i + 1) n))"

text \<open>A division by a zero \<^verbatim>\<open>sh_entsize\<close> is undefined.\<close>

definition search_symbols ::
  "ElfFile \<Rightarrow> (Elf64_Sym \<Rightarrow> bool c_result) \<Rightarrow> Elf64_Sym option c_result" where
  "search_symbols elf test =
     c_bind (section_header elf (symtab_idx (sect_table elf))) (\<lambda>symtab_hdr.
       if sh_entsize symtab_hdr = 0 then UB
       else find_symbol (data elf) (unat (sh_offset symtab_hdr)) test 0
              (unat (sh_size symtab_hdr div sh_entsize symtab_hdr)))"

definition se_symbol_from_name :: "string \<Rightarrow> ElfFile \<Rightarrow> Elf64_Sym option c_result" where
  "se_symbol_from_name name elf =
     search_symbols elf (\<lambda>symb.
       c_bind (se_symbol_name symb elf) (\<lambda>p. str_eq_at (data elf) p name))"

definition se_symbol_from_addr :: "dbg_addr \<Rightarrow> ElfFile \<Rightarrow> Elf64_Sym option c_result" where
  "se_symbol_from_addr addr elf =
     search_symbols elf (\<lambda>symb.
       Defined (dbg_value (se_symbol_start_addr symb) \<le> dbg_value addr \<and>
                dbg_value (se_symbol_end_addr symb) \<ge> dbg_value addr))"

section \<open>Strings in the file\<close>

definition c_string :: "string \<Rightarrow> bool" where
  "c_string s \<longleftrightarrow> CHR 0x00 \<notin> set s"

lemma unat_of_char [simp]: "unat (of_char c :: u8) = of_char c"
proof -
  have "unat (of_nat n :: u8) = n" if "n < 256" for n
    using that by (simp add: unat_of_nat)
  from this [OF nat_of_char_less_256 [of c]] show ?thesis
    unfolding of_nat_of_char .
qed

lemma of_char_eq_char_iff: "b = of_char c \<longleftrightarrow> char_of (unat (b::u8)) = c"
proof
  assume c: "char_of (unat b) = c"
  have "of_char (char_of (unat b)) = unat b mod 256" by (rule of_char_of)
  also have "\<dots> = unat b" using unat_u8_less [of b] by simp
  finally have "unat b = unat (of_char c :: u8)" unfolding c by (simp only: unat_of_char)
  then show "b = of_char c" by (rule word_unat_eq_iff [THEN iffD2])
next
  assume "b = of_char c"
  then show "char_of (unat b) = c" by (simp only: unat_of_char char_of_char)
qed

text \<open>Comparing in place agrees with comparing the string that is read.\<close>

lemma str_eq_at_string_bounded:
  "string_at_bounded bs i n = Defined s \<Longrightarrow> c_string t \<Longrightarrow> str_eq_at bs i t = Defined (s = t)"
proof (induction n arbitrary: i s t)
  case (Suc n)
  from Suc.prems(1) obtain b where b: "byte_at bs i = Defined b"
    and s: "(if b = 0 then Defined []
       else c_bind (string_at_bounded bs (i + 1) n) (\<lambda>s. Defined (char_of (unat b) # s))) = Defined s"
    by (auto simp: c_bind_Defined_iff)
  show ?case
  proof (cases t)
    case Nil
    with b s show ?thesis by (auto simp: c_bind_Defined_iff split: if_splits)
  next
    case (Cons c cs)
    with Suc.prems(2) have c: "of_char c \<noteq> (0 :: u8)" and cs: "c_string cs"
      using of_char_eq_char_iff [of 0 c] by (auto simp: c_string_def char_of_def)
    show ?thesis
    proof (cases "b = 0")
      case True
      with b s c Cons show ?thesis by auto
    next
      case False
      with s obtain s' where s': "string_at_bounded bs (i + 1) n = Defined s'"
        "s = char_of (unat b) # s'" by (auto simp: c_bind_Defined_iff)
      with Suc.IH [OF s'(1) cs] b Cons show ?thesis
        by (auto simp: of_char_eq_char_iff)
    qed
  qed
qed simp

lemma str_eq_at_string:
  "string_at bs i = Defined s \<Longrightarrow> c_string t \<Longrightarrow> str_eq_at bs i t = Defined (s = t)"
  by (simp only: string_at_def str_eq_at_string_bounded)

section \<open>The sections that are found\<close>

definition symtab_header :: "bytes \<Rightarrow> nat \<Rightarrow> nat \<Rightarrow> nat \<Rightarrow> bool" where
  "symtab_header bs headers shstrtab i \<longleftrightarrow>
     (\<exists>hdr. shdr_at bs (headers + SIZEOF_SHDR * i) = Defined hdr \<and>
        is_valid_symtab bs hdr (shstrtab + unat (sh_name hdr)) = Defined True)"

definition strtab_header :: "bytes \<Rightarrow> nat \<Rightarrow> nat \<Rightarrow> nat \<Rightarrow> bool" where
  "strtab_header bs headers shstrtab i \<longleftrightarrow>
     (\<exists>hdr. shdr_at bs (headers + SIZEOF_SHDR * i) = Defined hdr \<and>
        is_valid_strtab bs hdr (shstrtab + unat (sh_name hdr)) = Defined True)"

lemma find_tables_loop_found:
  "find_tables_loop bs headers shstrtab i n s t = Defined (s', t') \<Longrightarrow>
   (s' = s \<or> i \<le> s' \<and> s' < i + n \<and> symtab_header bs headers shstrtab s') \<and>
   (t' = t \<or> i \<le> t' \<and> t' < i + n \<and> strtab_header bs headers shstrtab t')"
proof (induction n arbitrary: i s t)
  case (Suc n)
  from Suc.prems obtain hdr where hdr: "shdr_at bs (headers + SIZEOF_SHDR * i) = Defined hdr"
    by (auto simp: c_bind_Defined_iff)
  let ?name = "shstrtab + unat (sh_name hdr)"
  from Suc.prems hdr obtain is_sym where is_sym: "is_valid_symtab bs hdr ?name = Defined is_sym"
    by (auto simp: c_bind_Defined_iff Let_def)
  show ?case
  proof (cases "is_sym \<and> s = 0")
    case True
    with Suc.prems hdr is_sym
    have "find_tables_loop bs headers shstrtab (i + 1) n i t = Defined (s', t')" by simp
    from Suc.IH [OF this] True hdr is_sym show ?thesis
      by (auto simp: symtab_header_def)
  next
    case False
    with Suc.prems hdr is_sym obtain is_str where
      is_str: "is_valid_strtab bs hdr ?name = Defined is_str"
      by (auto simp: c_bind_Defined_iff Let_def)
    show ?thesis
    proof (cases "is_str \<and> t = 0")
      case True
      with False Suc.prems hdr is_sym is_str
      have "find_tables_loop bs headers shstrtab (i + 1) n s i = Defined (s', t')" by auto
      from Suc.IH [OF this] True hdr is_str show ?thesis
        by (auto simp: strtab_header_def)
    next
      case no: False
      with False Suc.prems hdr is_sym is_str
      have "find_tables_loop bs headers shstrtab (i + 1) n s t = Defined (s', t')" by auto
      from Suc.IH [OF this] show ?thesis by auto
    qed
  qed
qed simp

lemma find_table_sections_found:
  assumes "find_table_sections bs headers n shstrtab = Defined (Some (s, t))"
  shows "0 < s \<and> s < unat n \<and> symtab_header bs headers shstrtab s \<and>
         0 < t \<and> t < unat n \<and> strtab_header bs headers shstrtab t"
proof -
  from assms obtain s' t' where
    loop: "find_tables_loop bs headers shstrtab 0 (unat n) 0 0 = Defined (s', t')"
    and "(if s' \<noteq> 0 \<and> t' \<noteq> 0 then Defined (Some (s', t')) else Defined None) = Defined (Some (s, t))"
    unfolding find_table_sections_def c_bind_Defined_iff by (auto simp only: prod.case)
  then have st: "s' = s" "t' = t" "s \<noteq> 0" "t \<noteq> 0" by (simp_all split: if_splits)
  from find_tables_loop_found [OF loop] show ?thesis unfolding st using st(3,4) by linarith
qed

section \<open>What a parsed file guarantees\<close>

lemma valid_symtab_entsize:
  "is_valid_symtab bs hdr name = Defined True \<Longrightarrow> sh_entsize hdr = 24 \<and> sh_type hdr = 2"
proof -
  assume "is_valid_symtab bs hdr name = Defined True"
  then have "unat (sh_entsize hdr) = unat (24 :: u64)" "sh_type hdr = 2"
    unfolding is_valid_symtab_def c_bind_Defined_iff SIZEOF_SYM_def by auto
  then show ?thesis unfolding word_unat_eq_iff [of "sh_entsize hdr"] by blast
qed

text \<open>The header table and its index of the section names that the parser works with.\<close>

definition parsed_from :: "bytes \<Rightarrow> ElfHeaderInfo \<Rightarrow> nat \<Rightarrow> ElfFile \<Rightarrow> bool" where
  "parsed_from bs h shstrtab elf \<longleftrightarrow>
     data elf = bs \<and> elf_type elf = hdr_type h \<and>
     sect_headers (sect_table elf) = unat (sect_table_off h) \<and>
     n_sect_headers (sect_table elf) = n_sect_hdrs h \<and>
     symtab_idx (sect_table elf) \<noteq> 0 \<and> symtab_idx (sect_table elf) < n_sect_hdrs h \<and>
     strtab_idx (sect_table elf) \<noteq> 0 \<and> strtab_idx (sect_table elf) < n_sect_hdrs h \<and>
     symtab_header bs (unat (sect_table_off h)) shstrtab (unat (symtab_idx (sect_table elf))) \<and>
     strtab_header bs (unat (sect_table_off h)) shstrtab (unat (strtab_idx (sect_table elf)))"

lemma parse_init_section_offset:
  "parse_init_section bs off h0 = Defined h \<Longrightarrow> sect_table_off h = sect_table_off h0"
  by (auto simp: parse_init_section_def c_bind_Defined_iff split: if_splits)

lemma parse_tables_steps:
  assumes "parse_tables io bs h0 = Defined (Inr elf)"
  obtains h names s t where
    "parse_init_section bs (unat (sect_table_off h0)) h0 = Defined h"
    and "find_table_sections bs (unat (sect_table_off h0)) (n_sect_hdrs h) names = Defined (Some (s, t))"
    and "elf = elf_file_of bs h (unat (sect_table_off h0)) s t"
proof -
  from assms obtain h tables and shdr :: Elf64_Shdr where
    1: "parse_init_section bs (unat (sect_table_off h0)) h0 = Defined h"
    and 2: "find_table_sections bs (unat (sect_table_off h0)) (n_sect_hdrs h) (unat (sh_offset shdr))
        = Defined tables"
    and 3: "(case tables of
             None \<Rightarrow> Defined (Inl (unmap_with io ELF_PARSE_INVALID))
           | Some (s, t) \<Rightarrow> Defined (Inr (elf_file_of bs h (unat (sect_table_off h0)) s t)))
        = Defined (Inr elf)"
    unfolding parse_tables_def Let_def c_bind_Defined_iff by blast
  from 3 obtain s t where st: "tables = Some (s, t)"
      "elf = elf_file_of bs h (unat (sect_table_off h0)) s t"
    by (auto split: option.splits)
  from that [OF 1 2 [unfolded st(1)] st(2)] show thesis .
qed

lemma parse_elf_steps:
  assumes "se_parse_elf io path = Defined (Inr elf)"
  obtains bs ehdr h0 where
    "file_contents io path = Some bs" and "ehdr_at bs 0 = Defined ehdr"
    and "parse_elf_header ehdr = Inr h0" and "parse_tables io bs h0 = Defined (Inr elf)"
proof -
  from assms obtain bs where bs: "file_contents io path = Some bs"
    and 1: "c_bind (ehdr_at bs 0) (\<lambda>elf_header.
              case parse_elf_header elf_header of
                Inl res \<Rightarrow> Defined (Inl (unmap_with io res))
              | Inr h0 \<Rightarrow> parse_tables io bs h0) = Defined (Inr elf)"
    unfolding se_parse_elf_def by (cases "file_contents io path") (simp_all split: if_splits)
  from 1 obtain ehdr where ehdr: "ehdr_at bs 0 = Defined ehdr"
    and 2: "(case parse_elf_header ehdr of
                Inl res \<Rightarrow> Defined (Inl (unmap_with io res))
              | Inr h0 \<Rightarrow> parse_tables io bs h0) = Defined (Inr elf)"
    unfolding c_bind_Defined_iff by blast
  from 2 obtain h0 where "parse_elf_header ehdr = Inr h0" "parse_tables io bs h0 = Defined (Inr elf)"
    by (cases "parse_elf_header ehdr") simp_all
  with bs ehdr that show thesis by blast
qed

lemma elf_file_of_parsed:
  assumes tables: "find_table_sections bs headers (n_sect_hdrs h) names = Defined (Some (s, t))"
    and headers: "headers = unat (sect_table_off h)"
  shows "parsed_from bs h names (elf_file_of bs h headers s t)"
proof -
  have idx: "unat (of_nat n :: u32) = n" if "n < unat (n_sect_hdrs h)" for n
  proof -
    have "n < 2 ^ 32" using that unsigned_less [of "n_sect_hdrs h", where ?'a = nat] by simp
    then show ?thesis by (simp add: unat_of_nat)
  qed
  note found = find_table_sections_found [OF tables]
  from found idx have s: "unat (of_nat s :: u32) = s" and t: "unat (of_nat t :: u32) = t"
    by blast+
  with found show ?thesis
    by (simp add: parsed_from_def elf_file_of_def headers word_less_nat_alt
        word_unat_eq_iff [of _ "0 :: u32"])
qed

lemma parse_elf_ok:
  assumes "se_parse_elf io path = Defined (Inr elf)"
  shows "\<exists>bs ehdr h0 h names. file_contents io path = Some bs \<and>
    ehdr_at bs 0 = Defined ehdr \<and> parse_elf_header ehdr = Inr h0 \<and>
    parse_init_section bs (unat (sect_table_off h0)) h0 = Defined h \<and>
    parsed_from bs h names elf"
proof -
  from assms obtain bs ehdr h0 where bytes: "file_contents io path = Some bs"
      "ehdr_at bs 0 = Defined ehdr" "parse_elf_header ehdr = Inr h0"
    and "parse_tables io bs h0 = Defined (Inr elf)" by (rule parse_elf_steps)
  from this(4) obtain h names s t where
    init: "parse_init_section bs (unat (sect_table_off h0)) h0 = Defined h"
    and tables: "find_table_sections bs (unat (sect_table_off h0)) (n_sect_hdrs h) names
      = Defined (Some (s, t))"
    and elf: "elf = elf_file_of bs h (unat (sect_table_off h0)) s t" by (rule parse_tables_steps)
  have "parsed_from bs h names elf"
    unfolding elf by (rule elf_file_of_parsed [OF tables])
      (simp add: parse_init_section_offset [OF init])
  with bytes init show ?thesis by blast
qed

lemma parsed_symtab_header:
  "parsed_from bs h names elf \<Longrightarrow>
   \<exists>hdr. section_header elf (symtab_idx (sect_table elf)) = Defined hdr \<and>
         sh_entsize hdr = 24 \<and> sh_type hdr = 2"
  unfolding parsed_from_def symtab_header_def section_header_def
  using valid_symtab_entsize by metis

section \<open>The symbol table as a list\<close>

text \<open>All symbols of the table and their names can be read.\<close>

definition symbols_ok :: "ElfFile \<Rightarrow> (Elf64_Sym \<times> string) list \<Rightarrow> bool" where
  "symbols_ok elf syms \<longleftrightarrow>
     (\<exists>hdr. section_header elf (symtab_idx (sect_table elf)) = Defined hdr \<and> sh_entsize hdr \<noteq> 0 \<and>
        unat (sh_size hdr div sh_entsize hdr) = length syms \<and>
        (\<forall>i < length syms.
           symtab_at (data elf) (unat (sh_offset hdr) + SIZEOF_SYM * i) = Defined (fst (syms ! i)) \<and>
           symbol_name (fst (syms ! i)) elf = Defined (snd (syms ! i))))"

definition covers :: "dbg_addr \<Rightarrow> Elf64_Sym \<Rightarrow> bool" where
  "covers a s \<longleftrightarrow> dbg_value (se_symbol_start_addr s) \<le> dbg_value a \<and>
                  dbg_value a \<le> dbg_value (se_symbol_end_addr s)"

lemma find_symbol_list:
  assumes "\<And>k. k < length syms \<Longrightarrow> symtab_at bs (off + SIZEOF_SYM * (i + k)) = Defined (fst (syms ! k))"
    and "\<And>s. s \<in> set syms \<Longrightarrow> test (fst s) = Defined (P s)"
  shows "find_symbol bs off test i (length syms) = Defined (map_option fst (find P syms))"
  using assms
proof (induction syms arbitrary: i)
  case (Cons s syms)
  from Cons.prems(1) [of 0] have "symtab_at bs (off + SIZEOF_SYM * i) = Defined (fst s)" by simp
  moreover have "find_symbol bs off test (i + 1) (length syms) = Defined (map_option fst (find P syms))"
  proof (rule Cons.IH)
    fix k assume "k < length syms"
    with Cons.prems(1) [of "Suc k"] show "symtab_at bs (off + SIZEOF_SYM * (i + 1 + k)) = Defined (fst (syms ! k))"
      by simp
  qed (use Cons.prems(2) in simp)
  ultimately show ?case using Cons.prems(2) by simp
qed simp

lemma search_symbols_list:
  assumes "symbols_ok elf syms" and "\<And>s. s \<in> set syms \<Longrightarrow> test (fst s) = Defined (P s)"
  shows "search_symbols elf test = Defined (map_option fst (find P syms))"
proof -
  from assms(1) obtain hdr where hdr: "section_header elf (symtab_idx (sect_table elf)) = Defined hdr"
    "sh_entsize hdr \<noteq> 0" "unat (sh_size hdr div sh_entsize hdr) = length syms"
    and syms: "\<And>i. i < length syms \<Longrightarrow>
      symtab_at (data elf) (unat (sh_offset hdr) + SIZEOF_SYM * i) = Defined (fst (syms ! i))"
    unfolding symbols_ok_def by blast
  have "find_symbol (data elf) (unat (sh_offset hdr)) test 0 (length syms)
      = Defined (map_option fst (find P syms))"
    by (rule find_symbol_list) (simp_all add: syms assms(2))
  with hdr show ?thesis by (simp add: search_symbols_def)
qed

lemma symbol_from_addr_list:
  assumes "symbols_ok elf syms"
  shows "se_symbol_from_addr a elf = Defined (map_option fst (find (\<lambda>s. covers a (fst s)) syms))"
  unfolding se_symbol_from_addr_def
  by (rule search_symbols_list [OF assms]) (simp add: covers_def)

lemma symbol_from_name_list:
  assumes ok: "symbols_ok elf syms" and name: "c_string name"
  shows "se_symbol_from_name name elf = Defined (map_option fst (find (\<lambda>s. snd s = name) syms))"
  unfolding se_symbol_from_name_def
proof (rule search_symbols_list [OF ok])
  fix s assume "s \<in> set syms"
  with ok have "symbol_name (fst s) elf = Defined (snd s)"
    unfolding symbols_ok_def by (metis in_set_conv_nth)
  then obtain p where "se_symbol_name (fst s) elf = Defined p" "string_at (data elf) p = Defined (snd s)"
    unfolding symbol_name_def c_bind_Defined_iff by blast
  with str_eq_at_string [OF this(2) name]
  show "c_bind (se_symbol_name (fst s) elf) (\<lambda>p. str_eq_at (data elf) p name) = Defined (snd s = name)"
    by simp
qed

section \<open>The interface of the symbol table\<close>

text \<open>
  What the rest of the program relies on: both lookups return the first entry of one table,
  by name or by an address between its bounds.
\<close>

locale symbol_table =
  fixes ok :: "'e \<Rightarrow> ('s \<times> string) list \<Rightarrow> bool"
    and from_name :: "string \<Rightarrow> 'e \<Rightarrow> 's option c_result"
    and from_addr :: "dbg_addr \<Rightarrow> 'e \<Rightarrow> 's option c_result"
    and name_of :: "'s \<Rightarrow> 'e \<Rightarrow> string c_result"
    and contains :: "dbg_addr \<Rightarrow> 's \<Rightarrow> bool"
  assumes from_name_law: "ok e syms \<Longrightarrow> c_string name \<Longrightarrow>
      from_name name e = Defined (map_option fst (find (\<lambda>s. snd s = name) syms))"
    and from_addr_law: "ok e syms \<Longrightarrow>
      from_addr a e = Defined (map_option fst (find (\<lambda>s. contains a (fst s)) syms))"
    and name_law: "ok e syms \<Longrightarrow> s \<in> set syms \<Longrightarrow> name_of (fst s) e = Defined (snd s)"
begin

lemma from_nameD:
  assumes "ok e syms" "c_string name" "from_name name e = Defined (Some s)"
  shows "name_of s e = Defined name \<and> (s, name) \<in> set syms"
  using assms from_name_law [OF assms(1,2)] name_law [OF assms(1)]
  by (auto dest!: find_Some_set)

lemma from_addrD:
  assumes "ok e syms" "from_addr a e = Defined (Some s)"
  shows "contains a s \<and> (\<exists>n. name_of s e = Defined n \<and> (s, n) \<in> set syms)"
  using assms from_addr_law [OF assms(1)] name_law [OF assms(1)]
  by (auto dest!: find_Some_set)

lemma from_addr_total:
  assumes "ok e syms" "s \<in> set syms" "contains a (fst s)"
  shows "\<exists>s'. from_addr a e = Defined (Some s')"
  using assms from_addr_law [OF assms(1)]
  by (metis (mono_tags, lifting) find_None_iff not_None_eq option.map(2))

lemma from_name_total:
  assumes "ok e syms" "(s, name) \<in> set syms" "c_string name"
  shows "\<exists>s'. from_name name e = Defined (Some s') \<and> name_of s' e = Defined name"
proof -
  from assms have "find (\<lambda>s. snd s = name) syms \<noteq> None"
    by (auto simp: find_None_iff)
  then obtain s' where "from_name name e = Defined (Some s')"
    using from_name_law [OF assms(1,3)] by auto
  with from_nameD [OF assms(1,3)] show ?thesis by blast
qed

lemma lookup_defined:
  "ok e syms \<Longrightarrow> from_addr a e \<noteq> UB"
  "ok e syms \<Longrightarrow> c_string name \<Longrightarrow> from_name name e \<noteq> UB"
  by (simp_all add: from_addr_law from_name_law)

end

interpretation elf: symbol_table symbols_ok se_symbol_from_name se_symbol_from_addr symbol_name covers
proof unfold_locales
  show "se_symbol_from_name name elf = Defined (map_option fst (find (\<lambda>s. snd s = name) syms))"
    if "symbols_ok elf syms" "c_string name" for elf syms name
    using that by (rule symbol_from_name_list)
  show "se_symbol_from_addr a elf = Defined (map_option fst (find (\<lambda>s. covers a (fst s)) syms))"
    if "symbols_ok elf syms" for elf syms a
    using that by (rule symbol_from_addr_list)
  show "symbol_name (fst s) elf = Defined (snd s)"
    if "symbols_ok elf syms" "s \<in> set syms" for elf syms s
    using that unfolding symbols_ok_def by (metis in_set_conv_nth)
qed

end
