(* ===== verification/Ptrace.thy ===== *)
theory Ptrace
  imports Magic
begin

text \<open>
  \<^verbatim>\<open>src/src/ptrace.c\<close>: the wrappers around \<^verbatim>\<open>ptrace(2)\<close>. The kernel is not part of the
  repository: it is the parameter \<open>'s kernel\<close>, a record of the system calls the program
  makes over an arbitrary state \<open>'s\<close> of the traced process. The documented behaviour
  that the properties rest on is stated by the predicates \<open>kernel_mem\<close> and
  \<open>kernel_regs\<close> of this theory, relative to a view of the process memory as bytes and of
  its registers as the array \<^verbatim>\<open>struct user_regs_struct\<close>.
\<close>

section \<open>The kernel interface\<close>

type_synonym errno = nat

record siginfo =
  si_signo :: int
  si_code :: int

text \<open>
  \<^item> \<open>k_peekdata\<close> gives the value of the call and \<^verbatim>\<open>errno\<close> after it;
  \<^item> \<open>k_pokedata\<close>, \<open>k_setregs\<close>, \<open>k_singlestep\<close>, \<open>k_traceme\<close> give the returned value and the
    process after the call, \<open>k_cont\<close> also \<^verbatim>\<open>errno\<close>;
  \<^item> \<open>k_getregs\<close>, \<open>k_getsiginfo\<close> give the returned value and the structure that was
    filled in;
  \<^item> \<open>k_waitpid\<close> gives the content of the variable \<^verbatim>\<open>wait_status\<close> after \<^verbatim>\<open>waitpid\<close>:
    the program ignores the value of the call, so after a failed call this is whatever
    the uninitialised variable held.
\<close>

record 's kernel =
  k_peekdata :: "pid_t \<Rightarrow> u64 \<Rightarrow> 's \<Rightarrow> u64 \<times> errno"
  k_pokedata :: "pid_t \<Rightarrow> u64 \<Rightarrow> u64 \<Rightarrow> 's \<Rightarrow> int \<times> 's"
  k_getregs :: "pid_t \<Rightarrow> 's \<Rightarrow> int \<times> u64 list"
  k_setregs :: "pid_t \<Rightarrow> u64 list \<Rightarrow> 's \<Rightarrow> int \<times> 's"
  k_cont :: "pid_t \<Rightarrow> 's \<Rightarrow> int \<times> errno \<times> 's"
  k_singlestep :: "pid_t \<Rightarrow> 's \<Rightarrow> int \<times> 's"
  k_getsiginfo :: "pid_t \<Rightarrow> 's \<Rightarrow> int \<times> siginfo"
  k_traceme :: "'s \<Rightarrow> int \<times> 's"
  k_waitpid :: "pid_t \<Rightarrow> 's \<Rightarrow> u32 \<times> 's"

definition PTRACE_ERROR :: int where [magic_numbers]: "PTRACE_ERROR = -1"

section \<open>The wrappers\<close>

definition pt_read_memory :: "'s kernel \<Rightarrow> pid_t \<Rightarrow> real_addr \<Rightarrow> 's \<Rightarrow> u64 option" where
  "pt_read_memory K pid addr s =
     (let (val, errno) = k_peekdata K pid (real_value addr) s
      in if errno = 0 then Some val else None)"

definition pt_write_memory ::
  "'s kernel \<Rightarrow> pid_t \<Rightarrow> real_addr \<Rightarrow> u64 \<Rightarrow> 's \<Rightarrow> SprayResult \<times> 's" where
  "pt_write_memory K pid addr wr s =
     (let (ret, s') = k_pokedata K pid (real_value addr) wr s
      in if ret = PTRACE_ERROR then (SP_ERR, s') else (SP_OK, s'))"

definition pt_read_registers :: "'s kernel \<Rightarrow> pid_t \<Rightarrow> 's \<Rightarrow> u64 list option" where
  "pt_read_registers K pid s =
     (let (ret, regs) = k_getregs K pid s
      in if ret = PTRACE_ERROR then None else Some regs)"

definition pt_write_registers ::
  "'s kernel \<Rightarrow> pid_t \<Rightarrow> u64 list \<Rightarrow> 's \<Rightarrow> SprayResult \<times> 's" where
  "pt_write_registers K pid regs s =
     (let (ret, s') = k_setregs K pid regs s
      in if ret = PTRACE_ERROR then (SP_ERR, s') else (SP_OK, s'))"

definition pt_continue_execution ::
  "'s kernel \<Rightarrow> pid_t \<Rightarrow> 's \<Rightarrow> SprayResult \<times> errno \<times> 's" where
  "pt_continue_execution K pid s =
     (let (ret, errno, s') = k_cont K pid s
      in if ret = PTRACE_ERROR then (SP_ERR, errno, s') else (SP_OK, errno, s'))"

definition pt_trace_me :: "'s kernel \<Rightarrow> 's \<Rightarrow> SprayResult \<times> 's" where
  "pt_trace_me K s =
     (let (ret, s') = k_traceme K s
      in if ret = PTRACE_ERROR then (SP_ERR, s') else (SP_OK, s'))"

definition pt_single_step :: "'s kernel \<Rightarrow> pid_t \<Rightarrow> 's \<Rightarrow> SprayResult \<times> 's" where
  "pt_single_step K pid s =
     (let (ret, s') = k_singlestep K pid s
      in if ret = PTRACE_ERROR then (SP_ERR, s') else (SP_OK, s'))"

text \<open>The caller passes a zeroed \<^verbatim>\<open>siginfo_t\<close>; a failed call leaves it zero.\<close>

definition pt_get_signal_info :: "'s kernel \<Rightarrow> pid_t \<Rightarrow> 's \<Rightarrow> siginfo option" where
  "pt_get_signal_info K pid s =
     (let (ret, info) = k_getsiginfo K pid s
      in if ret = PTRACE_ERROR then None else Some info)"

section \<open>Memory as bytes\<close>

text \<open>Byte \<open>i\<close> of a little-endian word, and a memory with a word stored at an address.\<close>

definition byte_of :: "u64 \<Rightarrow> nat \<Rightarrow> u8" where
  "byte_of w i = ucast (drop_bit (8 * i) w)"

definition put_word :: "(u64 \<Rightarrow> u8) \<Rightarrow> u64 \<Rightarrow> u64 \<Rightarrow> u64 \<Rightarrow> u8" where
  "put_word m a w = (\<lambda>b. let i = unat (b - a) in if i < 8 then byte_of w i else m b)"

text \<open>
  The documented behaviour of \<^verbatim>\<open>PTRACE_PEEKDATA\<close> and \<^verbatim>\<open>PTRACE_POKEDATA\<close>: a peek that
  does not set \<^verbatim>\<open>errno\<close> gives the eight bytes at the address, a poke that succeeds stores
  eight bytes and one that fails stores none.
\<close>

definition kernel_mem :: "'s kernel \<Rightarrow> pid_t \<Rightarrow> ('s \<Rightarrow> u64 \<Rightarrow> u8) \<Rightarrow> bool" where
  "kernel_mem K pid mem \<longleftrightarrow>
     (\<forall>s a w. k_peekdata K pid a s = (w, 0) \<longrightarrow>
        (\<forall>i<8. byte_of w i = mem s (a + of_nat i))) \<and>
     (\<forall>s a w r s'. k_pokedata K pid a w s = (r, s') \<longrightarrow>
        mem s' = (if r = PTRACE_ERROR then mem s else put_word (mem s) a w))"

text \<open>
  \<^verbatim>\<open>PTRACE_GETREGS\<close> and \<^verbatim>\<open>PTRACE_SETREGS\<close>: the registers are an array of
  \<open>N_REGISTERS\<close> words; a successful write is what a later read gives.
\<close>

definition kernel_regs :: "'s kernel \<Rightarrow> pid_t \<Rightarrow> ('s \<Rightarrow> u64 list) \<Rightarrow> bool" where
  "kernel_regs K pid regs \<longleftrightarrow>
     (\<forall>s r xs. k_getregs K pid s = (r, xs) \<longrightarrow> r \<noteq> PTRACE_ERROR \<longrightarrow> xs = regs s) \<and>
     (\<forall>s. length (regs s) = N_REGISTERS) \<and>
     (\<forall>s xs r s'. k_setregs K pid xs s = (r, s') \<longrightarrow>
        regs s' = (if r = PTRACE_ERROR then regs s else xs))"

lemma kernel_mem_read:
  "kernel_mem K pid mem \<Longrightarrow> pt_read_memory K pid a s = Some w \<Longrightarrow> i < 8 \<Longrightarrow>
   byte_of w i = mem s (real_value a + of_nat i)"
  by (auto simp: kernel_mem_def pt_read_memory_def split: prod.splits if_splits)

lemma kernel_mem_write_ok:
  "kernel_mem K pid mem \<Longrightarrow> pt_write_memory K pid a w s = (SP_OK, s') \<Longrightarrow>
   mem s' = put_word (mem s) (real_value a) w"
  unfolding kernel_mem_def pt_write_memory_def by (fastforce split: prod.splits if_splits)

lemma kernel_mem_write_err:
  "kernel_mem K pid mem \<Longrightarrow> pt_write_memory K pid a w s = (SP_ERR, s') \<Longrightarrow> mem s' = mem s"
  unfolding kernel_mem_def pt_write_memory_def by (fastforce split: prod.splits if_splits)

lemma kernel_regs_read:
  "kernel_regs K pid regs \<Longrightarrow> pt_read_registers K pid s = Some xs \<Longrightarrow>
   xs = regs s \<and> length xs = N_REGISTERS"
  by (auto simp: kernel_regs_def pt_read_registers_def split: prod.splits if_splits)

lemma kernel_regs_write_ok:
  "kernel_regs K pid regs \<Longrightarrow> pt_write_registers K pid xs s = (SP_OK, s') \<Longrightarrow> regs s' = xs"
  unfolding kernel_regs_def pt_write_registers_def by (fastforce split: prod.splits if_splits)

lemma kernel_regs_write_err:
  "kernel_regs K pid regs \<Longrightarrow> pt_write_registers K pid xs s = (SP_ERR, s') \<Longrightarrow>
   regs s' = regs s"
  unfolding kernel_regs_def pt_write_registers_def by (fastforce split: prod.splits if_splits)

section \<open>Replacing the lowest byte of a word\<close>

text \<open>The read-modify-write of a breakpoint touches one byte of the eight.\<close>

definition replace_low_byte :: "u64 \<Rightarrow> u8 \<Rightarrow> u64" where
  "replace_low_byte w b = ((w AND NOT BTM_BYTE_MASK) OR ucast b)"

lemma bit_mask_255: "bit (0xff :: u64) n \<longleftrightarrow> n < 8"
proof -
  have "(0xff :: u64) = mask 8" by (simp add: mask_eq_exp_minus_1)
  then show ?thesis by (simp only: bit_mask_iff) auto
qed

lemma bit_replace_low_byte:
  "n < 64 \<Longrightarrow> bit (replace_low_byte w b) n = (if n < 8 then bit b n else bit w n)"
  unfolding replace_low_byte_def BTM_BYTE_MASK_def bit_or_iff bit_and_iff bit_not_iff
    bit_mask_255 bit_ucast_iff
  by (auto dest: bit_imp_le_length)

lemma byte_of_replace_low_byte:
  assumes "i < 8"
  shows "byte_of (replace_low_byte w b) i = (if i = 0 then b else byte_of w i)"
proof (rule bit_word_eqI)
  fix n assume "n < LENGTH(8)"
  with assms have "8 * i + n < 64" "n < 8" by simp_all
  then show "bit (byte_of (replace_low_byte w b) i) n = bit (if i = 0 then b else byte_of w i) n"
    by (cases i) (simp_all add: byte_of_def bit_ucast_iff bit_drop_bit_eq bit_replace_low_byte)
qed

text \<open>Storing back a word that was read, with its lowest byte replaced, is a one-byte store.\<close>

lemma put_replaced_word:
  assumes "\<forall>i<8. byte_of w i = m (a + of_nat i)"
  shows "put_word m a (replace_low_byte w b) = m(a := b)"
proof
  fix c
  show "put_word m a (replace_low_byte w b) c = (m(a := b)) c"
  proof (cases "unat (c - a) < 8")
    case True
    then have "c = a + of_nat (unat (c - a))" by simp
    with True assms have "byte_of w (unat (c - a)) = m c" by metis
    moreover have "unat (c - a) = 0 \<longleftrightarrow> c = a" by (simp add: unat_eq_0)
    ultimately show ?thesis using True
      by (auto simp: put_word_def Let_def byte_of_replace_low_byte)
  next
    case False
    then have "c \<noteq> a" by auto
    with False show ?thesis by (simp add: put_word_def Let_def)
  qed
qed

end
