(* ===== verification/Registers.thy ===== *)
theory Registers
  imports Ptrace
begin

text \<open>
  \<^verbatim>\<open>src/src/registers.c\<close> and \<^verbatim>\<open>src/src/registers.h\<close>: the x86 registers, the table that gives
  each its DWARF number and its name, and the access to the registers of the traced
  process through the array that \<^verbatim>\<open>struct user_regs_struct\<close> is read as.
\<close>

section \<open>The register table\<close>

datatype x86_reg =
    R15 | R14 | R13 | R12 | RBP | RBX | R11 | R10 | R9 | R8
  | RAX | RCX | RDX | RSI | RDI | ORIG_RAX | RIP | CS | EFLAGS | RSP
  | SS | FS_BASE | GS_BASE | DS | ES | FS | GS

text \<open>The numbers of the enumeration, which index the array of registers.\<close>

fun reg_index :: "x86_reg \<Rightarrow> nat" where
  "reg_index R15 = 0"
| "reg_index R14 = 1"
| "reg_index R13 = 2"
| "reg_index R12 = 3"
| "reg_index RBP = 4"
| "reg_index RBX = 5"
| "reg_index R11 = 6"
| "reg_index R10 = 7"
| "reg_index R9 = 8"
| "reg_index R8 = 9"
| "reg_index RAX = 10"
| "reg_index RCX = 11"
| "reg_index RDX = 12"
| "reg_index RSI = 13"
| "reg_index RDI = 14"
| "reg_index ORIG_RAX = 15"
| "reg_index RIP = 16"
| "reg_index CS = 17"
| "reg_index EFLAGS = 18"
| "reg_index RSP = 19"
| "reg_index SS = 20"
| "reg_index FS_BASE = 21"
| "reg_index GS_BASE = 22"
| "reg_index DS = 23"
| "reg_index ES = 24"
| "reg_index FS = 25"
| "reg_index GS = 26"

record reg_descriptor =
  desc_r :: x86_reg
  desc_dwarf_r :: int
  desc_name :: string

definition mk_desc :: "x86_reg \<Rightarrow> int \<Rightarrow> string \<Rightarrow> reg_descriptor" where
  "mk_desc r d n = \<lparr>desc_r = r, desc_dwarf_r = d, desc_name = n\<rparr>"

definition reg_descriptors :: "reg_descriptor list" where
  "reg_descriptors =
    [mk_desc R15 15 ''r15'',
     mk_desc R14 14 ''r14'',
     mk_desc R13 13 ''r13'',
     mk_desc R12 12 ''r12'',
     mk_desc RBP 6 ''rbp'',
     mk_desc RBX 3 ''rbx'',
     mk_desc R11 11 ''r11'',
     mk_desc R10 10 ''r10'',
     mk_desc R9 9 ''r9'',
     mk_desc R8 8 ''r8'',
     mk_desc RAX 0 ''rax'',
     mk_desc RCX 2 ''rcx'',
     mk_desc RDX 1 ''rdx'',
     mk_desc RSI 4 ''rsi'',
     mk_desc RDI 5 ''rdi'',
     mk_desc ORIG_RAX (-1) ''orig_rax'',
     mk_desc RIP (-1) ''rip'',
     mk_desc CS 51 ''cs'',
     mk_desc EFLAGS 49 ''eflags'',
     mk_desc RSP 7 ''rsp'',
     mk_desc SS 52 ''ss'',
     mk_desc FS_BASE 58 ''fs_base'',
     mk_desc GS_BASE 59 ''gs_base'',
     mk_desc DS 53 ''ds'',
     mk_desc ES 50 ''es'',
     mk_desc FS 54 ''fs'',
     mk_desc GS 55 ''gs'']"

section \<open>Operations\<close>

definition get_register_value :: "'s kernel \<Rightarrow> pid_t \<Rightarrow> x86_reg \<Rightarrow> 's \<Rightarrow> u64 option" where
  "get_register_value K pid reg s =
     (case pt_read_registers K pid s of
        None \<Rightarrow> None
      | Some regs \<Rightarrow> Some (regs ! reg_index reg))"

definition set_register_value ::
  "'s kernel \<Rightarrow> pid_t \<Rightarrow> x86_reg \<Rightarrow> u64 \<Rightarrow> 's \<Rightarrow> SprayResult \<times> 's" where
  "set_register_value K pid reg wr s =
     (case pt_read_registers K pid s of
        None \<Rightarrow> (SP_ERR, s)
      | Some regs \<Rightarrow> pt_write_registers K pid (regs[reg_index reg := wr]) s)"

definition dwarf_regnum_to_x86_reg :: "u8 \<Rightarrow> x86_reg option" where
  "dwarf_regnum_to_x86_reg dwarf_regnum =
     (case find (\<lambda>d. desc_dwarf_r d = uint dwarf_regnum) reg_descriptors of
        None \<Rightarrow> None
      | Some d \<Rightarrow> Some (desc_r d))"

text \<open>The \<^verbatim>\<open>int8_t\<close> argument is converted to \<^verbatim>\<open>uint8_t\<close> in the call, which keeps its bits.\<close>

definition get_dwarf_register_value :: "'s kernel \<Rightarrow> pid_t \<Rightarrow> u8 \<Rightarrow> 's \<Rightarrow> u64 option" where
  "get_dwarf_register_value K pid dwarf_regnum s =
     (case dwarf_regnum_to_x86_reg dwarf_regnum of
        None \<Rightarrow> None
      | Some associated_reg \<Rightarrow> get_register_value K pid associated_reg s)"

text \<open>\<open>None\<close> is the failure of the assertion that the register is in the table.\<close>

definition get_name_from_register :: "x86_reg \<Rightarrow> string option" where
  "get_name_from_register reg =
     (case find (\<lambda>d. desc_r d = reg) reg_descriptors of
        None \<Rightarrow> None
      | Some d \<Rightarrow> Some (desc_name d))"

definition get_register_from_name :: "string \<Rightarrow> x86_reg option" where
  "get_register_from_name name =
     (case find (\<lambda>d. str_eq (desc_name d) name) reg_descriptors of
        None \<Rightarrow> None
      | Some d \<Rightarrow> Some (desc_r d))"

section \<open>Facts\<close>

lemma reg_index_less: "reg_index r < N_REGISTERS"
  by (cases r) (simp_all add: N_REGISTERS_def)

lemma reg_index_inj: "reg_index r = reg_index q \<longleftrightarrow> r = q"
  by (cases r; cases q; simp)

lemma length_reg_descriptors: "length reg_descriptors = N_REGISTERS"
  by (simp add: reg_descriptors_def N_REGISTERS_def)

text \<open>The table is laid out as the enumeration: entry \<open>i\<close> describes register \<open>i\<close>.\<close>

lemma reg_descriptors_index: "desc_r (reg_descriptors ! reg_index r) = r"
  by (cases r) (simp_all add: reg_descriptors_def mk_desc_def)

lemma get_name_from_register_defined: "\<exists>n. get_name_from_register r = Some n"
  by (cases r) (simp_all add: get_name_from_register_def reg_descriptors_def mk_desc_def)

lemma get_register_after_set:
  assumes "kernel_regs K pid regs" "set_register_value K pid r v s = (SP_OK, s')"
    and "get_register_value K pid q s' = Some x"
  shows "x = (if q = r then v else regs s ! reg_index q)"
proof -
  from assms(2) obtain xs where xs: "pt_read_registers K pid s = Some xs"
    and wr: "pt_write_registers K pid (xs[reg_index r := v]) s = (SP_OK, s')"
    by (auto simp: set_register_value_def split: option.splits)
  from kernel_regs_read [OF assms(1) xs] have "xs = regs s" "length xs = N_REGISTERS" by auto
  moreover from kernel_regs_write_ok [OF assms(1) wr] have "regs s' = xs[reg_index r := v]" .
  moreover from assms(1,3) have "x = regs s' ! reg_index q"
    by (auto simp: get_register_value_def dest: kernel_regs_read split: option.splits)
  ultimately show ?thesis by (simp add: nth_list_update reg_index_less reg_index_inj)
qed

lemma dwarf_regnum_descriptor:
  assumes "dwarf_regnum_to_x86_reg n = Some r"
  shows "desc_dwarf_r (reg_descriptors ! reg_index r) = uint n"
proof -
  from assms obtain d where d: "d \<in> set reg_descriptors" "desc_dwarf_r d = uint n" "desc_r d = r"
    by (auto simp: dwarf_regnum_to_x86_reg_def dest: find_Some_set split: option.splits)
  have "\<forall>d \<in> set reg_descriptors. reg_descriptors ! reg_index (desc_r d) = d"
    by (simp add: reg_descriptors_def mk_desc_def)
  with d show ?thesis by auto
qed

end
