(* ===== verification/Dwarf_Loc.thy ===== *)
theory Dwarf_Loc
  imports Dwarf_Die Dwarf_Ops Elf Registers
begin

text \<open>
  Locations of runtime variables in \<^verbatim>\<open>src/src/spray_dwarf.c\<close>: location lists are read through
  libdwarf, the entry that is active at the program counter is chosen, and its expression is
  evaluated on a stack. \<^verbatim>\<open>DW_OP_fbreg\<close> needs the frame base of the current subprogram, which
  is a location list itself.
\<close>

section \<open>Expressions and ranges\<close>

record SdOperation =
  opcode :: u8
  operand1 :: u64
  operand2 :: u64
  operand3 :: u64

text \<open>An \<^verbatim>\<open>SdExpression\<close> is the list of its operations.\<close>

type_synonym SdExpression = "SdOperation list"

text \<open>The loop over the operations \<open>i, ..., i + n - 1\<close>.\<close>

primrec sd_init_loc_expression ::
  "('d, 'w) libdwarf \<Rightarrow> 'd \<Rightarrow> nat \<Rightarrow> nat \<Rightarrow> SdExpression dwres" where
  "sd_init_loc_expression L locdesc_entry i 0 = DW_OK []"
| "sd_init_loc_expression L locdesc_entry i (Suc n) =
     bind_dwres (lw_location_op L locdesc_entry i) (\<lambda>(op, o1, o2, o3).
     bind_dwres (sd_init_loc_expression L locdesc_entry (i + 1) n) (\<lambda>ops.
       DW_OK (\<lparr>opcode = op, operand1 = o1, operand2 = o2, operand3 = o3\<rparr> # ops)))"

record SdLocRange =
  meaningful :: bool
  lr_lowpc :: dbg_addr
  lr_highpc :: dbg_addr

definition sd_init_loc_range :: "int \<Rightarrow> u64 \<Rightarrow> u64 \<Rightarrow> SdLocRange" where
  "sd_init_loc_range debug_addr_missing lowpc highpc =
     (if dwarf_bool_to_bool debug_addr_missing \<or> (lowpc = 0 \<and> highpc = 0)
      then \<lparr>meaningful = False, lr_lowpc = DbgAddr 0, lr_highpc = DbgAddr 0\<rparr>
      else \<lparr>meaningful = True, lr_lowpc = DbgAddr lowpc, lr_highpc = DbgAddr highpc\<rparr>)"

definition is_active_range :: "SdLocRange \<Rightarrow> dbg_addr \<Rightarrow> bool" where
  "is_active_range rng pc =
     (if \<not> meaningful rng then False
      else dbg_value (lr_lowpc rng) \<le> dbg_value pc \<and> dbg_value pc < dbg_value (lr_highpc rng))"

text \<open>A location list: the arrays \<^verbatim>\<open>exprs\<close> and \<^verbatim>\<open>ranges\<close> of the same length.\<close>

type_synonym SdLoclist = "(SdExpression \<times> SdLocRange) list"

primrec init_loclist_loop ::
  "('d, 'w) libdwarf \<Rightarrow> 'd \<Rightarrow> nat \<Rightarrow> nat \<Rightarrow> SdLoclist option" where
  "init_loclist_loop L head i 0 = Some []"
| "init_loclist_loop L head i (Suc n) =
     (case lw_locdesc_entry L head i of
        DW_OK (debug_addr_missing, low_pc, high_pc, locexpr_op_count, locdesc_entry) \<Rightarrow>
          (case sd_init_loc_expression L locdesc_entry 0 locexpr_op_count of
             DW_OK expr \<Rightarrow>
               map_option ((#) (expr, sd_init_loc_range debug_addr_missing low_pc high_pc))
                 (init_loclist_loop L head (i + 1) n)
           | DW_NO_ENTRY \<Rightarrow> None
           | DW_ERROR \<Rightarrow> None)
      | DW_NO_ENTRY \<Rightarrow> None
      | DW_ERROR \<Rightarrow> None)"

text \<open>libdwarf refuses a null attribute.\<close>

definition sd_init_loclist :: "('d, 'w) libdwarf \<Rightarrow> 'd option \<Rightarrow> SdLoclist option" where
  "sd_init_loclist L loc_attr =
     (case loc_attr of
        None \<Rightarrow> None
      | Some attr \<Rightarrow>
          (case lw_get_loclist L attr of
             DW_OK (loclist_head, loclist_count) \<Rightarrow>
               init_loclist_loop L loclist_head 0 loclist_count
           | _ \<Rightarrow> None))"

section \<open>The evaluation stack\<close>

datatype SdLocation = LOC_ADDR real_addr | LOC_REG x86_reg

definition sd_loc_addr :: "real_addr \<Rightarrow> SdLocation" where "sd_loc_addr a = LOC_ADDR a"
definition sd_loc_as_addr :: "u64 \<Rightarrow> SdLocation" where "sd_loc_as_addr a = LOC_ADDR (RealAddr a)"
definition sd_loc_reg :: "x86_reg \<Rightarrow> SdLocation" where "sd_loc_reg r = LOC_REG r"

text \<open>The elements below the stack pointer are a list with the top at its end.\<close>

record LocEvalStack =
  stack_buf :: "SdLocation list"
  stack_alloc :: nat

definition LOC_EVAL_STACK_BLOCK :: nat where [magic_numbers]: "LOC_EVAL_STACK_BLOCK = 32"

definition init_eval_stack :: LocEvalStack where
  "init_eval_stack = \<lparr>stack_buf = [], stack_alloc = LOC_EVAL_STACK_BLOCK\<rparr>"

definition pop_eval_stack :: "LocEvalStack \<Rightarrow> SdLocation option \<times> LocEvalStack" where
  "pop_eval_stack stack =
     (if length (stack_buf stack) > 0
      then (Some (last (stack_buf stack)), stack\<lparr>stack_buf := butlast (stack_buf stack)\<rparr>)
      else (None, stack))"

text \<open>A write at or behind the capacity would be out of bounds.\<close>

definition push_eval_stack :: "LocEvalStack \<Rightarrow> SdLocation \<Rightarrow> LocEvalStack c_result" where
  "push_eval_stack stack push =
     (if \<not> length (stack_buf stack) < stack_alloc stack then UB
      else
        (let pushed = stack\<lparr>stack_buf := stack_buf stack @ [push]\<rparr> in
         Defined (if length (stack_buf pushed) \<ge> stack_alloc pushed
                  then pushed\<lparr>stack_alloc := stack_alloc pushed + LOC_EVAL_STACK_BLOCK\<rparr>
                  else pushed)))"

definition stack_ok :: "LocEvalStack \<Rightarrow> bool" where
  "stack_ok stack \<longleftrightarrow> length (stack_buf stack) < stack_alloc stack"

lemma stack_ok_init: "stack_ok init_eval_stack"
  by (simp add: stack_ok_def init_eval_stack_def LOC_EVAL_STACK_BLOCK_def)

section \<open>Evaluation\<close>

record SdLocEvalCtx =
  ctx_pid :: pid_t
  ctx_pc :: dbg_addr
  ctx_elf :: ElfFile
  ctx_load_address :: real_addr

text \<open>
  The environment of an evaluation: libdwarf, the kernel and the traced process, which is
  only read. A result is \<open>None\<close> for \<^verbatim>\<open>SP_ERR\<close>, and may be undefined.
\<close>

record ('d, 'w, 's) eval_env =
  env_dwarf :: "('d, 'w) libdwarf"
  env_kernel :: "'s kernel"
  env_tracee :: 's
  env_ctx :: SdLocEvalCtx

type_synonym ('w, 'a) eval = "('w, 'a option c_result) dw_state"

definition eval_bind :: "('w, 'a) eval \<Rightarrow> ('a \<Rightarrow> ('w, 'b) eval) \<Rightarrow> ('w, 'b) eval" where
  "eval_bind m g =
     dw_bind m (\<lambda>r. case r of
       UB \<Rightarrow> dw_return UB
     | Defined None \<Rightarrow> dw_return (Defined None)
     | Defined (Some a) \<Rightarrow> g a)"

definition eval_return :: "'a option c_result \<Rightarrow> ('w, 'a) eval" where
  "eval_return r = dw_return r"

definition push_value :: "LocEvalStack \<Rightarrow> SdLocation \<Rightarrow> ('w, LocEvalStack) eval" where
  "push_value stack v = eval_return (c_bind (push_eval_stack stack v) (\<lambda>st. Defined (Some st)))"

text \<open>
  The offset is added to the frame base as numbers of type \<^verbatim>\<open>int64_t\<close>, where C leaves an
  overflow undefined. The evaluation of a nested location list is an argument here, the knot is
  tied below.
\<close>

definition add_int64 :: "u64 \<Rightarrow> u64 \<Rightarrow> u64 c_result" where
  "add_int64 a b =
     (let s = sint a + sint b in
      if LONG_MIN \<le> s \<and> s \<le> LONG_MAX then Defined (word_of_int s) else UB)"

lemma add_int64_cases:
  "add_int64 a b = (if LONG_MIN \<le> sint a + sint b \<and> sint a + sint b \<le> LONG_MAX
     then Defined (a + b) else UB)"
  by (simp add: add_int64_def Let_def)

definition push_offset :: "LocEvalStack \<Rightarrow> u64 \<Rightarrow> SdOperation \<Rightarrow> ('w, LocEvalStack) eval" where
  "push_offset stack base_addr self =
     (case add_int64 base_addr (operand1 self) of
        UB \<Rightarrow> eval_return UB
      | Defined loc \<Rightarrow> push_value stack (sd_loc_as_addr loc))"

definition sd_eval_op_fbreg ::
  "(SdLoclist \<Rightarrow> ('w, SdLocation) eval) \<Rightarrow> ('d, 'w, 's) eval_env \<Rightarrow> SdOperation \<Rightarrow> LocEvalStack
     \<Rightarrow> ('w, LocEvalStack) eval" where
  "sd_eval_op_fbreg eval_loclist E self stack =
     eval_bind (eval_return (se_symbol_from_addr (ctx_pc (env_ctx E)) (ctx_elf (env_ctx E))))
       (\<lambda>subprog.
     eval_bind (eval_return (c_bind (symbol_name subprog (ctx_elf (env_ctx E)))
                  (\<lambda>n. Defined (Some n)))) (\<lambda>subprog_name.
     dw_bind (sd_get_subprog_loc_attr (env_dwarf E) subprog_name DW_AT_frame_base) (\<lambda>loc_attr.
       case loc_attr of
         None \<Rightarrow> eval_return (Defined None)
       | Some loc_attr \<Rightarrow>
           (case sd_init_loclist (env_dwarf E) loc_attr of
              None \<Rightarrow> eval_return (Defined None)
            | Some loclist \<Rightarrow>
                eval_bind (eval_loclist loclist) (\<lambda>location.
                  case location of
                    LOC_REG reg \<Rightarrow>
                      (case get_register_value (env_kernel E) (ctx_pid (env_ctx E)) reg
                              (env_tracee E) of
                         None \<Rightarrow> eval_return (Defined None)
                       | Some base_addr \<Rightarrow> push_offset stack base_addr self)
                  | LOC_ADDR _ \<Rightarrow> eval_return (Defined None))))))"

definition DW_OP_reg0 :: u8 where [magic_numbers]: "DW_OP_reg0 = 0x50"

definition sd_eval_op_regn :: "SdOperation \<Rightarrow> LocEvalStack \<Rightarrow> ('w, LocEvalStack) eval" where
  "sd_eval_op_regn self stack =
     (case dwarf_regnum_to_x86_reg (opcode self - DW_OP_reg0) of
        Some reg \<Rightarrow> push_value stack (sd_loc_reg reg)
      | None \<Rightarrow> eval_return (Defined None))"

definition sd_eval_op_addr ::
  "('d, 'w, 's) eval_env \<Rightarrow> SdOperation \<Rightarrow> LocEvalStack \<Rightarrow> ('w, LocEvalStack) eval" where
  "sd_eval_op_addr E self stack =
     push_value stack
       (sd_loc_addr (dbg_to_real (ctx_load_address (env_ctx E)) (DbgAddr (operand1 self))))"

datatype eval_handler = EVAL_OP_REGN | EVAL_OP_FBREG | EVAL_OP_ADDR

definition sd_get_eval_handler :: "u8 \<Rightarrow> eval_handler option" where
  "sd_get_eval_handler op =
     (if 0x50 \<le> op \<and> op \<le> 0x6f then Some EVAL_OP_REGN
      else if op = 0x91 then Some EVAL_OP_FBREG
      else if op = 0x03 then Some EVAL_OP_ADDR
      else None)"

definition sd_eval_locop ::
  "(SdLoclist \<Rightarrow> ('w, SdLocation) eval) \<Rightarrow> ('d, 'w, 's) eval_env \<Rightarrow> SdOperation \<Rightarrow> LocEvalStack
     \<Rightarrow> ('w, LocEvalStack) eval" where
  "sd_eval_locop eval_loclist E op stack =
     (case sd_get_eval_handler (opcode op) of
        None \<Rightarrow> eval_return (Defined None)
      | Some EVAL_OP_REGN \<Rightarrow> sd_eval_op_regn op stack
      | Some EVAL_OP_FBREG \<Rightarrow> sd_eval_op_fbreg eval_loclist E op stack
      | Some EVAL_OP_ADDR \<Rightarrow> sd_eval_op_addr E op stack)"

primrec eval_operations ::
  "(SdLoclist \<Rightarrow> ('w, SdLocation) eval) \<Rightarrow> ('d, 'w, 's) eval_env \<Rightarrow> SdExpression \<Rightarrow> LocEvalStack
     \<Rightarrow> ('w, LocEvalStack) eval" where
  "eval_operations eval_loclist E [] stack = eval_return (Defined (Some stack))"
| "eval_operations eval_loclist E (op # ops) stack =
     eval_bind (sd_eval_locop eval_loclist E op stack) (eval_operations eval_loclist E ops)"

text \<open>The failure to pop is ignored: the result of an empty expression is uninitialised.\<close>

definition sd_eval_locexpr ::
  "(SdLoclist \<Rightarrow> ('w, SdLocation) eval) \<Rightarrow> ('d, 'w, 's) eval_env \<Rightarrow> SdExpression
     \<Rightarrow> ('w, SdLocation) eval" where
  "sd_eval_locexpr eval_loclist E locexpr =
     eval_bind (eval_operations eval_loclist E locexpr init_eval_stack) (\<lambda>stack.
       case pop_eval_stack stack of
         (Some top_elem, _) \<Rightarrow> eval_return (Defined (Some top_elem))
       | (None, _) \<Rightarrow> eval_return UB)"

text \<open>First the active bounded entries, then the entries without a range.\<close>

definition choose_entry :: "dbg_addr \<Rightarrow> SdLoclist \<Rightarrow> SdExpression option" where
  "choose_entry pc loclist =
     (case find (\<lambda>(expr, rng). is_active_range rng pc) loclist of
        Some (expr, _) \<Rightarrow> Some expr
      | None \<Rightarrow>
          (case find (\<lambda>(expr, rng). \<not> meaningful rng) loclist of
             Some (expr, _) \<Rightarrow> Some expr
           | None \<Rightarrow> None))"

definition eval_loclist_with ::
  "(SdLoclist \<Rightarrow> ('w, SdLocation) eval) \<Rightarrow> ('d, 'w, 's) eval_env \<Rightarrow> SdLoclist
     \<Rightarrow> ('w, SdLocation) eval" where
  "eval_loclist_with eval_loclist E loclist =
     (case choose_entry (ctx_pc (env_ctx E)) loclist of
        Some expr \<Rightarrow> sd_eval_locexpr eval_loclist E expr
      | None \<Rightarrow> eval_return (Defined (Some (sd_loc_as_addr 0))))"

text \<open>A larger recursive call cannot change a result that there is.\<close>

definition extends ::
  "(SdLoclist \<Rightarrow> ('w, SdLocation) eval) \<Rightarrow> (SdLoclist \<Rightarrow> ('w, SdLocation) eval) \<Rightarrow> bool" where
  "extends f g \<longleftrightarrow> (\<forall>l w. f l w = None \<or> f l w = g l w)"

lemma dw_bind_extends:
  assumes "m w = None \<or> m w = m' w" and "\<And>a w. h a w = None \<or> h a w = h' a w"
  shows "dw_bind m h w = None \<or> dw_bind m h w = dw_bind m' h' w"
proof (cases "m w")
  case (Some r)
  with assms(1) have "m' w = Some r" by simp
  with Some assms(2) show ?thesis by (simp add: dw_bind_def split: prod.split)
qed (simp add: dw_bind_def)

lemma eval_bind_extends:
  "m w = None \<or> m w = m' w \<Longrightarrow> (\<And>a w. h a w = None \<or> h a w = h' a w) \<Longrightarrow>
   eval_bind m h w = None \<or> eval_bind m h w = eval_bind m' h' w"
  unfolding eval_bind_def
  by (rule dw_bind_extends) (simp_all split: c_result.split option.split)

lemma fbreg_extends:
  assumes "extends f g"
  shows "sd_eval_op_fbreg f E op stack w = None \<or>
   sd_eval_op_fbreg f E op stack w = sd_eval_op_fbreg g E op stack w"
proof -
  have nested: "eval_bind (f l) h w = None \<or> eval_bind (f l) h w = eval_bind (g l) h w" for l h w
    using assms by (intro eval_bind_extends) (simp_all add: extends_def)
  show ?thesis
    unfolding sd_eval_op_fbreg_def
    by (intro eval_bind_extends dw_bind_extends disjI2 [OF refl])
      (simp add: nested split: option.split)
qed

lemma locop_extends:
  "extends f g \<Longrightarrow>
   sd_eval_locop f E op stack w = None \<or> sd_eval_locop f E op stack w = sd_eval_locop g E op stack w"
  by (simp add: sd_eval_locop_def fbreg_extends split: option.splits eval_handler.splits)

lemma operations_extends:
  "extends f g \<Longrightarrow>
   eval_operations f E ops stack w = None \<or>
   eval_operations f E ops stack w = eval_operations g E ops stack w"
proof (induction ops arbitrary: stack w)
  case (Cons op ops)
  show ?case
    unfolding eval_operations.simps
    by (intro eval_bind_extends locop_extends Cons)
qed simp

lemma eval_loclist_with_extends:
  "extends f g \<Longrightarrow>
   eval_loclist_with f E loclist w = None \<or>
   eval_loclist_with f E loclist w = eval_loclist_with g E loclist w"
proof -
  assume "extends f g"
  then have "sd_eval_locexpr f E expr w = None \<or> sd_eval_locexpr f E expr w = sd_eval_locexpr g E expr w"
    for expr
    unfolding sd_eval_locexpr_def by (intro eval_bind_extends operations_extends disjI2 [OF refl])
  then show ?thesis by (simp add: eval_loclist_with_def split: option.split)
qed

lemma eval_loclist_with_mono [partial_function_mono]:
  fixes g :: "('x \<Rightarrow> 'y option) \<Rightarrow> SdLoclist \<Rightarrow> ('w, SdLocation) eval"
  assumes "\<And>l w. monotone (fun_ord option_ord) option_ord (\<lambda>f. g f l w)"
  shows "monotone (fun_ord option_ord) option_ord (\<lambda>f. eval_loclist_with (g f) E loclist w)"
proof (rule monotoneI)
  fix x y :: "'x \<Rightarrow> 'y option"
  assume "fun_ord option_ord x y"
  then have "extends (g x) (g y)"
    using assms by (auto simp: extends_def monotone_def flat_ord_def)
  from eval_loclist_with_extends [OF this]
  show "option_ord (eval_loclist_with (g x) E loclist w) (eval_loclist_with (g y) E loclist w)"
    by (auto simp: flat_ord_def)
qed

partial_function (option) sd_eval_loclist ::
  "('d, 'w, 's) eval_env \<Rightarrow> SdLoclist \<Rightarrow> ('w, SdLocation) eval" where
  "sd_eval_loclist E loclist w = eval_loclist_with (\<lambda>l w. sd_eval_loclist E l w) E loclist w"

section \<open>The entry that is chosen\<close>

lemma active_range_iff:
  "is_active_range (sd_init_loc_range missing lo hi) pc \<longleftrightarrow>
     missing = 0 \<and> (lo \<noteq> 0 \<or> hi \<noteq> 0) \<and> lo \<le> dbg_value pc \<and> dbg_value pc < hi"
  by (auto simp: is_active_range_def sd_init_loc_range_def dwarf_bool_to_bool_def)

lemma choose_entry_cases:
  "choose_entry pc loclist = Some expr \<Longrightarrow>
     (\<exists>rng. (expr, rng) \<in> set loclist \<and>
        (is_active_range rng pc \<or>
         \<not> meaningful rng \<and> (\<forall>(e, r) \<in> set loclist. \<not> is_active_range r pc)))"
  unfolding choose_entry_def
  by (auto split: option.splits dest!: find_Some_set simp: find_None_iff)

lemma choose_entry_None:
  "choose_entry pc loclist = None \<longleftrightarrow>
     (\<forall>(e, r) \<in> set loclist. meaningful r \<and> \<not> is_active_range r pc)"
proof -
  have "choose_entry pc loclist = None \<longleftrightarrow>
      find (\<lambda>(expr, rng). is_active_range rng pc) loclist = None \<and>
      find (\<lambda>(expr, rng). \<not> meaningful rng) loclist = None"
    by (auto simp: choose_entry_def split: option.splits)
  then show ?thesis unfolding find_None_iff by auto
qed

section \<open>Results\<close>

lemma eval_bind_simps [simp]:
  "eval_bind (eval_return r) h w =
     (case r of UB \<Rightarrow> Some (UB, w) | Defined None \<Rightarrow> Some (Defined None, w) | Defined (Some a) \<Rightarrow> h a w)"
  by (simp add: eval_bind_def eval_return_def dw_bind_def split: c_result.split option.split)

lemma eval_return_apply [simp]: "eval_return r w = Some (r, w)"
  by (simp add: eval_return_def)

lemma eval_bind_result:
  "m w = Some (r, w') \<Longrightarrow> eval_bind m h w =
     (case r of UB \<Rightarrow> Some (UB, w') | Defined None \<Rightarrow> Some (Defined None, w')
      | Defined (Some a) \<Rightarrow> h a w')"
  by (simp add: eval_bind_def split: c_result.split option.split)

definition pushed :: "LocEvalStack \<Rightarrow> SdLocation \<Rightarrow> LocEvalStack" where
  "pushed stack v = (case push_eval_stack stack v of Defined st \<Rightarrow> st | UB \<Rightarrow> stack)"

lemma push_eval_stack_pushed:
  assumes "stack_ok stack"
  shows "push_eval_stack stack v = Defined (pushed stack v) \<and> stack_ok (pushed stack v) \<and>
    stack_buf (pushed stack v) = stack_buf stack @ [v]"
  using assms
  by (simp add: pushed_def push_eval_stack_def stack_ok_def Let_def LOC_EVAL_STACK_BLOCK_def)

lemma push_value_pushed [simp]:
  assumes "stack_ok stack"
  shows "push_value stack v w = Some (Defined (Some (pushed stack v)), w)"
    and "stack_ok (pushed stack v)"
    and "stack_buf (pushed stack v) = stack_buf stack @ [v]"
  using push_eval_stack_pushed [OF assms, of v] by (simp_all add: push_value_def)

lemma pop_pushed: "stack_ok stack \<Longrightarrow> fst (pop_eval_stack (pushed stack v)) = Some v"
  by (simp add: pop_eval_stack_def)

text \<open>A single operation that is its own result: a register, or a static address.\<close>

lemma eval_single:
  assumes "sd_eval_locop rec E op init_eval_stack w = push_value init_eval_stack v w"
  shows "sd_eval_locexpr rec E [op] w = Some (Defined (Some v), w)"
proof -
  let ?st = "pushed init_eval_stack v"
  from assms have "sd_eval_locop rec E op init_eval_stack w = Some (Defined (Some ?st), w)"
    by (simp only: push_value_pushed(1) [OF stack_ok_init])
  then have "eval_operations rec E [op] init_eval_stack w = Some (Defined (Some ?st), w)"
    by (simp add: eval_bind_result [where m = "sd_eval_locop rec E op init_eval_stack"])
  moreover have "fst (pop_eval_stack ?st) = Some v"
    by (rule pop_pushed [OF stack_ok_init])
  ultimately show ?thesis
    unfolding sd_eval_locexpr_def
    by (subst eval_bind_result [where m = "eval_operations rec E [op] init_eval_stack"])
      (auto split: prod.split option.split)
qed

lemma eval_single_undefined:
  assumes "sd_eval_locop rec E op init_eval_stack w = Some (UB, w)"
  shows "sd_eval_locexpr rec E [op] w = Some (UB, w)"
proof -
  from assms have "eval_operations rec E [op] init_eval_stack w = Some (UB, w)"
    by (simp add: eval_bind_result [where m = "sd_eval_locop rec E op init_eval_stack"])
  from eval_bind_result [where m = "eval_operations rec E [op] init_eval_stack", OF this] show ?thesis
    by (simp add: sd_eval_locexpr_def)
qed

lemma eval_register_expr:
  assumes "0x50 \<le> opcode op" "opcode op \<le> 0x6f"
    and "dwarf_regnum_to_x86_reg (opcode op - DW_OP_reg0) = Some r"
  shows "sd_eval_locexpr rec E [op] w = Some (Defined (Some (LOC_REG r)), w)"
  using assms
  by (intro eval_single) (simp add: sd_eval_locop_def sd_get_eval_handler_def sd_eval_op_regn_def sd_loc_reg_def)

lemma eval_addr_expr:
  assumes "opcode op = 0x03"
  shows "sd_eval_locexpr rec E [op] w =
    Some (Defined (Some (LOC_ADDR (dbg_to_real (ctx_load_address (env_ctx E)) (DbgAddr (operand1 op))))), w)"
  using assms
  by (intro eval_single)
    (simp add: sd_eval_locop_def sd_get_eval_handler_def sd_eval_op_addr_def sd_loc_addr_def)

text \<open>
  The environment is in order: libdwarf presents the DIEs \<open>dies (info @ types)\<close>, the symbol
  table of the file can be read.
\<close>

definition env_ok ::
  "('d, 'w, 's) eval_env \<Rightarrow> 'w \<Rightarrow> 'd dtree list \<Rightarrow> 'd dtree list \<Rightarrow> (Elf64_Sym \<times> string) list \<Rightarrow> bool"
  where
  "env_ok E w info types syms \<longleftrightarrow>
     dwarf_ok (env_dwarf E) w info types \<and> symbols_ok (ctx_elf (env_ctx E)) syms"

text \<open>The location list of the frame base of the subprogram at the program counter.\<close>

definition frame_base ::
  "('d, 'w, 's) eval_env \<Rightarrow> ('d \<times> nat) list \<Rightarrow> (Elf64_Sym \<times> string) list \<Rightarrow> SdLoclist option" where
  "frame_base E ds syms =
     (case find (\<lambda>s. covers (ctx_pc (env_ctx E)) (fst s)) syms of
        None \<Rightarrow> None
      | Some (_, name) \<Rightarrow>
          (case first_match (loc_attr_match (env_dwarf E) name DW_AT_frame_base) ds of
             None \<Rightarrow> None
           | Some attr \<Rightarrow> sd_init_loclist (env_dwarf E) attr))"

lemma fbreg_frame_base:
  assumes "env_ok E w info types syms"
  shows "sd_eval_op_fbreg rec E op stack w =
    (case frame_base E (dies (info @ types)) syms of
       None \<Rightarrow> Some (Defined None, w)
     | Some loclist \<Rightarrow>
         eval_bind (rec loclist) (\<lambda>location.
           case location of
             LOC_REG reg \<Rightarrow>
               (case get_register_value (env_kernel E) (ctx_pid (env_ctx E)) reg (env_tracee E) of
                  None \<Rightarrow> eval_return (Defined None)
                | Some base_addr \<Rightarrow> push_offset stack base_addr op)
           | LOC_ADDR _ \<Rightarrow> eval_return (Defined None)) w)"
proof -
  from assms have dw: "dwarf_ok (env_dwarf E) w info types"
    and sy: "symbols_ok (ctx_elf (env_ctx E)) syms" by (simp_all add: env_ok_def)
  show ?thesis
  proof (cases "find (\<lambda>s. covers (ctx_pc (env_ctx E)) (fst s)) syms")
    case None
    with elf.from_addr_law [OF sy] show ?thesis by (simp add: sd_eval_op_fbreg_def frame_base_def)
  next
    case (Some s)
    then have "s \<in> set syms" by (simp add: find_Some_set)
    with elf.name_law [OF sy] have "symbol_name (fst s) (ctx_elf (env_ctx E)) = Defined (snd s)" .
    with Some elf.from_addr_law [OF sy] show ?thesis
      by (simp add: sd_eval_op_fbreg_def frame_base_def get_subprog_loc_attr_first [OF dw]
          split: prod.split option.split)
  qed
qed

text \<open>
  The location of a local variable as Clang describes it: an offset from the register that
  holds the frame base.
\<close>

lemma eval_loclist_choose:
  "choose_entry (ctx_pc (env_ctx E)) loclist = Some expr \<Longrightarrow>
   sd_eval_loclist E loclist w = sd_eval_locexpr (sd_eval_loclist E) E expr w"
  by (subst sd_eval_loclist.simps) (simp add: eval_loclist_with_def)

lemma eval_loclist_inactive:
  "choose_entry (ctx_pc (env_ctx E)) loclist = None \<Longrightarrow>
   sd_eval_loclist E loclist w = Some (Defined (Some (LOC_ADDR (RealAddr 0))), w)"
  by (subst sd_eval_loclist.simps) (simp add: eval_loclist_with_def sd_loc_as_addr_def)

lemma eval_fbreg_loclist:
  assumes ok: "env_ok E w info types syms"
    and expr: "choose_entry (ctx_pc (env_ctx E)) loclist = Some [op]" "opcode op = 0x91"
    and base: "frame_base E (dies (info @ types)) syms = Some fb"
      "choose_entry (ctx_pc (env_ctx E)) fb = Some [reg_op]"
      "0x50 \<le> opcode reg_op" "opcode reg_op \<le> 0x6f"
      "dwarf_regnum_to_x86_reg (opcode reg_op - DW_OP_reg0) = Some r"
    and reg: "get_register_value (env_kernel E) (ctx_pid (env_ctx E)) r (env_tracee E) = Some b"
  shows "sd_eval_loclist E loclist w =
    Some (case add_int64 b (operand1 op) of
            Defined a \<Rightarrow> Defined (Some (LOC_ADDR (RealAddr a))) | UB \<Rightarrow> UB, w)"
proof -
  have rec: "sd_eval_loclist E fb w = Some (Defined (Some (LOC_REG r)), w)"
    using eval_register_expr [OF base(3-5)] by (simp add: eval_loclist_choose [OF base(2)])
  have sum: "sd_eval_locop (sd_eval_loclist E) E op init_eval_stack w = push_offset init_eval_stack b op w"
    using expr(2)
    by (simp add: sd_eval_locop_def sd_get_eval_handler_def fbreg_frame_base [OF ok] base(1)
        eval_bind_result [where m = "sd_eval_loclist E fb", OF rec] reg
        del: dies_simps)
  show ?thesis
  proof (cases "add_int64 b (operand1 op)")
    case (Defined a)
    with sum show ?thesis
      unfolding eval_loclist_choose [OF expr(1)]
      by (simp add: eval_single push_offset_def sd_loc_as_addr_def del: push_value_pushed)
  next
    case UB
    with sum show ?thesis
      unfolding eval_loclist_choose [OF expr(1)] by (simp add: eval_single_undefined push_offset_def)
  qed
qed

section \<open>Evaluation ends and is defined\<close>

definition plain_op :: "SdOperation \<Rightarrow> bool" where
  "plain_op op \<longleftrightarrow> opcode op \<noteq> 0x91"

definition op_defined ::
  "(SdLoclist \<Rightarrow> ('w, SdLocation) eval) \<Rightarrow> ('d, 'w, 's) eval_env \<Rightarrow> 'w \<Rightarrow> SdOperation \<Rightarrow> bool" where
  "op_defined rec E w op \<longleftrightarrow>
     (\<forall>stack. stack_ok stack \<longrightarrow>
        (\<exists>r. sd_eval_locop rec E op stack w = Some (Defined r, w) \<and>
             (\<forall>st. r = Some st \<longrightarrow> stack_ok st \<and> stack_buf st \<noteq> [])))"

lemma op_definedD:
  assumes "op_defined rec E w op" and "stack_ok stack"
  obtains "sd_eval_locop rec E op stack w = Some (Defined None, w)"
  | st where "sd_eval_locop rec E op stack w = Some (Defined (Some st), w)" "stack_ok st" "stack_buf st \<noteq> []"
  using assms unfolding op_defined_def by (metis not_None_eq)

lemma plain_op_defined: "plain_op op \<Longrightarrow> op_defined rec E w op"
  unfolding op_defined_def
  by (auto simp: sd_eval_locop_def sd_get_eval_handler_def plain_op_def sd_eval_op_regn_def
      sd_eval_op_addr_def split: option.splits)

text \<open>An expression all of whose operations have a result has one, unless it is empty.\<close>

lemma operations_result:
  assumes "\<forall>op \<in> set ops. op_defined rec E w op" and "stack_ok stack"
    and "ops \<noteq> [] \<or> stack_buf stack \<noteq> []"
  shows "eval_operations rec E ops stack w = Some (Defined None, w) \<or>
    (\<exists>st. eval_operations rec E ops stack w = Some (Defined (Some st), w) \<and> stack_buf st \<noteq> [])"
  using assms
proof (induction ops arbitrary: stack)
  case (Cons op ops)
  from Cons.prems(1) have "op_defined rec E w op" by simp
  from this Cons.prems(2) show ?case
  proof (cases rule: op_definedD)
    case 1
    then show ?thesis by (simp add: eval_bind_result)
  next
    case (2 st)
    with Cons.IH [of st] Cons.prems(1) show ?thesis by (simp add: eval_bind_result)
  qed
qed simp

lemma locexpr_result:
  assumes "\<forall>op \<in> set ops. op_defined rec E w op" and "ops \<noteq> []"
  shows "\<exists>r. sd_eval_locexpr rec E ops w = Some (Defined r, w)"
  using operations_result [OF assms(1) stack_ok_init] assms(2)
  by (auto simp: sd_eval_locexpr_def eval_bind_result pop_eval_stack_def)

lemma eval_loclist_defined:
  assumes "\<And>expr. choose_entry (ctx_pc (env_ctx E)) loclist = Some expr \<Longrightarrow>
      expr \<noteq> [] \<and> (\<forall>op \<in> set expr. op_defined (sd_eval_loclist E) E w op)"
  shows "\<exists>r. sd_eval_loclist E loclist w = Some (Defined r, w)"
proof (cases "choose_entry (ctx_pc (env_ctx E)) loclist")
  case None
  then show ?thesis by (simp add: eval_loclist_inactive)
next
  case (Some expr)
  from assms [OF Some] show ?thesis
    unfolding eval_loclist_choose [OF Some] by (intro locexpr_result) simp_all
qed

text \<open>The offset of the operation can be added to the register that the frame base gives.\<close>

definition offset_fits :: "('d, 'w, 's) eval_env \<Rightarrow> 'w \<Rightarrow> SdLoclist \<Rightarrow> SdOperation \<Rightarrow> bool" where
  "offset_fits E w fb op \<longleftrightarrow>
     (\<forall>r b. sd_eval_loclist E fb w = Some (Defined (Some (LOC_REG r)), w) \<longrightarrow>
        get_register_value (env_kernel E) (ctx_pid (env_ctx E)) r (env_tracee E) = Some b \<longrightarrow>
        - (2 ^ 63) \<le> sint b + sint (operand1 op) \<and> sint b + sint (operand1 op) < 2 ^ 63)"

lemma fbreg_defined:
  assumes ok: "env_ok E w info types syms" and op: "opcode op = 0x91"
    and base: "\<And>fb. frame_base E (dies (info @ types)) syms = Some fb \<Longrightarrow>
      (\<exists>r. sd_eval_loclist E fb w = Some (Defined r, w)) \<and> offset_fits E w fb op"
  shows "op_defined (sd_eval_loclist E) E w op"
proof (cases "frame_base E (dies (info @ types)) syms")
  case None
  with op show ?thesis
    by (simp add: op_defined_def sd_eval_locop_def sd_get_eval_handler_def fbreg_frame_base [OF ok]
        del: dies_simps)
next
  case (Some fb)
  from base [OF Some] obtain r where r: "sd_eval_loclist E fb w = Some (Defined r, w)"
    and fits: "offset_fits E w fb op" by blast
  note result = fbreg_frame_base [OF ok] Some
    eval_bind_result [where m = "sd_eval_loclist E fb", OF r]
  from op fits show ?thesis
    by (cases r) (auto simp: op_defined_def sd_eval_locop_def sd_get_eval_handler_def result
        push_offset_def add_int64_def LONG_MIN_def LONG_MAX_def offset_fits_def r Let_def
        simp del: dies_simps split: SdLocation.split option.split)
qed

text \<open>
  Evaluation ends and has a result for every list whose chosen expression is not empty, if
  the frame base is not described in terms of a frame base again.
\<close>

lemma eval_loclist_total:
  assumes ok: "env_ok E w info types syms"
    and expr: "\<And>expr. choose_entry (ctx_pc (env_ctx E)) loclist = Some expr \<Longrightarrow> expr \<noteq> []"
    and base: "\<And>fb expr. frame_base E (dies (info @ types)) syms = Some fb \<Longrightarrow>
      choose_entry (ctx_pc (env_ctx E)) fb = Some expr \<Longrightarrow> expr \<noteq> [] \<and> (\<forall>op \<in> set expr. plain_op op)"
    and fits: "\<And>fb expr op. frame_base E (dies (info @ types)) syms = Some fb \<Longrightarrow>
      choose_entry (ctx_pc (env_ctx E)) loclist = Some expr \<Longrightarrow> op \<in> set expr \<Longrightarrow> \<not> plain_op op \<Longrightarrow>
      offset_fits E w fb op"
  shows "\<exists>r. sd_eval_loclist E loclist w = Some (Defined r, w)"
proof -
  have fb: "\<exists>r. sd_eval_loclist E fb w = Some (Defined r, w)"
    if "frame_base E (dies (info @ types)) syms = Some fb" for fb
    using base [OF that] by (intro eval_loclist_defined) (simp add: plain_op_defined)
  have "op_defined (sd_eval_loclist E) E w op"
    if "choose_entry (ctx_pc (env_ctx E)) loclist = Some ops" "op \<in> set ops" for op ops
  proof (cases "plain_op op")
    case False
    with fits [OF _ that] fb show ?thesis
      by (intro fbreg_defined [OF ok]) (simp_all add: plain_op_def)
  qed (rule plain_op_defined)
  with expr show ?thesis by (intro eval_loclist_defined) blast
qed

end
