(* ===== verification/Dwarf_Types.thy ===== *)
theory Dwarf_Types
  imports Dwarf_Die
begin

text \<open>
  Types of runtime variables in \<^verbatim>\<open>src/src/spray_dwarf.c\<close>: the chain of type DIEs of a variable
  becomes a list of nodes in a growing buffer (\<^verbatim>\<open>sd_build_type\<close>), and the variable itself is
  searched by its name in the scope of the subprogram that contains the program counter
  (\<^verbatim>\<open>sd_runtime_variable\<close>). Allocation never fails here, and releasing a DIE has no effect.
\<close>

section \<open>Types\<close>

datatype base_type_tag =
  BASE_TYPE_CHAR | BASE_TYPE_SIGNED_CHAR | BASE_TYPE_UNSIGNED_CHAR | BASE_TYPE_SHORT
| BASE_TYPE_UNSIGNED_SHORT | BASE_TYPE_INT | BASE_TYPE_UNSIGNED_INT | BASE_TYPE_LONG
| BASE_TYPE_UNSIGNED_LONG | BASE_TYPE_LONG_LONG | BASE_TYPE_UNSIGNED_LONG_LONG
| BASE_TYPE_FLOAT | BASE_TYPE_DOUBLE | BASE_TYPE_LONG_DOUBLE

record SdBasetype =
  base_tag :: base_type_tag
  base_size :: u8

datatype SdTypemod =
  TYPE_MOD_ATOMIC | TYPE_MOD_CONST | TYPE_MOD_POINTER | TYPE_MOD_RESTRICT | TYPE_MOD_VOLATILE

datatype SdTypenode =
  NODE_BASE_TYPE SdBasetype | NODE_MODIFIER SdTypemod | NODE_UNSPECIFIED | NODE_TYPEDEF

text \<open>
  The first \<^verbatim>\<open>n_nodes\<close> nodes of the buffer are a list; a node that has been allocated and not
  been written yet is \<open>None\<close>. \<open>n_alloc\<close> is the capacity.
\<close>

record SdType =
  nodes :: "SdTypenode option list"
  n_alloc :: nat

definition DW_TAG_pointer_type :: nat where "DW_TAG_pointer_type = 0x0f"
definition DW_TAG_reference_type :: nat where "DW_TAG_reference_type = 0x10"
definition DW_TAG_typedef :: nat where "DW_TAG_typedef = 0x16"
definition DW_TAG_base_type :: nat where "DW_TAG_base_type = 0x24"
definition DW_TAG_const_type :: nat where "DW_TAG_const_type = 0x26"
definition DW_TAG_packed_type :: nat where "DW_TAG_packed_type = 0x2d"
definition DW_TAG_volatile_type :: nat where "DW_TAG_volatile_type = 0x35"
definition DW_TAG_restrict_type :: nat where "DW_TAG_restrict_type = 0x37"
definition DW_TAG_shared_type :: nat where "DW_TAG_shared_type = 0x40"
definition DW_TAG_rvalue_reference_type :: nat where "DW_TAG_rvalue_reference_type = 0x42"
definition DW_TAG_atomic_type :: nat where "DW_TAG_atomic_type = 0x47"
definition DW_TAG_immutable_type :: nat where "DW_TAG_immutable_type = 0x4b"

lemmas type_tags =
  DW_TAG_pointer_type_def DW_TAG_reference_type_def DW_TAG_typedef_def DW_TAG_base_type_def
  DW_TAG_const_type_def DW_TAG_packed_type_def DW_TAG_volatile_type_def DW_TAG_restrict_type_def
  DW_TAG_shared_type_def DW_TAG_rvalue_reference_type_def DW_TAG_atomic_type_def
  DW_TAG_immutable_type_def

definition base_type_names :: "(string \<times> base_type_tag) list" where
  "base_type_names =
    [(''char'', BASE_TYPE_CHAR), (''signed char'', BASE_TYPE_SIGNED_CHAR),
     (''unsigned char'', BASE_TYPE_UNSIGNED_CHAR), (''short'', BASE_TYPE_SHORT),
     (''unsigned short'', BASE_TYPE_UNSIGNED_SHORT), (''int'', BASE_TYPE_INT),
     (''unsigned int'', BASE_TYPE_UNSIGNED_INT), (''long'', BASE_TYPE_LONG),
     (''unsigned long'', BASE_TYPE_UNSIGNED_LONG), (''long long'', BASE_TYPE_LONG_LONG),
     (''unsigned long long'', BASE_TYPE_UNSIGNED_LONG_LONG), (''float'', BASE_TYPE_FLOAT),
     (''double'', BASE_TYPE_DOUBLE), (''long double'', BASE_TYPE_LONG_DOUBLE)]"

definition sd_build_base_type :: "('d, 'w) libdwarf \<Rightarrow> 'd \<Rightarrow> SdTypenode option" where
  "sd_build_base_type L die =
     (case lw_diename L die of
        DW_OK type_name \<Rightarrow>
          (case map_of base_type_names type_name of
             None \<Rightarrow> None
           | Some tag \<Rightarrow>
               (case lw_bytesize L die of
                  DW_OK byte_size \<Rightarrow>
                    (if byte_size > 0xff then None
                     else Some (NODE_BASE_TYPE \<lparr>base_tag = tag, base_size = ucast byte_size\<rparr>))
                | _ \<Rightarrow> None))
      | _ \<Rightarrow> None)"

definition sd_type_die :: "('d, 'w) libdwarf \<Rightarrow> 'd \<Rightarrow> 'd option" where
  "sd_type_die L die =
     (case lw_dietype_offset L die of
        DW_OK (type_off, type_off_is_info) \<Rightarrow>
          (case lw_offdie L type_off type_off_is_info of
             DW_OK type_die \<Rightarrow> Some type_die
           | _ \<Rightarrow> None)
      | _ \<Rightarrow> None)"

definition TYPE_ALLOC :: nat where [magic_numbers]: "TYPE_ALLOC = 32"

definition alloc_type :: SdType where
  "alloc_type = \<lparr>nodes = [], n_alloc = TYPE_ALLOC\<rparr>"

text \<open>The new node and its index, which stands for the pointer to it.\<close>

definition alloc_node :: "SdType \<Rightarrow> nat \<times> SdType" where
  "alloc_node type =
     (let grown = if length (nodes type) + 1 \<ge> n_alloc type
                  then type\<lparr>n_alloc := n_alloc type + TYPE_ALLOC\<rparr> else type in
      (length (nodes type), grown\<lparr>nodes := nodes grown @ [None]\<rparr>))"

definition set_node :: "nat \<Rightarrow> SdTypenode \<Rightarrow> SdType \<Rightarrow> SdType" where
  "set_node i node type = type\<lparr>nodes := (nodes type)[i := Some node]\<rparr>"

definition type_modifier :: "nat \<Rightarrow> SdTypemod option" where
  "type_modifier tag =
     (if tag = DW_TAG_pointer_type then Some TYPE_MOD_POINTER
      else if tag = DW_TAG_atomic_type then Some TYPE_MOD_ATOMIC
      else if tag = DW_TAG_const_type then Some TYPE_MOD_CONST
      else if tag = DW_TAG_restrict_type then Some TYPE_MOD_RESTRICT
      else if tag = DW_TAG_volatile_type then Some TYPE_MOD_VOLATILE
      else None)"

text \<open>A chain of type DIEs may be cyclic; then the recursion does not end.\<close>

partial_function (option) sd_build_type ::
  "('d, 'w) libdwarf \<Rightarrow> 'd \<Rightarrow> nat \<Rightarrow> SdType \<Rightarrow> (SprayResult \<times> SdType) option" where
  "sd_build_type L prev_die prev_tag type =
     (if \<not> sd_has_at L prev_die DW_AT_type then
        (if prev_tag = DW_TAG_pointer_type then Some (SP_OK, type) else Some (SP_ERR, type))
      else
        (case alloc_node type of (node, type1) \<Rightarrow>
           (case sd_type_die L prev_die of
              None \<Rightarrow> Some (SP_ERR, type1)
            | Some next_die \<Rightarrow>
                (case lw_tag L next_die of
                   DW_NO_ENTRY \<Rightarrow> Some (SP_ERR, type1)
                 | DW_ERROR \<Rightarrow> Some (SP_ERR, type1)
                 | DW_OK tag \<Rightarrow>
                     if tag = DW_TAG_base_type then
                       (case sd_build_base_type L next_die of
                          None \<Rightarrow> Some (SP_ERR, type1)
                        | Some base \<Rightarrow> Some (SP_OK, set_node node base type1))
                     else
                       (case type_modifier tag of
                          Some modifier \<Rightarrow>
                            sd_build_type L next_die tag
                              (set_node node (NODE_MODIFIER modifier) type1)
                        | None \<Rightarrow>
                            if tag = DW_TAG_typedef then
                              sd_build_type L next_die 0 (set_node node NODE_TYPEDEF type1)
                            else Some (SP_ERR, type1))))))"

definition sd_variable_type :: "('d, 'w) libdwarf \<Rightarrow> 'd \<Rightarrow> SdType option option" where
  "sd_variable_type L die =
     (if \<not> sd_has_at L die DW_AT_type then Some None
      else
        map_option (\<lambda>(ret, type). if ret = SP_OK then Some type else None)
          (sd_build_type L die 0 alloc_type))"

section \<open>What a complete type looks like\<close>

text \<open>
  Modifiers and typedefs, and then a base type, or nothing after a pointer: the \<^verbatim>\<open>void *\<close> that
  Clang describes by a pointer type DIE without a type.
\<close>

fun modifies :: "SdTypenode \<Rightarrow> bool" where
  "modifies (NODE_MODIFIER _) = True"
| "modifies NODE_TYPEDEF = True"
| "modifies _ = False"

definition complete_nodes :: "SdTypenode list \<Rightarrow> bool" where
  "complete_nodes ns =
     (\<exists>ms. (\<forall>m \<in> set ms. modifies m) \<and>
        ((\<exists>b. ns = ms @ [NODE_BASE_TYPE b]) \<or> ns = ms @ [NODE_MODIFIER TYPE_MOD_POINTER]))"

definition type_ok :: "SdType \<Rightarrow> bool" where
  "type_ok type \<longleftrightarrow>
     length (nodes type) < n_alloc type \<and> (\<exists>ns. nodes type = map Some ns \<and> complete_nodes ns)"

text \<open>While the chain is being built.\<close>

definition building :: "nat \<Rightarrow> SdType \<Rightarrow> bool" where
  "building prev_tag type \<longleftrightarrow>
     length (nodes type) < n_alloc type \<and>
     (\<exists>ms. nodes type = map Some ms \<and> (\<forall>m \<in> set ms. modifies m) \<and>
        (prev_tag = DW_TAG_pointer_type \<longrightarrow>
           ms \<noteq> [] \<and> last ms = NODE_MODIFIER TYPE_MOD_POINTER))"

lemma building_alloc_type: "building 0 alloc_type"
  by (simp add: building_def alloc_type_def TYPE_ALLOC_def DW_TAG_pointer_type_def)

lemma alloc_node_length:
  "alloc_node type = (node, type1) \<Longrightarrow> length (nodes type) < n_alloc type \<Longrightarrow>
   node = length (nodes type) \<and> nodes type1 = nodes type @ [None] \<and>
   Suc (length (nodes type)) < n_alloc type1"
  by (auto simp: alloc_node_def Let_def TYPE_ALLOC_def split: if_splits)

lemma set_allocated_node:
  "alloc_node type = (node, type1) \<Longrightarrow> length (nodes type) < n_alloc type \<Longrightarrow>
   nodes (set_node node v type1) = nodes type @ [Some v] \<and>
   Suc (length (nodes type)) < n_alloc (set_node node v type1)"
  by (drule (1) alloc_node_length) (simp add: set_node_def)

lemma building_step:
  assumes "building prev_tag type" and "alloc_node type = (node, type1)" and "modifies v"
    and "tag = DW_TAG_pointer_type \<Longrightarrow> v = NODE_MODIFIER TYPE_MOD_POINTER"
  shows "building tag (set_node node v type1)"
proof -
  from assms(1) obtain ms where ms: "nodes type = map Some ms" "\<forall>m \<in> set ms. modifies m"
      "length (nodes type) < n_alloc type"
    by (auto simp: building_def)
  have "nodes (set_node node v type1) = map Some (ms @ [v])"
    "length (nodes (set_node node v type1)) < n_alloc (set_node node v type1)"
    using set_allocated_node [OF assms(2) ms(3), of v] ms(1) by simp_all
  moreover have "\<forall>m \<in> set (ms @ [v]). modifies m"
    using ms(2) assms(3) by simp
  ultimately show ?thesis
    unfolding building_def using assms(4) by (metis last_snoc snoc_eq_iff_butlast)
qed

lemma type_modifier_pointer_iff: "type_modifier tag = Some TYPE_MOD_POINTER \<longleftrightarrow> tag = DW_TAG_pointer_type"
  by (simp add: type_modifier_def)

lemma building_base:
  assumes "building prev_tag type" and "alloc_node type = (node, type1)"
  shows "type_ok (set_node node (NODE_BASE_TYPE b) type1)"
proof -
  from assms(1) obtain ms where ms: "nodes type = map Some ms" "\<forall>m \<in> set ms. modifies m"
      "length (nodes type) < n_alloc type"
    by (auto simp: building_def)
  then have "nodes (set_node node (NODE_BASE_TYPE b) type1) = map Some (ms @ [NODE_BASE_TYPE b])"
    "length (nodes (set_node node (NODE_BASE_TYPE b) type1))
       < n_alloc (set_node node (NODE_BASE_TYPE b) type1)"
    using set_allocated_node [OF assms(2) ms(3), of "NODE_BASE_TYPE b"] by simp_all
  with ms(2) show ?thesis
    unfolding type_ok_def complete_nodes_def by blast
qed

lemma building_pointer: "building DW_TAG_pointer_type type \<Longrightarrow> type_ok type"
  unfolding building_def type_ok_def complete_nodes_def
  by (metis append_butlast_last_id in_set_butlastD)

lemma building_modifier:
  "building prev_tag type \<Longrightarrow> alloc_node type = (node, type1) \<Longrightarrow> type_modifier tag = Some m \<Longrightarrow>
   building tag (set_node node (NODE_MODIFIER m) type1)"
  by (erule (1) building_step) (auto simp: type_modifier_def)

lemma building_typedef:
  "building prev_tag type \<Longrightarrow> alloc_node type = (node, type1) \<Longrightarrow>
   building 0 (set_node node NODE_TYPEDEF type1)"
  by (erule (1) building_step) (auto simp: DW_TAG_pointer_type_def)

lemma build_type_ok_gen:
  "sd_build_type L prev_die prev_tag type = Some r \<Longrightarrow>
   building prev_tag type \<longrightarrow> fst r = SP_OK \<longrightarrow> type_ok (snd r)"
proof (erule sd_build_type.raw_induct
    [where P = "\<lambda>L d tag type r. building tag type \<longrightarrow> fst r = SP_OK \<longrightarrow> type_ok (snd r)", rotated])
  fix build :: "('a, 'b) libdwarf \<Rightarrow> 'a \<Rightarrow> nat \<Rightarrow> SdType \<Rightarrow> (SprayResult \<times> SdType) option"
  fix L d tag type r
  assume IH: "\<And>L d tag type r. build L d tag type = Some r \<Longrightarrow>
      building tag type \<longrightarrow> fst r = SP_OK \<longrightarrow> type_ok (snd r)"
  have IH': "type_ok b" if "build L d tag type = Some (SP_OK, b)" "building tag type" for L d tag type b
    using IH [OF that(1)] that(2) by simp
  assume "(if \<not> sd_has_at L d DW_AT_type then
        (if tag = DW_TAG_pointer_type then Some (SP_OK, type) else Some (SP_ERR, type))
      else
        (case alloc_node type of (node, type1) \<Rightarrow>
           (case sd_type_die L d of
              None \<Rightarrow> Some (SP_ERR, type1)
            | Some next_die \<Rightarrow>
                (case lw_tag L next_die of
                   DW_NO_ENTRY \<Rightarrow> Some (SP_ERR, type1)
                 | DW_ERROR \<Rightarrow> Some (SP_ERR, type1)
                 | DW_OK tag \<Rightarrow>
                     if tag = DW_TAG_base_type then
                       (case sd_build_base_type L next_die of
                          None \<Rightarrow> Some (SP_ERR, type1)
                        | Some base \<Rightarrow> Some (SP_OK, set_node node base type1))
                     else
                       (case type_modifier tag of
                          Some modifier \<Rightarrow>
                            build L next_die tag (set_node node (NODE_MODIFIER modifier) type1)
                        | None \<Rightarrow>
                            if tag = DW_TAG_typedef then
                              build L next_die 0 (set_node node NODE_TYPEDEF type1)
                            else Some (SP_ERR, type1)))))) = Some r"
  then show "building tag type \<longrightarrow> fst r = SP_OK \<longrightarrow> type_ok (snd r)"
    by (cases r) (auto split: if_splits prod.splits option.splits dwres.splits
        dest!: IH' simp: sd_build_base_type_def
        intro: building_pointer building_base building_modifier building_typedef)
qed

text \<open>Where type DIEs refer to each other without a cycle, building a type comes to an end.\<close>

lemma build_type_terminates:
  assumes rank: "\<And>d d'. sd_type_die L d = Some d' \<Longrightarrow> rank d' < (rank d :: nat)"
  shows "\<exists>r. sd_build_type L d tag type = Some r"
proof (induction "rank d" arbitrary: d tag type rule: less_induct)
  case less
  then have "\<exists>r. sd_build_type L next_die t ty = Some r"
    if "sd_type_die L d = Some next_die" for next_die t ty
    using rank [OF that] by simp
  then show ?case
    by (subst sd_build_type.simps)
      (auto split: prod.splits option.splits dwres.splits simp: split_paired_Ex)
qed

lemma variable_type_ok:
  "sd_variable_type L die = Some (Some type) \<Longrightarrow> type_ok type"
  using build_type_ok_gen building_alloc_type
  by (fastforce simp: sd_variable_type_def split: if_splits)

lemma variable_type_terminates:
  "(\<And>d d'. sd_type_die L d = Some d' \<Longrightarrow> rank d' < (rank d :: nat)) \<Longrightarrow>
   \<exists>r. sd_variable_type L die = Some r"
  using build_type_terminates [of L rank die 0 alloc_type] by (auto simp: sd_variable_type_def)

section \<open>Finding a runtime variable\<close>

record VarattrSearchFor =
  vs_pc :: dbg_addr
  use_scope :: bool
  vs_var_name :: string

record 'd VarattrSearchFindings =
  in_scope :: bool
  scope_level :: nat
  loc_attr :: "'d option"
  var_type :: SdType
  decl_file :: "string option"
  decl_line :: u32

text \<open>
  The file number of a declaration counts from 1, but Clang's list of files does not have
  the extra entry in front; \<open>n_files\<close> is an \<^verbatim>\<open>unsigned\<close>.
\<close>

definition declared_in :: "('d, 'w) libdwarf \<Rightarrow> 'd \<Rightarrow> string option" where
  "declared_in L die =
     (let file_attr = (case lw_attr L die DW_AT_decl_file of DW_OK a \<Rightarrow> Some a | _ \<Rightarrow> None) in
      case lw_formudata L file_attr of
        DW_OK decl_file_num \<Rightarrow>
          (if decl_file_num \<noteq> 0 then
             (case sd_get_die_source_files L die of
                Some files \<Rightarrow>
                  (let n_files = length files mod 2 ^ 32; files_idx = unat (decl_file_num - 1) in
                   if files_idx < n_files then Some (files ! files_idx) else None)
              | None \<Rightarrow> None)
           else None)
      | _ \<Rightarrow> None)"

definition declared_at :: "('d, 'w) libdwarf \<Rightarrow> 'd \<Rightarrow> u32" where
  "declared_at L die =
     (let line_attr = (case lw_attr L die DW_AT_decl_line of DW_OK a \<Rightarrow> Some a | _ \<Rightarrow> None) in
      case lw_formudata L line_attr of DW_OK decl_line_buf \<Rightarrow> ucast decl_line_buf | _ \<Rightarrow> 0)"

text \<open>
  The part of the callback for a DIE that is in scope. A type that cannot be built for ever
  is \<open>None\<close>.
\<close>

definition match_variable ::
  "('d, 'w) libdwarf \<Rightarrow> string \<Rightarrow> 'd \<Rightarrow> 'd VarattrSearchFindings
     \<Rightarrow> (bool \<times> 'd VarattrSearchFindings) option" where
  "match_variable L var_name die f =
     (if (sd_has_tag L die DW_TAG_variable \<or> sd_has_tag L die DW_TAG_formal_parameter) \<and>
         sd_has_at L die DW_AT_location
      then
        (case lw_diename L die of
           DW_OK die_var_name \<Rightarrow>
             (if str_eq var_name die_var_name then
                (case sd_variable_type L die of
                   None \<Rightarrow> None
                 | Some None \<Rightarrow> Some (False, f)
                 | Some (Some type_buf) \<Rightarrow>
                     (case lw_attr L die DW_AT_location of
                        DW_OK loc \<Rightarrow>
                          (case sd_init_loc_attr L die loc of
                             Some loc_attr_buf \<Rightarrow>
                               Some (True, f\<lparr>decl_file := declared_in L die,
                                             decl_line := declared_at L die,
                                             loc_attr := Some loc_attr_buf,
                                             var_type := type_buf\<rparr>)
                           | None \<Rightarrow> Some (False, f))
                      | _ \<Rightarrow> Some (False, f)))
              else Some (False, f))
         | _ \<Rightarrow> Some (False, f))
      else Some (False, f))"

definition leave_scope :: "nat \<Rightarrow> 'd VarattrSearchFindings \<Rightarrow> 'd VarattrSearchFindings" where
  "leave_scope level f = (if \<not> level > scope_level f then f\<lparr>in_scope := False\<rparr> else f)"

definition enter_subprogram ::
  "('d, 'w) libdwarf \<Rightarrow> dbg_addr \<Rightarrow> 'd \<Rightarrow> nat \<Rightarrow> 'd VarattrSearchFindings
     \<Rightarrow> 'd VarattrSearchFindings" where
  "enter_subprogram L pc die level f =
     (case sd_check_pc_in_die L die (dbg_value pc) of
        DW_OK pc_in_die \<Rightarrow>
          (if pc_in_die then f\<lparr>in_scope := True, scope_level := level\<rparr>
           else f\<lparr>in_scope := False\<rparr>)
      | _ \<Rightarrow> f)"

definition find_runtime_variable ::
  "('d, 'w) libdwarf \<Rightarrow> VarattrSearchFor \<Rightarrow> 'd \<Rightarrow> nat \<Rightarrow> 'd VarattrSearchFindings
     \<Rightarrow> (bool \<times> 'd VarattrSearchFindings) option" where
  "find_runtime_variable L search_for die level f =
     (let f1 = (if use_scope search_for then leave_scope level f else f) in
      if use_scope search_for \<and> sd_has_tag L die DW_TAG_subprogram then
        Some (False, enter_subprogram L (vs_pc search_for) die level f1)
      else if \<not> use_scope search_for \<or> (use_scope search_for \<and> in_scope f1) then
        match_variable L (vs_var_name search_for) die f1
      else Some (False, f1))"

text \<open>
  As a callback, on optional data: once a callback does not return, the search does not
  either; the data is \<open>None\<close> then and the walk ends.
\<close>

definition callback__find_runtime_variable ::
  "('d, 'w) libdwarf \<Rightarrow> VarattrSearchFor \<Rightarrow> ('d, 'd VarattrSearchFindings option) callback" where
  "callback__find_runtime_variable L search_for die level f =
     (case f of
        None \<Rightarrow> (True, None)
      | Some f \<Rightarrow>
          (case find_runtime_variable L search_for die level f of
             None \<Rightarrow> (True, None)
           | Some (found, f') \<Rightarrow> (found, Some f')))"

lemma callback__find_runtime_variable_Some [simp]:
  "callback__find_runtime_variable L search_for die level (Some f) =
     (case find_runtime_variable L search_for die level f of
        None \<Rightarrow> (True, None)
      | Some (found, f') \<Rightarrow> (found, Some f'))"
  by (simp add: callback__find_runtime_variable_def)

definition search_variable ::
  "('d, 'w) libdwarf \<Rightarrow> VarattrSearchFor \<Rightarrow> 'd VarattrSearchFindings
     \<Rightarrow> ('w, dw_code \<times> 'd VarattrSearchFindings) dw_state" where
  "search_variable L search_for f w =
     (case sd_search_dwarf_dbg L (callback__find_runtime_variable L search_for) (Some f) w of
        Some (res, Some f', w') \<Rightarrow> Some ((res, f'), w')
      | _ \<Rightarrow> None)"

record 'd SdVarattr =
  va_loc :: "'d option"
  va_type :: SdType

definition found_variable ::
  "'d VarattrSearchFindings \<Rightarrow> 'd SdVarattr \<times> string option \<times> u32" where
  "found_variable f = (\<lparr>va_loc = loc_attr f, va_type = var_type f\<rparr>, decl_file f, decl_line f)"

definition no_findings :: "'d VarattrSearchFindings" where
  "no_findings = \<lparr>in_scope = False, scope_level = 0, loc_attr = None,
     var_type = \<lparr>nodes = [], n_alloc = 0\<rparr>, decl_file = None, decl_line = 0\<rparr>"

definition sd_runtime_variable ::
  "('d, 'w) libdwarf \<Rightarrow> dbg_addr \<Rightarrow> string
     \<Rightarrow> ('w, ('d SdVarattr \<times> string option \<times> u32) option) dw_state" where
  "sd_runtime_variable L pc var_name =
     (let search_for = \<lparr>vs_pc = pc, use_scope = True, vs_var_name = var_name\<rparr> in
      dw_bind (search_variable L search_for no_findings) (\<lambda>(res, f).
        case res of
          DW_DLV_ERROR \<Rightarrow> dw_return None
        | DW_DLV_NO_ENTRY \<Rightarrow>
            dw_bind (search_variable L (search_for\<lparr>use_scope := False\<rparr>) f) (\<lambda>(res, f').
              if res \<noteq> DW_DLV_OK then dw_return None
              else dw_return (Some (found_variable f')))
        | DW_DLV_OK \<Rightarrow> dw_return (Some (found_variable f))))"

section \<open>The variable that is found\<close>

definition is_variable_die :: "('d, 'w) libdwarf \<Rightarrow> string \<Rightarrow> 'd \<Rightarrow> bool" where
  "is_variable_die L name d \<longleftrightarrow>
     (sd_has_tag L d DW_TAG_variable \<or> sd_has_tag L d DW_TAG_formal_parameter) \<and>
     sd_has_at L d DW_AT_location \<and> lw_diename L d = DW_OK name"

definition describes ::
  "('d, 'w) libdwarf \<Rightarrow> string \<Rightarrow> 'd \<Rightarrow> 'd VarattrSearchFindings \<Rightarrow> bool" where
  "describes L name d f \<longleftrightarrow>
     is_variable_die L name d \<and> type_ok (var_type f) \<and>
     (\<exists>a. lw_attr L d DW_AT_location = DW_OK a \<and> loc_attr f = Some a) \<and>
     decl_file f = declared_in L d \<and> decl_line f = declared_at L d"

lemma init_loc_attr_same: "sd_init_loc_attr L die a = Some b \<Longrightarrow> b = a"
  by (auto simp: sd_init_loc_attr_def split: dwres.splits prod.splits if_splits)

lemma match_variable_found:
  assumes "match_variable L name d f = Some (True, f')"
  shows "describes L name d f'"
  using assms
  by (auto simp: match_variable_def describes_def is_variable_die_def str_eq_def
      split: if_splits dwres.splits option.splits
      dest: init_loc_attr_same variable_type_ok)

lemma match_variable_not_found: "match_variable L name d f = Some (False, f') \<Longrightarrow> f' = f"
  by (auto simp: match_variable_def split: if_splits dwres.splits option.splits)

text \<open>
  A position in the preorder is in the scope of a subprogram if all DIEs since the
  subprogram's are deeper in the tree than it, that is, its descendants.
\<close>

definition in_subprogram :: "('d, 'w) libdwarf \<Rightarrow> dbg_addr \<Rightarrow> ('d \<times> nat) list \<Rightarrow> nat \<Rightarrow> bool" where
  "in_subprogram L pc seen k \<longleftrightarrow>
     (\<exists>xs s ys. seen = xs @ (s, k) # ys \<and> (\<forall>(e, l) \<in> set ys. k < l) \<and>
        sd_has_tag L s DW_TAG_subprogram \<and> sd_check_pc_in_die L s (dbg_value pc) = DW_OK True)"

lemma in_subprogram_snoc:
  assumes "in_subprogram L pc seen k" and "k < level"
  shows "in_subprogram L pc (seen @ [(d, level)]) k"
proof -
  from assms(1) obtain xs s ys where "seen = xs @ (s, k) # ys" "\<forall>(e, l) \<in> set ys. k < l"
    and s: "sd_has_tag L s DW_TAG_subprogram"
      "sd_check_pc_in_die L s (dbg_value pc) = DW_OK True"
    unfolding in_subprogram_def by blast
  with assms(2) have "seen @ [(d, level)] = xs @ (s, k) # (ys @ [(d, level)])"
    "\<forall>(e, l) \<in> set (ys @ [(d, level)]). k < l" by auto
  with s show ?thesis unfolding in_subprogram_def by blast
qed

lemma in_subprogram_enter:
  "sd_has_tag L d DW_TAG_subprogram \<Longrightarrow> sd_check_pc_in_die L d (dbg_value pc) = DW_OK True \<Longrightarrow>
   in_subprogram L pc (seen @ [(d, level)]) level"
  unfolding in_subprogram_def by (intro exI [of _ seen] exI [of _ d] exI [of _ "[]"]) simp

definition scope_inv ::
  "('d, 'w) libdwarf \<Rightarrow> dbg_addr \<Rightarrow> ('d \<times> nat) list \<Rightarrow> 'd VarattrSearchFindings \<Rightarrow> bool" where
  "scope_inv L pc seen f \<longleftrightarrow> (in_scope f \<longrightarrow> in_subprogram L pc seen (scope_level f))"

lemma scope_inv_step:
  assumes inv: "scope_inv L (vs_pc sf) seen f" and scope: "use_scope sf"
    and step: "find_runtime_variable L sf d level f = Some (False, f')"
  shows "scope_inv L (vs_pc sf) (seen @ [(d, level)]) f'"
proof -
  have f1: "scope_inv L (vs_pc sf) (seen @ [(d, level)]) (leave_scope level f)"
    using inv in_subprogram_snoc by (auto simp: scope_inv_def leave_scope_def)
  show ?thesis
  proof (cases "sd_has_tag L d DW_TAG_subprogram")
    case True
    with step scope have "f' = enter_subprogram L (vs_pc sf) d level (leave_scope level f)"
      by (simp add: find_runtime_variable_def Let_def)
    with f1 in_subprogram_enter [OF True, of "vs_pc sf" seen level] show ?thesis
      by (auto simp: enter_subprogram_def scope_inv_def split: dwres.splits if_splits)
  next
    case False
    with step scope have "f' = leave_scope level f"
      by (auto simp: find_runtime_variable_def Let_def dest: match_variable_not_found
          split: if_splits)
    with f1 show ?thesis by simp
  qed
qed

lemma scoped_match:
  assumes inv: "scope_inv L (vs_pc sf) seen f" and scope: "use_scope sf"
    and step: "find_runtime_variable L sf d level f = Some (True, f')"
  shows "describes L (vs_var_name sf) d f' \<and>
         (\<exists>k < level. in_subprogram L (vs_pc sf) seen k)"
proof -
  from step scope have "match_variable L (vs_var_name sf) d (leave_scope level f) = Some (True, f')"
    and "in_scope (leave_scope level f)"
    by (auto simp: find_runtime_variable_def Let_def split: if_splits)
  with inv show ?thesis
    by (auto simp: scope_inv_def leave_scope_def dest: match_variable_found split: if_splits)
qed

lemma scan_scoped:
  assumes "scan (callback__find_runtime_variable L sf) ds (Some f) = (True, Some f')"
    and "scope_inv L (vs_pc sf) seen f" and "use_scope sf"
  shows "\<exists>xs d level ys k. ds = xs @ (d, level) # ys \<and> describes L (vs_var_name sf) d f' \<and>
           k < level \<and> in_subprogram L (vs_pc sf) (seen @ xs) k"
  using assms(1,2)
proof (induction ds arbitrary: f seen)
  case (Cons x ds)
  obtain d level where x: "x = (d, level)" by fastforce
  show ?case
  proof (cases "find_runtime_variable L sf d level f")
    case None
    with Cons.prems x show ?thesis by simp
  next
    case (Some r)
    obtain found g where r: "r = (found, g)" by fastforce
    show ?thesis
    proof (cases found)
      case True
      with Cons.prems x Some r have "g = f'"
        by simp
      with True Some r scoped_match [OF Cons.prems(2) assms(3), of d level f']
      have "describes L (vs_var_name sf) d f' \<and> (\<exists>k < level. in_subprogram L (vs_pc sf) seen k)"
        by simp
      with x show ?thesis by (intro exI [of _ "[]"]) auto
    next
      case False
      with Cons.prems x Some r
      have "scan (callback__find_runtime_variable L sf) ds (Some g) = (True, Some f')"
        by simp
      moreover from False Some r Cons.prems(2) assms(3)
      have "scope_inv L (vs_pc sf) (seen @ [(d, level)]) g"
        by (auto intro: scope_inv_step)
      ultimately obtain xs e l ys k where "ds = xs @ (e, l) # ys"
        "describes L (vs_var_name sf) e f'" "k < l"
        "in_subprogram L (vs_pc sf) ((seen @ [(d, level)]) @ xs) k"
        using Cons.IH by blast
      with x show ?thesis by (intro exI [of _ "x # xs"]) auto
    qed
  qed
qed simp

lemma scan_unscoped:
  assumes "scan (callback__find_runtime_variable L sf) ds (Some f) = (True, Some f')"
    and "\<not> use_scope sf"
  shows "\<exists>d level. (d, level) \<in> set ds \<and> describes L (vs_var_name sf) d f'"
  using assms(1)
proof (induction ds arbitrary: f)
  case (Cons x ds)
  then show ?case
    using assms(2) match_variable_found
    by (cases x) (fastforce simp: find_runtime_variable_def
        split: option.splits prod.splits if_splits)
qed simp

lemma search_variable_found:
  assumes "dwarf_ok L w info types" and "search_variable L sf f w = Some ((res, f'), w')"
  shows "w' = w \<and> res = search_code (fst (scan (callback__find_runtime_variable L sf)
            (dies (info @ types)) (Some f))) \<and>
         snd (scan (callback__find_runtime_variable L sf) (dies (info @ types)) (Some f)) = Some f'"
  using assms(2) unfolding search_variable_def search_dwarf_dbg_scan [OF assms(1)]
  by (auto split: option.splits prod.splits)

lemma search_variable_OK:
  assumes "dwarf_ok L w info types" and "search_variable L sf f w = Some ((DW_DLV_OK, f'), w')"
  shows "scan (callback__find_runtime_variable L sf) (dies (info @ types)) (Some f) = (True, Some f')"
  using search_variable_found [OF assms]
  by (cases "scan (callback__find_runtime_variable L sf) (dies (info @ types)) (Some f)")
    (auto simp: search_code_def split: if_splits)

definition visible_at ::
  "('d, 'w) libdwarf \<Rightarrow> dbg_addr \<Rightarrow> ('d \<times> nat) list \<Rightarrow> 'd \<Rightarrow> bool" where
  "visible_at L pc ds d \<longleftrightarrow>
     (\<exists>xs level ys k. ds = xs @ (d, level) # ys \<and> k < level \<and> in_subprogram L pc xs k)"

lemma runtime_variable_found:
  assumes ok: "dwarf_ok L w info types"
    and res: "sd_runtime_variable L pc name w = Some (Some (attr, file, line), w')"
  shows "w' = w \<and>
    (\<exists>d f. attr = \<lparr>va_loc = loc_attr f, va_type = var_type f\<rparr> \<and> file = decl_file f \<and>
       line = decl_line f \<and> describes L name d f \<and>
       (visible_at L pc (dies (info @ types)) d \<or>
        (d \<in> fst ` set (dies (info @ types)) \<and>
         (\<exists>g. search_variable L \<lparr>vs_pc = pc, use_scope = True, vs_var_name = name\<rparr> no_findings w
            = Some ((DW_DLV_NO_ENTRY, g), w)))))"
proof -
  let ?sf = "\<lparr>vs_pc = pc, use_scope = True, vs_var_name = name\<rparr>"
  from res obtain r f w1 where first: "search_variable L ?sf no_findings w = Some ((r, f), w1)"
    by (auto simp: sd_runtime_variable_def Let_def dw_bind_def split: option.splits)
  from search_variable_found [OF ok first] have w1: "w1 = w" and r: "r \<noteq> DW_DLV_ERROR"
    by (auto simp: search_code_def split: if_splits)
  show ?thesis
  proof (cases r)
    case DW_DLV_OK
    with first have scan: "scan (callback__find_runtime_variable L ?sf) (dies (info @ types))
        (Some no_findings) = (True, Some f)"
      using search_variable_OK [OF ok] by blast
    have "scope_inv L (vs_pc ?sf) [] no_findings"
      by (simp add: scope_inv_def no_findings_def)
    from scan_scoped [OF scan this] obtain xs d level ys k where
      "dies (info @ types) = xs @ (d, level) # ys" "describes L name d f" "k < level"
      "in_subprogram L pc xs k" by auto
    then have "visible_at L pc (dies (info @ types)) d" "describes L name d f"
      unfolding visible_at_def by blast+
    moreover from res first DW_DLV_OK have "w' = w1" "(attr, file, line) = found_variable f"
      by (simp_all add: sd_runtime_variable_def Let_def)
    ultimately show ?thesis using w1 by (auto simp: found_variable_def)
  next
    case DW_DLV_NO_ENTRY
    with res first w1 obtain r' f' w2 where
      second: "search_variable L (?sf\<lparr>use_scope := False\<rparr>) f w = Some ((r', f'), w2)"
      by (auto simp: sd_runtime_variable_def Let_def dw_bind_def split: option.splits)
    with res first w1 DW_DLV_NO_ENTRY have "r' = DW_DLV_OK" "w' = w2" "(attr, file, line) = found_variable f'"
      by (auto simp: sd_runtime_variable_def Let_def split: if_splits)
    moreover from second this(1) have "w2 = w"
      using search_variable_found [OF ok] by blast
    moreover from second \<open>r' = DW_DLV_OK\<close> have
      "scan (callback__find_runtime_variable L (?sf\<lparr>use_scope := False\<rparr>)) (dies (info @ types)) (Some f)
         = (True, Some f')"
      using search_variable_OK [OF ok] by blast
    from scan_unscoped [OF this] obtain d level where
      mem: "(d, level) \<in> set (dies (info @ types))" and "describes L name d f'" by auto
    moreover from mem have "d \<in> fst ` set (dies (info @ types))" by (rule image_eqI [rotated]) simp
    moreover note first [unfolded w1 DW_DLV_NO_ENTRY]
    ultimately show ?thesis
      unfolding found_variable_def by blast
  qed (use r in simp)
qed

end
