(* ===== verification/Dwarf_Lines.thy ===== *)
theory Dwarf_Lines
  imports Dwarf_Die
begin

text \<open>
  Line tables in \<^verbatim>\<open>src/src/spray_dwarf.c\<close>: the table of the compilation unit of a source
  file, the lookups by program counter and by line number, the traversal of the lines of a
  function, and the address where a function's body starts after its prologue.
\<close>

section \<open>Line entries\<close>

record LineEntry =
  is_ok :: bool
  new_statement :: bool
  prologue_end :: bool
  is_exact :: bool
  ln :: u32
  cl :: u32
  addr :: dbg_addr
  filepath :: string

text \<open>\<^verbatim>\<open>(LineEntry) { .is_ok = false }\<close>; the path is a null pointer there.\<close>

definition no_line_entry :: LineEntry where
  "no_line_entry = \<lparr>is_ok = False, new_statement = False, prologue_end = False, is_exact = False,
     ln = 0, cl = 0, addr = DbgAddr 0, filepath = []\<rparr>"

text \<open>The library returns a table count of 2 for two-level tables, which are not supported.\<close>

definition sd_get_line_context :: "('d, 'w) libdwarf \<Rightarrow> 'd \<Rightarrow> 'd option" where
  "sd_get_line_context L cu_die =
     (case lw_srclines L cu_die of
        DW_OK (line_table_count, line_context_buf) \<Rightarrow>
          (if line_table_count = 2 then None else Some line_context_buf)
      | _ \<Rightarrow> None)"

definition sd_line_entry_from_dwarf_line :: "('d, 'w) libdwarf \<Rightarrow> 'd \<Rightarrow> LineEntry dwres" where
  "sd_line_entry_from_dwarf_line L line =
     bind_dwres (lw_lineno L line) (\<lambda>lineno.
     bind_dwres (lw_lineoff L line) (\<lambda>colno.
     bind_dwres (lw_lineaddr L line) (\<lambda>a.
     bind_dwres (lw_linesrc L line) (\<lambda>path.
     bind_dwres (lw_linebeginstatement L line) (\<lambda>begins.
     bind_dwres (lw_prologue_end L line) (\<lambda>ends.
       DW_OK \<lparr>is_ok = True,
              new_statement = dwarf_bool_to_bool begins,
              prologue_end = dwarf_bool_to_bool ends,
              is_exact = False,
              ln = ucast lineno, cl = ucast colno,
              addr = DbgAddr a, filepath = path\<rparr>))))))"

section \<open>Does a DIE come from a file?\<close>

text \<open>
  \<^verbatim>\<open>basename\<close> and \<^verbatim>\<open>dirname\<close> as POSIX describes them, on the value of their argument, where
  \<open>None\<close> is a null pointer. (glibc cuts the string in place; for a file in the root directory
  this also cuts off the name that \<^verbatim>\<open>basename\<close> has returned before, which is not modelled.)
\<close>

definition strip_slashes :: "string \<Rightarrow> string" where
  "strip_slashes s = rev (dropWhile (\<lambda>c. c = CHR ''/'') (rev s))"

definition basename :: "string option \<Rightarrow> string" where
  "basename p =
     (case p of
        None \<Rightarrow> ''.''
      | Some s \<Rightarrow>
          if s = [] then ''.''
          else if strip_slashes s = [] then ''/''
          else rev (takeWhile (\<lambda>c. c \<noteq> CHR ''/'') (rev (strip_slashes s))))"

definition dirname :: "string option \<Rightarrow> string" where
  "dirname p =
     (case p of
        None \<Rightarrow> ''.''
      | Some s \<Rightarrow>
          (let t = strip_slashes s; d = rev (dropWhile (\<lambda>c. c \<noteq> CHR ''/'') (rev t)) in
           if s = [] then ''.''
           else if t = [] then ''/''
           else if d = [] then ''.''
           else if strip_slashes d = [] then ''/''
           else strip_slashes d))"

text \<open>\<open>realpath\<close> is the file system's: the resolved path, or an error that is or is not
  \<^verbatim>\<open>ENOENT\<close>.\<close>

datatype realpath_res = Resolved string | Failed bool

definition sd_is_die_from_file ::
  "('d, 'w) libdwarf \<Rightarrow> (string \<Rightarrow> realpath_res) \<Rightarrow> 'd \<Rightarrow> string \<Rightarrow> bool" where
  "sd_is_die_from_file L realpath die path =
     (case sd_get_filepath L die of
        None \<Rightarrow> False
      | Some die_filepath \<Rightarrow>
          (let file_name = basename (Some die_filepath); dir_name = dirname (Some die_filepath) in
           case realpath path of
             Failed enoent \<Rightarrow>
               (if enoent then str_eq (basename (Some path)) file_name
                else str_eq file_name (basename None) \<and> str_eq dir_name (dirname None))
           | Resolved full_filepath \<Rightarrow>
               str_eq file_name (basename (Some full_filepath)) \<and>
               str_eq dir_name (dirname (Some full_filepath))))"

section \<open>The source files of all compilation units\<close>

text \<open>The growing array is the list of its elements; its capacity has no effect.\<close>

definition callback__get_filepaths :: "('d, 'w) libdwarf \<Rightarrow> ('d, string list) callback" where
  "callback__get_filepaths L cu_die level filepaths =
     (if sd_has_tag L cu_die DW_TAG_compile_unit then
        (case lw_srcfiles L cu_die of
           DW_OK srcfiles \<Rightarrow> (False, filepaths @ srcfiles)
         | _ \<Rightarrow> (False, filepaths))
      else (False, filepaths))"

text \<open>\<open>None\<close> as the result is the null pointer.\<close>

definition sd_get_filepaths :: "('d, 'w) libdwarf \<Rightarrow> ('w, string list option) dw_state" where
  "sd_get_filepaths L w =
     map_option
       (\<lambda>(res, filepaths, w'). (if res = DW_DLV_ERROR then None else Some filepaths, w'))
       (sd_search_dwarf_dbg L (callback__get_filepaths L) [] w)"

section \<open>The line table of a file\<close>

record LineTable =
  is_set :: bool
  lt_lines :: "LineEntry list"

definition no_line_table :: LineTable where
  "no_line_table = \<lparr>is_set = False, lt_lines = []\<rparr>"

fun line_entries_of :: "('d, 'w) libdwarf \<Rightarrow> 'd list \<Rightarrow> LineEntry list option" where
  "line_entries_of L [] = Some []"
| "line_entries_of L (line # lines) =
     (case sd_line_entry_from_dwarf_line L line of
        DW_OK e \<Rightarrow> map_option ((#) e) (line_entries_of L lines)
      | _ \<Rightarrow> None)"

definition callback__get_srclines ::
  "('d, 'w) libdwarf \<Rightarrow> (string \<Rightarrow> realpath_res) \<Rightarrow> string \<Rightarrow> ('d, LineTable) callback" where
  "callback__get_srclines L realpath path cu_die level line_table =
     (if \<not> sd_has_tag L cu_die DW_TAG_compile_unit then (False, line_table)
      else if \<not> sd_is_die_from_file L realpath cu_die path then (False, line_table)
      else
        (case sd_get_line_context L cu_die of
           None \<Rightarrow> (False, line_table)
         | Some line_context \<Rightarrow>
             (case lw_lines_of_context L line_context of
                DW_OK lines \<Rightarrow>
                  (case line_entries_of L lines of
                     None \<Rightarrow> (False, line_table)
                   | Some line_entries \<Rightarrow>
                       (True, line_table\<lparr>lt_lines := line_entries, is_set := True\<rparr>))
              | _ \<Rightarrow> (False, line_table))))"

definition sd_get_line_table ::
  "('d, 'w) libdwarf \<Rightarrow> (string \<Rightarrow> realpath_res) \<Rightarrow> string \<Rightarrow> ('w, LineTable) dw_state" where
  "sd_get_line_table L realpath path w =
     map_option
       (\<lambda>(res, line_table, w'). (if res \<noteq> DW_DLV_OK then no_line_table else line_table, w'))
       (sd_search_dwarf_dbg L (callback__get_srclines L realpath path) no_line_table w)"

section \<open>Looking up lines\<close>

text \<open>\<^verbatim>\<open>while (i < n && P lines[i]) i++;\<close> from index 0.\<close>

fun while_index :: "('a \<Rightarrow> bool) \<Rightarrow> 'a list \<Rightarrow> nat" where
  "while_index P [] = 0"
| "while_index P (x # xs) = (if P x then Suc (while_index P xs) else 0)"

definition get_line_table_index_of_pc :: "LineTable \<Rightarrow> dbg_addr \<Rightarrow> nat option" where
  "get_line_table_index_of_pc line_table pc =
     (let lines = lt_lines line_table;
          i = while_index (\<lambda>l. dbg_value (addr l) < dbg_value pc) lines in
      if i < length lines \<and> dbg_value (addr (lines ! i)) \<ge> dbg_value pc \<and>
         (i + 1 \<ge> length lines \<or> dbg_value pc < dbg_value (addr (lines ! (i + 1))))
      then Some i else None)"

definition get_line_table_index_of_line :: "LineTable \<Rightarrow> u32 \<Rightarrow> nat option" where
  "get_line_table_index_of_line line_table lineno =
     (let lines = lt_lines line_table;
          i = while_index (\<lambda>l. ln l < lineno) lines in
      if i < length lines \<and> ln (lines ! i) \<ge> lineno then Some i else None)"

definition line_entry_for_pc :: "LineTable \<Rightarrow> dbg_addr \<Rightarrow> LineEntry" where
  "line_entry_for_pc line_table pc =
     (case find (\<lambda>l. dbg_value (addr l) = dbg_value pc) (lt_lines line_table) of
        Some l \<Rightarrow> l\<lparr>is_exact := True\<rparr>
      | None \<Rightarrow>
          (case get_line_table_index_of_pc line_table pc of
             None \<Rightarrow> no_line_entry
           | Some i \<Rightarrow>
               (let ret = lt_lines line_table ! i in
                if is_ok ret \<and> dbg_value (addr ret) = dbg_value pc
                then ret\<lparr>is_exact := True\<rparr> else ret)))"

definition sd_line_entry_from_pc ::
  "('d, 'w) libdwarf \<Rightarrow> (string \<Rightarrow> realpath_res) \<Rightarrow> dbg_addr \<Rightarrow> ('w, LineEntry) dw_state" where
  "sd_line_entry_from_pc L realpath pc =
     dw_bind (sd_filepath_from_pc L pc) (\<lambda>path.
       case path of
         None \<Rightarrow> dw_return no_line_entry
       | Some path \<Rightarrow>
           dw_bind (sd_get_line_table L realpath path) (\<lambda>line_table.
             if \<not> is_set line_table then dw_return no_line_entry
             else dw_return (line_entry_for_pc line_table pc)))"

definition sd_line_entry_at ::
  "('d, 'w) libdwarf \<Rightarrow> (string \<Rightarrow> realpath_res) \<Rightarrow> string \<Rightarrow> u32 \<Rightarrow> ('w, LineEntry) dw_state"
  where
  "sd_line_entry_at L realpath path lineno =
     dw_bind (sd_get_line_table L realpath path) (\<lambda>line_table.
       if \<not> is_set line_table then dw_return no_line_entry
       else
         (case get_line_table_index_of_line line_table lineno of
            None \<Rightarrow> dw_return no_line_entry
          | Some line_idx \<Rightarrow> dw_return (lt_lines line_table ! line_idx)))"

section \<open>The lines of a function\<close>

record SubprogPcRange =
  range_is_set :: bool
  range_lowpc :: dbg_addr
  range_highpc :: dbg_addr

definition no_range :: SubprogPcRange where
  "no_range = \<lparr>range_is_set = False, range_lowpc = DbgAddr 0, range_highpc = DbgAddr 0\<rparr>"

definition callback__find_subprog_pc_range_by_subprog_name ::
  "('d, 'w) libdwarf \<Rightarrow> string \<Rightarrow> ('d, SubprogPcRange) callback" where
  "callback__find_subprog_pc_range_by_subprog_name L fn_name die level rng =
     (if sd_is_subprog_with_name L die fn_name then
        (case sd_get_high_and_low_pc L die of
           DW_OK (lowpc, highpc) \<Rightarrow>
             (True, rng\<lparr>range_lowpc := DbgAddr lowpc, range_highpc := DbgAddr highpc,
                          range_is_set := True\<rparr>)
         | _ \<Rightarrow> (False, rng))
      else (False, rng))"

definition sd_get_subprog_pc_range ::
  "('d, 'w) libdwarf \<Rightarrow> string \<Rightarrow> ('w, SubprogPcRange) dw_state" where
  "sd_get_subprog_pc_range L fn_name w =
     map_option (\<lambda>(res, rng, w'). (if res \<noteq> DW_DLV_OK then no_range else rng, w'))
       (sd_search_dwarf_dbg L (callback__find_subprog_pc_range_by_subprog_name L fn_name)
          no_range w)"

text \<open>
  The callback of \<^verbatim>\<open>sd_for_each_line\<close> works on a state of its own and may abort the program.
  \<open>line_loop\<close> is the \<^verbatim>\<open>for\<close> loop, on the lines from index \<open>i\<close> on.
\<close>

type_synonym 'c line_callback = "LineEntry \<Rightarrow> 'c \<Rightarrow> (SprayResult \<times> 'c) run"

fun line_loop ::
  "'c line_callback \<Rightarrow> dbg_addr \<Rightarrow> LineEntry list \<Rightarrow> 'c \<Rightarrow> (SprayResult \<times> 'c) run" where
  "line_loop callback highpc [] c = Ret (SP_OK, c)"
| "line_loop callback highpc (l # lines) c =
     (if \<not> dbg_value (addr l) \<le> dbg_value highpc then Ret (SP_OK, c)
      else if new_statement l then
        run_bind (callback l c) (\<lambda>(res, c').
          if res = SP_ERR then Ret (SP_ERR, c') else line_loop callback highpc lines c')
      else line_loop callback highpc lines c)"

definition sd_for_each_line ::
  "('d, 'w) libdwarf \<Rightarrow> (string \<Rightarrow> realpath_res) \<Rightarrow> string \<Rightarrow> string \<Rightarrow> 'c line_callback \<Rightarrow> 'c
     \<Rightarrow> ('w, (SprayResult \<times> 'c) run) dw_state" where
  "sd_for_each_line L realpath fn_name path callback init_data =
     dw_bind (sd_get_subprog_pc_range L fn_name) (\<lambda>rng.
       if \<not> range_is_set rng then dw_return (Ret (SP_ERR, init_data))
       else
         dw_bind (sd_get_line_table L realpath path) (\<lambda>line_table.
           if \<not> is_set line_table then dw_return (Ret (SP_ERR, init_data))
           else
             (case get_line_table_index_of_pc line_table (range_lowpc rng) of
                None \<Rightarrow> dw_return (Ret (SP_ERR, init_data))
              | Some i \<Rightarrow>
                  dw_return (line_loop callback (range_highpc rng)
                    (drop i (lt_lines line_table)) init_data))))"

text \<open>
  The effective start of a function. The loop over the files reads \<^verbatim>\<open>filepaths[0]\<close> even when
  \<^verbatim>\<open>sd_get_filepaths\<close> returned a null pointer, which is undefined.
\<close>

fun prologue_end_line :: "dbg_addr \<Rightarrow> LineEntry list \<Rightarrow> LineEntry option" where
  "prologue_end_line function_end [] = None"
| "prologue_end_line function_end (l # lines) =
     (if \<not> dbg_value (addr l) \<le> dbg_value function_end then None
      else if prologue_end l then Some l
      else prologue_end_line function_end lines)"

definition start_in_table :: "LineTable \<Rightarrow> nat \<Rightarrow> dbg_addr \<Rightarrow> dbg_addr" where
  "start_in_table line_table first_line function_end =
     (case prologue_end_line function_end (drop first_line (lt_lines line_table)) of
        Some l \<Rightarrow> addr l
      | None \<Rightarrow>
          if first_line + 1 < length (lt_lines line_table)
          then addr (lt_lines line_table ! (first_line + 1))
          else addr (lt_lines line_table ! first_line))"

fun start_addr_loop ::
  "('d, 'w) libdwarf \<Rightarrow> (string \<Rightarrow> realpath_res) \<Rightarrow> dbg_addr \<Rightarrow> dbg_addr \<Rightarrow> string list
     \<Rightarrow> ('w, dbg_addr option) dw_state" where
  "start_addr_loop L realpath prologue_start function_end [] = dw_return None"
| "start_addr_loop L realpath prologue_start function_end (path # paths) =
     dw_bind (sd_get_line_table L realpath path) (\<lambda>line_table.
       if \<not> is_set line_table then start_addr_loop L realpath prologue_start function_end paths
       else
         (case get_line_table_index_of_pc line_table prologue_start of
            None \<Rightarrow> start_addr_loop L realpath prologue_start function_end paths
          | Some first_line \<Rightarrow>
              dw_return (Some (start_in_table line_table first_line function_end))))"

definition sd_effective_start_addr ::
  "('d, 'w) libdwarf \<Rightarrow> (string \<Rightarrow> realpath_res) \<Rightarrow> dbg_addr \<Rightarrow> dbg_addr
     \<Rightarrow> ('w, dbg_addr option c_result) dw_state" where
  "sd_effective_start_addr L realpath prologue_start function_end =
     dw_bind (sd_get_filepaths L) (\<lambda>filepaths.
       case filepaths of
         None \<Rightarrow> dw_return UB
       | Some paths \<Rightarrow>
           dw_bind (start_addr_loop L realpath prologue_start function_end paths)
             (\<lambda>res. dw_return (Defined res)))"

section \<open>Lookups in a table, specified\<close>

lemma while_index_le: "while_index P xs \<le> length xs"
  by (induction xs) auto

lemma while_index_prefix: "j < while_index P xs \<Longrightarrow> P (xs ! j)"
  by (induction xs arbitrary: j) (auto simp: nth_Cons split: if_splits nat.splits)

lemma while_index_stop: "while_index P xs < length xs \<Longrightarrow> \<not> P (xs ! while_index P xs)"
  by (induction xs) (auto split: if_splits)

lemma while_index_eqI:
  "i < length xs \<Longrightarrow> \<not> P (xs ! i) \<Longrightarrow> (\<forall>j < i. P (xs ! j)) \<Longrightarrow> while_index P xs = i"
  by (metis while_index_prefix while_index_stop linorder_neqE_nat order.strict_trans)

lemma index_of_pc_iff:
  "get_line_table_index_of_pc t pc = Some i \<longleftrightarrow>
     i < length (lt_lines t) \<and>
     (\<forall>j < i. dbg_value (addr (lt_lines t ! j)) < dbg_value pc) \<and>
     dbg_value pc \<le> dbg_value (addr (lt_lines t ! i)) \<and>
     (i + 1 < length (lt_lines t) \<longrightarrow> dbg_value pc < dbg_value (addr (lt_lines t ! (i + 1))))"
    (is "?l \<longleftrightarrow> ?r")
proof
  assume ?l
  then show ?r
    by (auto simp: get_line_table_index_of_pc_def Let_def split: if_splits
        dest: while_index_prefix)
next
  assume r: ?r
  then have "while_index (\<lambda>l. dbg_value (addr l) < dbg_value pc) (lt_lines t) = i"
    by (intro while_index_eqI) auto
  with r show ?l
    by (auto simp: get_line_table_index_of_pc_def Let_def)
qed

lemma index_of_line_iff:
  "get_line_table_index_of_line t n = Some i \<longleftrightarrow>
     i < length (lt_lines t) \<and> (\<forall>j < i. ln (lt_lines t ! j) < n) \<and> n \<le> ln (lt_lines t ! i)"
    (is "?l \<longleftrightarrow> ?r")
proof
  assume ?l
  then show ?r
    by (auto simp: get_line_table_index_of_line_def Let_def split: if_splits
        dest: while_index_prefix)
next
  assume r: ?r
  then have "while_index (\<lambda>l. ln l < n) (lt_lines t) = i"
    by (intro while_index_eqI) auto
  with r show ?l
    by (auto simp: get_line_table_index_of_line_def Let_def)
qed

text \<open>In a table whose addresses strictly increase the last condition comes for free.\<close>

definition increasing :: "LineEntry list \<Rightarrow> bool" where
  "increasing lines = (\<forall>i j. i < j \<longrightarrow> j < length lines \<longrightarrow>
     dbg_value (addr (lines ! i)) < dbg_value (addr (lines ! j)))"

lemma increasing_map: "increasing lines \<longleftrightarrow> sorted_wrt (<) (map (\<lambda>l. dbg_value (addr l)) lines)"
  by (auto simp: increasing_def sorted_wrt_iff_nth_less)

lemma index_of_pc_total:
  assumes "increasing (lt_lines t)" and "l \<in> set (lt_lines t)" and "dbg_value pc \<le> dbg_value (addr l)"
  shows "\<exists>i. get_line_table_index_of_pc t pc = Some i"
proof -
  let ?P = "\<lambda>l. dbg_value (addr l) < dbg_value pc"
  let ?i = "while_index ?P (lt_lines t)"
  have less: "?i < length (lt_lines t)"
    using assms(2,3) by (metis in_set_conv_nth le_neq_implies_less leD while_index_le while_index_prefix)
  then have "dbg_value pc \<le> dbg_value (addr (lt_lines t ! ?i))"
    using while_index_stop by fastforce
  moreover have "dbg_value pc < dbg_value (addr (lt_lines t ! (?i + 1)))"
    if "?i + 1 < length (lt_lines t)"
  proof -
    have "dbg_value (addr (lt_lines t ! ?i)) < dbg_value (addr (lt_lines t ! (?i + 1)))"
      using assms(1) that unfolding increasing_def by (metis less_add_one)
    with \<open>dbg_value pc \<le> dbg_value (addr (lt_lines t ! ?i))\<close> show ?thesis by (rule le_less_trans)
  qed
  ultimately have "get_line_table_index_of_pc t pc = Some ?i"
    using less by (auto simp: index_of_pc_iff dest: while_index_prefix)
  then show ?thesis by blast
qed

text \<open>The entry for a program counter: exact if the table has one, else the next line.\<close>

lemma line_entry_for_pc_exact:
  assumes "find (\<lambda>l. dbg_value (addr l) = dbg_value pc) (lt_lines t) = Some l"
  shows "line_entry_for_pc t pc = l\<lparr>is_exact := True\<rparr>"
  using assms by (simp add: line_entry_for_pc_def)

lemma line_entry_for_pc_cases:
  "line_entry_for_pc t pc = no_line_entry \<or>
   (\<exists>l \<in> set (lt_lines t). dbg_value pc \<le> dbg_value (addr l) \<and>
      (line_entry_for_pc t pc = l \<and> dbg_value pc < dbg_value (addr l) \<or>
       line_entry_for_pc t pc = l\<lparr>is_exact := True\<rparr> \<and> addr l = pc))"
proof (cases "find (\<lambda>l. dbg_value (addr l) = dbg_value pc) (lt_lines t)")
  case None
  show ?thesis
  proof (cases "get_line_table_index_of_pc t pc")
    case None
    with \<open>find _ _ = None\<close> show ?thesis by (simp add: line_entry_for_pc_def)
  next
    case (Some i)
    then have i: "i < length (lt_lines t)" "dbg_value pc \<le> dbg_value (addr (lt_lines t ! i))"
      by (simp_all add: index_of_pc_iff)
    moreover from i have "dbg_value (addr (lt_lines t ! i)) \<noteq> dbg_value pc"
      using None by (auto simp: find_None_iff)
    ultimately have "line_entry_for_pc t pc = lt_lines t ! i" "dbg_value pc < dbg_value (addr (lt_lines t ! i))"
      using None Some by (simp_all add: line_entry_for_pc_def Let_def)
    with i show ?thesis by (metis nth_mem)
  qed
next
  case (Some l)
  then have "l \<in> set (lt_lines t)" "dbg_value (addr l) = dbg_value pc"
    by (auto simp: find_Some_iff)
  moreover from this have "addr l = pc" by (metis dbg_addr.expand)
  ultimately show ?thesis
    using line_entry_for_pc_exact [OF Some] by auto
qed

section \<open>The traversals, specified\<close>

text \<open>The lines that the callback is called on: the new statements up to the high PC.\<close>

definition function_lines :: "dbg_addr \<Rightarrow> LineEntry list \<Rightarrow> LineEntry list" where
  "function_lines highpc lines =
     filter new_statement (takeWhile (\<lambda>l. dbg_value (addr l) \<le> dbg_value highpc) lines)"

fun run_all :: "'c line_callback \<Rightarrow> LineEntry list \<Rightarrow> 'c \<Rightarrow> (SprayResult \<times> 'c) run" where
  "run_all callback [] c = Ret (SP_OK, c)"
| "run_all callback (l # lines) c =
     run_bind (callback l c) (\<lambda>(res, c'). if res = SP_ERR then Ret (SP_ERR, c') else run_all callback lines c')"

lemma line_loop_run_all:
  "line_loop callback highpc lines c = run_all callback (function_lines highpc lines) c"
  unfolding function_lines_def by (induction lines arbitrary: c) (simp_all cong: if_cong)

lemma prologue_end_line_find:
  "prologue_end_line function_end lines =
     find prologue_end (takeWhile (\<lambda>l. dbg_value (addr l) \<le> dbg_value function_end) lines)"
  by (induction lines) auto

text \<open>The start that is picked is the address of a line at or behind the function's low PC.\<close>

lemma start_in_table_bounds:
  assumes inc: "increasing (lt_lines t)" and i: "get_line_table_index_of_pc t pc = Some i"
  shows "\<exists>l \<in> set (lt_lines t). start_in_table t i function_end = addr l \<and>
           dbg_value pc \<le> dbg_value (addr l)"
proof -
  let ?ls = "lt_lines t"
  from i have len: "i < length ?ls" and le: "dbg_value pc \<le> dbg_value (addr (?ls ! i))"
    by (simp_all add: index_of_pc_iff)
  have later: "dbg_value pc \<le> dbg_value (addr (?ls ! j))" if "i \<le> j" "j < length ?ls" for j
  proof (cases "i = j")
    case False
    with that inc have "dbg_value (addr (?ls ! i)) < dbg_value (addr (?ls ! j))"
      by (simp add: increasing_def)
    with le show ?thesis by simp
  qed (use le in simp)
  show ?thesis
  proof (cases "prologue_end_line function_end (drop i ?ls)")
    case None
    show ?thesis
    proof (cases "i + 1 < length ?ls")
      case True
      with None later [of "i + 1"] show ?thesis
        by (intro bexI [of _ "?ls ! (i + 1)"]) (simp_all add: start_in_table_def)
    next
      case False
      with None later [of i] len show ?thesis
        by (intro bexI [of _ "?ls ! i"]) (simp_all add: start_in_table_def)
    qed
  next
    case (Some l)
    then have "l \<in> set (drop i ?ls)"
      unfolding prologue_end_line_find by (metis find_Some_set set_takeWhileD)
    then obtain k where "k < length (drop i ?ls)" "drop i ?ls ! k = l"
      by (auto simp: in_set_conv_nth)
    then have "l = ?ls ! (i + k)" "i + k < length ?ls" using len by auto
    with Some later [of "i + k"] show ?thesis
      by (intro bexI [of _ l]) (simp_all add: start_in_table_def)
  qed
qed

section \<open>The searches, specified\<close>

text \<open>What a compilation unit contributes to the files, and its line table for a file.\<close>

definition cu_files :: "('d, 'w) libdwarf \<Rightarrow> 'd \<Rightarrow> string list" where
  "cu_files L d =
     (if sd_has_tag L d DW_TAG_compile_unit then
        (case lw_srcfiles L d of DW_OK fs \<Rightarrow> fs | _ \<Rightarrow> []) else [])"

definition cu_lines ::
  "('d, 'w) libdwarf \<Rightarrow> (string \<Rightarrow> realpath_res) \<Rightarrow> string \<Rightarrow> 'd \<Rightarrow> LineEntry list option" where
  "cu_lines L realpath path d =
     (if sd_has_tag L d DW_TAG_compile_unit \<and> sd_is_die_from_file L realpath d path then
        (case sd_get_line_context L d of
           None \<Rightarrow> None
         | Some ctx \<Rightarrow>
             (case lw_lines_of_context L ctx of DW_OK ls \<Rightarrow> line_entries_of L ls | _ \<Rightarrow> None))
      else None)"

definition file_table ::
  "('d, 'w) libdwarf \<Rightarrow> (string \<Rightarrow> realpath_res) \<Rightarrow> ('d \<times> nat) list \<Rightarrow> string \<Rightarrow> LineTable" where
  "file_table L realpath ds path =
     (case first_match (cu_lines L realpath path) ds of
        None \<Rightarrow> no_line_table
      | Some ls \<Rightarrow> \<lparr>is_set = True, lt_lines = ls\<rparr>)"

definition subprog_range :: "('d, 'w) libdwarf \<Rightarrow> string \<Rightarrow> 'd \<Rightarrow> (u64 \<times> u64) option" where
  "subprog_range L fn_name d =
     (if sd_is_subprog_with_name L d fn_name then
        (case sd_get_high_and_low_pc L d of DW_OK r \<Rightarrow> Some r | _ \<Rightarrow> None) else None)"

text \<open>
  The two callbacks that update a record field by field do not fit \<open>finds\<close>, which replaces
  the data; they agree with it on the state that their search starts with and keeps.
\<close>

lemma scan_finds_from:
  assumes "\<And>d level. cb d level f = (case m d of None \<Rightarrow> (False, f) | Some v \<Rightarrow> (True, g v))"
  shows "scan cb ds f = (case first_match m ds of None \<Rightarrow> (False, f) | Some v \<Rightarrow> (True, g v))"
proof (induction ds)
  case (Cons x ds)
  then show ?case
    using assms by (cases x) (auto split: option.splits)
qed simp

lemma search_finds_from:
  assumes "dwarf_ok L w info types"
    and "\<And>d level. cb d level f = (case m d of None \<Rightarrow> (False, f) | Some v \<Rightarrow> (True, g v))"
  shows "sd_search_dwarf_dbg L cb f w =
    (case first_match m (dies (info @ types)) of
       None \<Rightarrow> Some (DW_DLV_NO_ENTRY, f, w)
     | Some v \<Rightarrow> Some (DW_DLV_OK, g v, w))"
  using search_dwarf_dbg_scan [OF assms(1), of cb f] scan_finds_from [where cb = cb and f = f and m = m and g = g, OF assms(2)]
  by (auto simp: search_code_def split: option.splits)

lemma get_line_table_first:
  assumes "dwarf_ok L w info types"
  shows "sd_get_line_table L realpath path w =
    Some (file_table L realpath (dies (info @ types)) path, w)"
proof -
  have "callback__get_srclines L realpath path d level no_line_table =
      (case cu_lines L realpath path d of
         None \<Rightarrow> (False, no_line_table)
       | Some ls \<Rightarrow> (True, \<lparr>is_set = True, lt_lines = ls\<rparr>))" for d level
    by (auto simp: callback__get_srclines_def cu_lines_def no_line_table_def
        split: option.splits dwres.splits)
  note search = search_finds_from [where cb = "callback__get_srclines L realpath path"
      and m = "cu_lines L realpath path" and g = "\<lambda>ls. \<lparr>is_set = True, lt_lines = ls\<rparr>"
      and f = no_line_table, OF assms this]
  show ?thesis
    by (cases "first_match (cu_lines L realpath path) (dies (info @ types))")
      (simp_all add: sd_get_line_table_def search file_table_def)
qed

lemma get_subprog_pc_range_first:
  assumes "dwarf_ok L w info types"
  shows "sd_get_subprog_pc_range L fn_name w =
    Some (case first_match (subprog_range L fn_name) (dies (info @ types)) of
            None \<Rightarrow> no_range
          | Some (lo, hi) \<Rightarrow>
              \<lparr>range_is_set = True, range_lowpc = DbgAddr lo, range_highpc = DbgAddr hi\<rparr>, w)"
proof -
  have "callback__find_subprog_pc_range_by_subprog_name L fn_name d level no_range =
      (case subprog_range L fn_name d of
         None \<Rightarrow> (False, no_range)
       | Some r \<Rightarrow> (True, \<lparr>range_is_set = True, range_lowpc = DbgAddr (fst r),
                             range_highpc = DbgAddr (snd r)\<rparr>))" for d level
    by (auto simp: callback__find_subprog_pc_range_by_subprog_name_def subprog_range_def no_range_def
        split: dwres.splits)
  note search = search_finds_from
      [where cb = "callback__find_subprog_pc_range_by_subprog_name L fn_name"
       and m = "subprog_range L fn_name" and f = no_range
       and g = "\<lambda>r. \<lparr>range_is_set = True, range_lowpc = DbgAddr (fst r),
                      range_highpc = DbgAddr (snd r)\<rparr>", OF assms this]
  show ?thesis
    by (cases "first_match (subprog_range L fn_name) (dies (info @ types))")
      (simp_all add: sd_get_subprog_pc_range_def search split: prod.splits)
qed

lemma collects_filepaths: "collects (callback__get_filepaths L) (\<lambda>d level. cu_files L d)"
  by (auto simp: collects_def callback__get_filepaths_def cu_files_def split: dwres.splits)

lemma get_filepaths_all:
  assumes "dwarf_ok L w info types"
  shows "sd_get_filepaths L w =
    Some (Some (concat (map (\<lambda>(d, l). cu_files L d) (dies (info @ types)))), w)"
  by (simp add: sd_get_filepaths_def search_collects [OF assms collects_filepaths])

text \<open>The start address comes from the first file whose table has a line for the low PC.\<close>

fun first_start :: "(string \<Rightarrow> LineTable) \<Rightarrow> dbg_addr \<Rightarrow> dbg_addr \<Rightarrow> string list \<Rightarrow> dbg_addr option" where
  "first_start table lo hi [] = None"
| "first_start table lo hi (path # paths) =
     (case if is_set (table path) then get_line_table_index_of_pc (table path) lo else None of
        None \<Rightarrow> first_start table lo hi paths
      | Some i \<Rightarrow> Some (start_in_table (table path) i hi))"

lemma start_addr_loop_first:
  assumes "dwarf_ok L w info types"
  shows "start_addr_loop L realpath lo hi paths w =
    Some (first_start (file_table L realpath (dies (info @ types))) lo hi paths, w)"
  by (induction paths) (simp_all add: get_line_table_first [OF assms] split: option.splits)

lemma effective_start_addr_first:
  assumes "dwarf_ok L w info types"
  shows "sd_effective_start_addr L realpath lo hi w =
    Some (Defined (first_start (file_table L realpath (dies (info @ types))) lo hi
      (concat (map (\<lambda>(d, l). cu_files L d) (dies (info @ types))))), w)"
  by (simp add: sd_effective_start_addr_def get_filepaths_all [OF assms]
      start_addr_loop_first [OF assms])

lemma first_start_bounds:
  assumes "first_start table lo hi paths = Some a"
    and "\<And>path. path \<in> set paths \<Longrightarrow> increasing (lt_lines (table path))"
  shows "\<exists>path \<in> set paths. \<exists>l \<in> set (lt_lines (table path)).
           a = addr l \<and> dbg_value lo \<le> dbg_value (addr l)"
  using assms
proof (induction paths)
  case (Cons path paths)
  show ?case
  proof (cases "if is_set (table path) then get_line_table_index_of_pc (table path) lo else None")
    case None
    with Cons show ?thesis by auto
  next
    case (Some i)
    with Cons.prems start_in_table_bounds [of "table path" lo i hi] show ?thesis
      by (auto split: if_splits)
  qed
qed simp

lemma line_entry_from_pc_first:
  assumes "dwarf_ok L w info types"
  shows "sd_line_entry_from_pc L realpath pc w =
    Some (case first_match (pc_match L (dbg_value pc)) (dies (info @ types)) of
            Some (Some path) \<Rightarrow>
              (let t = file_table L realpath (dies (info @ types)) path in
               if is_set t then line_entry_for_pc t pc else no_line_entry)
          | _ \<Rightarrow> no_line_entry, w)"
  by (auto simp: sd_line_entry_from_pc_def filepath_from_pc_first [OF assms]
      get_line_table_first [OF assms] Let_def split: option.splits)

end
