(* ===== verification/Breakpoints.thy ===== *)
theory Breakpoints
  imports Ptrace
begin

text \<open>
  \<^verbatim>\<open>src/src/breakpoints.c\<close>: the table of breakpoints and the patching of the traced
  process. The hash map is a git submodule (\<^verbatim>\<open>dependencies/hashmap.c\<close>) and a parameter
  \<open>'h hashmap\<close>. The theory states the contract that the stepping logic relies on as the
  locale \<open>breakpoint_store\<close> and interprets it on these operations: at any time the
  memory of the process is the program's own bytes overlaid with \<^verbatim>\<open>int 3\<close> at the enabled
  breakpoints.
\<close>

section \<open>Data\<close>

record Breakpoint =
  bp_addr :: real_addr
  bp_enabled :: bool
  bp_orig :: u8

text \<open>The compound literal \<^verbatim>\<open>(Breakpoint) {.addr = addr}\<close>: the other members are zero.\<close>

definition entry_at :: "real_addr \<Rightarrow> Breakpoint" where
  "entry_at a = \<lparr>bp_addr = a, bp_enabled = False, bp_orig = 0\<rparr>"

definition breakpoint_compare :: "Breakpoint \<Rightarrow> Breakpoint \<Rightarrow> int" where
  "breakpoint_compare a b = (if real_value (bp_addr a) = real_value (bp_addr b) then 0 else 1)"

definition breakpoint_hash ::
  "(u64 \<Rightarrow> u64 \<Rightarrow> u64 \<Rightarrow> u64) \<Rightarrow> Breakpoint \<Rightarrow> u64 \<Rightarrow> u64 \<Rightarrow> u64" where
  "breakpoint_hash hashmap_sip entry seed0 seed1 =
     hashmap_sip (real_value (bp_addr entry)) seed0 seed1"

text \<open>The hash map library: \<^verbatim>\<open>hashmap_new\<close>, \<^verbatim>\<open>hashmap_get\<close>, \<^verbatim>\<open>hashmap_set\<close>, \<^verbatim>\<open>hashmap_sip\<close>.\<close>

record 'h hashmap =
  hm_sip :: "u64 \<Rightarrow> u64 \<Rightarrow> u64 \<Rightarrow> u64"
  hm_new :: "(Breakpoint \<Rightarrow> u64 \<Rightarrow> u64 \<Rightarrow> u64) \<Rightarrow> (Breakpoint \<Rightarrow> Breakpoint \<Rightarrow> int) \<Rightarrow> 'h"
  hm_get :: "'h \<Rightarrow> Breakpoint \<Rightarrow> Breakpoint option"
  hm_set :: "'h \<Rightarrow> Breakpoint \<Rightarrow> 'h"

text \<open>The documented behaviour of the map for the comparison that the program passes to it:
  a new map is empty; setting an entry replaces the one with an equal key.\<close>

definition hashmap_ok :: "'h hashmap \<Rightarrow> bool" where
  "hashmap_ok H \<longleftrightarrow>
     (\<forall>k. hm_get H (hm_new H (breakpoint_hash (hm_sip H)) breakpoint_compare) k = None) \<and>
     (\<forall>m e k. hm_get H (hm_set H m e) k =
        (if breakpoint_compare e k = 0 then Some e else hm_get H m k))"

record 'h Breakpoints =
  bp_map :: 'h
  bp_pid :: pid_t

section \<open>Operations\<close>

definition init_breakpoints :: "'h hashmap \<Rightarrow> pid_t \<Rightarrow> 'h Breakpoints" where
  "init_breakpoints H pid =
     \<lparr>bp_map = hm_new H (breakpoint_hash (hm_sip H)) breakpoint_compare, bp_pid = pid\<rparr>"

definition lookup_breakpoint :: "'h hashmap \<Rightarrow> 'h Breakpoints \<Rightarrow> real_addr \<Rightarrow> bool" where
  "lookup_breakpoint H bps address =
     (case hm_get H (bp_map bps) (entry_at address) of
        Some check \<Rightarrow> if bp_enabled check then True else False
      | None \<Rightarrow> False)"

definition get_breakpoint :: "'h hashmap \<Rightarrow> 'h Breakpoints \<Rightarrow> real_addr \<Rightarrow> Breakpoint option" where
  "get_breakpoint H bps addr = hm_get H (bp_map bps) (entry_at addr)"

text \<open>\<open>Abort\<close> is the failure of the assertion that the new entry is in the map.\<close>

definition enable_breakpoint ::
  "'s kernel \<Rightarrow> 'h hashmap \<Rightarrow> real_addr \<Rightarrow> 'h Breakpoints \<times> 's
     \<Rightarrow> (SprayResult \<times> 'h Breakpoints \<times> 's) run" where
  "enable_breakpoint K H addr = (\<lambda>(bps, s).
     let bps1 = (case get_breakpoint H bps addr of
                   None \<Rightarrow> bps\<lparr>bp_map := hm_set H (bp_map bps) (entry_at addr)\<rparr>
                 | Some _ \<Rightarrow> bps)
     in case get_breakpoint H bps1 addr of
          None \<Rightarrow> Abort
        | Some to_enable \<Rightarrow>
            if \<not> bp_enabled to_enable then
              (case pt_read_memory K (bp_pid bps1) (bp_addr to_enable) s of
                 None \<Rightarrow> Ret (SP_ERR, bps1, s)
               | Some word \<Rightarrow>
                   let orig_data = ucast (word AND BTM_BYTE_MASK) :: u8;
                       int3_data = ((word AND NOT BTM_BYTE_MASK) OR INT3)
                   in case pt_write_memory K (bp_pid bps1) (bp_addr to_enable) int3_data s of
                        (SP_ERR, s') \<Rightarrow> Ret (SP_ERR, bps1, s')
                      | (SP_OK, s') \<Rightarrow>
                          let updated = \<lparr>bp_addr = bp_addr to_enable, bp_enabled = True,
                                         bp_orig = orig_data\<rparr>
                          in Ret (SP_OK, bps1\<lparr>bp_map := hm_set H (bp_map bps1) updated\<rparr>, s'))
            else Ret (SP_OK, bps1, s))"

definition disable_breakpoint ::
  "'s kernel \<Rightarrow> 'h hashmap \<Rightarrow> real_addr \<Rightarrow> 'h Breakpoints \<times> 's
     \<Rightarrow> SprayResult \<times> 'h Breakpoints \<times> 's" where
  "disable_breakpoint K H addr = (\<lambda>(bps, s).
     case get_breakpoint H bps addr of
       None \<Rightarrow> (SP_OK, bps, s)
     | Some to_disable \<Rightarrow>
         if bp_enabled to_disable then
           (case pt_read_memory K (bp_pid bps) (bp_addr to_disable) s of
              None \<Rightarrow> (SP_ERR, bps, s)
            | Some modified_word \<Rightarrow>
                let restored_word =
                      ((modified_word AND NOT BTM_BYTE_MASK) OR ucast (bp_orig to_disable))
                in case pt_write_memory K (bp_pid bps) (bp_addr to_disable) restored_word s of
                     (SP_ERR, s') \<Rightarrow> (SP_ERR, bps, s')
                   | (SP_OK, s') \<Rightarrow>
                       let disabled = \<lparr>bp_addr = bp_addr to_disable, bp_enabled = False,
                                       bp_orig = bp_orig to_disable\<rparr>
                       in (SP_OK, bps\<lparr>bp_map := hm_set H (bp_map bps) disabled\<rparr>, s'))
         else (SP_OK, bps, s))"

section \<open>The hash map\<close>

lemma breakpoint_compare_eq: "breakpoint_compare a b = 0 \<longleftrightarrow> bp_addr a = bp_addr b"
  by (auto simp: breakpoint_compare_def intro: real_addr.expand)

text \<open>Entries that compare as equal have the same hash, as the map requires.\<close>

lemma breakpoint_hash_compare:
  "breakpoint_compare a b = 0 \<Longrightarrow> breakpoint_hash sip a s0 s1 = breakpoint_hash sip b s0 s1"
  by (simp add: breakpoint_compare_eq breakpoint_hash_def)

lemma bp_addr_entry_at [simp]: "bp_addr (entry_at a) = a"
  by (simp add: entry_at_def)

lemma bp_enabled_entry_at [simp]: "\<not> bp_enabled (entry_at a)"
  by (simp add: entry_at_def)

lemma hashmap_get_set [simp]:
  "hashmap_ok H \<Longrightarrow> hm_get H (hm_set H m e) (entry_at a) =
     (if bp_addr e = a then Some e else hm_get H m (entry_at a))"
  by (simp add: hashmap_ok_def breakpoint_compare_eq)

lemma hashmap_get_new [simp]:
  "hashmap_ok H \<Longrightarrow>
     hm_get H (hm_new H (breakpoint_hash (hm_sip H)) breakpoint_compare) k = None"
  by (simp add: hashmap_ok_def)

section \<open>Invariant\<close>

text \<open>
  \<open>orig\<close> are the program's own bytes. An enabled entry holds the byte it replaced and the
  memory has \<^verbatim>\<open>int 3\<close> there; everywhere else the memory is the program's own.
\<close>

definition entry_inv ::
  "(u64 \<Rightarrow> u8) \<Rightarrow> (u64 \<Rightarrow> u8) \<Rightarrow> real_addr \<Rightarrow> Breakpoint option \<Rightarrow> bool" where
  "entry_inv m orig a e \<longleftrightarrow>
     (case e of
        None \<Rightarrow> m (real_value a) = orig (real_value a)
      | Some b \<Rightarrow> bp_addr b = a \<and>
          (if bp_enabled b then bp_orig b = orig (real_value a) \<and> m (real_value a) = ucast INT3
           else m (real_value a) = orig (real_value a)))"

definition bp_inv ::
  "'s kernel \<Rightarrow> 'h hashmap \<Rightarrow> ('s \<Rightarrow> u64 \<Rightarrow> u8) \<Rightarrow> (u64 \<Rightarrow> u8) \<Rightarrow> 'h Breakpoints \<times> 's \<Rightarrow> bool"
  where
  "bp_inv K H mem orig st \<longleftrightarrow>
     hashmap_ok H \<and> kernel_mem K (bp_pid (fst st)) mem \<and>
     (\<forall>a. entry_inv (mem (snd st)) orig a (get_breakpoint H (fst st) a))"

abbreviation bp_lookup :: "'h hashmap \<Rightarrow> 'h Breakpoints \<times> 's \<Rightarrow> real_addr \<Rightarrow> bool" where
  "bp_lookup H st a \<equiv> lookup_breakpoint H (fst st) a"

lemma lookup_get:
  "lookup_breakpoint H bps a \<longleftrightarrow> (\<exists>b. get_breakpoint H bps a = Some b \<and> bp_enabled b)"
  by (simp add: lookup_breakpoint_def get_breakpoint_def split: option.splits)

lemma get_breakpoint_set [simp]:
  "hashmap_ok H \<Longrightarrow> get_breakpoint H (bps\<lparr>bp_map := hm_set H m e\<rparr>) a =
     (if bp_addr e = a then Some e else hm_get H m (entry_at a))"
  by (simp add: get_breakpoint_def)

lemma get_breakpoint_map: "hm_get H (bp_map bps) (entry_at a) = get_breakpoint H bps a"
  by (simp add: get_breakpoint_def)

lemma low_byte: "ucast (w AND BTM_BYTE_MASK) = byte_of w 0"
proof (rule bit_word_eqI)
  fix n assume "n < LENGTH(8)"
  then show "bit (ucast (w AND BTM_BYTE_MASK) :: u8) n = bit (byte_of w 0) n"
    unfolding byte_of_def BTM_BYTE_MASK_def bit_ucast_iff bit_and_iff bit_mask_255 by simp
qed

lemma int3_word: "(w AND NOT BTM_BYTE_MASK) OR INT3 = replace_low_byte w (ucast INT3)"
  by (simp add: replace_low_byte_def INT3_def)

lemma restored_word: "(w AND NOT BTM_BYTE_MASK) OR ucast b = replace_low_byte w b"
  by (simp add: replace_low_byte_def)

text \<open>Reading the word at an address and writing it back with another lowest byte.\<close>

lemma patch_byte:
  assumes "kernel_mem K pid mem" "pt_read_memory K pid a s = Some w"
    and "pt_write_memory K pid a (replace_low_byte w b) s = (SP_OK, s')"
  shows "mem s' = (mem s)(real_value a := b)"
proof -
  have "\<forall>i<8. byte_of w i = mem s (real_value a + of_nat i)"
    using kernel_mem_read [OF assms(1,2)] by blast
  then show ?thesis using kernel_mem_write_ok [OF assms(1,3)] by (simp add: put_replaced_word)
qed

lemma entry_inv_None [simp]:
  "entry_inv m orig a None \<longleftrightarrow> m (real_value a) = orig (real_value a)"
  by (simp add: entry_inv_def)

lemma entry_inv_upd [simp]:
  "c \<noteq> a \<Longrightarrow> entry_inv (m(real_value a := b)) orig c e \<longleftrightarrow> entry_inv m orig c e"
  by (auto simp: entry_inv_def real_addr.expand split: option.splits)

lemma bp_inv_get:
  assumes "bp_inv K H mem orig (bps, s)"
  shows "get_breakpoint H bps a = None \<Longrightarrow> mem s (real_value a) = orig (real_value a)"
    and "get_breakpoint H bps a = Some b \<Longrightarrow> bp_addr b = a"
    and "get_breakpoint H bps a = Some b \<Longrightarrow> bp_enabled b \<Longrightarrow>
           bp_orig b = orig (real_value a) \<and> mem s (real_value a) = ucast INT3"
    and "get_breakpoint H bps a = Some b \<Longrightarrow> \<not> bp_enabled b \<Longrightarrow>
           mem s (real_value a) = orig (real_value a)"
proof -
  from assms have "entry_inv (mem s) orig a (get_breakpoint H bps a)" by (simp add: bp_inv_def)
  then show "get_breakpoint H bps a = None \<Longrightarrow> mem s (real_value a) = orig (real_value a)"
    and "get_breakpoint H bps a = Some b \<Longrightarrow> bp_addr b = a"
    and "get_breakpoint H bps a = Some b \<Longrightarrow> bp_enabled b \<Longrightarrow>
           bp_orig b = orig (real_value a) \<and> mem s (real_value a) = ucast INT3"
    and "get_breakpoint H bps a = Some b \<Longrightarrow> \<not> bp_enabled b \<Longrightarrow>
           mem s (real_value a) = orig (real_value a)"
    by (simp_all add: entry_inv_def)
qed

lemma bp_inv_okD:
  "bp_inv K H mem orig (bps, s) \<Longrightarrow> hashmap_ok H \<and> kernel_mem K (bp_pid bps) mem"
  by (simp add: bp_inv_def)

text \<open>How an entry at one address may change: the shape that both operations share.\<close>

lemma bp_inv_set:
  assumes inv: "bp_inv K H mem orig (bps, s)"
    and mem: "mem s' = (mem s)(real_value a := b)"
    and byte: "if bp_enabled e then bp_orig e = orig (real_value a) \<and> b = ucast INT3
               else b = orig (real_value a)"
    and addr: "bp_addr e = a"
  shows "bp_inv K H mem orig (bps\<lparr>bp_map := hm_set H (bp_map bps) e\<rparr>, s')"
proof -
  from inv have ok: "hashmap_ok H" by (simp add: bp_inv_def)
  have "entry_inv (mem s') orig c (get_breakpoint H (bps\<lparr>bp_map := hm_set H (bp_map bps) e\<rparr>) c)"
    for c
  proof (cases "c = a")
    case True
    with ok byte addr show ?thesis by (simp add: mem entry_inv_def)
  next
    case False
    with ok addr inv show ?thesis by (simp add: mem bp_inv_def get_breakpoint_map)
  qed
  with inv show ?thesis by (simp add: bp_inv_def)
qed

lemma bp_inv_new_entry:
  assumes "bp_inv K H mem orig (bps, s)" "get_breakpoint H bps a = None"
  shows "bp_inv K H mem orig (bps\<lparr>bp_map := hm_set H (bp_map bps) (entry_at a)\<rparr>, s)"
proof -
  have "mem s = (mem s)(real_value a := orig (real_value a))"
    using bp_inv_get(1) [OF assms] by (simp add: fun_upd_idem)
  then show ?thesis by (rule bp_inv_set [OF assms(1)]) simp_all
qed

lemma bp_inv_same_mem:
  "bp_inv K H mem orig (bps, s) \<Longrightarrow> mem s' = mem s \<Longrightarrow> bp_inv K H mem orig (bps, s')"
  by (simp add: bp_inv_def)

section \<open>What the operations do under the invariant\<close>

text \<open>Enabling an entry that is in the table.\<close>

lemma enable_existing:
  assumes inv: "bp_inv K H mem orig (bps, s)" and get: "get_breakpoint H bps a = Some e"
  obtains r bps' s' where "enable_breakpoint K H a (bps, s) = Ret (r, bps', s')"
    and "bp_inv K H mem orig (bps', s')"
    and "\<And>b. lookup_breakpoint H bps' b \<longleftrightarrow> lookup_breakpoint H bps b \<or> r = SP_OK \<and> b = a"
    and "r = SP_ERR \<Longrightarrow> mem s' = mem s"
proof (cases "bp_enabled e")
  case True
  with get have "enable_breakpoint K H a (bps, s) = Ret (SP_OK, bps, s)"
    "lookup_breakpoint H bps a"
    by (auto simp: enable_breakpoint_def Let_def lookup_get)
  with inv that [of SP_OK bps s] show ?thesis by auto
next
  case False
  note ok = bp_inv_okD [OF inv]
  have ea: "bp_addr e = a" using bp_inv_get(2) [OF inv get] .
  show ?thesis
  proof (cases "pt_read_memory K (bp_pid bps) a s")
    case None
    with get False ea have "enable_breakpoint K H a (bps, s) = Ret (SP_ERR, bps, s)"
      by (simp add: enable_breakpoint_def Let_def)
    with inv that [of SP_ERR bps s] show ?thesis by auto
  next
    case (Some w)
    obtain wr s' where wr: "pt_write_memory K (bp_pid bps) a
        (replace_low_byte w (ucast INT3)) s = (wr, s')" by fastforce
    show ?thesis
    proof (cases wr)
      case SP_ERR
      with get False ea Some wr have "enable_breakpoint K H a (bps, s) = Ret (SP_ERR, bps, s')"
        by (simp add: enable_breakpoint_def Let_def int3_word)
      moreover have "mem s' = mem s" using ok wr SP_ERR by (auto intro: kernel_mem_write_err)
      ultimately show ?thesis
        using inv that [of SP_ERR bps s'] by (auto intro: bp_inv_same_mem)
    next
      case SP_OK
      let ?e = "\<lparr>bp_addr = a, bp_enabled = True, bp_orig = byte_of w 0\<rparr>"
      let ?bps = "bps\<lparr>bp_map := hm_set H (bp_map bps) ?e\<rparr>"
      have "mem s' = (mem s)(real_value a := ucast INT3)"
        using patch_byte [OF _ Some, of mem "ucast INT3" s'] ok wr SP_OK by simp
      moreover have "byte_of w 0 = orig (real_value a)"
        using kernel_mem_read [OF _ Some, of mem 0] ok bp_inv_get(4) [OF inv get False] by simp
      ultimately have "bp_inv K H mem orig (?bps, s')"
        using bp_inv_set [OF inv, of s' a "ucast INT3" ?e] by simp
      moreover have "enable_breakpoint K H a (bps, s) = Ret (SP_OK, ?bps, s')"
        using get False ea Some wr SP_OK
        by (simp add: enable_breakpoint_def Let_def int3_word low_byte)
      moreover have "lookup_breakpoint H ?bps b \<longleftrightarrow> lookup_breakpoint H bps b \<or> b = a" for b
        using ok by (auto simp: lookup_get get_breakpoint_map)
      ultimately show ?thesis using that [of SP_OK ?bps s'] by auto
    qed
  qed
qed

lemma enable_breakpoint_spec:
  assumes inv: "bp_inv K H mem orig (bps, s)"
  obtains r bps' s' where "enable_breakpoint K H a (bps, s) = Ret (r, bps', s')"
    and "bp_inv K H mem orig (bps', s')"
    and "\<And>b. lookup_breakpoint H bps' b \<longleftrightarrow> lookup_breakpoint H bps b \<or> r = SP_OK \<and> b = a"
    and "r = SP_ERR \<Longrightarrow> mem s' = mem s"
proof (cases "get_breakpoint H bps a")
  case (Some e)
  then show ?thesis using enable_existing [OF inv] that by metis
next
  case None
  let ?bps = "bps\<lparr>bp_map := hm_set H (bp_map bps) (entry_at a)\<rparr>"
  have ok: "hashmap_ok H" using bp_inv_okD [OF inv] by simp
  have get: "get_breakpoint H ?bps a = Some (entry_at a)" using ok by simp
  have look: "lookup_breakpoint H ?bps b \<longleftrightarrow> lookup_breakpoint H bps b" for b
    using ok None by (auto simp: lookup_get get_breakpoint_map)
  have "enable_breakpoint K H a (bps, s) = enable_breakpoint K H a (?bps, s)"
    unfolding enable_breakpoint_def by (simp only: prod.case None get option.case Let_def)
  moreover obtain r bps' s' where "enable_breakpoint K H a (?bps, s) = Ret (r, bps', s')"
    and "bp_inv K H mem orig (bps', s')"
    and "\<And>b. lookup_breakpoint H bps' b \<longleftrightarrow> lookup_breakpoint H ?bps b \<or> r = SP_OK \<and> b = a"
    and "r = SP_ERR \<Longrightarrow> mem s' = mem s"
    using enable_existing [OF bp_inv_new_entry [OF inv None] get] by metis
  ultimately show ?thesis using that look by simp
qed

lemma disable_breakpoint_spec:
  assumes inv: "bp_inv K H mem orig (bps, s)"
  obtains r bps' s' where "disable_breakpoint K H a (bps, s) = (r, bps', s')"
    and "bp_inv K H mem orig (bps', s')"
    and "\<And>b. lookup_breakpoint H bps' b \<longleftrightarrow>
           lookup_breakpoint H bps b \<and> \<not> (r = SP_OK \<and> b = a)"
    and "r = SP_ERR \<Longrightarrow> mem s' = mem s \<and> bps' = bps"
proof (cases "\<exists>e. get_breakpoint H bps a = Some e \<and> bp_enabled e")
  case False
  then have "disable_breakpoint K H a (bps, s) = (SP_OK, bps, s)"
    by (auto simp: disable_breakpoint_def split: option.splits)
  moreover from False have "\<not> lookup_breakpoint H bps a" by (simp add: lookup_get)
  ultimately show ?thesis using inv that [of SP_OK bps s] by auto
next
  case True
  then obtain e where get: "get_breakpoint H bps a = Some e" and en: "bp_enabled e" by auto
  note ok = bp_inv_okD [OF inv]
  have ea: "bp_addr e = a" using bp_inv_get(2) [OF inv get] .
  show ?thesis
  proof (cases "pt_read_memory K (bp_pid bps) a s")
    case None
    with get en ea have "disable_breakpoint K H a (bps, s) = (SP_ERR, bps, s)"
      by (simp add: disable_breakpoint_def)
    with inv that [of SP_ERR bps s] show ?thesis by auto
  next
    case (Some w)
    obtain wr s' where wr: "pt_write_memory K (bp_pid bps) a
        (replace_low_byte w (bp_orig e)) s = (wr, s')" by fastforce
    show ?thesis
    proof (cases wr)
      case SP_ERR
      with get en ea Some wr have "disable_breakpoint K H a (bps, s) = (SP_ERR, bps, s')"
        by (simp add: disable_breakpoint_def Let_def restored_word)
      moreover have "mem s' = mem s" using ok wr SP_ERR by (auto intro: kernel_mem_write_err)
      ultimately show ?thesis
        using inv that [of SP_ERR bps s'] by (auto intro: bp_inv_same_mem)
    next
      case SP_OK
      let ?e = "\<lparr>bp_addr = a, bp_enabled = False, bp_orig = bp_orig e\<rparr>"
      let ?bps = "bps\<lparr>bp_map := hm_set H (bp_map bps) ?e\<rparr>"
      have "mem s' = (mem s)(real_value a := bp_orig e)"
        using patch_byte [OF _ Some, of mem "bp_orig e" s'] ok wr SP_OK by simp
      then have "bp_inv K H mem orig (?bps, s')"
        by (rule bp_inv_set [OF inv]) (use bp_inv_get(3) [OF inv get en] in simp_all)
      moreover have "disable_breakpoint K H a (bps, s) = (SP_OK, ?bps, s')"
        using get en ea Some wr SP_OK
        by (simp add: disable_breakpoint_def Let_def restored_word)
      moreover have "lookup_breakpoint H ?bps b \<longleftrightarrow> lookup_breakpoint H bps b \<and> b \<noteq> a" for b
        using ok by (auto simp: lookup_get get_breakpoint_map)
      ultimately show ?thesis using that [of SP_OK ?bps s'] by auto
    qed
  qed
qed

lemma bp_inv_memory:
  assumes "bp_inv K H mem orig (bps, s)"
  shows "mem s x = (if lookup_breakpoint H bps (RealAddr x) then ucast INT3 else orig x)"
  using bp_inv_get [OF assms, of "RealAddr x"]
  by (cases "get_breakpoint H bps (RealAddr x)") (auto simp: lookup_get)

lemma bp_inv_init:
  assumes "hashmap_ok H" "kernel_mem K pid mem"
  shows "bp_inv K H mem (mem s) (init_breakpoints H pid, s)"
  using assms by (simp add: bp_inv_def init_breakpoints_def get_breakpoint_def)

section \<open>The contract of the breakpoint table\<close>

text \<open>
  What \<^verbatim>\<open>debugger.c\<close> and \<^verbatim>\<open>info.c\<close> rely on: enabling and disabling change the set of
  enabled addresses by the given one exactly when they succeed, and the memory of the
  process is always the program overlaid with \<^verbatim>\<open>int 3\<close> at that set.
\<close>

locale breakpoint_store =
  fixes enable :: "real_addr \<Rightarrow> 'st \<Rightarrow> (SprayResult \<times> 'st) run"
    and disable :: "real_addr \<Rightarrow> 'st \<Rightarrow> SprayResult \<times> 'st"
    and enabled :: "'st \<Rightarrow> real_addr \<Rightarrow> bool"
    and memory :: "'st \<Rightarrow> u64 \<Rightarrow> u8"
    and inv :: "(u64 \<Rightarrow> u8) \<Rightarrow> 'st \<Rightarrow> bool"
  assumes enable_law:
      "inv orig st \<Longrightarrow> \<exists>r st'. enable a st = Ret (r, st') \<and> inv orig st' \<and>
         (\<forall>b. enabled st' b \<longleftrightarrow> enabled st b \<or> r = SP_OK \<and> b = a)"
    and disable_law:
      "inv orig st \<Longrightarrow> disable a st = (r, st') \<Longrightarrow> inv orig st' \<and>
         (\<forall>b. enabled st' b \<longleftrightarrow> enabled st b \<and> \<not> (r = SP_OK \<and> b = a))"
    and memory_law:
      "inv orig st \<Longrightarrow> memory st x = (if enabled st (RealAddr x) then ucast INT3 else orig x)"
begin

lemma enableD:
  assumes "inv orig st" "enable a st = Ret (r, st')"
  shows "inv orig st'" "enabled st' b \<longleftrightarrow> enabled st b \<or> r = SP_OK \<and> b = a"
  using enable_law [OF assms(1), of a] assms(2) by auto

lemma enable_defined: "inv orig st \<Longrightarrow> \<exists>r st'. enable a st = Ret (r, st')"
  using enable_law by blast

lemma disableD:
  assumes "inv orig st" "disable a st = (r, st')"
  shows "inv orig st'" "enabled st' b \<longleftrightarrow> enabled st b \<and> \<not> (r = SP_OK \<and> b = a)"
  using disable_law [OF assms] by auto

text \<open>The memory is determined by the set of enabled addresses.\<close>

lemma memory_ext:
  assumes "inv orig st" "inv orig st'" "\<And>b. enabled st' b \<longleftrightarrow> enabled st b"
  shows "memory st' = memory st"
  using memory_law [OF assms(1)] memory_law [OF assms(2)] assms(3) by auto

lemma failed_enable_keeps_memory:
  assumes "inv orig st" "enable a st = Ret (SP_ERR, st')"
  shows "memory st' = memory st"
  using assms enableD [OF assms] by (auto intro: memory_ext)

text \<open>Setting a breakpoint and removing it again gives the old set and the old memory.\<close>

lemma enable_disable:
  assumes "inv orig st" "\<not> enabled st a" "enable a st = Ret (SP_OK, st1)"
    and "disable a st1 = (SP_OK, st2)"
  shows "inv orig st2" "enabled st2 b \<longleftrightarrow> enabled st b" "memory st2 = memory st"
proof -
  note e = enableD [OF assms(1,3)]
  note d = disableD [OF e(1) assms(4)]
  show inv: "inv orig st2" by (rule d(1))
  have en: "enabled st2 b \<longleftrightarrow> enabled st b" for b using e(2) d(2) assms(2) by auto
  show "enabled st2 b \<longleftrightarrow> enabled st b" by (rule en)
  show "memory st2 = memory st" using assms(1) inv en by (rule memory_ext)
qed

end

interpretation bp: breakpoint_store
  "enable_breakpoint K H" "disable_breakpoint K H" "bp_lookup H" "\<lambda>st. mem (snd st)"
  "bp_inv K H mem"
  for K :: "'s kernel" and H :: "'h hashmap" and mem :: "'s \<Rightarrow> u64 \<Rightarrow> u8"
proof unfold_locales
  fix orig and st :: "'h Breakpoints \<times> 's" and a
  assume inv: "bp_inv K H mem orig st"
  obtain bps s where st: "st = (bps, s)" by fastforce
  show "\<exists>r st'. enable_breakpoint K H a st = Ret (r, st') \<and> bp_inv K H mem orig st' \<and>
      (\<forall>b. bp_lookup H st' b \<longleftrightarrow> bp_lookup H st b \<or> r = SP_OK \<and> b = a)"
    unfolding st by (rule enable_breakpoint_spec [OF inv [unfolded st], of a]) fastforce
  show "mem (snd st) x = (if bp_lookup H st (RealAddr x) then ucast INT3 else orig x)" for x
    using bp_inv_memory [OF inv [unfolded st]] st by simp
  show "bp_inv K H mem orig st' \<and>
      (\<forall>b. bp_lookup H st' b \<longleftrightarrow> bp_lookup H st b \<and> \<not> (r = SP_OK \<and> b = a))"
    if "disable_breakpoint K H a st = (r, st')" for r st'
  proof -
    obtain r' bps' s' where d: "disable_breakpoint K H a (bps, s) = (r', bps', s')"
      and i: "bp_inv K H mem orig (bps', s')"
      and l: "\<And>b. lookup_breakpoint H bps' b \<longleftrightarrow>
                 lookup_breakpoint H bps b \<and> \<not> (r' = SP_OK \<and> b = a)"
      by (rule disable_breakpoint_spec [OF inv [unfolded st], of a]) blast
    from d that st have "r' = r" "st' = (bps', s')" by simp_all
    with i l st show ?thesis by (metis fst_conv)
  qed
qed

end
