(* ===== verification/Simulation.thy ===== *)
theory Simulation
  imports Dwarf_Loc Dwarf_Types Dwarf_Lines Breakpoints
begin

text \<open>
  A concrete environment: a process, a kernel, a hash map and the debug information of a
  small program, each executable. It shows that the behaviour that the development assumes of
  the code outside the repository can be had, and it is what the examples run on.
\<close>

section \<open>The process and the kernel\<close>

text \<open>
  A process is its memory, its registers and what \<^verbatim>\<open>waitpid\<close> will report, each time with the
  signal information and the program counter that the process is stopped at.
\<close>

record sim_process =
  sim_mem :: "u64 \<Rightarrow> u8"
  sim_regs :: "u64 list"
  sim_events :: "(u32 \<times> siginfo \<times> u64) list"
  sim_siginfo :: siginfo
  sim_alive :: bool

definition word_of_bytes :: "u8 list \<Rightarrow> u64" where
  "word_of_bytes bs = of_nat (foldr (\<lambda>b n. unat b + 256 * n) bs 0)"

text \<open>The registers are always 27 words.\<close>

definition sim_registers :: "sim_process \<Rightarrow> u64 list" where
  "sim_registers s = take 27 (sim_regs s @ replicate 27 0)"

definition sim_kernel :: "sim_process kernel" where
  "sim_kernel =
     \<lparr>k_peekdata = (\<lambda>pid a s. (word_of_bytes (map (\<lambda>i. sim_mem s (a + of_nat i)) [0..<8]), 0)),
      k_pokedata = (\<lambda>pid a w s. (0, s\<lparr>sim_mem := put_word (sim_mem s) a w\<rparr>)),
      k_getregs = (\<lambda>pid s. (0, sim_registers s)),
      k_setregs = (\<lambda>pid xs s. if length xs = 27 then (0, s\<lparr>sim_regs := xs\<rparr>) else (-1, s)),
      k_cont = (\<lambda>pid s. if sim_alive s then (0, 0, s) else (-1, 3, s)),
      k_singlestep = (\<lambda>pid s. (0, s)),
      k_getsiginfo = (\<lambda>pid s. (0, sim_siginfo s)),
      k_traceme = (\<lambda>s. (0, s)),
      k_waitpid = (\<lambda>pid s.
        case sim_events s of
          [] \<Rightarrow> (0, s\<lparr>sim_alive := False\<rparr>)
        | (status, info, pc) # es \<Rightarrow>
            (status, s\<lparr>sim_events := es, sim_siginfo := info,
                       sim_regs := (sim_registers s)[reg_index RIP := pc]\<rparr>))\<rparr>"

lemma byte_of_nat:
  assumes "i < 8"
  shows "unat (byte_of (of_nat n) i) = n div 256 ^ i mod 256"
proof -
  have "unat (byte_of (of_nat n) i) = n mod 2 ^ 64 div 2 ^ (8 * i) mod 2 ^ 8"
    by (simp add: byte_of_def unat_ucast_byte unat_u64_drop_bit unat_of_nat)
  also have "\<dots> = n div 2 ^ (8 * i) mod 2 ^ 8"
  proof -
    have "take_bit 8 (drop_bit (8 * i) (take_bit 64 n)) = take_bit 8 (drop_bit (8 * i) n)"
      using assms by (simp add: drop_bit_take_bit)
    then show ?thesis by (simp only: take_bit_eq_mod drop_bit_eq_div)
  qed
  also have "(2::nat) ^ (8 * i) = 256 ^ i" by (simp add: power_mult)
  finally show ?thesis by simp
qed

lemma foldr_bytes_nth:
  "i < length bs \<Longrightarrow> foldr (\<lambda>b n. unat b + 256 * n) bs 0 div 256 ^ i mod 256 = unat ((bs ! i) :: u8)"
proof (induction bs arbitrary: i)
  case (Cons b bs)
  have b: "unat b < 256" using unat_u8_less [of b] by simp
  show ?case
  proof (cases i)
    case 0
    with b show ?thesis by simp
  next
    case (Suc j)
    have "(unat b + 256 * foldr (\<lambda>b n. unat b + 256 * n) bs 0) div 256 ^ Suc j
      = (unat b + 256 * foldr (\<lambda>b n. unat b + 256 * n) bs 0) div 256 div 256 ^ j"
      by (simp add: div_mult2_eq)
    also have "\<dots> = foldr (\<lambda>b n. unat b + 256 * n) bs 0 div 256 ^ j" using b by simp
    finally show ?thesis using Cons Suc by simp
  qed
qed simp

lemma byte_of_word_of_bytes:
  assumes "i < length bs" "i < 8"
  shows "byte_of (word_of_bytes bs) i = bs ! i"
  using foldr_bytes_nth [OF assms(1)] byte_of_nat [OF assms(2)]
  by (simp add: word_unat_eq_iff word_of_bytes_def)

lemma sim_kernel_mem: "kernel_mem sim_kernel pid sim_mem"
  by (auto simp: kernel_mem_def sim_kernel_def PTRACE_ERROR_def byte_of_word_of_bytes)

lemma sim_kernel_regs: "kernel_regs sim_kernel pid sim_registers"
  by (auto simp: kernel_regs_def sim_kernel_def sim_registers_def PTRACE_ERROR_def N_REGISTERS_def
      split: if_splits)

section \<open>The hash map\<close>

definition sim_hashmap :: "(real_addr \<Rightarrow> Breakpoint option) hashmap" where
  "sim_hashmap =
     \<lparr>hm_sip = (\<lambda>v s0 s1. v + s0 + s1),
      hm_new = (\<lambda>h c. (\<lambda>_. None)),
      hm_get = (\<lambda>m k. m (bp_addr k)),
      hm_set = (\<lambda>m e. m(bp_addr e := Some e))\<rparr>"

lemma sim_hashmap_ok: "hashmap_ok sim_hashmap"
  by (simp add: hashmap_ok_def sim_hashmap_def breakpoint_compare_eq)

section \<open>The debug information\<close>

text \<open>
  DIEs, attributes, lines and other handles are numbers: 0 is the compilation unit of
  \<^verbatim>\<open>/src/main.c\<close>, 1 its subprogram \<^verbatim>\<open>main\<close>, 3 the variable \<^verbatim>\<open>x\<close> in it and 2 the type \<^verbatim>\<open>int\<close>;
  20 is the frame base of \<^verbatim>\<open>main\<close>, the register \<^verbatim>\<open>rbp\<close>, 21 the location of \<^verbatim>\<open>x\<close>, 4 bytes below
  it; 30 to 32 are the lines. The iterator counts: unit 0 is entered by the first call.
\<close>

definition sim_dwarf :: "(nat, nat) libdwarf" where
  "sim_dwarf =
     \<lparr>lw_init_path = (\<lambda>path. if path = ''a.out'' then DW_OK 0 else DW_NO_ENTRY),
      lw_next_cu = (\<lambda>is_info w.
        if is_info then (if w = 0 then (DW_OK (), 1) else (DW_NO_ENTRY, 2)) else (DW_NO_ENTRY, 0)),
      lw_cu_die = (\<lambda>is_info w. if is_info \<and> w = 1 then DW_OK 0 else DW_NO_ENTRY),
      lw_child = (\<lambda>d. if d = 0 then DW_OK 1 else if d = 1 then DW_OK 3 else DW_NO_ENTRY),
      lw_siblingof = (\<lambda>is_info d. if d = 1 then DW_OK 2 else DW_NO_ENTRY),
      lw_tag = (\<lambda>d. if d = 0 then DW_OK 0x11 else if d = 1 then DW_OK 0x2e
        else if d = 2 then DW_OK 0x24 else if d = 3 then DW_OK 0x34 else DW_ERROR),
      lw_lowpc = (\<lambda>d. if d < 2 then DW_OK 0x401000 else DW_NO_ENTRY),
      lw_highpc = (\<lambda>d. if d < 2 then DW_OK (0x40, 0x06) else DW_NO_ENTRY),
      lw_addr_form_is_indexed = (\<lambda>form. False),
      lw_die_text = (\<lambda>d a.
        if d = 0 \<and> a = 0x25 then DW_OK ''clang version 15.0.7''
        else if d = 0 \<and> a = 0x1b then DW_OK ''/src''
        else if d = 1 \<and> a = 0x03 then DW_OK ''main'' else DW_NO_ENTRY),
      lw_diename = (\<lambda>d. if d = 0 then DW_OK ''main.c'' else if d = 1 then DW_OK ''main''
        else if d = 2 then DW_OK ''int'' else if d = 3 then DW_OK ''x'' else DW_NO_ENTRY),
      lw_hasattr = (\<lambda>d a.
        DW_OK (if d = 0 \<and> (a = 0x03 \<or> a = 0x1b) \<or> d = 3 \<and> (a = 0x02 \<or> a = 0x49) then 1 else 0)),
      lw_attr = (\<lambda>d a.
        if d = 1 \<and> a = 0x40 then DW_OK 20 else if d = 3 \<and> a = 0x02 then DW_OK 21
        else if d = 3 \<and> a = 0x3a then DW_OK 22 else if d = 3 \<and> a = 0x3b then DW_OK 23
        else DW_NO_ENTRY),
      lw_formudata = (\<lambda>a. if a = Some 22 then DW_OK 1 else if a = Some 23 then DW_OK 3 else DW_ERROR),
      lw_cu_offset_of = (\<lambda>d. DW_OK 0),
      lw_offdie = (\<lambda>off is_info. if is_info then DW_OK (unat off) else DW_NO_ENTRY),
      lw_srcfiles = (\<lambda>d. if d = 0 then DW_OK [''/src/main.c''] else DW_NO_ENTRY),
      lw_dietype_offset = (\<lambda>d. if d = 3 then DW_OK (2, True) else DW_NO_ENTRY),
      lw_bytesize = (\<lambda>d. if d = 2 then DW_OK 4 else DW_NO_ENTRY),
      lw_version_of_die = (\<lambda>d. DW_OK (5, 4)),
      lw_whatform = (\<lambda>a. DW_OK 0x18),
      lw_whatattr = (\<lambda>a. DW_OK (if a = 20 then 0x40 else 0x02)),
      lw_form_class = (\<lambda>version num size form. if form = 0x18 then CLASS_EXPRLOC else CLASS_OTHER),
      lw_srclines = (\<lambda>d. if d = 0 then DW_OK (1, 40) else DW_NO_ENTRY),
      lw_lines_of_context = (\<lambda>c. DW_OK [30, 31, 32]),
      lw_lineno = (\<lambda>l. DW_OK (if l = 30 then 2 else if l = 31 then 3 else 4)),
      lw_lineoff = (\<lambda>l. DW_OK 5),
      lw_lineaddr = (\<lambda>l. DW_OK (if l = 30 then 0x401000 else if l = 31 then 0x401008 else 0x401010)),
      lw_linesrc = (\<lambda>l. DW_OK ''/src/main.c''),
      lw_linebeginstatement = (\<lambda>l. DW_OK 1),
      lw_prologue_end = (\<lambda>l. DW_OK (if l = 31 then 1 else 0)),
      lw_get_loclist = (\<lambda>a. if a = 20 \<or> a = 21 then DW_OK (a, 1) else DW_ERROR),
      lw_locdesc_entry = (\<lambda>head i. DW_OK (0, 0, 0, 1, head)),
      lw_location_op = (\<lambda>entry i. if entry = 20 then DW_OK (0x56, 0, 0, 0)
        else DW_OK (0x91, - 4, 0, 0))\<rparr>"

definition sim_info :: "nat dtree list" where
  "sim_info = [DNode 0 [DNode 1 [DNode 3 []], DNode 2 []]]"

definition sim_dies :: "(nat \<times> nat) list" where
  "sim_dies = [(0, 0), (1, 1), (3, 2), (2, 1)]"

lemma sim_dwarf_ok: "dwarf_ok sim_dwarf 0 sim_info []"
  by (auto simp: dwarf_ok_def sim_info_def sim_dwarf_def intro!: exI [of _ 2])

lemma sim_info_dies: "dies (sim_info @ []) = sim_dies" "dies sim_info = sim_dies"
  by (simp_all add: sim_info_def sim_dies_def)

end
