(* ===== verification/Program.thy ===== *)
theory Program
  imports Breakpoints Dwarf_Lines Dwarf_Types Dwarf_Loc
begin

text \<open>
  The state that the debugger's operations share and the form of a computation on it. A
  computation may come to no end, abort in a failed assertion or leave what C defines; the
  outside world (kernel, libdwarf, hash map, file system) is the environment that every
  operation gets as its first argument.
\<close>

section \<open>Computations\<close>

datatype 'a outcome = Value 'a | Aborted | Undefined

text \<open>\<open>None\<close> is a computation that does not end.\<close>

type_synonym ('st, 'a) prog = "'st \<Rightarrow> ('a \<times> 'st) outcome option"

definition return :: "'a \<Rightarrow> ('st, 'a) prog" where
  "return a st = Some (Value (a, st))"

definition then_do :: "('st, 'a) prog \<Rightarrow> ('a \<Rightarrow> ('st, 'b) prog) \<Rightarrow> ('st, 'b) prog" where
  "then_do m f st =
     (case m st of
        None \<Rightarrow> None
      | Some Aborted \<Rightarrow> Some Aborted
      | Some Undefined \<Rightarrow> Some Undefined
      | Some (Value (a, st')) \<Rightarrow> f a st')"

lemma return_apply [simp]: "return a st = Some (Value (a, st))"
  by (simp add: return_def)

lemma then_do_return [simp]: "then_do (return a) f = f a"
  by (rule ext) (simp add: then_do_def return_def)

lemma then_do_Value: "m st = Some (Value (a, st')) \<Longrightarrow> then_do m f st = f a st'"
  by (simp add: then_do_def)

lemma then_do_Value_iff:
  "then_do m f st = Some (Value r) \<longleftrightarrow>
     (\<exists>a st'. m st = Some (Value (a, st')) \<and> f a st' = Some (Value r))"
  by (auto simp: then_do_def split: option.splits outcome.splits)

lemma then_do_ValueE:
  assumes "then_do m f st = Some (Value r)"
  obtains a st' where "m st = Some (Value (a, st'))" and "f a st' = Some (Value r)"
  using assms by (auto simp: then_do_Value_iff)

lemma then_do_assoc: "then_do (then_do m f) g = then_do m (\<lambda>a. then_do (f a) g)"
  by (rule ext) (simp add: then_do_def split: option.split outcome.split)

lemma then_do_mono [partial_function_mono]:
  fixes B :: "('x \<Rightarrow> 'y option) \<Rightarrow> ('st, 'a) prog"
    and C :: "'a \<Rightarrow> ('x \<Rightarrow> 'y option) \<Rightarrow> ('st, 'b) prog"
  assumes m: "\<And>st. monotone (fun_ord option_ord) option_ord (\<lambda>f. B f st)"
    and c: "\<And>a st. monotone (fun_ord option_ord) option_ord (\<lambda>f. C a f st)"
  shows "monotone (fun_ord option_ord) option_ord (\<lambda>f. then_do (B f) (\<lambda>a. C a f) st)"
proof (rule monotoneI)
  fix x y :: "'x \<Rightarrow> 'y option"
  assume le: "fun_ord option_ord x y"
  from m le have B: "B x st = None \<or> B x st = B y st" for st
    by (auto simp: monotone_def flat_ord_def)
  from c le have C: "C a x st = None \<or> C a x st = C a y st" for a st
    by (auto simp: monotone_def flat_ord_def)
  from B [of st] show "option_ord (then_do (B x) (\<lambda>a. C a x) st) (then_do (B y) (\<lambda>a. C a y) st)"
  proof
    assume "B x st = None"
    then show ?thesis by (simp add: then_do_def flat_ord_def)
  next
    assume eq: "B x st = B y st"
    show ?thesis
    proof (cases "\<exists>a st'. B y st = Some (Value (a, st'))")
      case True
      then obtain a st' where "B y st = Some (Value (a, st'))" by blast
      with eq C [of a st'] show ?thesis by (simp add: then_do_def flat_ord_def)
    next
      case False
      with eq show ?thesis
        by (auto simp: then_do_def flat_ord_def split: option.split outcome.split)
    qed
  qed
qed

section \<open>Symbols\<close>

record Position =
  pos_line :: u32
  pos_column :: u32
  pos_is_exact :: bool

text \<open>The flags \<^verbatim>\<open>has_addr\<close> and \<^verbatim>\<open>has_position\<close> with the members they guard are optional.\<close>

record DebugSymbol =
  sym_elf :: Elf64_Sym
  sym_has_addr :: "dbg_addr option"
  sym_has_position :: "Position option"
  sym_file :: "string option"

section \<open>The state and the environment\<close>

text \<open>
  What the debugger prints: pieces of text on the standard output, messages of \<^verbatim>\<open>repl_err\<close>,
  \<^verbatim>\<open>repl_warn\<close> and \<^verbatim>\<open>repl_hint\<close>, and calls of the source printer with the file, the line and the
  number of lines of context.
\<close>

datatype event = Out string | Err string | Warn string | Hint string | Source string u32 nat

text \<open>
  The traced process, the table of breakpoints, libdwarf's iterator, the buffer of symbols
  (a pointer to a symbol is its index), the load address, the last command, what was printed.
\<close>

record ('s, 'h, 'w) debugger =
  tracee :: 's
  breakpoints :: "'h Breakpoints"
  dwarf :: 'w
  symbols :: "DebugSymbol list"
  load_address :: real_addr
  last_command :: "string option"
  printed :: "event list"

record ('d, 's, 'h, 'w) env =
  e_kernel :: "'s kernel"
  e_hashmap :: "'h hashmap"
  e_dwarf :: "('d, 'w) libdwarf"
  e_realpath :: "string \<Rightarrow> realpath_res"
  e_getcwd :: "string option"
  e_elf :: ElfFile
  e_pid :: pid_t
  e_print_source :: "string \<Rightarrow> u32 \<Rightarrow> nat \<Rightarrow> SprayResult"

section \<open>Primitive computations\<close>

definition newline :: string where "newline = [CHR 0x0A]"

definition emit :: "event \<Rightarrow> (('s, 'h, 'w) debugger, unit) prog" where
  "emit e st = Some (Value ((), st\<lparr>printed := printed st @ [e]\<rparr>))"

definition from_c :: "'a c_result \<Rightarrow> ('st, 'a) prog" where
  "from_c r st = (case r of Defined a \<Rightarrow> Some (Value (a, st)) | UB \<Rightarrow> Some Undefined)"

definition from_dwarf :: "('w, 'a) dw_state \<Rightarrow> (('s, 'h, 'w) debugger, 'a) prog" where
  "from_dwarf m st =
     (case m (dwarf st) of
        None \<Rightarrow> None
      | Some (a, w) \<Rightarrow> Some (Value (a, st\<lparr>dwarf := w\<rparr>)))"

definition read_tracee :: "('s \<Rightarrow> 'a) \<Rightarrow> (('s, 'h, 'w) debugger, 'a) prog" where
  "read_tracee f st = Some (Value (f (tracee st), st))"

definition change_tracee :: "('s \<Rightarrow> 'a \<times> 's) \<Rightarrow> (('s, 'h, 'w) debugger, 'a) prog" where
  "change_tracee f st = (case f (tracee st) of (a, s) \<Rightarrow> Some (Value (a, st\<lparr>tracee := s\<rparr>)))"

definition get_state :: "('st \<Rightarrow> 'a) \<Rightarrow> ('st, 'a) prog" where
  "get_state f st = Some (Value (f st, st))"

lemma primitives [simp]:
  "emit e st = Some (Value ((), st\<lparr>printed := printed st @ [e]\<rparr>))"
  "from_c (Defined a) st' = Some (Value (a, st'))"
  "read_tracee f st = Some (Value (f (tracee st), st))"
  "get_state g st' = Some (Value (g st', st'))"
  by (simp_all add: emit_def from_c_def read_tracee_def get_state_def)

section \<open>Parts of the state that a computation keeps\<close>

definition keeps :: "('st \<Rightarrow> 'b) \<Rightarrow> ('st, 'a) prog \<Rightarrow> bool" where
  "keeps f m \<longleftrightarrow> (\<forall>st a st'. m st = Some (Value (a, st')) \<longrightarrow> f st' = f st)"

named_theorems keeps_intros \<open>what keeps a part of the state\<close>

lemma keepsD: "keeps f m \<Longrightarrow> m st = Some (Value (a, st')) \<Longrightarrow> f st' = f st"
  by (simp add: keeps_def)

lemma keeps_return [keeps_intros]: "keeps f (return a)"
  by (simp add: keeps_def)

lemma keeps_then_do [keeps_intros]: "keeps f m \<Longrightarrow> (\<And>a. keeps f (g a)) \<Longrightarrow> keeps f (then_do m g)"
  unfolding keeps_def then_do_Value_iff by metis

lemma keeps_if [keeps_intros]: "keeps f m \<Longrightarrow> keeps f n \<Longrightarrow> keeps f (if b then m else n)"
  by simp

lemma keeps_option [keeps_intros]:
  "keeps f m \<Longrightarrow> (\<And>a. keeps f (g a)) \<Longrightarrow> keeps f (case x of None \<Rightarrow> m | Some a \<Rightarrow> g a)"
  by (simp split: option.split)

lemma keeps_prod [keeps_intros]: "(\<And>a b. keeps f (g a b)) \<Longrightarrow> keeps f (case x of (a, b) \<Rightarrow> g a b)"
  by (simp split: prod.split)

lemma keeps_read [keeps_intros]: "keeps f (read_tracee g)" "keeps f' (get_state g')" "keeps f'' (from_c r)"
  by (auto simp: keeps_def from_c_def split: c_result.splits)

lemma keeps_from_dwarf [keeps_intros]:
  "keeps tracee (from_dwarf m)" "keeps breakpoints (from_dwarf m)" "keeps last_command (from_dwarf m)"
  "keeps printed (from_dwarf m)" "keeps load_address (from_dwarf m)"
  by (auto simp: keeps_def from_dwarf_def split: option.splits)

lemma keeps_emit [keeps_intros]:
  "keeps tracee (emit e)" "keeps breakpoints (emit e)" "keeps last_command (emit e)"
  "keeps dwarf (emit e)" "keeps load_address (emit e)" "keeps symbols (emit e)"
  by (auto simp: keeps_def)

lemma keeps_change_tracee [keeps_intros]:
  "keeps breakpoints (change_tracee g)" "keeps last_command (change_tracee g)"
  "keeps dwarf (change_tracee g)" "keeps load_address (change_tracee g)" "keeps symbols (change_tracee g)"
  "keeps printed (change_tracee g)"
  by (auto simp: keeps_def change_tracee_def split: prod.splits)

section \<open>Breakpoints as computations\<close>

text \<open>The breakpoint operations of this component, on the table and the process.\<close>

definition is_breakpoint ::
  "('d, 's, 'h, 'w) env \<Rightarrow> real_addr \<Rightarrow> (('s, 'h, 'w) debugger, bool) prog" where
  "is_breakpoint E a = get_state (\<lambda>st. lookup_breakpoint (e_hashmap E) (breakpoints st) a)"

definition enable_bp ::
  "('d, 's, 'h, 'w) env \<Rightarrow> real_addr \<Rightarrow> (('s, 'h, 'w) debugger, SprayResult) prog" where
  "enable_bp E a st =
     (case enable_breakpoint (e_kernel E) (e_hashmap E) a (breakpoints st, tracee st) of
        Abort \<Rightarrow> Some Aborted
      | Ret (r, b, s) \<Rightarrow> Some (Value (r, st\<lparr>breakpoints := b, tracee := s\<rparr>)))"

definition disable_bp ::
  "('d, 's, 'h, 'w) env \<Rightarrow> real_addr \<Rightarrow> (('s, 'h, 'w) debugger, SprayResult) prog" where
  "disable_bp E a st =
     (case disable_breakpoint (e_kernel E) (e_hashmap E) a (breakpoints st, tracee st) of
        (r, b, s) \<Rightarrow> Some (Value (r, st\<lparr>breakpoints := b, tracee := s\<rparr>)))"

section \<open>The breakpoints of the debugger\<close>

text \<open>The address is in the set of enabled breakpoints; the table agrees with the memory.\<close>

definition bp_set :: "('d, 's, 'h, 'w) env \<Rightarrow> ('s, 'h, 'w) debugger \<Rightarrow> real_addr set" where
  "bp_set E st = {a. lookup_breakpoint (e_hashmap E) (breakpoints st) a}"

definition bps_ok ::
  "('d, 's, 'h, 'w) env \<Rightarrow> ('s \<Rightarrow> u64 \<Rightarrow> u8) \<Rightarrow> (u64 \<Rightarrow> u8) \<Rightarrow> ('s, 'h, 'w) debugger \<Rightarrow> bool" where
  "bps_ok E mem orig st \<longleftrightarrow> bp_inv (e_kernel E) (e_hashmap E) mem orig (breakpoints st, tracee st)"

lemma enable_bp_spec:
  assumes "bps_ok E mem orig st"
  shows "\<exists>r st'. enable_bp E a st = Some (Value (r, st')) \<and> bps_ok E mem orig st' \<and>
    bp_set E st' = (if r = SP_OK then insert a (bp_set E st) else bp_set E st) \<and>
    (\<exists>b s. st' = st\<lparr>breakpoints := b, tracee := s\<rparr>)"
proof -
  from bp.enable_law [OF assms [unfolded bps_ok_def], of a] obtain r b s where
    "enable_breakpoint (e_kernel E) (e_hashmap E) a (breakpoints st, tracee st) = Ret (r, b, s)"
    "bp_inv (e_kernel E) (e_hashmap E) mem orig (b, s)"
    "\<forall>c. lookup_breakpoint (e_hashmap E) b c \<longleftrightarrow>
       lookup_breakpoint (e_hashmap E) (breakpoints st) c \<or> r = SP_OK \<and> c = a"
    by auto
  then show ?thesis
    by (intro exI [of _ r] exI [of _ "st\<lparr>breakpoints := b, tracee := s\<rparr>"])
      (auto simp: enable_bp_def bps_ok_def bp_set_def)
qed

lemma disable_bp_spec:
  assumes "bps_ok E mem orig st"
  shows "\<exists>r st'. disable_bp E a st = Some (Value (r, st')) \<and> bps_ok E mem orig st' \<and>
    bp_set E st' = (if r = SP_OK then bp_set E st - {a} else bp_set E st) \<and>
    (\<exists>b s. st' = st\<lparr>breakpoints := b, tracee := s\<rparr>)"
proof -
  obtain r b s where d: "disable_breakpoint (e_kernel E) (e_hashmap E) a (breakpoints st, tracee st)
      = (r, b, s)" by (metis prod_cases3)
  from bp.disable_law [OF assms [unfolded bps_ok_def] d]
  have "bp_inv (e_kernel E) (e_hashmap E) mem orig (b, s)"
    "\<forall>c. lookup_breakpoint (e_hashmap E) b c \<longleftrightarrow>
       lookup_breakpoint (e_hashmap E) (breakpoints st) c \<and> \<not> (r = SP_OK \<and> c = a)"
    by auto
  with d show ?thesis
    by (intro exI [of _ r] exI [of _ "st\<lparr>breakpoints := b, tracee := s\<rparr>"])
      (auto simp: disable_bp_def bps_ok_def bp_set_def)
qed

end
