(* ===== verification/Info.thy ===== *)
theory Info
  imports Program
begin

text \<open>
  Symbols and addresses, \<^verbatim>\<open>src/src/info.c\<close>: a debug symbol is an entry of the ELF symbol table
  with what the DWARF information says about its place in the source, which is looked up on
  demand and cached in the symbol. A pointer to a symbol is an index into the buffer of
  symbols, a null pointer is \<open>None\<close>; the debug information itself is never null here.
\<close>

section \<open>Initialisation\<close>

text \<open>
  \<^verbatim>\<open>init_debug_info\<close> compares the result of the ELF parser with \<^verbatim>\<open>SP_ERR\<close>, which has the value of
  \<^verbatim>\<open>ELF_PARSE_IO_ERR\<close> only: for an invalid or an unsupported file it goes on with an \<^verbatim>\<open>ElfFile\<close>
  that has not been filled in, which is undefined here. The result is the file and libdwarf's
  state, with an empty buffer of symbols.
\<close>

definition init_debug_info ::
  "('d, 'w) libdwarf \<Rightarrow> elf_io \<Rightarrow> string option \<Rightarrow> (ElfFile \<times> 'w) option c_result option" where
  "init_debug_info L io path_arg =
     (case path_arg of
        None \<Rightarrow> Some (Defined None)
      | Some path \<Rightarrow>
          (case sd_dwarf_init L path of
             None \<Rightarrow> None
           | Some None \<Rightarrow> Some (Defined None)
           | Some (Some w) \<Rightarrow>
               Some (c_bind (se_parse_elf io path) (\<lambda>res.
                 case res of
                   Inl ELF_PARSE_IO_ERR \<Rightarrow> Defined None
                 | Inl _ \<Rightarrow> UB
                 | Inr elf \<Rightarrow> Defined (Some (elf, w))))))"

section \<open>The buffer of symbols\<close>

text \<open>A new symbol with all members zero but the given ones; the buffer grows as needed.\<close>

definition alloc_symbol ::
  "Elf64_Sym \<Rightarrow> dbg_addr option \<Rightarrow> (('s, 'h, 'w) debugger, nat) prog" where
  "alloc_symbol elf a st =
     Some (Value (length (symbols st),
       st\<lparr>symbols := symbols st @ [\<lparr>sym_elf = elf, sym_has_addr = a, sym_has_position = None,
                                   sym_file = None\<rparr>]\<rparr>))"

text \<open>Access through a pointer, \<^verbatim>\<open>mut_sym_ptr\<close> with a write; a bad index would be undefined.\<close>

definition sym_at :: "nat \<Rightarrow> (('s, 'h, 'w) debugger, DebugSymbol) prog" where
  "sym_at p st = (if p < length (symbols st) then Some (Value (symbols st ! p, st)) else Some Undefined)"

definition update_sym ::
  "nat \<Rightarrow> (DebugSymbol \<Rightarrow> DebugSymbol) \<Rightarrow> (('s, 'h, 'w) debugger, unit) prog" where
  "update_sym p f st =
     (if p < length (symbols st)
      then Some (Value ((), st\<lparr>symbols := (symbols st)[p := f (symbols st ! p)]\<rparr>))
      else Some Undefined)"

section \<open>Symbols\<close>

definition sym_by_name ::
  "('d, 's, 'h, 'w) env \<Rightarrow> string \<Rightarrow> (('s, 'h, 'w) debugger, nat option) prog" where
  "sym_by_name E name =
     then_do (from_c (se_symbol_from_name name (e_elf E))) (\<lambda>elf.
       case elf of
         None \<Rightarrow> return None
       | Some elf \<Rightarrow> then_do (alloc_symbol elf None) (\<lambda>p. return (Some p)))"

definition sym_by_addr ::
  "('d, 's, 'h, 'w) env \<Rightarrow> dbg_addr \<Rightarrow> (('s, 'h, 'w) debugger, nat option) prog" where
  "sym_by_addr E a =
     then_do (from_c (se_symbol_from_addr a (e_elf E))) (\<lambda>elf.
       case elf of
         None \<Rightarrow> return None
       | Some elf \<Rightarrow> then_do (alloc_symbol elf (Some a)) (\<lambda>p. return (Some p)))"

definition sym_name ::
  "('d, 's, 'h, 'w) env \<Rightarrow> nat option \<Rightarrow> (('s, 'h, 'w) debugger, string option) prog" where
  "sym_name E sp =
     (case sp of
        None \<Rightarrow> return None
      | Some p \<Rightarrow>
          then_do (sym_at p) (\<lambda>s.
          then_do (from_c (symbol_name (sym_elf s) (e_elf E))) (\<lambda>name. return (Some name))))"

definition sym_start_addr :: "nat option \<Rightarrow> (('s, 'h, 'w) debugger, dbg_addr) prog" where
  "sym_start_addr sp =
     (case sp of
        None \<Rightarrow> return (DbgAddr 0)
      | Some p \<Rightarrow> then_do (sym_at p) (\<lambda>s. return (se_symbol_start_addr (sym_elf s))))"

definition sym_end_addr :: "nat option \<Rightarrow> (('s, 'h, 'w) debugger, dbg_addr) prog" where
  "sym_end_addr sp =
     (case sp of
        None \<Rightarrow> return (DbgAddr 0)
      | Some p \<Rightarrow> then_do (sym_at p) (\<lambda>s. return (se_symbol_end_addr (sym_elf s))))"

definition sym_addr :: "nat option \<Rightarrow> (('s, 'h, 'w) debugger, dbg_addr) prog" where
  "sym_addr sp =
     (case sp of
        None \<Rightarrow> return (DbgAddr 0)
      | Some p \<Rightarrow>
          then_do (sym_at p) (\<lambda>s.
            case sym_has_addr s of
              Some a \<Rightarrow> return a
            | None \<Rightarrow> sym_start_addr sp))"

definition uses_specific_address :: "nat option \<Rightarrow> (('s, 'h, 'w) debugger, bool) prog" where
  "uses_specific_address sp =
     (case sp of
        None \<Rightarrow> return False
      | Some p \<Rightarrow> then_do (sym_at p) (\<lambda>s. return (sym_has_addr s \<noteq> None)))"

definition STT_FUNC :: nat where [magic_numbers]: "STT_FUNC = 2"

definition function_start_addr ::
  "('d, 's, 'h, 'w) env \<Rightarrow> nat option \<Rightarrow> (('s, 'h, 'w) debugger, dbg_addr option) prog" where
  "function_start_addr E func =
     (case func of
        None \<Rightarrow> return None
      | Some p \<Rightarrow>
          then_do (sym_at p) (\<lambda>s.
            if se_symbol_type (sym_elf s) = STT_FUNC then
              then_do (sym_start_addr func) (\<lambda>lo.
              then_do (sym_end_addr func) (\<lambda>hi.
              then_do (from_dwarf (sd_effective_start_addr (e_dwarf E) (e_realpath E) lo hi)) from_c))
            else return None))"

definition sym_filepath ::
  "('d, 's, 'h, 'w) env \<Rightarrow> nat option \<Rightarrow> (('s, 'h, 'w) debugger, string option) prog" where
  "sym_filepath E sp =
     (case sp of
        None \<Rightarrow> return None
      | Some p \<Rightarrow>
          then_do (sym_at p) (\<lambda>s.
            case sym_file s of
              Some path \<Rightarrow> return (Some path)
            | None \<Rightarrow>
                then_do (sym_addr sp) (\<lambda>a.
                then_do (from_dwarf (sd_filepath_from_pc (e_dwarf E) a)) (\<lambda>path.
                  case path of
                    None \<Rightarrow> return None
                  | Some path \<Rightarrow>
                      then_do (update_sym p (\<lambda>s. s\<lparr>sym_file := Some path\<rparr>)) (\<lambda>_.
                        return (Some path))))))"

definition position_of :: "LineEntry \<Rightarrow> Position" where
  "position_of l = \<lparr>pos_line = ln l, pos_column = cl l, pos_is_exact = is_exact l\<rparr>"

definition sym_position ::
  "('d, 's, 'h, 'w) env \<Rightarrow> nat option \<Rightarrow> (('s, 'h, 'w) debugger, Position option) prog" where
  "sym_position E sp =
     (case sp of
        None \<Rightarrow> return None
      | Some p \<Rightarrow>
          then_do (sym_at p) (\<lambda>s.
            case sym_has_position s of
              Some pos \<Rightarrow> return (Some pos)
            | None \<Rightarrow>
                then_do (sym_addr sp) (\<lambda>a.
                then_do (from_dwarf (sd_line_entry_from_pc (e_dwarf E) (e_realpath E) a))
                  (\<lambda>line_entry.
                    if \<not> is_ok line_entry then return None
                    else
                      then_do (update_sym p
                          (\<lambda>s. s\<lparr>sym_has_position := Some (position_of line_entry)\<rparr>))
                        (\<lambda>_. return (Some (position_of line_entry)))))))"

section \<open>Addresses\<close>

definition addr_position ::
  "('d, 's, 'h, 'w) env \<Rightarrow> dbg_addr \<Rightarrow> (('s, 'h, 'w) debugger, Position option) prog" where
  "addr_position E a =
     then_do (sym_by_addr E a) (\<lambda>addr_sym.
       case addr_sym of None \<Rightarrow> return None | Some p \<Rightarrow> sym_position E (Some p))"

definition addr_name ::
  "('d, 's, 'h, 'w) env \<Rightarrow> dbg_addr \<Rightarrow> (('s, 'h, 'w) debugger, string option) prog" where
  "addr_name E a =
     then_do (sym_by_addr E a) (\<lambda>addr_sym.
       case addr_sym of None \<Rightarrow> return None | Some p \<Rightarrow> sym_name E (Some p))"

definition addr_filepath ::
  "('d, 's, 'h, 'w) env \<Rightarrow> dbg_addr \<Rightarrow> (('s, 'h, 'w) debugger, string option) prog" where
  "addr_filepath E a =
     then_do (sym_by_addr E a) (\<lambda>addr_sym.
       case addr_sym of None \<Rightarrow> return None | Some p \<Rightarrow> sym_filepath E (Some p))"

definition addr_at ::
  "('d, 's, 'h, 'w) env \<Rightarrow> string \<Rightarrow> u32 \<Rightarrow> (('s, 'h, 'w) debugger, dbg_addr option) prog" where
  "addr_at E path lineno =
     then_do (from_dwarf (sd_line_entry_at (e_dwarf E) (e_realpath E) path lineno)) (\<lambda>line.
       if is_ok line then return (Some (addr line)) else return None)"

definition is_dyn_exec :: "('d, 's, 'h, 'w) env \<Rightarrow> bool" where
  "is_dyn_exec E = (elf_type (e_elf E) = ELF_TYPE_DYN)"

section \<open>Lookups keep the rest of the state\<close>

lemma keeps_symbols [keeps_intros]:
  "keeps tracee (alloc_symbol x a)" "keeps tracee (sym_at p)" "keeps tracee (update_sym p g)"
  "keeps breakpoints (alloc_symbol x a)" "keeps breakpoints (sym_at p)" "keeps breakpoints (update_sym p g)"
  "keeps printed (alloc_symbol x a)" "keeps printed (sym_at p)" "keeps printed (update_sym p g)"
  "keeps load_address (alloc_symbol x a)" "keeps load_address (sym_at p)" "keeps load_address (update_sym p g)"
  "keeps last_command (alloc_symbol x a)" "keeps last_command (sym_at p)" "keeps last_command (update_sym p g)"
  by (auto simp: keeps_def alloc_symbol_def sym_at_def update_sym_def split: if_splits)

lemmas lookup_defs = sym_by_name_def sym_by_addr_def sym_name_def sym_start_addr_def sym_end_addr_def
  sym_addr_def sym_filepath_def sym_position_def addr_position_def addr_name_def addr_filepath_def
  addr_at_def function_start_addr_def

lemma keeps_lookups [keeps_intros]:
  "keeps tracee (sym_by_name E n)" "keeps tracee (sym_by_addr E a)" "keeps tracee (sym_name E p)"
  "keeps tracee (sym_start_addr p)" "keeps tracee (sym_filepath E p)" "keeps tracee (sym_position E p)"
  "keeps tracee (addr_position E a)" "keeps tracee (addr_at E f l)" "keeps tracee (function_start_addr E p)"
  unfolding lookup_defs by (intro keeps_intros)+

lemma keeps_breakpoints_lookups [keeps_intros]:
  "keeps breakpoints (sym_by_name E n)" "keeps breakpoints (sym_by_addr E a)" "keeps breakpoints (sym_name E p)"
  "keeps breakpoints (sym_start_addr p)" "keeps breakpoints (sym_filepath E p)"
  "keeps breakpoints (sym_position E p)" "keeps breakpoints (addr_position E a)"
  "keeps breakpoints (addr_at E f l)" "keeps breakpoints (function_start_addr E p)"
  unfolding lookup_defs by (intro keeps_intros)+

section \<open>Breakpoints for stepping over a line\<close>

text \<open>
  The data of the callback: the addresses to delete again, and the table of breakpoints with
  the process that it patches. The real address subtracts the load address, where
  \<open>dbg_to_real\<close> adds it.
\<close>

record ('s, 'h) CallbackData =
  to_del :: "real_addr list"
  cb_store :: "'h Breakpoints \<times> 's"

definition callback__set_dwarf_line_breakpoint ::
  "'s kernel \<Rightarrow> 'h hashmap \<Rightarrow> real_addr \<Rightarrow> u32 \<Rightarrow> ('s, 'h) CallbackData line_callback" where
  "callback__set_dwarf_line_breakpoint K H load skip_line line cbd =
     (let real_line_addr = RealAddr (dbg_value (addr line) - real_value load) in
      if skip_line \<noteq> ln line \<and> \<not> lookup_breakpoint H (fst (cb_store cbd)) real_line_addr then
        run_bind (enable_breakpoint K H real_line_addr (cb_store cbd)) (\<lambda>(_, store).
          Ret (SP_OK, cbd\<lparr>to_del := to_del cbd @ [real_line_addr], cb_store := store\<rparr>))
      else Ret (SP_OK, cbd))"

definition for_each_line_bp ::
  "('d, 's, 'h, 'w) env \<Rightarrow> string \<Rightarrow> string \<Rightarrow> u32
     \<Rightarrow> (('s, 'h, 'w) debugger, real_addr list) prog" where
  "for_each_line_bp E func_name path skip_line st =
     (case sd_for_each_line (e_dwarf E) (e_realpath E) func_name path
             (callback__set_dwarf_line_breakpoint (e_kernel E) (e_hashmap E) (load_address st)
                skip_line)
             \<lparr>to_del = [], cb_store = (breakpoints st, tracee st)\<rparr> (dwarf st) of
        None \<Rightarrow> None
      | Some (Abort, w) \<Rightarrow> Some Aborted
      | Some (Ret (_, cbd), w) \<Rightarrow>
          Some (Value (to_del cbd,
            st\<lparr>breakpoints := fst (cb_store cbd), tracee := snd (cb_store cbd), dwarf := w\<rparr>)))"

text \<open>The result is the list of addresses to delete, or \<open>None\<close> for \<^verbatim>\<open>SP_ERR\<close>.\<close>

definition set_step_over_breakpoints ::
  "('d, 's, 'h, 'w) env \<Rightarrow> nat option \<Rightarrow> (('s, 'h, 'w) debugger, real_addr list option) prog" where
  "set_step_over_breakpoints E func =
     (case func of
        None \<Rightarrow> return None
      | Some p \<Rightarrow>
          then_do (sym_position E func) (\<lambda>pos.
          then_do (sym_name E func) (\<lambda>func_name.
          then_do (sym_filepath E func) (\<lambda>path.
            case (pos, func_name, path) of
              (Some pos, Some func_name, Some path) \<Rightarrow>
                then_do (for_each_line_bp E func_name path (pos_line pos)) (\<lambda>dels.
                  return (Some dels))
            | _ \<Rightarrow> return None))))"

section \<open>What the lookups give\<close>

text \<open>The environment is in order for a state: libdwarf presents trees, the symbols are readable.\<close>

definition world_ok ::
  "('d, 's, 'h, 'w) env \<Rightarrow> ('d \<times> nat) list \<Rightarrow> (Elf64_Sym \<times> string) list \<Rightarrow> ('s, 'h, 'w) debugger \<Rightarrow> bool"
  where
  "world_ok E ds syms st \<longleftrightarrow>
     symbols_ok (e_elf E) syms \<and>
     (\<exists>info types. ds = dies (info @ types) \<and> dwarf_ok (e_dwarf E) (dwarf st) info types)"

definition file_spec :: "('d, 's, 'h, 'w) env \<Rightarrow> ('d \<times> nat) list \<Rightarrow> dbg_addr \<Rightarrow> string option" where
  "file_spec E ds a =
     (case first_match (pc_match (e_dwarf E) (dbg_value a)) ds of None \<Rightarrow> None | Some p \<Rightarrow> p)"

definition line_spec :: "('d, 's, 'h, 'w) env \<Rightarrow> ('d \<times> nat) list \<Rightarrow> dbg_addr \<Rightarrow> LineEntry" where
  "line_spec E ds a =
     (case file_spec E ds a of
        None \<Rightarrow> no_line_entry
      | Some path \<Rightarrow>
          (let t = file_table (e_dwarf E) (e_realpath E) ds path in
           if is_set t then line_entry_for_pc t a else no_line_entry))"

definition pos_spec :: "('d, 's, 'h, 'w) env \<Rightarrow> ('d \<times> nat) list \<Rightarrow> dbg_addr \<Rightarrow> Position option" where
  "pos_spec E ds a = (if is_ok (line_spec E ds a) then Some (position_of (line_spec E ds a)) else None)"

definition addr_of :: "DebugSymbol \<Rightarrow> dbg_addr" where
  "addr_of s = (case sym_has_addr s of Some a \<Rightarrow> a | None \<Rightarrow> se_symbol_start_addr (sym_elf s))"

text \<open>What is cached in a symbol is what a lookup for its address gives.\<close>

definition cache_ok :: "('d, 's, 'h, 'w) env \<Rightarrow> ('d \<times> nat) list \<Rightarrow> DebugSymbol list \<Rightarrow> bool" where
  "cache_ok E ds ss \<longleftrightarrow>
     (\<forall>s \<in> set ss.
        (\<forall>p. sym_has_position s = Some p \<longrightarrow> pos_spec E ds (addr_of s) = Some p) \<and>
        (\<forall>f. sym_file s = Some f \<longrightarrow> file_spec E ds (addr_of s) = Some f))"

text \<open>The buffer may grow and its caches fill; symbols keep their place and address.\<close>

definition grows :: "DebugSymbol list \<Rightarrow> DebugSymbol list \<Rightarrow> bool" where
  "grows ss ss' \<longleftrightarrow> length ss \<le> length ss' \<and>
     (\<forall>i < length ss. sym_elf (ss' ! i) = sym_elf (ss ! i) \<and> sym_has_addr (ss' ! i) = sym_has_addr (ss ! i))"

lemma grows_refl [simp]: "grows ss ss"
  by (simp add: grows_def)

lemma grows_trans: "grows ss ss' \<Longrightarrow> grows ss' ss'' \<Longrightarrow> grows ss ss''"
  unfolding grows_def by (metis order.trans order.strict_trans2)

lemma grows_append [simp]: "grows ss (ss @ [s])"
  by (simp add: grows_def nth_append)

lemma grows_update [simp]:
  "sym_elf s = sym_elf (ss ! p) \<Longrightarrow> sym_has_addr s = sym_has_addr (ss ! p) \<Longrightarrow> grows ss (ss[p := s])"
  by (cases "p < length ss") (auto simp: grows_def nth_list_update)

lemma grows_addr: "grows ss ss' \<Longrightarrow> p < length ss \<Longrightarrow> p < length ss' \<and> addr_of (ss' ! p) = addr_of (ss ! p)"
  by (simp add: grows_def addr_of_def split: option.split)

text \<open>The shape of every lookup: a result, a larger buffer and nothing else.\<close>

definition looks_up ::
  "('d, 's, 'h, 'w) env \<Rightarrow> ('d \<times> nat) list \<Rightarrow> ('s, 'h, 'w) debugger
     \<Rightarrow> (('s, 'h, 'w) debugger, 'a) prog \<Rightarrow> 'a \<Rightarrow> bool" where
  "looks_up E ds st m a \<longleftrightarrow>
     (\<exists>ss. m st = Some (Value (a, st\<lparr>symbols := ss\<rparr>)) \<and> cache_ok E ds ss \<and> grows (symbols st) ss)"

lemma from_dwarf_same:
  "m (dwarf st) = Some (a, dwarf st) \<Longrightarrow> from_dwarf m st = Some (Value (a, st))"
  by (simp add: from_dwarf_def)

lemma filepath_from_pc_spec:
  assumes "world_ok E ds syms st"
  shows "from_dwarf (sd_filepath_from_pc (e_dwarf E) a) st = Some (Value (file_spec E ds a, st))"
  using assms unfolding world_ok_def
  by (auto intro!: from_dwarf_same simp: filepath_from_pc_first file_spec_def)

lemma line_entry_from_pc_spec:
  assumes "world_ok E ds syms st"
  shows "from_dwarf (sd_line_entry_from_pc (e_dwarf E) (e_realpath E) a) st =
    Some (Value (line_spec E ds a, st))"
  using assms unfolding world_ok_def
  by (auto intro!: from_dwarf_same simp: line_entry_from_pc_first line_spec_def file_spec_def
      split: option.splits)

lemma sym_at_Value [simp]:
  "p < length (symbols st) \<Longrightarrow> sym_at p st = Some (Value (symbols st ! p, st))"
  by (simp add: sym_at_def)

lemma sym_addr_Value:
  "p < length (symbols st) \<Longrightarrow> sym_addr (Some p) st = Some (Value (addr_of (symbols st ! p), st))"
  by (simp add: sym_addr_def sym_start_addr_def then_do_def addr_of_def split: option.split)

lemma cache_ok_update:
  assumes "cache_ok E ds ss" "p < length ss" "addr_of s = addr_of (ss ! p)"
    and "\<And>q. sym_has_position s = Some q \<Longrightarrow> pos_spec E ds (addr_of s) = Some q"
    and "\<And>f. sym_file s = Some f \<Longrightarrow> file_spec E ds (addr_of s) = Some f"
  shows "cache_ok E ds (ss[p := s])"
  using assms unfolding cache_ok_def by (auto dest!: set_update_subset_insert [THEN subsetD])

lemma sym_filepath_spec:
  assumes w: "world_ok E ds syms st" and c: "cache_ok E ds (symbols st)" and p: "p < length (symbols st)"
  shows "looks_up E ds st (sym_filepath E (Some p)) (file_spec E ds (addr_of (symbols st ! p)))"
proof (cases "sym_file (symbols st ! p)")
  case (Some f)
  with c p have "file_spec E ds (addr_of (symbols st ! p)) = Some f" by (simp add: cache_ok_def)
  with Some p c show ?thesis
    by (auto simp: looks_up_def sym_filepath_def then_do_def intro!: exI [of _ "symbols st"])
next
  case None
  let ?a = "addr_of (symbols st ! p)"
  have run: "sym_filepath E (Some p) st =
      (case file_spec E ds ?a of
         None \<Rightarrow> Some (Value (None, st))
       | Some path \<Rightarrow> Some (Value (Some path,
           st\<lparr>symbols := (symbols st)[p := (symbols st ! p)\<lparr>sym_file := Some path\<rparr>]\<rparr>)))"
    using None p
    by (simp add: sym_filepath_def then_do_def sym_addr_Value filepath_from_pc_spec [OF w]
        update_sym_def split: option.split)
  show ?thesis
  proof (cases "file_spec E ds ?a")
    case None
    with run c show ?thesis by (auto simp: looks_up_def intro!: exI [of _ "symbols st"])
  next
    case (Some path)
    let ?s = "(symbols st ! p)\<lparr>sym_file := Some path\<rparr>"
    have "addr_of ?s = ?a" by (simp add: addr_of_def split: option.split)
    moreover from c p have "\<And>q. sym_has_position ?s = Some q \<Longrightarrow> pos_spec E ds ?a = Some q"
      by (simp add: cache_ok_def)
    ultimately have "cache_ok E ds ((symbols st)[p := ?s])"
      using Some by (intro cache_ok_update [OF c p]) simp_all
    with run Some show ?thesis
      unfolding looks_up_def by (intro exI [of _ "(symbols st)[p := ?s]"]) simp
  qed
qed

lemma sym_position_spec:
  assumes w: "world_ok E ds syms st" and c: "cache_ok E ds (symbols st)" and p: "p < length (symbols st)"
  shows "looks_up E ds st (sym_position E (Some p)) (pos_spec E ds (addr_of (symbols st ! p)))"
proof (cases "sym_has_position (symbols st ! p)")
  case (Some q)
  with c p have "pos_spec E ds (addr_of (symbols st ! p)) = Some q" by (simp add: cache_ok_def)
  with Some p c show ?thesis
    by (auto simp: looks_up_def sym_position_def then_do_def intro!: exI [of _ "symbols st"])
next
  case None
  let ?a = "addr_of (symbols st ! p)"
  let ?s = "(symbols st ! p)\<lparr>sym_has_position := Some (position_of (line_spec E ds ?a))\<rparr>"
  have run: "sym_position E (Some p) st =
      (if is_ok (line_spec E ds ?a)
       then Some (Value (Some (position_of (line_spec E ds ?a)), st\<lparr>symbols := (symbols st)[p := ?s]\<rparr>))
       else Some (Value (None, st)))"
    using None p
    by (simp add: sym_position_def then_do_def sym_addr_Value line_entry_from_pc_spec [OF w]
        update_sym_def)
  show ?thesis
  proof (cases "is_ok (line_spec E ds ?a)")
    case False
    with run c show ?thesis
      by (auto simp: looks_up_def pos_spec_def intro!: exI [of _ "symbols st"])
  next
    case True
    have "addr_of ?s = ?a" by (simp add: addr_of_def split: option.split)
    moreover from c p have "\<And>f. sym_file ?s = Some f \<Longrightarrow> file_spec E ds ?a = Some f"
      by (simp add: cache_ok_def)
    ultimately have "cache_ok E ds ((symbols st)[p := ?s])"
      using True by (intro cache_ok_update [OF c p]) (simp_all add: pos_spec_def)
    with run True show ?thesis
      unfolding looks_up_def by (intro exI [of _ "(symbols st)[p := ?s]"]) (simp add: pos_spec_def)
  qed
qed

text \<open>The three lookups by address: the first symbol that covers it, if any.\<close>

definition covering :: "(Elf64_Sym \<times> string) list \<Rightarrow> dbg_addr \<Rightarrow> (Elf64_Sym \<times> string) option" where
  "covering syms a = find (\<lambda>s. covers a (fst s)) syms"

lemma covering_Some: "covering syms a = Some s \<Longrightarrow> s \<in> set syms \<and> covers a (fst s)"
  unfolding covering_def by (rule find_Some_set)

lemma alloc_symbol_Value:
  "alloc_symbol elf a st = Some (Value (length (symbols st), st\<lparr>symbols := symbols st @
     [\<lparr>sym_elf = elf, sym_has_addr = a, sym_has_position = None, sym_file = None\<rparr>]\<rparr>))"
  by (simp add: alloc_symbol_def)

lemma sym_by_addr_spec:
  assumes "world_ok E ds syms st"
  shows "sym_by_addr E a st =
    (case covering syms a of
       None \<Rightarrow> Some (Value (None, st))
     | Some s \<Rightarrow> Some (Value (Some (length (symbols st)), st\<lparr>symbols := symbols st @
         [\<lparr>sym_elf = fst s, sym_has_addr = Some a, sym_has_position = None, sym_file = None\<rparr>]\<rparr>)))"
proof -
  from assms have "symbols_ok (e_elf E) syms" by (simp add: world_ok_def)
  then have "se_symbol_from_addr a (e_elf E) = Defined (map_option fst (covering syms a))"
    unfolding covering_def by (rule elf.from_addr_law)
  then show ?thesis
    by (simp add: sym_by_addr_def then_do_def alloc_symbol_def split: option.split)
qed

lemma world_ok_symbols [simp]: "world_ok E ds syms (st\<lparr>symbols := ss\<rparr>) = world_ok E ds syms st"
  by (simp add: world_ok_def)

lemma cache_ok_append [simp]:
  "cache_ok E ds (ss @ [\<lparr>sym_elf = elf, sym_has_addr = a, sym_has_position = None, sym_file = None\<rparr>])
     \<longleftrightarrow> cache_ok E ds ss"
  by (auto simp: cache_ok_def)

text \<open>Looking up something for the symbol of an address, which is new in the buffer.\<close>

lemma looks_up_new:
  assumes w: "world_ok E ds syms st" and c: "cache_ok E ds (symbols st)"
    and f: "\<And>st p. world_ok E ds syms st \<Longrightarrow> cache_ok E ds (symbols st) \<Longrightarrow> p < length (symbols st)
              \<Longrightarrow> looks_up E ds st (f (Some p)) (spec (symbols st ! p))"
  shows "looks_up E ds st
    (then_do (sym_by_addr E a) (\<lambda>s. case s of None \<Rightarrow> return d | Some p \<Rightarrow> f (Some p)))
    (case covering syms a of
       None \<Rightarrow> d
     | Some s \<Rightarrow> spec \<lparr>sym_elf = fst s, sym_has_addr = Some a, sym_has_position = None, sym_file = None\<rparr>)"
proof (cases "covering syms a")
  case None
  with c show ?thesis
    by (auto simp: looks_up_def then_do_def sym_by_addr_spec [OF w] intro!: exI [of _ "symbols st"])
next
  case (Some s)
  let ?new = "\<lparr>sym_elf = fst s, sym_has_addr = Some a, sym_has_position = None, sym_file = None\<rparr>"
  let ?st = "st\<lparr>symbols := symbols st @ [?new]\<rparr>"
  have "looks_up E ds ?st (f (Some (length (symbols st)))) (spec (symbols ?st ! length (symbols st)))"
    by (rule f) (use w c in simp_all)
  then obtain ss where "f (Some (length (symbols st))) ?st = Some (Value (spec ?new, ?st\<lparr>symbols := ss\<rparr>))"
    "cache_ok E ds ss" "grows (symbols ?st) ss"
    by (auto simp: looks_up_def)
  moreover from this(3) have "grows (symbols st) ss"
    using grows_trans [OF grows_append] by simp
  ultimately show ?thesis
    unfolding looks_up_def
    by (intro exI [of _ ss]) (simp add: then_do_def sym_by_addr_spec [OF w] Some)
qed

lemma addr_position_spec:
  assumes "world_ok E ds syms st" and "cache_ok E ds (symbols st)"
  shows "looks_up E ds st (addr_position E a)
    (case covering syms a of None \<Rightarrow> None | Some s \<Rightarrow> pos_spec E ds a)"
  using looks_up_new [OF assms sym_position_spec, where a = a and d = None]
  by (simp add: addr_position_def addr_of_def cong: option.case_cong)

lemma addr_filepath_spec:
  assumes "world_ok E ds syms st" and "cache_ok E ds (symbols st)"
  shows "looks_up E ds st (addr_filepath E a)
    (case covering syms a of None \<Rightarrow> None | Some s \<Rightarrow> file_spec E ds a)"
  using looks_up_new [OF assms sym_filepath_spec, where a = a and d = None]
  by (simp add: addr_filepath_def addr_of_def cong: option.case_cong)

lemma addr_name_spec:
  assumes w: "world_ok E ds syms st" and c: "cache_ok E ds (symbols st)"
  shows "looks_up E ds st (addr_name E a) (map_option snd (covering syms a))"
proof (cases "covering syms a")
  case None
  with c show ?thesis
    by (auto simp: looks_up_def addr_name_def then_do_def sym_by_addr_spec [OF w]
        intro!: exI [of _ "symbols st"])
next
  case (Some s)
  from w have "symbols_ok (e_elf E) syms" by (simp add: world_ok_def)
  with covering_Some [OF Some] have "symbol_name (fst s) (e_elf E) = Defined (snd s)"
    using elf.name_law by blast
  with Some c show ?thesis
    unfolding looks_up_def
    by (intro exI [of _ "symbols st @
        [\<lparr>sym_elf = fst s, sym_has_addr = Some a, sym_has_position = None, sym_file = None\<rparr>]"])
      (simp add: addr_name_def sym_name_def then_do_def sym_by_addr_spec [OF w])
qed

text \<open>The address of a line, and the start of a function.\<close>

lemma line_entry_at_first:
  assumes "dwarf_ok L w info types"
  shows "sd_line_entry_at L realpath path n w =
    Some (let t = file_table L realpath (dies (info @ types)) path in
          if \<not> is_set t then no_line_entry
          else (case get_line_table_index_of_line t n of
                  None \<Rightarrow> no_line_entry | Some i \<Rightarrow> lt_lines t ! i), w)"
  by (simp add: sd_line_entry_at_def get_line_table_first [OF assms] Let_def del: dies_simps
      split: option.split)

lemma addr_at_spec:
  assumes w: "world_ok E ds syms st" and res: "addr_at E path n st = Some (Value (Some a, st'))"
  shows "st' = st \<and>
    (\<exists>i. get_line_table_index_of_line (file_table (e_dwarf E) (e_realpath E) ds path) n = Some i \<and>
         a = addr (lt_lines (file_table (e_dwarf E) (e_realpath E) ds path) ! i))"
proof -
  from w obtain info types where ds: "ds = dies (info @ types)"
    and ok: "dwarf_ok (e_dwarf E) (dwarf st) info types" by (auto simp: world_ok_def)
  let ?t = "file_table (e_dwarf E) (e_realpath E) ds path"
  let ?l = "if \<not> is_set ?t then no_line_entry
          else (case get_line_table_index_of_line ?t n of
                  None \<Rightarrow> no_line_entry | Some i \<Rightarrow> lt_lines ?t ! i)"
  have "from_dwarf (sd_line_entry_at (e_dwarf E) (e_realpath E) path n) st = Some (Value (?l, st))"
    unfolding ds by (rule from_dwarf_same) (simp add: line_entry_at_first [OF ok] Let_def del: dies_simps)
  with res have "is_ok ?l \<and> a = addr ?l \<and> st' = st"
    by (simp add: addr_at_def then_do_def split: if_splits)
  then show ?thesis
    by (auto simp: no_line_entry_def split: if_splits option.splits)
qed

end
