(* ===== verification/Variables.thy ===== *)
theory Variables
  imports Info
begin

text \<open>
  Variables of the running program, the last part of \<^verbatim>\<open>src/src/info.c\<close>: where a variable is,
  how the bytes of its value are chosen and how the value is printed.
\<close>

section \<open>Variables\<close>

record RuntimeVariable =
  var_loc :: SdLocation
  var_decl_file :: "string option"
  var_decl_line :: u32
  var_SdType :: SdType

definition var_loc_addr :: "RuntimeVariable option \<Rightarrow> real_addr" where
  "var_loc_addr var =
     (case var of
        Some v \<Rightarrow> (case var_loc v of LOC_ADDR a \<Rightarrow> a | LOC_REG _ \<Rightarrow> RealAddr 0)
      | None \<Rightarrow> RealAddr 0)"

text \<open>The register 0 that is returned in the other cases is the first of the enumeration.\<close>

definition var_loc_reg :: "RuntimeVariable option \<Rightarrow> x86_reg" where
  "var_loc_reg var =
     (case var of
        Some v \<Rightarrow> (case var_loc v of LOC_REG r \<Rightarrow> r | LOC_ADDR _ \<Rightarrow> R15)
      | None \<Rightarrow> R15)"

definition is_addr_loc :: "RuntimeVariable option \<Rightarrow> bool" where
  "is_addr_loc var =
     (case var of
        Some v \<Rightarrow> (case var_loc v of LOC_ADDR _ \<Rightarrow> True | LOC_REG _ \<Rightarrow> False)
      | None \<Rightarrow> False)"

definition is_reg_loc :: "RuntimeVariable option \<Rightarrow> bool" where
  "is_reg_loc var =
     (case var of
        Some v \<Rightarrow> (case var_loc v of LOC_REG _ \<Rightarrow> True | LOC_ADDR _ \<Rightarrow> False)
      | None \<Rightarrow> False)"

definition var_loc_path :: "RuntimeVariable \<Rightarrow> string option" where
  "var_loc_path var = var_decl_file var"

definition var_loc_line :: "RuntimeVariable \<Rightarrow> u32" where
  "var_loc_line var = var_decl_line var"

text \<open>
  \<^verbatim>\<open>n_digits\<close> of a number that came from an \<^verbatim>\<open>unsigned\<close>: \<open>\<lfloor>log\<^sub>1\<^sub>0 n\<rfloor> + 1\<close> is the number
  of its decimal digits.
\<close>

fun n_digits :: "nat \<Rightarrow> nat" where
  "n_digits n = (if n < 10 then 1 else n_digits (n div 10) + 1)"

declare n_digits.simps [simp del]

text \<open>
  For line 0 the code writes \<^verbatim>\<open><?>\<close> to the wrong buffer and prints the uninitialised one.
\<close>

definition print_var_loc :: "string option \<Rightarrow> RuntimeVariable option \<Rightarrow> string c_result" where
  "print_var_loc cwd var =
     (let n = 256 in
      case var of
        None \<Rightarrow> Defined ''<?>:<?>''
      | Some v \<Rightarrow>
          c_bind (case var_loc_path v of
                    None \<Rightarrow> Defined (Some ''<?>'')
                  | Some path \<Rightarrow> relative_filepath cwd (Some path)) (\<lambda>var_path.
            let var_line = unat (var_loc_line v);
                line_n = n_digits var_line + 1 in
            if var_line > 0 then
              Defined (snprintf n
                ((case var_path of None \<Rightarrow> ''<?>'' | Some p \<Rightarrow> p) @ '':'' @
                 snprintf line_n (show_base 10 var_line)))
            else UB))"

section \<open>The bytes of a value\<close>

text \<open>This is \<^verbatim>\<open>mask_var_value_\<close>. \<^verbatim>\<open>mask << shift_by\<close> is computed only for a \<^verbatim>\<open>shift_by\<close> below 64.\<close>

definition mask_var_value' :: "SdBasetype \<Rightarrow> u64 \<Rightarrow> u64" where
  "mask_var_value' base_type value =
     (let shift_by = unat (base_size base_type) * 8;
          mask = -1 :: u64;
          mask = (if shift_by < 64 then NOT (push_bit shift_by mask) else mask)
      in value AND mask)"

text \<open>A node that has been allocated and not been written has an indeterminate tag.\<close>

primrec mask_loop :: "SdTypenode option list \<Rightarrow> u64 \<Rightarrow> u64 c_result" where
  "mask_loop [] value = Defined value"
| "mask_loop (node # ns) value =
     (case node of
        None \<Rightarrow> UB
      | Some (NODE_BASE_TYPE base_type) \<Rightarrow> Defined (mask_var_value' base_type value)
      | Some (NODE_MODIFIER TYPE_MOD_POINTER) \<Rightarrow> Defined value
      | Some _ \<Rightarrow> mask_loop ns value)"

definition mask_var_value :: "RuntimeVariable option \<Rightarrow> u64 \<Rightarrow> u64 c_result" where
  "mask_var_value var value =
     (case var of None \<Rightarrow> Defined value | Some v \<Rightarrow> mask_loop (nodes (var_SdType v)) value)"

section \<open>Printing a value\<close>

text \<open>
  The conversion of an integer to a floating-point type with a significand of \<open>p\<close> bits rounds
  to nearest, ties to even; the result is an integer again.
\<close>

fun bit_length :: "nat \<Rightarrow> nat" where
  "bit_length n = (if n = 0 then 0 else bit_length (n div 2) + 1)"

declare bit_length.simps [simp del]

definition round_to_bits :: "nat \<Rightarrow> nat \<Rightarrow> nat" where
  "round_to_bits p n =
     (let e = bit_length n - p;
          q = n div 2 ^ e;
          r = n mod 2 ^ e in
      if e = 0 then n
      else (if 2 * r > 2 ^ e \<or> 2 * r = 2 ^ e \<and> odd q then q + 1 else q) * 2 ^ e)"

text \<open>\<^verbatim>\<open>%f\<close> of an integral number.\<close>

definition show_float :: "nat \<Rightarrow> string" where
  "show_float n = show_base 10 n @ ''.000000''"

text \<open>What the \<^verbatim>\<open>%\<close> conversions of the branches print; a NUL ends the string.\<close>

fun base_type_text :: "base_type_tag \<Rightarrow> u64 \<Rightarrow> string" where
  "base_type_text BASE_TYPE_CHAR v =
     takeWhile (\<lambda>c. c \<noteq> CHR 0x00) ([CHR 0x27, char_of (unat (ucast v :: u8)), CHR 0x27])"
| "base_type_text BASE_TYPE_SIGNED_CHAR v = show_int (sint (ucast v :: u8))"
| "base_type_text BASE_TYPE_UNSIGNED_CHAR v = show_int (uint (ucast v :: u8))"
| "base_type_text BASE_TYPE_SHORT v = show_int (sint (ucast v :: u16))"
| "base_type_text BASE_TYPE_UNSIGNED_SHORT v = show_int (uint (ucast v :: u16))"
| "base_type_text BASE_TYPE_INT v = show_int (sint (ucast v :: u32))"
| "base_type_text BASE_TYPE_UNSIGNED_INT v = show_int (uint (ucast v :: u32))"
| "base_type_text BASE_TYPE_LONG v = show_int (sint v)"
| "base_type_text BASE_TYPE_UNSIGNED_LONG v = show_int (uint v)"
| "base_type_text BASE_TYPE_LONG_LONG v = show_int (sint v)"
| "base_type_text BASE_TYPE_UNSIGNED_LONG_LONG v = show_int (uint v)"
| "base_type_text BASE_TYPE_FLOAT v = show_float (round_to_bits 24 (unat v))"
| "base_type_text BASE_TYPE_DOUBLE v = show_float (round_to_bits 53 (unat v))"
| "base_type_text BASE_TYPE_LONG_DOUBLE v = show_float (round_to_bits 64 (unat v))"

definition print_base_type :: "SdBasetype \<Rightarrow> u64 \<Rightarrow> FormatFilter \<Rightarrow> string" where
  "print_base_type base_type value flt =
     (let value = mask_var_value' base_type value in
      if flt = FMT_NONE then snprintf 513 (base_type_text (base_tag base_type) value)
      else print_format value flt)"

definition print_format_with :: "u64 \<Rightarrow> FormatFilter \<Rightarrow> string \<Rightarrow> string" where
  "print_format_with value flt msg =
     (let val_str = print_format value flt;
          n = length val_str + length msg + 2 in
      snprintf n (val_str @ '' '' @ msg))"

primrec print_value_loop :: "SdTypenode option list \<Rightarrow> u64 \<Rightarrow> FormatFilter \<Rightarrow> string c_result" where
  "print_value_loop [] value flt =
     Defined (print_format_with value flt ''(no applicable type!)'')"
| "print_value_loop (node # ns) value flt =
     (case node of
        None \<Rightarrow> UB
      | Some (NODE_BASE_TYPE base_type) \<Rightarrow> Defined (print_base_type base_type value flt)
      | Some (NODE_MODIFIER m) \<Rightarrow>
          if m = TYPE_MOD_POINTER
          then Defined (print_format value (default_format flt FMT_ADDR))
          else print_value_loop ns value flt
      | Some NODE_UNSPECIFIED \<Rightarrow> print_value_loop ns value flt
      | Some NODE_TYPEDEF \<Rightarrow> print_value_loop ns value flt)"

definition print_var_value ::
  "RuntimeVariable option \<Rightarrow> u64 \<Rightarrow> FormatFilter \<Rightarrow> string c_result" where
  "print_var_value var value flt =
     (case var of
        None \<Rightarrow> Defined (print_format_with value flt ''(no type!)'')
      | Some v \<Rightarrow> print_value_loop (nodes (var_SdType v)) value flt)"

primrec print_deref_loop ::
  "SdTypenode option list \<Rightarrow> bool \<Rightarrow> u64 \<Rightarrow> FormatFilter \<Rightarrow> string c_result" where
  "print_deref_loop [] from_pointer deref flt =
     Defined (print_format_with deref flt ''(not a pointer!)'')"
| "print_deref_loop (node # ns) from_pointer deref flt =
     (case node of
        None \<Rightarrow> UB
      | Some (NODE_BASE_TYPE base_type) \<Rightarrow>
          if from_pointer then Defined (print_base_type base_type deref FMT_NONE)
          else print_deref_loop ns False deref flt
      | Some (NODE_MODIFIER m) \<Rightarrow>
          print_deref_loop ns (if m = TYPE_MOD_POINTER then True else from_pointer) deref flt
      | Some NODE_UNSPECIFIED \<Rightarrow> print_deref_loop ns False deref flt
      | Some NODE_TYPEDEF \<Rightarrow> print_deref_loop ns False deref flt)"

definition print_var_deref_value ::
  "RuntimeVariable option \<Rightarrow> u64 \<Rightarrow> FormatFilter \<Rightarrow> string c_result" where
  "print_var_deref_value var deref flt =
     (case var of
        None \<Rightarrow> Defined (print_format_with deref flt ''(no type!)'')
      | Some v \<Rightarrow> print_deref_loop (nodes (var_SdType v)) False deref flt)"

section \<open>Finding a variable\<close>

definition eval_location ::
  "('d, 's, 'h, 'w) env \<Rightarrow> SdLocEvalCtx \<Rightarrow> SdLoclist \<Rightarrow> (('s, 'h, 'w) debugger, SdLocation option) prog"
  where
  "eval_location E ctx loclist st =
     (case sd_eval_loclist \<lparr>env_dwarf = e_dwarf E, env_kernel = e_kernel E, env_tracee = tracee st,
             env_ctx = ctx\<rparr> loclist (dwarf st) of
        None \<Rightarrow> None
      | Some (UB, _) \<Rightarrow> Some Undefined
      | Some (Defined r, w) \<Rightarrow> Some (Value (r, st\<lparr>dwarf := w\<rparr>)))"

definition init_var ::
  "('d, 's, 'h, 'w) env \<Rightarrow> dbg_addr \<Rightarrow> real_addr \<Rightarrow> string
     \<Rightarrow> (('s, 'h, 'w) debugger, RuntimeVariable option) prog" where
  "init_var E pc load var_name =
     then_do (from_dwarf (sd_runtime_variable (e_dwarf E) pc var_name)) (\<lambda>res.
       case res of
         None \<Rightarrow> return None
       | Some (var_attr, file, line) \<Rightarrow>
           (case sd_init_loclist (e_dwarf E) (va_loc var_attr) of
              None \<Rightarrow> return None
            | Some loclist \<Rightarrow>
                then_do (eval_location E
                    \<lparr>ctx_pid = e_pid E, ctx_pc = pc, ctx_elf = e_elf E, ctx_load_address = load\<rparr> loclist)
                  (\<lambda>loc.
                    case loc of
                      None \<Rightarrow> return None
                    | Some loc \<Rightarrow>
                        return (Some \<lparr>var_loc = loc, var_decl_file = file, var_decl_line = line,
                          var_SdType = va_type var_attr\<rparr>))))"

section \<open>The bytes that are kept\<close>

lemma mask_var_value_take_bit:
  "mask_var_value' b v = take_bit (unat (base_size b) * 8) v"
proof (cases "unat (base_size b) * 8 < 64")
  case True
  have "NOT (push_bit k (-1)) = (mask k :: u64)" for k
    by (simp add: push_bit_eq_mult not_eq_complement mask_eq_exp_minus_1)
  with True show ?thesis
    by (simp only: mask_var_value'_def Let_def take_bit_eq_mask if_True)
next
  case False
  then show ?thesis
    by (simp add: mask_var_value'_def Let_def take_bit_word_eq_self)
qed

lemma mask_var_value_mod:
  "unat (mask_var_value' b v) = unat v mod 2 ^ (8 * unat (base_size b))"
  by (simp add: mask_var_value_take_bit unsigned_take_bit_eq mult.commute flip: take_bit_eq_mod)

lemma mask_loop_complete:
  assumes "\<forall>m \<in> set ms. modifies m"
  shows "mask_loop (map Some (ms @ ns)) v =
    (if NODE_MODIFIER TYPE_MOD_POINTER \<in> set ms then Defined v else mask_loop (map Some ns) v)"
  using assms
proof (induction ms)
  case (Cons m ms)
  then show ?case by (cases m rule: modifies.cases) (auto split: SdTypemod.split)
qed simp

section \<open>Printed integers\<close>

lemma n_digits_length: "n_digits n = length (show_base 10 n)"
proof (induction n rule: n_digits.induct)
  case (1 n)
  then show ?case by (subst n_digits.simps, subst show_base.simps) simp
qed

lemma strtol_show_int:
  assumes "LONG_MIN \<le> i" "i \<le> LONG_MAX"
  shows "strtol 10 (show_int i) = (i, [])"
proof -
  have digits: "\<forall>c \<in> set (show_base 10 n). is_digit_of 10 c" for n
    by (rule show_base_is_digit) simp_all
  from assms show ?thesis
    by (simp add: show_int_def strtol_digits digits strtol_neg_digits clamp_long_def)
qed

text \<open>The width of the integer types and whether they are signed.\<close>

fun int_type :: "base_type_tag \<Rightarrow> (nat \<times> bool) option" where
  "int_type BASE_TYPE_SIGNED_CHAR = Some (8, True)"
| "int_type BASE_TYPE_UNSIGNED_CHAR = Some (8, False)"
| "int_type BASE_TYPE_SHORT = Some (16, True)"
| "int_type BASE_TYPE_UNSIGNED_SHORT = Some (16, False)"
| "int_type BASE_TYPE_INT = Some (32, True)"
| "int_type BASE_TYPE_UNSIGNED_INT = Some (32, False)"
| "int_type BASE_TYPE_LONG = Some (64, True)"
| "int_type BASE_TYPE_UNSIGNED_LONG = Some (64, False)"
| "int_type BASE_TYPE_LONG_LONG = Some (64, True)"
| "int_type BASE_TYPE_UNSIGNED_LONG_LONG = Some (64, False)"
| "int_type _ = None"

definition int_value :: "nat \<Rightarrow> bool \<Rightarrow> u64 \<Rightarrow> int" where
  "int_value k sg v =
     (let m = uint v mod 2 ^ k in if sg \<and> 2 ^ (k - 1) \<le> m then m - 2 ^ k else m)"

lemma sint_as_uint:
  fixes w :: "'a::len word"
  shows "sint w = (if 2 ^ (LENGTH('a) - 1) \<le> uint w then uint w - 2 ^ LENGTH('a) else uint w)"
proof -
  obtain k where k: "LENGTH('a) = Suc k" using len_gt_0 [where 'a = 'a] by (metis Suc_pred)
  have less: "uint w < 2 ^ Suc k" using uint_lt2p [of w] by (simp add: k)
  have bitk: "bit (uint w) k \<longleftrightarrow> 2 ^ k \<le> uint w"
  proof
    assume "2 ^ k \<le> uint w"
    with less have "uint w div 2 ^ k = 1"
      by (intro int_div_pos_eq [where r = "uint w - 2 ^ k"]) auto
    then show "bit (uint w) k" by (simp add: bit_iff_odd)
  next
    assume "bit (uint w) k"
    show "2 ^ k \<le> uint w"
    proof (rule ccontr)
      assume "\<not> 2 ^ k \<le> uint w"
      then have "uint w div 2 ^ k = 0" by simp
      with \<open>bit (uint w) k\<close> show False by (simp add: bit_iff_odd)
    qed
  qed
  have "sint w = signed_take_bit k (uint w)" by (simp add: sint_uint k)
  also have "\<dots> = take_bit (Suc k) (uint w) - 2 ^ Suc k * of_bool (bit (uint w) k)"
    by (rule signed_take_bit_eq_take_bit_minus)
  also have "take_bit (Suc k) (uint w) = uint w" using less by (simp add: take_bit_int_eq_self)
  finally show ?thesis by (auto simp: bitk k)
qed

lemma uint_ucast_mask:
  assumes "LENGTH('a) \<le> 64"
  shows "uint (ucast (take_bit (LENGTH('a)) (v::u64)) :: 'a::len word) = uint v mod 2 ^ LENGTH('a)"
  using assms by (simp add: unsigned_ucast_eq unsigned_take_bit_eq flip: take_bit_eq_mod)

lemmas int_words =
  uint_ucast_mask [where 'a = 8, simplified] uint_ucast_mask [where 'a = 16, simplified]
  uint_ucast_mask [where 'a = 32, simplified]

lemma mask_long: "take_bit 64 (v::u64) = v"
  by (simp add: take_bit_word_eq_self)

lemma uint_mod_long: "uint (v::u64) mod 2 ^ 64 = uint v"
  using uint_lt2p [of v] by simp

lemma int_type_text:
  assumes "int_type (base_tag b) = Some (k, sg)" and "8 * unat (base_size b) = k"
  shows "base_type_text (base_tag b) (mask_var_value' b v) = show_int (int_value k sg v)"
  using assms uint_mod_long [of v]
  by (cases "base_tag b")
    (auto simp: mask_var_value_take_bit mult.commute int_value_def sint_as_uint int_words mask_long
      Let_def)

lemma int_value_bounds:
  assumes "0 < k" "k \<le> 64"
  shows "- (2 ^ 63) \<le> int_value k sg v"
    and "int_value k sg v < 2 ^ 64"
    and "sg \<or> k < 64 \<Longrightarrow> int_value k sg v < 2 ^ 63"
proof -
  have p: "(2::int) ^ k \<le> 2 ^ 64" "(2::int) ^ (k - 1) \<le> 2 ^ 63"
    using assms by (intro power_increasing; simp)+
  have k: "(2::int) ^ k = 2 * 2 ^ (k - 1)" using assms(1) by (metis power_eq_if not_less0)
  define m where "m = uint v mod 2 ^ k"
  have m: "0 \<le> m" "m < 2 ^ k" by (simp_all add: m_def)
  have val: "int_value k sg v = (if sg \<and> 2 ^ (k - 1) \<le> m then m - 2 ^ k else m)"
    by (simp add: int_value_def m_def Let_def)
  show "- (2 ^ 63) \<le> int_value k sg v" "int_value k sg v < 2 ^ 64"
    unfolding val using p k m by (simp_all only: split: if_split, linarith+)
  show "int_value k sg v < 2 ^ 63" if "sg \<or> k < 64"
  proof (cases "k < 64")
    case True
    then have "(2::int) ^ k \<le> 2 ^ 63" by (intro power_increasing) simp_all
    with m show ?thesis unfolding val by (simp only: split: if_split) linarith
  next
    case False
    with that have sg by simp
    then have "int_value k sg v = (if 2 ^ (k - 1) \<le> m then m - 2 ^ k else m)"
      using val by simp
    moreover have "m - 2 ^ k < 2 ^ 63" using m by simp
    moreover have "\<not> 2 ^ (k - 1) \<le> m \<Longrightarrow> m < 2 ^ 63" using p by linarith
    ultimately show ?thesis by presburger
  qed
qed

lemma print_int_type:
  assumes "int_type (base_tag b) = Some (k, sg)" and "8 * unat (base_size b) = k"
  shows "print_base_type b v FMT_NONE = show_int (int_value k sg v)"
proof -
  from assms(1) have k: "0 < k" "k \<le> 64" by (cases "base_tag b"; auto)+
  have "length (show_int (int_value k sg v)) < 513"
    using int_value_bounds(1,2) [OF k, of sg v] length_show_dec [of "nat (- int_value k sg v)"]
      length_show_dec [of "nat (int_value k sg v)"]
    by (simp add: show_int_def) linarith
  then show ?thesis
    by (simp add: print_base_type_def int_type_text [OF assms] snprintf_fits)
qed

lemma read_print_int_type:
  assumes "int_type (base_tag b) = Some (k, sg)" and "8 * unat (base_size b) = k" and "sg \<or> k < 64"
  shows "strtol 10 (print_base_type b v FMT_NONE) = (int_value k sg v, [])"
proof -
  from assms(1) have k: "0 < k" "k \<le> 64" by (cases "base_tag b"; auto)+
  show ?thesis
    using int_value_bounds(1,3) [OF k, of sg v] assms(3)
    by (subst print_int_type [OF assms(1,2)], intro strtol_show_int)
      (simp_all add: LONG_MIN_def LONG_MAX_def)
qed

section \<open>Values of a type that has been built\<close>

lemma print_value_loop_modifies:
  assumes "\<forall>m \<in> set ms. modifies m"
  shows "print_value_loop (map Some (ms @ ns)) v flt =
    (if NODE_MODIFIER TYPE_MOD_POINTER \<in> set ms
     then Defined (print_format v (default_format flt FMT_ADDR))
     else print_value_loop (map Some ns) v flt)"
  using assms
proof (induction ms)
  case (Cons m ms)
  then show ?case by (cases m rule: modifies.cases) auto
qed simp

lemma print_deref_loop_defined:
  "\<exists>s. print_deref_loop (map Some ns) from_pointer v flt = Defined s"
  by (induction ns arbitrary: from_pointer) (auto split: SdTypenode.split)

text \<open>The value of a variable is printed as the base type at the end, or as an address.\<close>

lemma print_typed_value:
  assumes "type_ok (var_SdType var)"
  shows "if Some (NODE_MODIFIER TYPE_MOD_POINTER) \<in> set (nodes (var_SdType var))
    then print_var_value (Some var) v flt = Defined (print_format v (default_format flt FMT_ADDR)) \<and>
         mask_var_value (Some var) v = Defined v
    else (\<exists>b. last (nodes (var_SdType var)) = Some (NODE_BASE_TYPE b) \<and>
            print_var_value (Some var) v flt = Defined (print_base_type b v flt) \<and>
            mask_var_value (Some var) v = Defined (mask_var_value' b v))"
proof -
  from assms obtain ns where ns: "nodes (var_SdType var) = map Some ns" and c: "complete_nodes ns"
    by (auto simp: type_ok_def)
  from c obtain ms where ms: "\<forall>m \<in> set ms. modifies m"
    and "(\<exists>b. ns = ms @ [NODE_BASE_TYPE b]) \<or> ns = ms @ [NODE_MODIFIER TYPE_MOD_POINTER]"
    by (auto simp: complete_nodes_def)
  then show ?thesis
    using print_value_loop_modifies [OF ms, of "[NODE_BASE_TYPE b]" v flt for b]
      print_value_loop_modifies [OF ms, of "[NODE_MODIFIER TYPE_MOD_POINTER]" v flt]
      mask_loop_complete [OF ms, of "[NODE_BASE_TYPE b]" v for b]
      mask_loop_complete [OF ms, of "[NODE_MODIFIER TYPE_MOD_POINTER]" v]
    by (auto simp: print_var_value_def mask_var_value_def ns)
qed

lemma print_deref_defined:
  assumes "type_ok (var_SdType var)"
  shows "\<exists>s. print_var_deref_value (Some var) v flt = Defined s"
  using assms print_deref_loop_defined by (auto simp: type_ok_def print_var_deref_value_def)

text \<open>A pointer to a base type, with modifiers in between.\<close>

lemma print_deref_pointer:
  assumes "\<forall>m \<in> set ms. \<exists>t. m = NODE_MODIFIER t"
  shows "print_deref_loop (map Some (ms @ [NODE_BASE_TYPE b])) True v flt =
    Defined (print_base_type b v FMT_NONE)"
  using assms by (induction ms) auto

section \<open>Floating-point types\<close>

lemma bit_length_le: "n < 2 ^ p \<Longrightarrow> bit_length n \<le> p"
proof (induction n arbitrary: p rule: bit_length.induct)
  case (1 n)
  show ?case
  proof (cases "n = 0")
    case True
    then show ?thesis by (subst bit_length.simps) simp
  next
    case False
    with "1.prems" obtain q where q: "p = Suc q" by (cases p) auto
    with "1.prems" have "n div 2 < 2 ^ q" by simp
    from "1.IH" [OF False this] False q show ?thesis by (subst bit_length.simps) simp
  qed
qed

lemma round_to_bits_exact: "n < 2 ^ p \<Longrightarrow> round_to_bits p n = n"
  using bit_length_le [of n p] by (simp add: round_to_bits_def)

section \<open>The variable that is found\<close>

lemma init_var_found:
  assumes w: "world_ok E ds syms st"
    and res: "init_var E pc load name st = Some (Value (Some var, st'))"
  shows "\<exists>d f loclist w'.
    describes (e_dwarf E) name d f \<and> d \<in> fst ` set ds \<and>
    var_SdType var = var_type f \<and> var_decl_file var = decl_file f \<and> var_decl_line var = decl_line f \<and>
    sd_init_loclist (e_dwarf E) (loc_attr f) = Some loclist \<and>
    sd_eval_loclist \<lparr>env_dwarf = e_dwarf E, env_kernel = e_kernel E, env_tracee = tracee st,
        env_ctx = \<lparr>ctx_pid = e_pid E, ctx_pc = pc, ctx_elf = e_elf E, ctx_load_address = load\<rparr>\<rparr>
      loclist (dwarf st) = Some (Defined (Some (var_loc var)), w') \<and>
    st' = st\<lparr>dwarf := w'\<rparr>"
proof -
  from w obtain info types where ds: "ds = dies (info @ types)"
    and ok: "dwarf_ok (e_dwarf E) (dwarf st) info types" by (auto simp: world_ok_def)
  from res obtain attr path line w1 where
    found: "sd_runtime_variable (e_dwarf E) pc name (dwarf st) = Some (Some (attr, path, line), w1)"
    and rest: "(case sd_init_loclist (e_dwarf E) (va_loc attr) of
              None \<Rightarrow> return None
            | Some loclist \<Rightarrow>
                then_do (eval_location E
                    \<lparr>ctx_pid = e_pid E, ctx_pc = pc, ctx_elf = e_elf E, ctx_load_address = load\<rparr> loclist)
                  (\<lambda>loc.
                    case loc of
                      None \<Rightarrow> return None
                    | Some loc \<Rightarrow>
                        return (Some \<lparr>var_loc = loc, var_decl_file = path, var_decl_line = line,
                          var_SdType = va_type attr\<rparr>))) (st\<lparr>dwarf := w1\<rparr>)
      = Some (Value (Some var, st'))"
    unfolding init_var_def by (elim then_do_ValueE) (auto simp: from_dwarf_def split: option.splits prod.splits)
  from runtime_variable_found [OF ok found] obtain d f where
    w1: "w1 = dwarf st" and attr: "attr = \<lparr>va_loc = loc_attr f, va_type = var_type f\<rparr>"
    and f: "path = decl_file f" "line = decl_line f" "describes (e_dwarf E) name d f"
    and d: "visible_at (e_dwarf E) pc ds d \<or> d \<in> fst ` set ds"
    unfolding ds by blast
  from d have mem: "d \<in> fst ` set ds" by (force simp: visible_at_def)
  from rest obtain loclist where loc: "sd_init_loclist (e_dwarf E) (loc_attr f) = Some loclist"
    by (cases "sd_init_loclist (e_dwarf E) (loc_attr f)") (simp_all add: attr)
  from rest obtain w' where
    "sd_eval_loclist \<lparr>env_dwarf = e_dwarf E, env_kernel = e_kernel E, env_tracee = tracee st,
        env_ctx = \<lparr>ctx_pid = e_pid E, ctx_pc = pc, ctx_elf = e_elf E, ctx_load_address = load\<rparr>\<rparr>
      loclist (dwarf st) = Some (Defined (Some (var_loc var)), w')"
    "st' = st\<lparr>dwarf := w'\<rparr>" "var_decl_file var = path" "var_decl_line var = line"
    "var_SdType var = va_type attr"
    by (auto simp: attr loc w1 then_do_def eval_location_def
        split: option.splits outcome.splits c_result.splits)
  with f mem loc attr show ?thesis by auto
qed

end
