(* ===== verification/Machine_Properties.thy ===== *)
theory Machine_Properties
  imports Simulation Variables
begin

text \<open>
  The properties of the parts that are close to the machine: breakpoints, registers, the
  rendering of values, file paths, the command line.
\<close>

section \<open>Breakpoints\<close>

text \<open>Any sequence of operations on the table of breakpoints.\<close>

inductive bp_step :: "'s kernel \<Rightarrow> 'h hashmap \<Rightarrow> 'h Breakpoints \<times> 's \<Rightarrow> 'h Breakpoints \<times> 's \<Rightarrow> bool"
  for K :: "'s kernel" and H :: "'h hashmap" where
  enable: "enable_breakpoint K H a st = Ret (r, st') \<Longrightarrow> bp_step K H st st'"
| disable: "disable_breakpoint K H a st = (r, st') \<Longrightarrow> bp_step K H st st'"

inductive bp_reach :: "'s kernel \<Rightarrow> 'h hashmap \<Rightarrow> 'h Breakpoints \<times> 's \<Rightarrow> 'h Breakpoints \<times> 's \<Rightarrow> bool"
  for K :: "'s kernel" and H :: "'h hashmap" and st :: "'h Breakpoints \<times> 's" where
  start: "bp_reach K H st st"
| step: "bp_reach K H st st1 \<Longrightarrow> bp_step K H st1 st2 \<Longrightarrow> bp_reach K H st st2"

inductive_cases bp_stepE: "bp_step K H st st'"

lemma bp_step_inv:
  assumes "bp_step K H st st'" and "bp_inv K H mem orig st"
  shows "bp_inv K H mem orig st'"
  using assms by (auto elim!: bp_stepE dest: bp.enableD(1) bp.disableD(1))

lemma bp_reach_inv:
  "bp_reach K H st st' \<Longrightarrow> bp_inv K H mem orig st \<Longrightarrow> bp_inv K H mem orig st'"
  by (induction rule: bp_reach.induct) (auto intro: bp_step_inv)

text \<open>
  C2. After any sequence of operations on a new table of breakpoints, failed ones included,
  the memory of the process is the original program with \<^verbatim>\<open>int 3\<close> at exactly the addresses
  that the table says are enabled.
\<close>

theorem breakpoints_overlay:
  assumes "hashmap_ok H" and "kernel_mem K pid mem"
    and "bp_reach K H (init_breakpoints H pid, s) (bps, s')"
  shows "mem s' x = (if lookup_breakpoint H bps (RealAddr x) then ucast INT3 else mem s x)"
  using bp.memory_law [OF bp_reach_inv [OF assms(3) bp_inv_init [OF assms(1,2)]], of x] by simp

definition example_process :: sim_process where
  "example_process =
     \<lparr>sim_mem = (\<lambda>a. if a = 0x401000 then 0x55 else 0), sim_regs = replicate 27 0, sim_events = [],
      sim_siginfo = \<lparr>si_signo = 0, si_code = 0\<rparr>, sim_alive = True\<rparr>"

lemma example_enable:
  "\<exists>bps s. enable_breakpoint sim_kernel sim_hashmap (RealAddr 0x401000)
     (init_breakpoints sim_hashmap 1, example_process) = Ret (SP_OK, bps, s)"
  by (simp add: enable_breakpoint_def init_breakpoints_def get_breakpoint_def sim_hashmap_def
      entry_at_def pt_read_memory_def pt_write_memory_def sim_kernel_def PTRACE_ERROR_def Let_def)

theorem breakpoints_overlay_example:
  "\<exists>bps s. enable_breakpoint sim_kernel sim_hashmap (RealAddr 0x401000)
     (init_breakpoints sim_hashmap 1, example_process) = Ret (SP_OK, bps, s) \<and>
     sim_mem s 0x401000 = 0xcc"
proof -
  from example_enable obtain bps s where en: "enable_breakpoint sim_kernel sim_hashmap (RealAddr 0x401000)
     (init_breakpoints sim_hashmap 1, example_process) = Ret (SP_OK, bps, s)" by blast
  have inv: "bp_inv sim_kernel sim_hashmap sim_mem (sim_mem example_process)
      (init_breakpoints sim_hashmap 1, example_process)"
    by (rule bp_inv_init [OF sim_hashmap_ok sim_kernel_mem])
  have "lookup_breakpoint sim_hashmap bps (RealAddr 0x401000)"
    using bp.enableD(2) [OF inv en] by simp
  moreover have "bp_reach sim_kernel sim_hashmap (init_breakpoints sim_hashmap 1, example_process) (bps, s)"
    by (rule bp_reach.step [OF bp_reach.start bp_step.enable [OF en]])
  ultimately have "sim_mem s 0x401000 = 0xcc"
    using breakpoints_overlay [OF sim_hashmap_ok sim_kernel_mem, where x = "0x401000"]
    by (fastforce simp: INT3_def)
  with en show ?thesis by blast
qed

text \<open>
  C5. Setting a breakpoint where there is none and deleting it again restores every byte of
  the memory and the set of enabled addresses.
\<close>

theorem set_and_delete_restores:
  assumes "bp_inv K H mem orig st" and "\<not> bp_lookup H st a"
    and "enable_breakpoint K H a st = Ret (SP_OK, st1)" and "disable_breakpoint K H a st1 = (SP_OK, st2)"
  shows "mem (snd st2) = mem (snd st) \<and> (\<forall>b. bp_lookup H st2 b = bp_lookup H st b)"
  using bp.enable_disable [OF assms] by blast

theorem set_and_delete_restores_example:
  "\<exists>st1 st2. enable_breakpoint sim_kernel sim_hashmap (RealAddr 0x401000)
       (init_breakpoints sim_hashmap 1, example_process) = Ret (SP_OK, st1) \<and>
     disable_breakpoint sim_kernel sim_hashmap (RealAddr 0x401000) st1 = (SP_OK, st2) \<and>
     sim_mem (snd st2) = sim_mem example_process"
proof -
  from example_enable obtain bps s where en: "enable_breakpoint sim_kernel sim_hashmap (RealAddr 0x401000)
     (init_breakpoints sim_hashmap 1, example_process) = Ret (SP_OK, bps, s)" by blast
  have inv: "bp_inv sim_kernel sim_hashmap sim_mem (sim_mem example_process)
      (init_breakpoints sim_hashmap 1, example_process)"
    by (rule bp_inv_init [OF sim_hashmap_ok sim_kernel_mem])
  have off: "\<not> bp_lookup sim_hashmap (init_breakpoints sim_hashmap 1, example_process) a" for a
    by (simp add: lookup_breakpoint_def init_breakpoints_def sim_hashmap_def)
  have "\<exists>st2. disable_breakpoint sim_kernel sim_hashmap (RealAddr 0x401000) (bps, s) = (SP_OK, st2)"
    by (auto simp: disable_breakpoint_def sim_kernel_def pt_read_memory_def pt_write_memory_def
        PTRACE_ERROR_def Let_def split: option.split)
  then obtain st2 where "disable_breakpoint sim_kernel sim_hashmap (RealAddr 0x401000) (bps, s) = (SP_OK, st2)" ..
  with en set_and_delete_restores [OF inv off en this] show ?thesis by (intro exI conjI) auto
qed

text \<open>
  C9. An attempt to set a breakpoint never fails an assertion, and one that returns an error
  leaves every byte of the memory as it was and enables nothing.
\<close>

theorem failed_breakpoint_harmless:
  assumes "bp_inv K H mem orig st"
  shows "\<exists>r st'. enable_breakpoint K H a st = Ret (r, st') \<and>
    (r = SP_ERR \<longrightarrow> mem (snd st') = mem (snd st) \<and> (\<forall>b. bp_lookup H st' b = bp_lookup H st b))"
proof -
  from bp.enable_defined [OF assms] obtain r st' where en: "enable_breakpoint K H a st = Ret (r, st')" by blast
  have "mem (snd st') = mem (snd st)" if "r = SP_ERR"
    using bp.failed_enable_keeps_memory [OF assms, of a st'] en that by simp
  moreover have "bp_lookup H st' b = bp_lookup H st b" if "r = SP_ERR" for b
    using bp.enableD(2) [OF assms en] that by simp
  ultimately show ?thesis using en by blast
qed

theorem failed_breakpoint_harmless_example:
  "\<exists>r st'. enable_breakpoint sim_kernel sim_hashmap (RealAddr 7)
     (init_breakpoints sim_hashmap 1, example_process) = Ret (r, st')"
  using failed_breakpoint_harmless [OF bp_inv_init [OF sim_hashmap_ok sim_kernel_mem], where a = "RealAddr 7"]
  by blast

section \<open>Registers\<close>

text \<open>
  C33. A register that has been set reads as the value that was written, and every other
  register reads as before.
\<close>

theorem set_register_get_register:
  assumes "kernel_regs K pid regs" and "set_register_value K pid r v s = (SP_OK, s')"
    and "get_register_value K pid q s' = Some x"
  shows "x = (if q = r then v else regs s ! reg_index q)"
  by (rule get_register_after_set [OF assms])

theorem set_register_get_register_example:
  "\<exists>s. set_register_value sim_kernel 1 RAX 42 example_process = (SP_OK, s) \<and>
       get_register_value sim_kernel 1 RAX s = Some 42 \<and> get_register_value sim_kernel 1 RBX s = Some 0"
proof -
  let ?xs = "(replicate 27 0)[10 := 42] :: u64 list"
  let ?s = "example_process\<lparr>sim_regs := ?xs\<rparr>"
  have set: "set_register_value sim_kernel 1 RAX 42 example_process = (SP_OK, ?s)"
    by (simp add: set_register_value_def pt_read_registers_def pt_write_registers_def sim_kernel_def
        sim_registers_def example_process_def PTRACE_ERROR_def)
  have "\<exists>x. get_register_value sim_kernel 1 q ?s = Some x" for q
    by (simp add: get_register_value_def pt_read_registers_def sim_kernel_def PTRACE_ERROR_def)
  then obtain a b where get: "get_register_value sim_kernel 1 RAX ?s = Some a"
    "get_register_value sim_kernel 1 RBX ?s = Some b" by metis
  have "a = 42" using set_register_get_register [OF sim_kernel_regs set get(1)] by simp
  moreover have "b = 0"
    using set_register_get_register [OF sim_kernel_regs set get(2)]
    by (simp add: sim_registers_def example_process_def)
  ultimately show ?thesis using set get by blast
qed

lemma find_key_iff:
  assumes "distinct (map f xs)"
  shows "(case find (\<lambda>d. f d = k) xs of None \<Rightarrow> None | Some d \<Rightarrow> Some (g d)) = Some v \<longleftrightarrow>
    (\<exists>d\<in>set xs. f d = k \<and> g d = v)"
  using assms by (induction xs) (auto simp: image_iff split: if_splits)

lemma distinct_descriptors:
  "distinct (map desc_r reg_descriptors)" "distinct (map desc_name reg_descriptors)"
  by (simp_all add: reg_descriptors_def mk_desc_def)

text \<open>The names of the registers and the registers determine each other.\<close>

lemma register_names_bijective:
  "get_register_from_name n = Some r \<longleftrightarrow> get_name_from_register r = Some n"
  unfolding get_register_from_name_def get_name_from_register_def str_eq_def
    find_key_iff [OF distinct_descriptors(1)] find_key_iff [OF distinct_descriptors(2)]
  by blast

text \<open>
  C34. The DWARF register numbers are translated as the System V ABI for x86-64 assigns them,
  and no other number is accepted.
\<close>

theorem dwarf_register_numbers:
  "dwarf_regnum_to_x86_reg n =
     map_of [(0, RAX), (1, RDX), (2, RCX), (3, RBX), (4, RSI), (5, RDI), (6, RBP), (7, RSP), (8, R8),
       (9, R9), (10, R10), (11, R11), (12, R12), (13, R13), (14, R14), (15, R15), (49, EFLAGS),
       (50, ES), (51, CS), (52, SS), (53, DS), (54, FS), (55, GS), (58, FS_BASE), (59, GS_BASE)] n"
proof -
  have eq: "(k = uint n) = (n = word_of_int k)" if "0 \<le> k" "k < 256" for k
  proof -
    have "n = word_of_int k \<longleftrightarrow> uint n = uint (word_of_int k :: u8)" by (simp add: word_uint_eq_iff)
    also have "uint (word_of_int k :: u8) = k"
      using that by (simp add: uint_word_of_int)
    finally show ?thesis by auto
  qed
  have "- 1 \<noteq> uint n" using uint_ge_0 [of n] by linarith
  then show ?thesis
    unfolding dwarf_regnum_to_x86_reg_def reg_descriptors_def mk_desc_def
    by (simp add: eq)
qed

section \<open>Rendering and parsing of values\<close>

text \<open>How a reader gets the value back from the text under each filter.\<close>

fun read_formatted :: "FormatFilter \<Rightarrow> string \<Rightarrow> u64" where
  "read_formatted FMT_BITS s = of_nat (read_base 2 (strip_blanks s))"
| "read_formatted FMT_BYTES s = of_nat (read_base 16 (strip_blanks s))"
| "read_formatted FMT_HEX s = of_nat (read_base 16 (drop 2 s))"
| "read_formatted FMT_ADDR s = of_nat (read_base 16 (drop 2 s))"
| "read_formatted _ s = of_int (fst (strtol 10 s))"

text \<open>
  C35. The text of a value under each filter, cut to the buffer of 513 bytes as the code does,
  determines the value: bits, bytes, hexadecimal, address and signed decimal.
\<close>

theorem read_print_format:
  "read_formatted flt (print_format v flt) = v"
proof (cases flt)
  case FMT_BITS
  then show ?thesis by (simp add: print_format_text bits_int64)
next
  case FMT_BYTES
  then show ?thesis by (simp add: print_format_text bytes_int64)
next
  case FMT_HEX
  then show ?thesis by (simp add: print_format_text hex_format_def)
next
  case FMT_ADDR
  then show ?thesis by (simp add: print_format_text addr_format_def zero_pad_def)
next
  case FMT_NONE
  then show ?thesis
    using sint_u64_bounds [of v]
    by (simp add: print_format_text dec_format_def strtol_show_int LONG_MIN_def LONG_MAX_def)
next
  case FMT_DEC
  then show ?thesis
    using sint_u64_bounds [of v]
    by (simp add: print_format_text dec_format_def strtol_show_int LONG_MIN_def LONG_MAX_def)
qed

section \<open>File paths\<close>

text \<open>
  C39. What is printed for a file path: the part behind the current directory for a file in
  it; but a path that leaves the current directory's path in the middle loses the first
  character that differs, and for the current directory itself the code reads out of bounds.
\<close>

theorem relative_filepath_result:
  "(cwd \<noteq> [] \<longrightarrow> relative_filepath (Some cwd) (Some (cwd @ CHR ''/'' # rel)) = Defined (Some rel)) \<and>
   (p \<noteq> [] \<and> c \<noteq> d \<and> c \<noteq> CHR 0x00 \<and> d \<noteq> CHR 0x00 \<longrightarrow>
      relative_filepath (Some (p @ d # t)) (Some (p @ c # s)) = Defined (Some s)) \<and>
   relative_filepath (Some cwd) (Some cwd) = UB"
  using relative_filepath_inside_gen [of cwd rel] relative_filepath_diverging [of p c d t s]
    relative_filepath_of_cwd [of cwd] by blast

theorem relative_filepath_result_example:
  "relative_filepath (Some ''/home/a'') (Some ''/home/a/x.c'') = Defined (Some ''x.c'') \<and>
   relative_filepath (Some ''/home/a'') (Some ''/home/bob.c'') = Defined (Some ''ob.c'')"
  using relative_filepath_result [of "''/home/a''" "''x.c''" "''/home/''" "CHR ''b''" "CHR ''a''" "[]" "''ob.c''"]
  by simp

end
