(* ===== verification/Simulation_Elf.thy ===== *)
theory Simulation_Elf
  imports Elf
begin

text \<open>
  A concrete executable file for the examples, byte by byte, what the parser makes of it and
  its symbols.
\<close>

section \<open>The executable\<close>

text \<open>
  A small executable of type \<^verbatim>\<open>ET_EXEC\<close> with the sections \<^verbatim>\<open>.shstrtab\<close>, \<^verbatim>\<open>.symtab\<close> and
  \<^verbatim>\<open>.strtab\<close> and the symbol \<^verbatim>\<open>main\<close> for the 64 bytes from 0x401000 on.
\<close>

definition sim_bytes :: "(nat \<times> u8) list" where
  "sim_bytes =
    [(0, 127), (1, 69), (2, 76), (3, 70), (4, 2), (5, 1), (6, 1), (16, 2), (18, 62),
     (20, 1), (25, 16), (26, 64), (32, 64), (40, 64), (52, 64), (54, 56), (58, 64), (60, 4),
     (62, 1), (112, 1), (128, 1), (132, 3), (152, 64), (153, 1), (160, 27), (176, 1),
     (192, 11), (196, 2), (216, 104), (217, 1), (224, 48), (232, 3), (236, 1), (240, 1),
     (248, 24), (256, 19), (260, 3), (280, 91), (281, 1), (288, 6), (304, 1), (321, 46),
     (322, 115), (323, 104), (324, 115), (325, 116), (326, 114), (327, 116), (328, 97),
     (329, 98), (331, 46), (332, 115), (333, 121), (334, 109), (335, 116), (336, 97),
     (337, 98), (339, 46), (340, 115), (341, 116), (342, 114), (343, 116), (344, 97),
     (345, 98), (348, 109), (349, 97), (350, 105), (351, 110), (384, 1), (388, 18),
     (390, 1), (393, 16), (394, 64), (400, 64)]"

text \<open>The bytes that are not in the table are zero.\<close>

definition sim_image :: bytes where
  "sim_image = map (\<lambda>i. case map_of sim_bytes i of None \<Rightarrow> 0 | Some b \<Rightarrow> b) [0..<408]"

definition sim_io :: elf_io where
  "sim_io = \<lparr>file_contents = (\<lambda>path. if path = ''a.out'' then Some sim_image else None),
             munmap_ok = True\<rparr>"

definition sim_elf :: ElfFile where
  "sim_elf =
     \<lparr>elf_type = ELF_TYPE_EXEC, endianness = ELF_ENDIAN_LITTLE,
      prog_table = \<lparr>n_prog_headers = 0, prog_headers = 64\<rparr>,
      sect_table = \<lparr>n_sect_headers = 4, symtab_idx = 2, shstrtab_idx = 1, strtab_idx = 3,
                    sect_headers = 64\<rparr>,
      data = sim_image\<rparr>"

definition sim_main :: Elf64_Sym where
  "sim_main = \<lparr>st_name = 1, st_info = 18, st_other = 0, st_value = 0x401000, st_size = 64\<rparr>"

definition sim_symbols :: "(Elf64_Sym \<times> string) list" where
  "sim_symbols =
     [(\<lparr>st_name = 0, st_info = 0, st_other = 0, st_value = 0, st_size = 0\<rparr>, []),
      (sim_main, ''main'')]"

subsection \<open>Reading the file\<close>

lemma sim_byte_at:
  "byte_at sim_image i =
     (if i < 408 then Defined (case map_of sim_bytes i of None \<Rightarrow> 0 | Some b \<Rightarrow> b)
      else if i < 4096 then Defined 0 else UB)"
  by (simp add: byte_at_def sim_image_def mapped_size_def PAGE_def)

lemma uint_at_numeral:
  "uint_at bs i (numeral k) =
     c_bind (byte_at bs i) (\<lambda>b.
       c_bind (uint_at bs (i + 1) (pred_numeral k)) (\<lambda>v. Defined (unat b + 256 * v)))"
  by (simp add: numeral_eq_Suc)

lemmas sim_read = u16_at_def u32_at_def u64_at_def uint_at_numeral sim_byte_at sim_bytes_def

lemma sim_ehdr:
  "ehdr_at sim_image 0 = Defined
     \<lparr>ei_mag = [0x7f, 0x45, 0x4c, 0x46], ei_class = 2, ei_data = 1, ei_version = 1, ei_osabi = 0,
      ei_abiversion = 0, e_type = 2, e_machine = 62, e_version = 1, e_phoff = 64, e_shoff = 64,
      e_phentsize = 56, e_phnum = 0, e_shentsize = 64, e_shnum = 4, e_shstrndx = 1\<rparr>"
  by (simp add: ehdr_at_def sim_read)

lemma sim_shdr:
  "shdr_at sim_image 64 = Defined \<lparr>sh_name = 0, sh_type = 0, sh_flags = 0, sh_offset = 0,
     sh_size = 0, sh_link = 0, sh_info = 0, sh_entsize = 0\<rparr>"
  "shdr_at sim_image 128 = Defined \<lparr>sh_name = 1, sh_type = 3, sh_flags = 0, sh_offset = 320,
     sh_size = 27, sh_link = 0, sh_info = 0, sh_entsize = 0\<rparr>"
  "shdr_at sim_image 192 = Defined \<lparr>sh_name = 11, sh_type = 2, sh_flags = 0, sh_offset = 360,
     sh_size = 48, sh_link = 3, sh_info = 1, sh_entsize = 24\<rparr>"
  "shdr_at sim_image 256 = Defined \<lparr>sh_name = 19, sh_type = 3, sh_flags = 0, sh_offset = 347,
     sh_size = 6, sh_link = 0, sh_info = 0, sh_entsize = 0\<rparr>"
  by (simp_all add: shdr_at_def sim_read)

lemma sim_section_names:
  "str_eq_at sim_image 320 ''.symtab'' = Defined False" "str_eq_at sim_image 320 ''.strtab'' = Defined False"
  "str_eq_at sim_image 321 ''.symtab'' = Defined False" "str_eq_at sim_image 321 ''.strtab'' = Defined False"
  "str_eq_at sim_image 331 ''.symtab'' = Defined True"
  "str_eq_at sim_image 339 ''.symtab'' = Defined False" "str_eq_at sim_image 339 ''.strtab'' = Defined True"
  by (simp_all add: sim_byte_at sim_bytes_def)

lemma sim_tables: "find_table_sections sim_image 64 4 320 = Defined (Some (2, 3))"
proof -
  have "find_tables_loop sim_image 64 320 0 (Suc (Suc (Suc (Suc 0)))) 0 0 = Defined (2, 3)"
    by (simp add: SIZEOF_SHDR_def sim_shdr is_valid_symtab_def is_valid_strtab_def sim_section_names
        is_unset_def SHF_ALLOC_def SIZEOF_SYM_def del: str_eq_at.simps)
  moreover have "unat (4 :: u32) = Suc (Suc (Suc (Suc 0)))" by simp
  ultimately show ?thesis by (simp only: find_table_sections_def c_bind.simps prod.case) simp
qed

lemma sim_header:
  "parse_elf_header
     \<lparr>ei_mag = [0x7f, 0x45, 0x4c, 0x46], ei_class = 2, ei_data = 1, ei_version = 1, ei_osabi = 0,
      ei_abiversion = 0, e_type = 2, e_machine = 62, e_version = 1, e_phoff = 64, e_shoff = 64,
      e_phentsize = 56, e_phnum = 0, e_shentsize = 64, e_shnum = 4, e_shstrndx = 1\<rparr> =
   Inr \<lparr>hdr_type = ELF_TYPE_EXEC, hdr_endianness = ELF_ENDIAN_LITTLE, prog_table_off = 64,
        sect_table_off = 64, n_prog_hdrs = 0, n_sect_hdrs = 4, hdr_shstrtab_idx = 1\<rparr>"
  by (simp add: parse_elf_header_def SIZEOF_PHDR_def SIZEOF_SHDR_def elf_type_of_def
      CHECK_SECTION_HEADER_def)

lemma sim_parse: "se_parse_elf sim_io ''a.out'' = Defined (Inr sim_elf)"
proof -
  have "sim_image \<noteq> []" by (simp add: sim_image_def)
  then show ?thesis
    by (simp add: se_parse_elf_def sim_io_def sim_ehdr sim_header parse_tables_def
        parse_init_section_def CHECK_SECTION_HEADER_def SIZEOF_SHDR_def sim_shdr sim_tables
        elf_file_of_def sim_elf_def)
qed

lemma sim_data [simp]: "data sim_elf = sim_image"
  by (simp add: sim_elf_def)

lemma sim_symtab:
  "symtab_at sim_image 360 = Defined \<lparr>st_name = 0, st_info = 0, st_other = 0, st_value = 0, st_size = 0\<rparr>"
  "symtab_at sim_image 384 = Defined sim_main"
  by (simp_all add: symtab_at_def sim_read sim_main_def)

lemma string_at_numeral:
  "string_at_bounded bs i (numeral k) =
     c_bind (byte_at bs i) (\<lambda>b.
       if b = 0 then Defined []
       else c_bind (string_at_bounded bs (i + 1) (pred_numeral k)) (\<lambda>s. Defined (char_of (unat b) # s)))"
  by (simp add: numeral_eq_Suc)

lemma sim_chars:
  "char_of (109 :: nat) = CHR ''m''" "char_of (97 :: nat) = CHR ''a''"
  "char_of (105 :: nat) = CHR ''i''" "char_of (110 :: nat) = CHR ''n''"
  by code_simp+

lemma sim_names: "string_at sim_image 347 = Defined []" "string_at sim_image 348 = Defined ''main''"
proof -
  have "mapped_size sim_image = 4096" by (simp add: mapped_size_def PAGE_def sim_image_def)
  then show "string_at sim_image 347 = Defined []" "string_at sim_image 348 = Defined ''main''"
    by (simp_all add: string_at_def string_at_numeral sim_byte_at sim_bytes_def sim_chars)
qed

lemma sim_symbols_ok: "symbols_ok sim_elf sim_symbols"
proof -
  let ?h = "\<lparr>sh_name = 11, sh_type = 2, sh_flags = 0, sh_offset = 360, sh_size = 48, sh_link = 3,
       sh_info = 1, sh_entsize = 24\<rparr> :: Elf64_Shdr"
  have hdr: "section_header sim_elf (symtab_idx (sect_table sim_elf)) = Defined ?h"
    and str: "section_header sim_elf (strtab_idx (sect_table sim_elf)) = Defined
      \<lparr>sh_name = 19, sh_type = 3, sh_flags = 0, sh_offset = 347, sh_size = 6, sh_link = 0,
       sh_info = 0, sh_entsize = 0\<rparr>"
    by (simp_all add: section_header_def sim_elf_def SIZEOF_SHDR_def sim_shdr)
  have len: "length sim_symbols = 2" by (simp add: sim_symbols_def)
  have "symtab_at (data sim_elf) (360 + SIZEOF_SYM * i) = Defined (fst (sim_symbols ! i)) \<and>
      symbol_name (fst (sim_symbols ! i)) sim_elf = Defined (snd (sim_symbols ! i))" if "i < 2" for i
  proof -
    from that have "i = 0 \<or> i = 1" by auto
    then show ?thesis
      by (auto simp: symbol_name_def se_symbol_name_def str sim_symbols_def sim_symtab sim_names
          SIZEOF_SYM_def sim_main_def)
  qed
  note symbols = this
  show ?thesis
    unfolding symbols_ok_def
  proof (intro exI [of _ ?h] conjI allI impI)
    show "section_header sim_elf (symtab_idx (sect_table sim_elf)) = Defined ?h" by (rule hdr)
    show "sh_entsize ?h \<noteq> 0" by simp
    show "unat (sh_size ?h div sh_entsize ?h) = length sim_symbols" by (simp add: len unat_div)
    fix i assume "i < length sim_symbols"
    then show "symtab_at (data sim_elf) (unat (sh_offset ?h) + SIZEOF_SYM * i) = Defined (fst (sim_symbols ! i))"
      "symbol_name (fst (sim_symbols ! i)) sim_elf = Defined (snd (sim_symbols ! i))"
      using symbols [of i] by (simp_all add: len)
  qed
qed

end
