(* ===== verification/Stepping.thy ===== *)
theory Stepping
  imports Info
begin

text \<open>
  The first half of \<^verbatim>\<open>src/src/debugger.c\<close>: the program counter, waiting for the traced process,
  continuing it and the ways of stepping. The functions \<^verbatim>\<open>wait_for_signal\<close>,
  \<^verbatim>\<open>continue_execution\<close> and \<^verbatim>\<open>single_step_breakpoint\<close> call each other: the last two get the
  first as an argument here, and it is their fixed point.
\<close>

section \<open>The program counter\<close>

definition print_info :: "string \<Rightarrow> (('s, 'h, 'w) debugger, unit) prog" where
  "print_info text = emit (Out (text @ newline))"

definition get_pc :: "('d, 's, 'h, 'w) env \<Rightarrow> (('s, 'h, 'w) debugger, real_addr) prog" where
  "get_pc E =
     read_tracee (\<lambda>s.
       case get_register_value (e_kernel E) (e_pid E) RIP s of
         Some store \<Rightarrow> RealAddr store
       | None \<Rightarrow> RealAddr 0)"

definition get_dbg_pc :: "('d, 's, 'h, 'w) env \<Rightarrow> (('s, 'h, 'w) debugger, dbg_addr) prog" where
  "get_dbg_pc E =
     then_do (get_pc E) (\<lambda>real_pc.
     then_do (get_state load_address) (\<lambda>load.
       return (real_to_dbg load real_pc)))"

text \<open>The result of the write is ignored.\<close>

definition set_pc :: "('d, 's, 'h, 'w) env \<Rightarrow> real_addr \<Rightarrow> (('s, 'h, 'w) debugger, unit) prog" where
  "set_pc E pc =
     then_do (change_tracee (set_register_value (e_kernel E) (e_pid E) RIP (real_value pc)))
       (\<lambda>_. return ())"

definition is_user_breakpoint :: "('d, 's, 'h, 'w) env \<Rightarrow> (('s, 'h, 'w) debugger, bool) prog" where
  "is_user_breakpoint E = then_do (get_pc E) (is_breakpoint E)"

section \<open>The source at the program counter\<close>

definition print_as_relative_filepath ::
  "('d, 's, 'h, 'w) env \<Rightarrow> string \<Rightarrow> (('s, 'h, 'w) debugger, unit) prog" where
  "print_as_relative_filepath E path =
     then_do (from_c (relative_filepath (e_getcwd E) (Some path))) (\<lambda>relative.
       emit (Out (case relative of Some r \<Rightarrow> r | None \<Rightarrow> path)))"

definition print_source ::
  "('d, 's, 'h, 'w) env \<Rightarrow> string \<Rightarrow> u32 \<Rightarrow> nat \<Rightarrow> (('s, 'h, 'w) debugger, SprayResult) prog" where
  "print_source E path lineno n_context =
     then_do (emit (Source path lineno n_context)) (\<lambda>_. return (e_print_source E path lineno n_context))"

definition print_current_source :: "('d, 's, 'h, 'w) env \<Rightarrow> (('s, 'h, 'w) debugger, unit) prog" where
  "print_current_source E =
     then_do (get_dbg_pc E) (\<lambda>pc.
     then_do (sym_by_addr E pc) (\<lambda>sym.
     then_do (sym_position E sym) (\<lambda>pos.
     then_do (sym_filepath E sym) (\<lambda>path.
       case (pos, path) of
         (Some pos, Some path) \<Rightarrow>
           then_do (is_user_breakpoint E) (\<lambda>user.
           then_do (if user then
                      then_do (get_pc E) (\<lambda>real_pc.
                      then_do (emit (Out (''Hit breakpoint at address '' @
                          addr_format (real_value real_pc) @ '' in ''))) (\<lambda>_.
                      then_do (print_as_relative_filepath E path) (\<lambda>_. emit (Out newline))))
                    else return ()) (\<lambda>_.
           then_do (print_source E path (pos_line pos) 3) (\<lambda>res.
             if res = SP_ERR then
               emit (Err (''Failed to read source file '' @ path @ ''. Can't print source''))
             else return ())))
       | _ \<Rightarrow> emit (Err (''No source info for PC '' @ addr_format (dbg_value pc)))))))"

section \<open>Wait status and signals\<close>

text \<open>The macros of \<^verbatim>\<open>sys/wait.h\<close> on the status word.\<close>

definition WTERMSIG :: "u32 \<Rightarrow> nat" where "WTERMSIG status = unat (status AND 0x7f)"
definition WEXITSTATUS :: "u32 \<Rightarrow> nat" where "WEXITSTATUS status = unat (drop_bit 8 (status AND 0xff00))"
definition WSTOPSIG :: "u32 \<Rightarrow> nat" where "WSTOPSIG status = WEXITSTATUS status"
definition WIFEXITED :: "u32 \<Rightarrow> bool" where "WIFEXITED status \<longleftrightarrow> WTERMSIG status = 0"
definition WIFSIGNALED :: "u32 \<Rightarrow> bool" where
  "WIFSIGNALED status \<longleftrightarrow> 0 < WTERMSIG status \<and> WTERMSIG status < 0x7f"
definition WIFCONTINUED :: "u32 \<Rightarrow> bool" where "WIFCONTINUED status \<longleftrightarrow> status = 0xffff"
definition WIFSTOPPED :: "u32 \<Rightarrow> bool" where "WIFSTOPPED status \<longleftrightarrow> status AND 0xff = 0x7f"

definition SIGTRAP :: int where [magic_numbers]: "SIGTRAP = 5"
definition SIGSEGV :: int where [magic_numbers]: "SIGSEGV = 11"
definition SIGWINCH :: int where [magic_numbers]: "SIGWINCH = 28"
definition SI_KERNEL :: int where [magic_numbers]: "SI_KERNEL = 0x80"
definition TRAP_BRKPT :: int where [magic_numbers]: "TRAP_BRKPT = 1"
definition ESRCH :: errno where [magic_numbers]: "ESRCH = 3"

text \<open>
  \<^verbatim>\<open>sigabbrev_np\<close> of the C library, \<open>None\<close> for the null pointer. It is printed with \<^verbatim>\<open>%s\<close>,
  which is undefined for a null pointer.
\<close>

definition signal_names :: "string list" where
  "signal_names = [''HUP'', ''INT'', ''QUIT'', ''ILL'', ''TRAP'', ''ABRT'', ''BUS'', ''FPE'', ''KILL'',
     ''USR1'', ''SEGV'', ''USR2'', ''PIPE'', ''ALRM'', ''TERM'', ''STKFLT'', ''CHLD'', ''CONT'', ''STOP'',
     ''TSTP'', ''TTIN'', ''TTOU'', ''URG'', ''XCPU'', ''XFSZ'', ''VTALRM'', ''PROF'', ''WINCH'', ''POLL'',
     ''PWR'', ''SYS'']"

definition sigabbrev_np :: "nat \<Rightarrow> string option" where
  "sigabbrev_np sig = (if 0 < sig \<and> sig \<le> length signal_names then Some (signal_names ! (sig - 1)) else None)"

definition print_signal :: "string \<Rightarrow> nat \<Rightarrow> (('s, 'h, 'w) debugger, unit) prog" where
  "print_signal text sig =
     then_do (from_c (case sigabbrev_np sig of Some name \<Rightarrow> Defined name | None \<Rightarrow> UB)) (\<lambda>name.
       print_info (text @ name))"

section \<open>Continuing and waiting\<close>

definition single_step_breakpoint_with ::
  "('d, 's, 'h, 'w) env \<Rightarrow> (('s, 'h, 'w) debugger, SprayResult) prog
     \<Rightarrow> (('s, 'h, 'w) debugger, SprayResult) prog" where
  "single_step_breakpoint_with E wait =
     then_do (get_pc E) (\<lambda>pc_address.
     then_do (is_breakpoint E pc_address) (\<lambda>found.
       if found then
         then_do (disable_bp E pc_address) (\<lambda>_.
         then_do (change_tracee (pt_single_step (e_kernel E) (e_pid E))) (\<lambda>_.
         then_do wait (\<lambda>res.
         then_do (enable_bp E pc_address) (\<lambda>_. return res))))
       else return SP_OK))"

definition continue_execution_with ::
  "('d, 's, 'h, 'w) env \<Rightarrow> (('s, 'h, 'w) debugger, SprayResult) prog
     \<Rightarrow> (('s, 'h, 'w) debugger, SprayResult) prog" where
  "continue_execution_with E wait =
     then_do (single_step_breakpoint_with E wait) (\<lambda>_.
     then_do (change_tracee (\<lambda>s.
         case pt_continue_execution (e_kernel E) (e_pid E) s of (_, errno, s') \<Rightarrow> (errno, s')))
       (\<lambda>errno.
         if errno = ESRCH then
           then_do (emit (Out (''The process is dead'' @ newline))) (\<lambda>_. return SP_ERR)
         else return SP_OK))"

definition handle_sigtrap ::
  "('d, 's, 'h, 'w) env \<Rightarrow> siginfo \<Rightarrow> (('s, 'h, 'w) debugger, unit) prog" where
  "handle_sigtrap E siginfo =
     (if si_code siginfo = SI_KERNEL \<or> si_code siginfo = TRAP_BRKPT then
        then_do (get_pc E) (\<lambda>pc. set_pc E (RealAddr (real_value pc - 1)))
      else return ())"

lemma const_mono: "monotone (fun_ord option_ord) option_ord (\<lambda>f. m st)"
  by (rule partial_function_mono)

lemma single_step_breakpoint_mono [partial_function_mono]:
  assumes m: "\<And>st. monotone (fun_ord option_ord) option_ord (\<lambda>f. B f st)"
  shows "monotone (fun_ord option_ord) option_ord (\<lambda>f. single_step_breakpoint_with E (B f) st)"
proof -
  have "monotone (fun_ord option_ord) option_ord (\<lambda>f.
      (if found then
         then_do (disable_bp E a) (\<lambda>_.
         then_do (change_tracee (pt_single_step (e_kernel E) (e_pid E))) (\<lambda>_.
         then_do (B f) (\<lambda>res. then_do (enable_bp E a) (\<lambda>_. return res))))
       else return SP_OK) st)" for found a st
    by (cases found) (simp_all add: then_do_mono m const_mono)
  then show ?thesis
    unfolding single_step_breakpoint_with_def by (intro then_do_mono const_mono)
qed

lemma continue_execution_mono [partial_function_mono]:
  assumes "\<And>st. monotone (fun_ord option_ord) option_ord (\<lambda>f. B f st)"
  shows "monotone (fun_ord option_ord) option_ord (\<lambda>f. continue_execution_with E (B f) st)"
  unfolding continue_execution_with_def
  by (intro then_do_mono single_step_breakpoint_mono const_mono assms)

partial_function (option) wait_for_signal ::
  "('d, 's, 'h, 'w) env \<Rightarrow> (('s, 'h, 'w) debugger, SprayResult) prog" where
  "wait_for_signal E st =
     then_do (change_tracee (k_waitpid (e_kernel E) (e_pid E))) (\<lambda>wait_status st.
       if WIFEXITED wait_status then
         then_do (print_info (''Child exited with code '' @ show_base 10 (WEXITSTATUS wait_status)))
           (\<lambda>_. return SP_ERR) st
       else if WIFSIGNALED wait_status then
         then_do (print_signal ''Child was terminated by signal SIG'' (WTERMSIG wait_status))
           (\<lambda>_. return SP_ERR) st
       else if WIFCONTINUED wait_status then
         then_do (print_info ''Child was resumed'') (\<lambda>_. return SP_OK) st
       else if WIFSTOPPED wait_status then
         then_do (read_tracee (\<lambda>s.
             case pt_get_signal_info (e_kernel E) (e_pid E) s of
               Some info \<Rightarrow> info | None \<Rightarrow> \<lparr>si_signo = 0, si_code = 0\<rparr>)) (\<lambda>siginfo st.
           if si_signo siginfo = SIGSEGV then
             then_do (print_info (''Child was stopped by a segmentation fault, reason '' @
                 show_int (si_code siginfo))) (\<lambda>_. return SP_OK) st
           else if si_signo siginfo = SIGTRAP then
             then_do (handle_sigtrap E siginfo) (\<lambda>_. return SP_OK) st
           else if si_signo siginfo = SIGWINCH then
             then_do (continue_execution_with E (\<lambda>st. wait_for_signal E st))
               (\<lambda>_ st. wait_for_signal E st) st
           else
             then_do (print_signal ''Child was stopped by SIG'' (WSTOPSIG wait_status))
               (\<lambda>_. return SP_OK) st) st
       else
         then_do (emit (Err (''Received invalid wait status '' @ show_int (sint wait_status))))
           (\<lambda>_. return SP_ERR) st) st"

definition single_step_breakpoint ::
  "('d, 's, 'h, 'w) env \<Rightarrow> (('s, 'h, 'w) debugger, SprayResult) prog" where
  "single_step_breakpoint E = single_step_breakpoint_with E (wait_for_signal E)"

definition continue_execution ::
  "('d, 's, 'h, 'w) env \<Rightarrow> (('s, 'h, 'w) debugger, SprayResult) prog" where
  "continue_execution E = continue_execution_with E (wait_for_signal E)"

section \<open>Stepping\<close>

definition single_step_instruction ::
  "('d, 's, 'h, 'w) env \<Rightarrow> (('s, 'h, 'w) debugger, SprayResult) prog" where
  "single_step_instruction E =
     then_do (get_pc E) (\<lambda>pc.
     then_do (is_breakpoint E pc) (\<lambda>found.
       if found then then_do (single_step_breakpoint E) (\<lambda>_. return SP_OK)
       else
         then_do (change_tracee (pt_single_step (e_kernel E) (e_pid E))) (\<lambda>_. wait_for_signal E)))"

text \<open>A failed assertion aborts; the result says whether a breakpoint was set, and where.\<close>

definition assert_some :: "'a option \<Rightarrow> ('st, 'a) prog" where
  "assert_some x st = (case x of Some a \<Rightarrow> Some (Value (a, st)) | None \<Rightarrow> Some Aborted)"

definition set_return_address_breakpoint ::
  "('d, 's, 'h, 'w) env \<Rightarrow> (('s, 'h, 'w) debugger, bool \<times> real_addr) prog" where
  "set_return_address_breakpoint E =
     then_do (read_tracee (get_register_value (e_kernel E) (e_pid E) RBP)) (\<lambda>res.
     then_do (assert_some res) (\<lambda>frame_pointer.
     then_do (read_tracee (pt_read_memory (e_kernel E) (e_pid E) (RealAddr (frame_pointer + 8))))
       (\<lambda>value.
         let return_address = RealAddr (case value of Some v \<Rightarrow> v | None \<Rightarrow> 0) in
         then_do (is_breakpoint E return_address) (\<lambda>found.
           if \<not> found then then_do (enable_bp E return_address) (\<lambda>_. return (True, return_address))
           else return (False, return_address)))))"

definition step_out :: "('d, 's, 'h, 'w) env \<Rightarrow> (('s, 'h, 'w) debugger, SprayResult) prog" where
  "step_out E =
     then_do (set_return_address_breakpoint E) (\<lambda>(remove_internal_breakpoint, return_address).
     then_do (continue_execution E) (\<lambda>_.
     then_do (wait_for_signal E) (\<lambda>res.
     then_do (if remove_internal_breakpoint
              then then_do (disable_bp E return_address) (\<lambda>_. return ()) else return ()) (\<lambda>_.
       return res))))"

text \<open>The loop of \<^verbatim>\<open>single_step_line\<close> after \<open>n\<close> instruction steps at the position \<open>pos\<close>.\<close>

partial_function (option) step_line_loop ::
  "('d, 's, 'h, 'w) env \<Rightarrow> u32 \<Rightarrow> Position \<Rightarrow> nat \<Rightarrow> (('s, 'h, 'w) debugger, SprayResult) prog" where
  "step_line_loop E init_line pos n st =
     (if \<not> pos_is_exact pos \<or> pos_line pos = init_line then
        then_do (single_step_instruction E) (\<lambda>res st.
          if res = SP_ERR then return SP_ERR st
          else
            then_do (get_dbg_pc E) (\<lambda>pc st.
            then_do (addr_position E pc) (\<lambda>pos' st.
              case pos' of
                None \<Rightarrow>
                  then_do (emit (Err ''Failed to find another line to step to'')) (\<lambda>_. return SP_ERR) st
              | Some p \<Rightarrow>
                  if Suc n \<ge> SINGLE_STEP_SEARCH_LIMIT then
                    then_do (emit (Err ''Failed to find another line to step to'')) (\<lambda>_. return SP_ERR) st
                  else step_line_loop E init_line p (Suc n) st) st) st) st
      else return SP_OK st)"

definition single_step_line ::
  "('d, 's, 'h, 'w) env \<Rightarrow> (('s, 'h, 'w) debugger, SprayResult) prog" where
  "single_step_line E =
     then_do (get_dbg_pc E) (\<lambda>pc.
     then_do (addr_position E pc) (\<lambda>pos.
       case pos of
         None \<Rightarrow> then_do (emit (Out ''Failed to find current line'')) (\<lambda>_. return SP_ERR)
       | Some p \<Rightarrow> step_line_loop E (pos_line p) p 0))"

primrec disable_all ::
  "('d, 's, 'h, 'w) env \<Rightarrow> real_addr list \<Rightarrow> (('s, 'h, 'w) debugger, unit) prog" where
  "disable_all E [] = return ()"
| "disable_all E (a # as) = then_do (disable_bp E a) (\<lambda>_. disable_all E as)"

definition step_over :: "('d, 's, 'h, 'w) env \<Rightarrow> (('s, 'h, 'w) debugger, SprayResult) prog" where
  "step_over E =
     then_do (get_dbg_pc E) (\<lambda>pc.
     then_do (sym_by_addr E pc) (\<lambda>func.
       case func of
         None \<Rightarrow>
           then_do (emit (Err ''Failed to find current function'')) (\<lambda>_. return SP_ERR)
       | Some _ \<Rightarrow>
           then_do (set_step_over_breakpoints E func) (\<lambda>set_res.
             case set_res of
               None \<Rightarrow>
                 then_do (emit (Err ''Failed to set breakpoints in current scope''))
                   (\<lambda>_. return SP_ERR)
             | Some dels \<Rightarrow>
                 then_do (set_return_address_breakpoint E)
                   (\<lambda>(remove_internal_breakpoint, return_address).
                 then_do (continue_execution E) (\<lambda>_.
                 then_do (wait_for_signal E) (\<lambda>exec_res.
                 then_do (disable_all E dels) (\<lambda>_.
                 then_do (if remove_internal_breakpoint
                          then then_do (disable_bp E return_address) (\<lambda>_. return ()) else return ()) (\<lambda>_.
                   return exec_res))))))))"

end
