(* ===== verification/Tokens.thy ===== *)
theory Tokens
  imports Info
begin

text \<open>
  The parsing half of \<^verbatim>\<open>src/src/debugger.c\<close>: splitting a command line into tokens, numbers,
  identifiers and the locations of breakpoints.
\<close>

section \<open>Tokens\<close>

text \<open>
  \<^verbatim>\<open>strtok\<close>: skip delimiters, then take the longest run of other characters; the character
  behind it is overwritten and the search goes on behind that. The result is the token and
  where the next call starts.
\<close>

definition strtok :: "string \<Rightarrow> string \<Rightarrow> (string \<times> string) option" where
  "strtok delims s =
     (let t = dropWhile (\<lambda>c. c \<in> set delims) s in
      if t = [] then None
      else Some (takeWhile (\<lambda>c. c \<notin> set delims) t, drop 1 (dropWhile (\<lambda>c. c \<notin> set delims) t)))"

lemma strtok_shorter: "strtok delims s = Some (token, rest) \<Longrightarrow> length rest < length s"
proof -
  assume *: "strtok delims s = Some (token, rest)"
  let ?t = "dropWhile (\<lambda>c. c \<in> set delims) s"
  from * have t: "?t \<noteq> []" "rest = drop 1 (dropWhile (\<lambda>c. c \<notin> set delims) ?t)" "token = takeWhile (\<lambda>c. c \<notin> set delims) ?t"
    by (auto simp: strtok_def Let_def split: if_splits)
  from t(1) have "hd ?t \<notin> set delims" by (rule hd_dropWhile)
  with t(1) have "dropWhile (\<lambda>c. c \<notin> set delims) ?t = dropWhile (\<lambda>c. c \<notin> set delims) (tl ?t)"
    by (cases ?t) simp_all
  then have "length rest \<le> length (tl ?t)"
    unfolding t(2) using length_dropWhile_le [of "\<lambda>c. c \<notin> set delims" "tl ?t"] by simp
  also have "\<dots> < length ?t" using t(1) by (cases ?t) simp_all
  also have "\<dots> \<le> length s" by (rule length_dropWhile_le)
  finally show ?thesis .
qed

definition blanks :: string where "blanks = [CHR '' '', CHR 0x09]"

text \<open>The array of tokens is terminated by a null pointer: it is the list of them.\<close>

function get_command_tokens :: "string \<Rightarrow> string list" where
  "get_command_tokens line =
     (case strtok blanks line of
        None \<Rightarrow> []
      | Some (token, rest) \<Rightarrow> token # get_command_tokens rest)"
  by auto

termination by (relation "measure length") (auto dest: strtok_shorter)

declare get_command_tokens.simps [simp del]

text \<open>The token at an index and the index of the next one.\<close>

definition next_token :: "string list \<Rightarrow> nat \<Rightarrow> string option \<times> nat" where
  "next_token tokens i = (if i < length tokens then (Some (tokens ! i), i + 1) else (None, i))"

definition end_of_tokens :: "string list \<Rightarrow> nat \<Rightarrow> (('s, 'h, 'w) debugger, bool) prog" where
  "end_of_tokens tokens i =
     (if i \<ge> length tokens then return True
      else then_do (emit (Err ''Trailing characters in command'')) (\<lambda>_. return False))"

definition is_command :: "string option \<Rightarrow> char \<Rightarrow> string \<Rightarrow> bool" where
  "is_command in_str short_form long_form =
     (case in_str of
        Some s \<Rightarrow> (length s = 1 \<and> s ! 0 = short_form) \<or> str_eq s long_form
      | None \<Rightarrow> False)"

section \<open>Numbers\<close>

definition parse_num :: "string \<Rightarrow> nat \<Rightarrow> u64 option" where
  "parse_num str base =
     (case strtol base str of
        (val, str_end) \<Rightarrow> if str \<noteq> [] \<and> str_end = [] then Some (word_of_int val) else None)"

definition parse_base16 :: "string \<Rightarrow> u64 option" where "parse_base16 str = parse_num str 16"
definition parse_base10 :: "string \<Rightarrow> u64 option" where "parse_base10 str = parse_num str 10"

text \<open>The line is compared with \<^verbatim>\<open>UINT_MAX\<close> as a \<^verbatim>\<open>long\<close>; a negative one is let through.\<close>

definition UINT_MAX :: int where [magic_numbers]: "UINT_MAX = 2 ^ 32 - 1"

definition parse_lineno :: "string \<Rightarrow> u32 option" where
  "parse_lineno line_str =
     (case strtol 10 line_str of
        (line_buf, str_end) \<Rightarrow>
          if line_str \<noteq> [] \<and> str_end = [] \<and> line_buf \<le> UINT_MAX then Some (word_of_int line_buf)
          else None)"

section \<open>Identifiers and locations\<close>

definition is_letter :: "char \<Rightarrow> bool" where
  "is_letter c \<longleftrightarrow> (let n = of_char c :: nat in 97 \<le> n \<and> n \<le> 122 \<or> 65 \<le> n \<and> n \<le> 90 \<or> n = 95)"

definition is_digit :: "char \<Rightarrow> bool" where
  "is_digit c \<longleftrightarrow> (let n = of_char c :: nat in 48 \<le> n \<and> n \<le> 57)"

text \<open>The regular expression \<^verbatim>\<open>^[a-zA-Z_][a-zA-Z_0-9]*$\<close>.\<close>

definition is_valid_identifier :: "string \<Rightarrow> bool" where
  "is_valid_identifier ident =
     (case ident of
        [] \<Rightarrow> False
      | c # cs \<Rightarrow> is_letter c \<and> list_all (\<lambda>c. is_letter c \<or> is_digit c) cs)"

text \<open>The regular expression \<^verbatim>\<open>^[^:]+:[0-9]+$\<close>: the first colon is the only one there can be.\<close>

definition is_file_with_line :: "string \<Rightarrow> bool" where
  "is_file_with_line file_line =
     (takeWhile (\<lambda>c. c \<noteq> CHR '':'') file_line \<noteq> [] \<and>
      (case dropWhile (\<lambda>c. c \<noteq> CHR '':'') file_line of
         [] \<Rightarrow> False
       | _ # digits \<Rightarrow> digits \<noteq> [] \<and> list_all is_digit digits))"

definition parse_break_location ::
  "('d, 's, 'h, 'w) env \<Rightarrow> string \<Rightarrow> (('s, 'h, 'w) debugger, dbg_addr option) prog" where
  "parse_break_location E location =
     (if is_valid_identifier location then
        then_do (sym_by_name E location) (function_start_addr E)
      else
        (case parse_base16 location of
           Some v \<Rightarrow> return (Some (DbgAddr v))
         | None \<Rightarrow>
             if is_file_with_line location then
               (case strtok '':'' location of
                  None \<Rightarrow> (\<lambda>_. Some Aborted)
                | Some (path, rest) \<Rightarrow>
                    (case strtok '':'' rest of
                       None \<Rightarrow> (\<lambda>_. Some Undefined)
                     | Some (line_str, _) \<Rightarrow>
                         (case parse_lineno line_str of
                            None \<Rightarrow> return None
                          | Some lineno \<Rightarrow> addr_at E path lineno)))
             else return None))"

definition is_filter_delim :: "string option \<Rightarrow> bool" where
  "is_filter_delim delim = (case delim of Some s \<Rightarrow> s = ''|'' | None \<Rightarrow> False)"

section \<open>What the tokens are\<close>

text \<open>Words that are separated by blanks, with any blanks before and behind, are the tokens.\<close>

definition is_blank :: "char \<Rightarrow> bool" where "is_blank c \<longleftrightarrow> c \<in> set blanks"

lemma strtok_blanks: "\<forall>c \<in> set s. is_blank c \<Longrightarrow> strtok blanks s = None"
  by (simp add: strtok_def is_blank_def)

lemma strtok_word:
  assumes "\<forall>c \<in> set pre. is_blank c" "w \<noteq> []" "\<forall>c \<in> set w. \<not> is_blank c" "rest = [] \<or> is_blank (hd rest)"
  shows "strtok blanks (pre @ w @ rest) = Some (w, drop 1 rest)"
proof -
  have t: "dropWhile (\<lambda>c. c \<in> set blanks) (pre @ w @ rest) = w @ rest"
    using assms by (cases w) (simp_all add: is_blank_def dropWhile_append2)
  have "takeWhile (\<lambda>c. c \<notin> set blanks) (w @ rest) = w" "dropWhile (\<lambda>c. c \<notin> set blanks) (w @ rest) = rest"
    using assms(3,4) by (cases rest; simp add: is_blank_def takeWhile_append2 dropWhile_append2)+
  with assms(2) show ?thesis by (simp add: strtok_def t Let_def)
qed

lemma get_command_tokens_blanks: "\<forall>c \<in> set s. is_blank c \<Longrightarrow> get_command_tokens s = []"
  by (subst get_command_tokens.simps) (simp add: strtok_blanks)

lemma get_command_tokens_word:
  assumes "\<forall>c \<in> set pre. is_blank c" "w \<noteq> []" "\<forall>c \<in> set w. \<not> is_blank c" "rest = [] \<or> is_blank (hd rest)"
  shows "get_command_tokens (pre @ w @ rest) = w # get_command_tokens (drop 1 rest)"
  by (subst get_command_tokens.simps) (simp add: strtok_word [OF assms])

text \<open>Words, each with blanks in front of it, the first with possibly none.\<close>

fun words_line :: "(string \<times> string) list \<Rightarrow> string" where
  "words_line [] = []"
| "words_line ((pre, w) # ws) = pre @ w @ words_line ws"

lemma get_command_tokens_line:
  assumes "\<forall>(pre, w) \<in> set ws. (\<forall>c \<in> set pre. is_blank c) \<and> w \<noteq> [] \<and> (\<forall>c \<in> set w. \<not> is_blank c)"
    and "\<forall>(pre, w) \<in> set (tl ws). pre \<noteq> []" and "\<forall>c \<in> set trail. is_blank c"
  shows "get_command_tokens (words_line ws @ trail) = map snd ws"
  using assms(1,2)
proof (induction ws rule: induct_list012)
  case 1
  with assms(3) show ?case by (simp add: get_command_tokens_blanks)
next
  case (2 p)
  obtain pre w where p: "p = (pre, w)" by fastforce
  have "trail = [] \<or> is_blank (hd trail)" using assms(3) by (cases trail) simp_all
  moreover have "get_command_tokens (drop 1 trail) = []"
    using assms(3) by (intro get_command_tokens_blanks) (auto dest: in_set_dropD)
  ultimately show ?case using 2 by (simp add: p get_command_tokens_word)
next
  case (3 p q ws)
  obtain pre w pre' w' where pq: "p = (pre, w)" "q = (pre', w')" by fastforce
  with 3 obtain c cs where c: "pre' = c # cs" by (cases pre') auto
  with 3 pq have blank: "is_blank c" "\<forall>c \<in> set cs. is_blank c" by simp_all
  have "get_command_tokens (words_line (q # ws) @ trail) = get_command_tokens (cs @ w' @ words_line ws @ trail)"
  proof -
    have "strtok blanks (c # s) = strtok blanks s" for s using blank by (simp add: strtok_def is_blank_def)
    then show ?thesis
      by (subst (1 2) get_command_tokens.simps) (simp add: pq c)
  qed
  moreover have "get_command_tokens (words_line (p # q # ws) @ trail)
      = w # get_command_tokens (cs @ w' @ words_line ws @ trail)"
    using 3 pq c blank by (simp add: get_command_tokens_word)
  ultimately show ?case using 3 pq by simp
qed

section \<open>What the numbers are\<close>

lemma parse_num_digits:
  assumes "s \<noteq> []" "\<forall>c \<in> set s. is_digit_of base c" "base \<le> 16"
  shows "parse_num s base = Some (word_of_int (clamp_long (int (read_base base s))))"
  using assms by (simp add: parse_num_def strtol_digits)

text \<open>An address that is printed is read back, up to the largest \<^verbatim>\<open>long\<close>; a larger one is clamped.\<close>

lemma parse_base16_hex:
  "parse_base16 (CHR ''0'' # CHR ''x'' # show_base 16 n) = Some (of_nat (min n (2 ^ 63 - 1)))"
proof -
  have "strtol 16 (CHR ''0'' # CHR ''x'' # show_base 16 n) = (clamp_long (int n), [])"
    using strtol_0x_digits [of "show_base 16 n"] show_base_is_digit [of 16 n] by simp
  moreover have "(word_of_int (clamp_long (int n)) :: u64) = of_nat (min n (2 ^ 63 - 1))"
    by (auto simp: clamp_long_def LONG_MAX_def LONG_MIN_def min_def)
  ultimately show ?thesis by (simp add: parse_base16_def parse_num_def)
qed

lemma parse_base10_int:
  assumes "LONG_MIN \<le> i" "i \<le> LONG_MAX"
  shows "parse_base10 (show_int i) = Some (word_of_int i)"
proof -
  have "strtol 10 (show_int i) = (i, [])"
    using assms show_base_is_digit [of 10]
    by (simp add: show_int_def strtol_digits strtol_neg_digits clamp_long_def)
  moreover have "show_int i \<noteq> []" by (simp add: show_int_def)
  ultimately show ?thesis by (simp add: parse_base10_def parse_num_def)
qed

section \<open>What the locations are\<close>

lemma colon_split:
  "CHR '':'' \<notin> set path \<Longrightarrow> takeWhile (\<lambda>c. c \<noteq> CHR '':'') (path @ CHR '':'' # rest) = path"
  "CHR '':'' \<notin> set path \<Longrightarrow> dropWhile (\<lambda>c. c \<noteq> CHR '':'') (path @ CHR '':'' # rest) = CHR '':'' # rest"
  by (induction path) auto

lemma is_file_with_line_iff:
  "is_file_with_line s \<longleftrightarrow> (\<exists>path digits. s = path @ CHR '':'' # digits \<and> path \<noteq> [] \<and> CHR '':'' \<notin> set path \<and>
     digits \<noteq> [] \<and> list_all is_digit digits)"
proof
  let ?P = "\<lambda>c. c \<noteq> CHR '':''"
  assume f: "is_file_with_line s"
  then obtain c digits where d: "dropWhile ?P s = c # digits" "digits \<noteq> []" "list_all is_digit digits"
    by (auto simp: is_file_with_line_def split: list.splits)
  then have "c = CHR '':''" using hd_dropWhile [of ?P s] by simp
  have "s = takeWhile ?P s @ dropWhile ?P s" by simp
  then have "s = takeWhile ?P s @ CHR '':'' # digits" using d(1) \<open>c = CHR '':''\<close> by simp
  moreover have "CHR '':'' \<notin> set (takeWhile ?P s)" by (blast dest: set_takeWhileD)
  moreover have "takeWhile ?P s \<noteq> []" using f by (simp add: is_file_with_line_def)
  ultimately show "\<exists>path digits. s = path @ CHR '':'' # digits \<and> path \<noteq> [] \<and> CHR '':'' \<notin> set path \<and>
     digits \<noteq> [] \<and> list_all is_digit digits"
    using d by blast
next
  assume "\<exists>path digits. s = path @ CHR '':'' # digits \<and> path \<noteq> [] \<and> CHR '':'' \<notin> set path \<and>
     digits \<noteq> [] \<and> list_all is_digit digits"
  then obtain path digits where s: "s = path @ CHR '':'' # digits" "path \<noteq> []" "CHR '':'' \<notin> set path"
    "digits \<noteq> []" "list_all is_digit digits" by blast
  then have "takeWhile (\<lambda>c. c \<noteq> CHR '':'') s = path" "dropWhile (\<lambda>c. c \<noteq> CHR '':'') s = CHR '':'' # digits"
    by (simp_all add: colon_split)
  with s show "is_file_with_line s" by (simp add: is_file_with_line_def)
qed

lemma digit_is_digit: "is_digit c \<Longrightarrow> is_digit_of 10 c \<and> c \<noteq> CHR '':''"
  by (auto simp: is_digit_def is_digit_of_def digit_val_def Let_def)

text \<open>What a location of the form file and line is taken apart into.\<close>

lemma parse_file_line:
  assumes "path \<noteq> []" "CHR '':'' \<notin> set path" "digits \<noteq> []" "list_all is_digit digits"
  shows "strtok '':'' (path @ CHR '':'' # digits) = Some (path, digits)"
    and "strtok '':'' digits = Some (digits, [])"
proof -
  have d: "\<forall>c \<in> set digits. c \<noteq> CHR '':''" using assms(4) digit_is_digit by (auto simp: list_all_iff)
  from assms obtain p ps where "path = p # ps" "p \<noteq> CHR '':''" by (cases path) auto
  then have "dropWhile (\<lambda>c. c \<in> set '':'') (path @ CHR '':'' # digits) = path @ CHR '':'' # digits" by simp
  moreover have "takeWhile (\<lambda>c. c \<notin> set '':'') (path @ CHR '':'' # digits) = path"
    "dropWhile (\<lambda>c. c \<notin> set '':'') (path @ CHR '':'' # digits) = CHR '':'' # digits"
    using assms(2) by (simp_all add: colon_split)
  ultimately show "strtok '':'' (path @ CHR '':'' # digits) = Some (path, digits)"
    using assms(1) by (simp add: strtok_def)
  from assms(3) d obtain e es where "digits = e # es" "e \<noteq> CHR '':''" by (cases digits) auto
  with d show "strtok '':'' digits = Some (digits, [])" by (auto simp: strtok_def)
qed

end
