(* ===== verification/Backtrace.thy ===== *)
theory Backtrace
  imports Info
begin

text \<open>
  Backtraces, \<^verbatim>\<open>src/src/backtrace.c\<close>: the chain of saved frame pointers on the stack of the
  process is followed until a frame pointer is 0.
\<close>

section \<open>Frames\<close>

text \<open>
  The linked list of frames is a list with the frame that was made last at its head. The
  return address that is read from the stack becomes the \<^verbatim>\<open>dbg_addr\<close> of the frame as it is.
\<close>

record CallLocation =
  cl_pc :: dbg_addr
  cl_frame_pointer :: real_addr
  cl_lineno :: "u32 option"
  cl_function :: "string option"

type_synonym CallFrame = "CallLocation list"

definition init_call_frame ::
  "('d, 's, 'h, 'w) env \<Rightarrow> CallFrame \<Rightarrow> dbg_addr \<Rightarrow> real_addr
     \<Rightarrow> (('s, 'h, 'w) debugger, CallFrame) prog" where
  "init_call_frame E caller pc frame_pointer =
     then_do (sym_by_addr E pc) (\<lambda>func_sym.
     then_do (case func_sym of
                None \<Rightarrow> return (None, None)
              | Some _ \<Rightarrow>
                  then_do (sym_name E func_sym) (\<lambda>func_name.
                  then_do (sym_position E func_sym) (\<lambda>pos. return (func_name, pos))))
       (\<lambda>(func_name, pos).
         return (\<lparr>cl_pc = pc, cl_frame_pointer = frame_pointer,
                  cl_lineno = map_option pos_line pos, cl_function = func_name\<rparr> # caller)))"

text \<open>\<^verbatim>\<open>push %rbp; mov %rsp,%rbp\<close> at the start of the function.\<close>

definition stores_frame_pointer ::
  "('d, 's, 'h, 'w) env \<Rightarrow> dbg_addr \<Rightarrow> real_addr \<Rightarrow> (('s, 'h, 'w) debugger, bool) prog" where
  "stores_frame_pointer E pc load =
     then_do (sym_by_addr E pc) (\<lambda>func.
       case func of
         None \<Rightarrow> return False
       | Some _ \<Rightarrow>
           then_do (sym_start_addr func) (\<lambda>start.
           then_do (read_tracee (pt_read_memory (e_kernel E) (e_pid E) (dbg_to_real load start)))
             (\<lambda>inst_bytes.
               case inst_bytes of
                 None \<Rightarrow> return False
               | Some inst_bytes \<Rightarrow> return (inst_bytes AND 0xffffffff = 0xe5894855))))"

section \<open>The walk\<close>

definition no_frame_pointer_warning :: string where
  "no_frame_pointer_warning =
     ''WARN: it seems like this executable doesn't maintain a frame pointer.'' @ newline @
     ''      This results in incorrect or incomplete backtraces.'' @ newline @
     ''HINT: Try to compile again with `-fno-omit-frame-pointer`.'' @ newline @ newline"

partial_function (option) backtrace_loop ::
  "('d, 's, 'h, 'w) env \<Rightarrow> CallFrame \<Rightarrow> real_addr
     \<Rightarrow> (('s, 'h, 'w) debugger, CallFrame option) prog" where
  "backtrace_loop E call_frame frame_pointer st =
     (if real_value frame_pointer \<noteq> 0 then
        then_do (read_tracee (pt_read_memory (e_kernel E) (e_pid E)
            (RealAddr (real_value frame_pointer + 8)))) (\<lambda>pc st.
          case pc of
            None \<Rightarrow> return None st
          | Some pc \<Rightarrow>
              then_do (read_tracee (pt_read_memory (e_kernel E) (e_pid E) frame_pointer)) (\<lambda>fp st.
                case fp of
                  None \<Rightarrow> return None st
                | Some fp \<Rightarrow>
                    then_do (init_call_frame E call_frame (DbgAddr pc) (RealAddr fp)) (\<lambda>frame st.
                      backtrace_loop E frame (RealAddr fp) st) st) st) st
      else return (Some call_frame) st)"

definition init_backtrace ::
  "('d, 's, 'h, 'w) env \<Rightarrow> dbg_addr \<Rightarrow> real_addr \<Rightarrow> (('s, 'h, 'w) debugger, CallFrame option) prog"
  where
  "init_backtrace E pc load =
     then_do (read_tracee (get_register_value (e_kernel E) (e_pid E) RBP)) (\<lambda>frame_pointer.
       case frame_pointer of
         None \<Rightarrow> return None
       | Some frame_pointer \<Rightarrow>
           then_do (stores_frame_pointer E pc load) (\<lambda>stores.
           then_do (if \<not> stores then emit (Out no_frame_pointer_warning) else return ()) (\<lambda>_.
           then_do (init_call_frame E [] pc (RealAddr frame_pointer)) (\<lambda>call_frame.
             backtrace_loop E call_frame (RealAddr frame_pointer)))))"

definition print_location :: "CallLocation \<Rightarrow> string" where
  "print_location l =
     ''  '' @ addr_format (dbg_value (cl_pc l)) @ '' '' @
     (case cl_function l of Some f \<Rightarrow> f | None \<Rightarrow> ''<?>'') @
     (case cl_lineno l of Some n \<Rightarrow> '':'' @ show_base 10 (unat n) @ newline | None \<Rightarrow> newline)"

definition print_backtrace :: "CallFrame \<Rightarrow> (('s, 'h, 'w) debugger, unit) prog" where
  "print_backtrace call_frame =
     then_do (emit (Out (''How did we even get here? (backtrace)'' @ newline))) (\<lambda>_.
       if call_frame = [] then emit (Out (''<empty backtrace>'' @ newline))
       else emit (Out (concat (map print_location call_frame))))"

section \<open>The frames that are found\<close>

definition frame_spec ::
  "('d, 's, 'h, 'w) env \<Rightarrow> ('d \<times> nat) list \<Rightarrow> (Elf64_Sym \<times> string) list \<Rightarrow> u64 \<times> u64 \<Rightarrow> CallLocation"
  where
  "frame_spec E ds syms = (\<lambda>(pc, fp).
     \<lparr>cl_pc = DbgAddr pc, cl_frame_pointer = RealAddr fp,
      cl_lineno = (case covering syms (DbgAddr pc) of
                     None \<Rightarrow> None
                   | Some _ \<Rightarrow> map_option pos_line (pos_spec E ds (DbgAddr pc))),
      cl_function = map_option snd (covering syms (DbgAddr pc))\<rparr>)"

lemma init_call_frame_spec:
  assumes w: "world_ok E ds syms st" and c: "cache_ok E ds (symbols st)"
  shows "looks_up E ds st (init_call_frame E caller (DbgAddr pc) (RealAddr fp))
    (frame_spec E ds syms (pc, fp) # caller)"
proof (cases "covering syms (DbgAddr pc)")
  case None
  with c show ?thesis
    by (auto simp: looks_up_def init_call_frame_def then_do_def sym_by_addr_spec [OF w] frame_spec_def
        intro!: exI [of _ "symbols st"])
next
  case (Some s)
  let ?new = "\<lparr>sym_elf = fst s, sym_has_addr = Some (DbgAddr pc), sym_has_position = None, sym_file = None\<rparr>"
  let ?n = "length (symbols st)"
  let ?st = "st\<lparr>symbols := symbols st @ [?new]\<rparr>"
  from w have "symbols_ok (e_elf E) syms" by (simp add: world_ok_def)
  with covering_Some [OF Some] have name: "symbol_name (fst s) (e_elf E) = Defined (snd s)"
    using elf.name_law by blast
  have "looks_up E ds ?st (sym_position E (Some ?n)) (pos_spec E ds (addr_of (symbols ?st ! ?n)))"
    by (rule sym_position_spec) (use w c in simp_all)
  then obtain ss where
    "sym_position E (Some ?n) ?st = Some (Value (pos_spec E ds (DbgAddr pc), ?st\<lparr>symbols := ss\<rparr>))"
    "cache_ok E ds ss" "grows (symbols ?st) ss"
    by (auto simp: looks_up_def addr_of_def)
  moreover from this(3) have "grows (symbols st) ss"
    using grows_trans [OF grows_append] by simp
  ultimately show ?thesis
    unfolding looks_up_def
    by (intro exI [of _ ss])
      (simp add: init_call_frame_def then_do_def sym_by_addr_spec [OF w] sym_name_def name Some
        frame_spec_def)
qed

text \<open>
  The chain of frames in the memory that a reading function presents: at each frame pointer
  other than 0 the saved frame pointer and, 8 bytes above it, the return address.
\<close>

inductive frame_chain :: "(u64 \<Rightarrow> u64 option) \<Rightarrow> u64 \<Rightarrow> (u64 \<times> u64) list \<Rightarrow> bool"
  for rd :: "u64 \<Rightarrow> u64 option" where
  chain_end: "frame_chain rd 0 []"
| chain_step: "fp \<noteq> 0 \<Longrightarrow> rd (fp + 8) = Some pc \<Longrightarrow> rd fp = Some fp' \<Longrightarrow> frame_chain rd fp' frames \<Longrightarrow>
    frame_chain rd fp ((pc, fp') # frames)"

inductive_cases frame_chain_NilE: "frame_chain rd fp []"
inductive_cases frame_chain_ConsE: "frame_chain rd fp (f # frames)"

code_pred frame_chain .

definition tracee_reads :: "('d, 's, 'h, 'w) env \<Rightarrow> 's \<Rightarrow> u64 \<Rightarrow> u64 option" where
  "tracee_reads E s a = pt_read_memory (e_kernel E) (e_pid E) (RealAddr a) s"

lemma looks_upE:
  assumes "looks_up E ds st m a"
  obtains ss where "m st = Some (Value (a, st\<lparr>symbols := ss\<rparr>))" "cache_ok E ds ss" "grows (symbols st) ss"
  using assms by (auto simp: looks_up_def)

lemma backtrace_loop_end: "backtrace_loop E frames (RealAddr 0) st = Some (Value (Some frames, st))"
  by (subst backtrace_loop.simps) simp

lemma backtrace_loop_step:
  assumes w: "world_ok E ds syms st" and c: "cache_ok E ds (symbols st)"
    and fp: "fp \<noteq> 0" "tracee_reads E (tracee st) (fp + 8) = Some pc" "tracee_reads E (tracee st) fp = Some fp'"
  obtains ss where "cache_ok E ds ss" "grows (symbols st) ss"
    "backtrace_loop E frames (RealAddr fp) st =
       backtrace_loop E (frame_spec E ds syms (pc, fp') # frames) (RealAddr fp') (st\<lparr>symbols := ss\<rparr>)"
proof -
  from init_call_frame_spec [OF w c, of frames pc fp'] obtain ss where
    frame: "init_call_frame E frames (DbgAddr pc) (RealAddr fp') st =
      Some (Value (frame_spec E ds syms (pc, fp') # frames, st\<lparr>symbols := ss\<rparr>))"
    and ss: "cache_ok E ds ss" "grows (symbols st) ss"
    by (rule looks_upE)
  from fp have "backtrace_loop E frames (RealAddr fp) st =
    backtrace_loop E (frame_spec E ds syms (pc, fp') # frames) (RealAddr fp') (st\<lparr>symbols := ss\<rparr>)"
    by (subst backtrace_loop.simps) (simp add: tracee_reads_def then_do_def frame)
  with ss show ?thesis by (rule that)
qed

lemma backtrace_loop_chain:
  assumes "frame_chain (tracee_reads E s) fp chain"
    and "tracee st = s" "world_ok E ds syms st" "cache_ok E ds (symbols st)"
  shows "\<exists>ss. backtrace_loop E frames (RealAddr fp) st =
      Some (Value (Some (rev (map (frame_spec E ds syms) chain) @ frames), st\<lparr>symbols := ss\<rparr>)) \<and>
    cache_ok E ds ss \<and> grows (symbols st) ss"
  using assms
proof (induction arbitrary: frames st rule: frame_chain.induct)
  case chain_end
  then show ?case by (auto simp: backtrace_loop_end intro!: exI [of _ "symbols st"])
next
  case (chain_step fp pc fp' chain)
  from chain_step obtain ss where ss: "cache_ok E ds ss" "grows (symbols st) ss" and
    step: "backtrace_loop E frames (RealAddr fp) st =
       backtrace_loop E (frame_spec E ds syms (pc, fp') # frames) (RealAddr fp') (st\<lparr>symbols := ss\<rparr>)"
    using backtrace_loop_step [of E ds syms st fp pc fp' frames] by metis
  from chain_step.IH [of "st\<lparr>symbols := ss\<rparr>" "frame_spec E ds syms (pc, fp') # frames"] chain_step.prems ss
  show ?case by (fastforce simp: step intro: grows_trans)
qed

text \<open>A chain that comes back to a frame pointer has no end, and neither has the walk.\<close>

definition no_way_out :: "(u64 \<Rightarrow> u64 option) \<Rightarrow> u64 set \<Rightarrow> bool" where
  "no_way_out rd fps \<longleftrightarrow>
     (\<forall>fp \<in> fps. fp \<noteq> 0 \<and> rd (fp + 8) \<noteq> None \<and> (\<exists>fp' \<in> fps. rd fp = Some fp'))"

lemma init_call_frame_tracee [keeps_intros]: "keeps tracee (init_call_frame E frames pc fp)"
  unfolding init_call_frame_def by (intro keeps_intros)

lemma no_way_outD:
  "no_way_out rd fps \<Longrightarrow> fp \<in> fps \<Longrightarrow>
     fp \<noteq> 0 \<and> (\<exists>pc. rd (fp + 8) = Some pc) \<and> (\<exists>fp' \<in> fps. rd fp = Some fp')"
  by (auto simp: no_way_out_def)

lemma backtrace_loop_runs_on:
  assumes "backtrace_loop E frames fp st = Some res"
  shows "world_ok E ds syms st \<Longrightarrow> cache_ok E ds (symbols st) \<Longrightarrow>
    no_way_out (tracee_reads E (tracee st)) fps \<Longrightarrow> real_value fp \<in> fps \<Longrightarrow> False"
  using assms
proof (induction rule: backtrace_loop.raw_induct [rotated, consumes 1, case_names 1])
  case (1 loop E frames fp st res)
  from no_way_outD [OF 1(5,6)] obtain pc fp' where
    reads: "real_value fp \<noteq> 0" "tracee_reads E (tracee st) (real_value fp + 8) = Some pc"
      "tracee_reads E (tracee st) (real_value fp) = Some fp'" and fp': "fp' \<in> fps"
    by blast
  from init_call_frame_spec [OF 1(3,4), of frames pc fp'] obtain ss where
    frame: "init_call_frame E frames (DbgAddr pc) (RealAddr fp') st =
      Some (Value (frame_spec E ds syms (pc, fp') # frames, st\<lparr>symbols := ss\<rparr>))"
    and ss: "cache_ok E ds ss"
    by (rule looks_upE)
  from 1(2) reads frame
  have "loop E (frame_spec E ds syms (pc, fp') # frames) (RealAddr fp') (st\<lparr>symbols := ss\<rparr>) = Some res"
    by (cases fp) (simp add: tracee_reads_def then_do_def)
  from 1(1) [OF this] 1(3,5) ss fp' show False by (simp add: world_ok_def)
qed

text \<open>The bytes at the start of the function decide about the warning.\<close>

definition saves_frame ::
  "('d, 's, 'h, 'w) env \<Rightarrow> (Elf64_Sym \<times> string) list \<Rightarrow> 's \<Rightarrow> u64 \<Rightarrow> real_addr \<Rightarrow> bool" where
  "saves_frame E syms s pc load =
     (case covering syms (DbgAddr pc) of
        None \<Rightarrow> False
      | Some f \<Rightarrow>
          (case tracee_reads E s (real_value (dbg_to_real load (se_symbol_start_addr (fst f)))) of
             None \<Rightarrow> False
           | Some w \<Rightarrow> w AND 0xffffffff = 0xe5894855))"

lemma stores_frame_pointer_spec:
  assumes w: "world_ok E ds syms st" and c: "cache_ok E ds (symbols st)"
  shows "looks_up E ds st (stores_frame_pointer E (DbgAddr pc) load) (saves_frame E syms (tracee st) pc load)"
proof (cases "covering syms (DbgAddr pc)")
  case None
  with c show ?thesis
    by (auto simp: looks_up_def stores_frame_pointer_def then_do_def sym_by_addr_spec [OF w]
        saves_frame_def intro!: exI [of _ "symbols st"])
next
  case (Some s)
  with c show ?thesis
    unfolding looks_up_def
    by (intro exI [of _ "symbols st @
        [\<lparr>sym_elf = fst s, sym_has_addr = Some (DbgAddr pc), sym_has_position = None, sym_file = None\<rparr>]"])
      (cases "dbg_to_real load (se_symbol_start_addr (fst s))", simp add: stores_frame_pointer_def
        sym_start_addr_def then_do_def sym_by_addr_spec [OF w] saves_frame_def tracee_reads_def
        split: option.split)
qed

lemma backtrace_of_chain:
  assumes w: "world_ok E ds syms st" and c: "cache_ok E ds (symbols st)"
    and rbp: "get_register_value (e_kernel E) (e_pid E) RBP (tracee st) = Some fp"
    and chain: "frame_chain (tracee_reads E (tracee st)) fp chain"
  shows "\<exists>ss. init_backtrace E (DbgAddr pc) load st =
    Some (Value (Some (rev (map (frame_spec E ds syms) ((pc, fp) # chain))),
      st\<lparr>symbols := ss, printed := printed st @
        (if saves_frame E syms (tracee st) pc load then [] else [Out no_frame_pointer_warning])\<rparr>)) \<and>
    cache_ok E ds ss"
proof -
  let ?out = "if saves_frame E syms (tracee st) pc load then [] else [Out no_frame_pointer_warning]"
  from stores_frame_pointer_spec [OF w c, of pc load] obtain s1 where
    stores: "stores_frame_pointer E (DbgAddr pc) load st =
      Some (Value (saves_frame E syms (tracee st) pc load, st\<lparr>symbols := s1\<rparr>))"
    and s1: "cache_ok E ds s1" by (rule looks_upE)
  let ?st = "st\<lparr>symbols := s1, printed := printed st @ ?out\<rparr>"
  have w1: "world_ok E ds syms ?st" using w by (simp add: world_ok_def)
  from init_call_frame_spec [OF w1, of "[]" pc fp] s1 obtain s2 where
    frame: "init_call_frame E [] (DbgAddr pc) (RealAddr fp) ?st =
      Some (Value ([frame_spec E ds syms (pc, fp)], ?st\<lparr>symbols := s2\<rparr>))"
    and s2: "cache_ok E ds s2" by (auto elim: looks_upE)
  from w1 have w2: "world_ok E ds syms (?st\<lparr>symbols := s2\<rparr>)" by (simp add: world_ok_def)
  from backtrace_loop_chain [OF chain _ w2, of "[frame_spec E ds syms (pc, fp)]"] s2 obtain ss where
    "backtrace_loop E [frame_spec E ds syms (pc, fp)] (RealAddr fp) (?st\<lparr>symbols := s2\<rparr>) =
      Some (Value (Some (rev (map (frame_spec E ds syms) ((pc, fp) # chain))), ?st\<lparr>symbols := s2, symbols := ss\<rparr>))"
    "cache_ok E ds ss" by auto
  with frame show ?thesis
    by (intro exI [of _ ss]) (cases "saves_frame E syms (tracee st) pc load";
        simp add: init_backtrace_def then_do_def rbp stores)
qed

lemma backtrace_of_cycle:
  assumes w: "world_ok E ds syms st" and c: "cache_ok E ds (symbols st)"
    and rbp: "get_register_value (e_kernel E) (e_pid E) RBP (tracee st) = Some fp" and "fp \<in> fps"
    and cycle: "no_way_out (tracee_reads E (tracee st)) fps"
  shows "init_backtrace E (DbgAddr pc) load st = None"
proof -
  let ?out = "if saves_frame E syms (tracee st) pc load then [] else [Out no_frame_pointer_warning]"
  from stores_frame_pointer_spec [OF w c, of pc load] obtain s1 where
    stores: "stores_frame_pointer E (DbgAddr pc) load st =
      Some (Value (saves_frame E syms (tracee st) pc load, st\<lparr>symbols := s1\<rparr>))"
    and s1: "cache_ok E ds s1" by (rule looks_upE)
  let ?st = "st\<lparr>symbols := s1, printed := printed st @ ?out\<rparr>"
  have w1: "world_ok E ds syms ?st" using w by (simp add: world_ok_def)
  from init_call_frame_spec [OF w1, of "[]" pc fp] s1 obtain s2 where
    frame: "init_call_frame E [] (DbgAddr pc) (RealAddr fp) ?st =
      Some (Value ([frame_spec E ds syms (pc, fp)], ?st\<lparr>symbols := s2\<rparr>))"
    and s2: "cache_ok E ds s2" by (auto elim: looks_upE)
  from w1 have w2: "world_ok E ds syms (?st\<lparr>symbols := s2\<rparr>)" by (simp add: world_ok_def)
  have "backtrace_loop E [frame_spec E ds syms (pc, fp)] (RealAddr fp) (?st\<lparr>symbols := s2\<rparr>) = None"
    using backtrace_loop_runs_on [where fps = fps, OF _ w2] s2 cycle \<open>fp \<in> fps\<close> by fastforce
  with frame show ?thesis
    by (cases "saves_frame E syms (tracee st) pc load"; simp add: init_backtrace_def then_do_def rbp stores)
qed

end
