(* ===== verification/History.thy ===== *)
theory History
  imports Program
begin

text \<open>
  \<^verbatim>\<open>src/src/history.c\<close>: the last command line, which an empty line repeats. The history is the
  component \<open>last_command\<close> of the debugger; it is never a null pointer.
\<close>

definition init_history :: "string option" where
  "init_history = None"

definition save_command :: "string \<Rightarrow> (('s, 'h, 'w) debugger, unit) prog" where
  "save_command line st = Some (Value ((), st\<lparr>last_command := Some line\<rparr>))"

definition read_command :: "(('s, 'h, 'w) debugger, string option) prog" where
  "read_command = get_state last_command"

lemma read_saved_command:
  "then_do (save_command line) (\<lambda>_. read_command) st = Some (Value (Some line, st\<lparr>last_command := Some line\<rparr>))"
  by (simp add: then_do_def save_command_def read_command_def)

end
