(* ===== verification/Commands.thy ===== *)
theory Commands
  imports Stepping Tokens Variables Backtrace History
begin

text \<open>
  The rest of \<^verbatim>\<open>src/src/debugger.c\<close>: the execution of commands, their dispatch, the load address
  and the loop that reads commands.
\<close>

section \<open>Filters\<close>

datatype PrintFilter = PF_NONE | PF_HEX | PF_BITS | PF_ADDR | PF_DEC | PF_BYTES | PF_DEREF

text \<open>The casts between the two enumerations, which agree on all variants but \<^verbatim>\<open>PF_DEREF\<close>.\<close>

fun filter_of_format :: "FormatFilter \<Rightarrow> PrintFilter" where
  "filter_of_format FMT_NONE = PF_NONE"
| "filter_of_format FMT_HEX = PF_HEX"
| "filter_of_format FMT_BITS = PF_BITS"
| "filter_of_format FMT_ADDR = PF_ADDR"
| "filter_of_format FMT_DEC = PF_DEC"
| "filter_of_format FMT_BYTES = PF_BYTES"

fun format_of_filter :: "PrintFilter \<Rightarrow> FormatFilter" where
  "format_of_filter PF_HEX = FMT_HEX"
| "format_of_filter PF_BITS = FMT_BITS"
| "format_of_filter PF_ADDR = FMT_ADDR"
| "format_of_filter PF_DEC = FMT_DEC"
| "format_of_filter PF_BYTES = FMT_BYTES"
| "format_of_filter _ = FMT_NONE"

definition parse_filter :: "string option \<Rightarrow> PrintFilter" where
  "parse_filter str =
     (case str of
        Some s \<Rightarrow>
          if str_eq s ''deref'' \<or> str_eq s ''*'' then PF_DEREF else filter_of_format (parse_format (Some s))
      | None \<Rightarrow> PF_NONE)"

definition default_filter :: "PrintFilter \<Rightarrow> PrintFilter \<Rightarrow> PrintFilter" where
  "default_filter current dflt = (if current = PF_NONE then dflt else current)"

text \<open>What is printed, with the extra argument that goes with it.\<close>

datatype PrintValueInfo =
    MEM_READ | MEM_READ_CONFIRM
  | REG_READ string | REG_READ_CONFIRM string
  | VAR_READ RuntimeVariable | VAR_READ_CONFIRM RuntimeVariable

definition indent :: string where "indent = replicate 9 (CHR '' '')"

text \<open>\<^verbatim>\<open>%8s\<close>.\<close>

definition pad_left :: "nat \<Rightarrow> string \<Rightarrow> string" where
  "pad_left w s = replicate (w - length s) (CHR '' '') @ s"

definition print_dereferenced ::
  "('d, 's, 'h, 'w) env \<Rightarrow> u64 \<Rightarrow> PrintValueInfo \<Rightarrow> (('s, 'h, 'w) debugger, unit) prog" where
  "print_dereferenced E val info =
     then_do (case info of VAR_READ var \<Rightarrow> from_c (mask_var_value (Some var) val) | _ \<Rightarrow> return val) (\<lambda>a.
     then_do (read_tracee (pt_read_memory (e_kernel E) (e_pid E) (RealAddr a))) (\<lambda>res.
       case res of
         Some deref \<Rightarrow>
           then_do (case info of
                      VAR_READ var \<Rightarrow> from_c (print_var_deref_value (Some var) deref FMT_BYTES)
                    | _ \<Rightarrow> return (print_format deref FMT_BYTES)) (\<lambda>deref_str.
             emit (Out (indent @ deref_str @ '' (at '' @ addr_format a @ '')'' @ newline)))
       | None \<Rightarrow> emit (Err (''Failed to dereference '' @ addr_format a))))"

definition print_value_line ::
  "('d, 's, 'h, 'w) env \<Rightarrow> u64 \<Rightarrow> FormatFilter \<Rightarrow> PrintValueInfo \<Rightarrow> (('s, 'h, 'w) debugger, unit) prog"
  where
  "print_value_line E val f info =
     (case info of
        MEM_READ \<Rightarrow> emit (Out (indent @ print_format val f @ newline))
      | MEM_READ_CONFIRM \<Rightarrow> emit (Out (indent @ print_format val f @ '' (read after write)'' @ newline))
      | REG_READ name \<Rightarrow> emit (Out (pad_left 8 name @ '' '' @ print_format val f @ newline))
      | REG_READ_CONFIRM name \<Rightarrow>
          emit (Out (pad_left 8 name @ '' '' @ print_format val f @ '' (read after write)'' @ newline))
      | VAR_READ var \<Rightarrow>
          then_do (from_c (print_var_value (Some var) val f)) (\<lambda>value_str.
          then_do (from_c (print_var_loc (e_getcwd E) (Some var))) (\<lambda>loc_str.
            emit (Out (indent @ value_str @ '' ('' @ loc_str @ '')'' @ newline))))
      | VAR_READ_CONFIRM var \<Rightarrow>
          then_do (from_c (print_var_value (Some var) val f)) (\<lambda>value_str.
          then_do (from_c (print_var_loc (e_getcwd E) (Some var))) (\<lambda>loc_str.
            emit (Out (indent @ value_str @ '' ('' @ loc_str @ '', read after write)'' @ newline)))))"

definition print_filtered ::
  "('d, 's, 'h, 'w) env \<Rightarrow> u64 \<Rightarrow> PrintFilter \<Rightarrow> PrintValueInfo \<Rightarrow> (('s, 'h, 'w) debugger, unit) prog" where
  "print_filtered E val flt info =
     (if flt = PF_DEREF then print_dereferenced E val info
      else print_value_line E val (format_of_filter flt) info)"

section \<open>The execution of commands\<close>

definition exec_print_memory ::
  "('d, 's, 'h, 'w) env \<Rightarrow> real_addr \<Rightarrow> PrintFilter \<Rightarrow> (('s, 'h, 'w) debugger, unit) prog" where
  "exec_print_memory E a flt =
     then_do (read_tracee (pt_read_memory (e_kernel E) (e_pid E) a)) (\<lambda>res.
       case res of
         Some rd \<Rightarrow> print_filtered E rd (default_filter flt PF_BYTES) MEM_READ
       | None \<Rightarrow>
           emit (Err (''Failed to read from child memory at address '' @ addr_format (real_value a))))"

definition exec_set_memory ::
  "('d, 's, 'h, 'w) env \<Rightarrow> real_addr \<Rightarrow> u64 \<Rightarrow> PrintFilter \<Rightarrow> (('s, 'h, 'w) debugger, unit) prog" where
  "exec_set_memory E a word flt =
     then_do (change_tracee (pt_write_memory (e_kernel E) (e_pid E) a word)) (\<lambda>write_res.
       if write_res = SP_ERR then
         emit (Err (''Failed to write to child memory at address '' @ addr_format (real_value a)))
       else
         then_do (read_tracee (pt_read_memory (e_kernel E) (e_pid E) a)) (\<lambda>read_res.
           case read_res of
             Some stored \<Rightarrow> print_filtered E stored (default_filter flt PF_BYTES) MEM_READ_CONFIRM
           | None \<Rightarrow>
               emit (Err (''Failed to read from child memory to confirm a write at address '' @
                 addr_format (real_value a)))))"

text \<open>An error message that ends in the name of a register.\<close>

definition register_err :: "string \<Rightarrow> x86_reg \<Rightarrow> (('s, 'h, 'w) debugger, unit) prog" where
  "register_err text reg =
     then_do (assert_some (get_name_from_register reg)) (\<lambda>name.
       emit (Err (text @ [CHR 0x27] @ name @ [CHR 0x27])))"

definition exec_print_register ::
  "('d, 's, 'h, 'w) env \<Rightarrow> x86_reg \<Rightarrow> string \<Rightarrow> PrintFilter \<Rightarrow> (('s, 'h, 'w) debugger, unit) prog" where
  "exec_print_register E reg reg_name flt =
     then_do (read_tracee (get_register_value (e_kernel E) (e_pid E) reg)) (\<lambda>res.
       case res of
         Some reg_word \<Rightarrow> print_filtered E reg_word (default_filter flt PF_BYTES) (REG_READ reg_name)
       | None \<Rightarrow> register_err ''Failed to read from child register '' reg)"

definition exec_set_register ::
  "('d, 's, 'h, 'w) env \<Rightarrow> x86_reg \<Rightarrow> string \<Rightarrow> u64 \<Rightarrow> PrintFilter \<Rightarrow> (('s, 'h, 'w) debugger, unit) prog"
  where
  "exec_set_register E reg reg_name word flt =
     then_do (change_tracee (set_register_value (e_kernel E) (e_pid E) reg word)) (\<lambda>write_res.
     then_do (if write_res = SP_ERR then register_err ''Failed to write to child register '' reg
              else return ()) (\<lambda>_.
     then_do (read_tracee (get_register_value (e_kernel E) (e_pid E) reg)) (\<lambda>read_res.
       case read_res of
         Some written \<Rightarrow> print_filtered E written (default_filter flt PF_BYTES) (REG_READ_CONFIRM reg_name)
       | None \<Rightarrow>
           register_err ''Failed to read from child register to confirm a write to child register '' reg)))"

text \<open>The variable of a name at the current program counter.\<close>

definition current_var ::
  "('d, 's, 'h, 'w) env \<Rightarrow> string \<Rightarrow> (('s, 'h, 'w) debugger, RuntimeVariable option) prog" where
  "current_var E var_name =
     then_do (get_dbg_pc E) (\<lambda>pc.
     then_do (get_state load_address) (\<lambda>load. init_var E pc load var_name))"

definition exec_print_variable ::
  "('d, 's, 'h, 'w) env \<Rightarrow> string \<Rightarrow> PrintFilter \<Rightarrow> (('s, 'h, 'w) debugger, unit) prog" where
  "exec_print_variable E var_name flt =
     then_do (current_var E var_name) (\<lambda>var.
       case var of
         None \<Rightarrow> emit (Err (''Failed to find a variable called '' @ var_name))
       | Some v \<Rightarrow>
           then_do (if is_addr_loc var then read_tracee (pt_read_memory (e_kernel E) (e_pid E) (var_loc_addr var))
                    else return None) (\<lambda>val.
           then_do (if is_reg_loc var then read_tracee (get_register_value (e_kernel E) (e_pid E) (var_loc_reg var))
                    else return val) (\<lambda>val.
             case val of
               None \<Rightarrow>
                 emit (Err (''Found a variable '' @ var_name @ '', but failed to read its value''))
             | Some val \<Rightarrow> print_filtered E val flt (VAR_READ v))))"

definition write_err :: "string \<Rightarrow> event" where
  "write_err var_name = Err (''Found a variable '' @ var_name @ '', but failed to write its value'')"

definition reread_err :: "string \<Rightarrow> event" where
  "reread_err var_name =
     Err (''Wrote to variable '' @ var_name @ '', but failed to read its new value for validation'')"

text \<open>A write to the location and a read from it; the result says whether both succeeded.\<close>

definition write_and_read ::
  "string \<Rightarrow> ('s \<Rightarrow> SprayResult \<times> 's) \<Rightarrow> ('s \<Rightarrow> u64 option) \<Rightarrow> (('s, 'h, 'w) debugger, bool) prog" where
  "write_and_read var_name wr rd =
     then_do (change_tracee wr) (\<lambda>res.
       if res = SP_ERR then then_do (emit (write_err var_name)) (\<lambda>_. return False)
       else
         then_do (read_tracee rd) (\<lambda>value_after.
           case value_after of
             None \<Rightarrow> then_do (emit (reread_err var_name)) (\<lambda>_. return False)
           | Some _ \<Rightarrow> return True))"

text \<open>What is printed is the value that was to be written, not the one that was read.\<close>

definition exec_set_variable ::
  "('d, 's, 'h, 'w) env \<Rightarrow> string \<Rightarrow> u64 \<Rightarrow> PrintFilter \<Rightarrow> (('s, 'h, 'w) debugger, unit) prog" where
  "exec_set_variable E var_name val flt =
     then_do (current_var E var_name) (\<lambda>var.
       case var of
         None \<Rightarrow> emit (Err (''Failed to find a variable called '' @ var_name))
       | Some v \<Rightarrow>
           then_do (if is_addr_loc var then
                      write_and_read var_name
                        (pt_write_memory (e_kernel E) (e_pid E) (var_loc_addr var) val)
                        (pt_read_memory (e_kernel E) (e_pid E) (var_loc_addr var))
                    else return True) (\<lambda>ok.
             if \<not> ok then return ()
             else
               then_do (if is_reg_loc var then
                          write_and_read var_name
                            (set_register_value (e_kernel E) (e_pid E) (var_loc_reg var) val)
                            (get_register_value (e_kernel E) (e_pid E) (var_loc_reg var))
                        else return True) (\<lambda>ok.
                 if \<not> ok then return ()
                 else print_filtered E val flt (VAR_READ_CONFIRM v))))"

definition exec_break :: "('d, 's, 'h, 'w) env \<Rightarrow> real_addr \<Rightarrow> (('s, 'h, 'w) debugger, unit) prog" where
  "exec_break E a = then_do (enable_bp E a) (\<lambda>_. return ())"

definition exec_delete :: "('d, 's, 'h, 'w) env \<Rightarrow> real_addr \<Rightarrow> (('s, 'h, 'w) debugger, unit) prog" where
  "exec_delete E a = then_do (disable_bp E a) (\<lambda>_. return ())"

definition exec_continue :: "('d, 's, 'h, 'w) env \<Rightarrow> (('s, 'h, 'w) debugger, unit) prog" where
  "exec_continue E =
     then_do (continue_execution E) (\<lambda>res.
       if res = SP_OK then
         then_do (wait_for_signal E) (\<lambda>res. if res = SP_OK then print_current_source E else return ())
       else return ())"

definition exec_inst :: "('d, 's, 'h, 'w) env \<Rightarrow> (('s, 'h, 'w) debugger, unit) prog" where
  "exec_inst E =
     then_do (single_step_instruction E) (\<lambda>res. if res = SP_OK then print_current_source E else return ())"

definition exec_leave :: "('d, 's, 'h, 'w) env \<Rightarrow> (('s, 'h, 'w) debugger, unit) prog" where
  "exec_leave E =
     then_do (step_out E) (\<lambda>res. if res = SP_OK then print_current_source E else return ())"

definition exec_step :: "('d, 's, 'h, 'w) env \<Rightarrow> (('s, 'h, 'w) debugger, unit) prog" where
  "exec_step E =
     then_do (single_step_line E) (\<lambda>res. if res = SP_OK then print_current_source E else return ())"

definition exec_next :: "('d, 's, 'h, 'w) env \<Rightarrow> (('s, 'h, 'w) debugger, unit) prog" where
  "exec_next E =
     then_do (step_over E) (\<lambda>res. if res = SP_OK then print_current_source E else return ())"

definition exec_backtrace :: "('d, 's, 'h, 'w) env \<Rightarrow> (('s, 'h, 'w) debugger, unit) prog" where
  "exec_backtrace E =
     then_do (get_dbg_pc E) (\<lambda>pc.
     then_do (get_state load_address) (\<lambda>load.
     then_do (init_backtrace E pc load) (\<lambda>backtrace.
       case backtrace of
         None \<Rightarrow> emit (Err ''Failed to determine backtrace'')
       | Some frames \<Rightarrow> print_backtrace frames)))"

section \<open>Dispatch\<close>

text \<open>
  The filter of \<^verbatim>\<open>print\<close> and \<^verbatim>\<open>set\<close> behind a pipe, with the index of the next token; \<open>None\<close>
  stands for the \<^verbatim>\<open>break\<close> out of the block.
\<close>

definition read_filter ::
  "string list \<Rightarrow> nat \<Rightarrow> (('s, 'h, 'w) debugger, (PrintFilter \<times> nat) option) prog" where
  "read_filter tokens i =
     (case next_token tokens i of
        (None, i) \<Rightarrow> return (Some (PF_NONE, i))
      | (Some delim_str, i) \<Rightarrow>
          if is_filter_delim (Some delim_str) then
            (case next_token tokens i of
               (filter_str, i) \<Rightarrow>
                 if parse_filter filter_str = PF_NONE
                 then then_do (emit (Err ''Invalid filter'')) (\<lambda>_. return None)
                 else return (Some (parse_filter filter_str, i)))
          else then_do (emit (Err ''Trailing characters in command'')) (\<lambda>_. return None))"

definition warn_register_name_conflict :: "string \<Rightarrow> (('s, 'h, 'w) debugger, unit) prog" where
  "warn_register_name_conflict ident =
     (case get_register_from_name ident of
        Some _ \<Rightarrow>
          then_do (emit (Warn (''The variable name '' @ [CHR 0x27] @ ident @ [CHR 0x27] @
            '' is also the name of a register''))) (\<lambda>_.
          emit (Hint (''All register names start with a '' @ [CHR 0x27] @ ''%'' @ [CHR 0x27] @
            ''. Use '' @ [CHR 0x27] @ ''%'' @ ident @ [CHR 0x27] @ '' to access the '' @
            [CHR 0x27] @ ident @ [CHR 0x27] @ '' register instead'')))
      | None \<Rightarrow> return ())"

text \<open>The commands \<^verbatim>\<open>break\<close> and \<^verbatim>\<open>delete\<close>, which differ in the messages and in what they execute.\<close>

definition handle_location ::
  "('d, 's, 'h, 'w) env \<Rightarrow> string \<Rightarrow> (real_addr \<Rightarrow> (('s, 'h, 'w) debugger, unit) prog) \<Rightarrow> string list \<Rightarrow> nat
     \<Rightarrow> (('s, 'h, 'w) debugger, unit) prog" where
  "handle_location E name exec tokens i =
     (case next_token tokens i of
        (None, _) \<Rightarrow> emit (Err (''Missing location for '' @ [CHR 0x27] @ name @ [CHR 0x27]))
      | (Some loc_str, i) \<Rightarrow>
          then_do (parse_break_location E loc_str) (\<lambda>a.
            case a of
              Some a \<Rightarrow>
                then_do (end_of_tokens tokens i) (\<lambda>at_end.
                  if \<not> at_end then return ()
                  else then_do (get_state load_address) (\<lambda>load. exec (dbg_to_real load a)))
            | None \<Rightarrow> emit (Err (''Invalid location for '' @ [CHR 0x27] @ name @ [CHR 0x27]))))"

definition handle_print ::
  "('d, 's, 'h, 'w) env \<Rightarrow> string list \<Rightarrow> nat \<Rightarrow> (('s, 'h, 'w) debugger, unit) prog" where
  "handle_print E tokens i =
     (case next_token tokens i of
        (None, _) \<Rightarrow> emit (Err ''Missing location to print the value of'')
      | (Some loc_str, i) \<Rightarrow>
          then_do (read_filter tokens i) (\<lambda>res.
            case res of
              None \<Rightarrow> return ()
            | Some (flt, i) \<Rightarrow>
                then_do (end_of_tokens tokens i) (\<lambda>at_end.
                  if \<not> at_end then return ()
                  else if loc_str \<noteq> [] \<and> hd loc_str = CHR ''%'' then
                    (case get_register_from_name (tl loc_str) of
                       Some reg \<Rightarrow> exec_print_register E reg (tl loc_str) flt
                     | None \<Rightarrow> emit (Err ''Invalid register name''))
                  else if is_valid_identifier loc_str then
                    then_do (warn_register_name_conflict loc_str) (\<lambda>_. exec_print_variable E loc_str flt)
                  else
                    (case parse_base16 loc_str of
                       Some a \<Rightarrow> exec_print_memory E (RealAddr a) flt
                     | None \<Rightarrow> emit (Err ''Invalid location to print the value of'')))))"

text \<open>The value to set, in base 10 if it can be read so, with the filter that goes with the base.\<close>

definition parse_value :: "string \<Rightarrow> PrintFilter \<Rightarrow> (u64 \<times> PrintFilter) option" where
  "parse_value value_str flt =
     (case parse_base10 value_str of
        Some val \<Rightarrow> Some (val, default_filter flt PF_DEC)
      | None \<Rightarrow>
          (case parse_base16 value_str of
             Some val \<Rightarrow> Some (val, default_filter flt PF_HEX)
           | None \<Rightarrow> None))"

definition handle_set ::
  "('d, 's, 'h, 'w) env \<Rightarrow> string list \<Rightarrow> nat \<Rightarrow> (('s, 'h, 'w) debugger, unit) prog" where
  "handle_set E tokens i =
     (case next_token tokens i of
        (None, _) \<Rightarrow> emit (Err ''Missing location to set the value of'')
      | (Some loc_str, i) \<Rightarrow>
     (case next_token tokens i of
        (None, _) \<Rightarrow> emit (Err ''Missing value to set the location to'')
      | (Some value_str, i) \<Rightarrow>
          then_do (read_filter tokens i) (\<lambda>res.
            case res of
              None \<Rightarrow> return ()
            | Some (flt, i) \<Rightarrow>
                then_do (end_of_tokens tokens i) (\<lambda>at_end.
                  if \<not> at_end then return ()
                  else
                    (case parse_value value_str flt of
                       None \<Rightarrow> emit (Err ''Invalid value to set the location to'')
                     | Some (val, flt) \<Rightarrow>
                         if loc_str \<noteq> [] \<and> hd loc_str = CHR ''%'' then
                           (case get_register_from_name (tl loc_str) of
                              Some reg \<Rightarrow> exec_set_register E reg (tl loc_str) val flt
                            | None \<Rightarrow> emit (Err ''Invalid register name''))
                         else if is_valid_identifier loc_str then exec_set_variable E loc_str val flt
                         else
                           (case parse_base16 loc_str of
                              Some a \<Rightarrow> exec_set_memory E (RealAddr a) val flt
                            | None \<Rightarrow> emit (Err ''Invalid location to set the value of'')))))))"

definition handle_plain ::
  "(('s, 'h, 'w) debugger, unit) prog \<Rightarrow> string list \<Rightarrow> nat \<Rightarrow> (('s, 'h, 'w) debugger, unit) prog" where
  "handle_plain exec tokens i =
     then_do (end_of_tokens tokens i) (\<lambda>at_end. if at_end then exec else return ())"

definition handle_debug_command_tokens ::
  "('d, 's, 'h, 'w) env \<Rightarrow> string list \<Rightarrow> (('s, 'h, 'w) debugger, unit) prog" where
  "handle_debug_command_tokens E tokens =
     (case next_token tokens 0 of
        (cmd, i) \<Rightarrow>
          if is_command cmd (CHR ''c'') ''continue'' then handle_plain (exec_continue E) tokens i
          else if is_command cmd (CHR ''b'') ''break'' then handle_location E ''break'' (exec_break E) tokens i
          else if is_command cmd (CHR ''d'') ''delete'' then handle_location E ''delete'' (exec_delete E) tokens i
          else if is_command cmd (CHR ''p'') ''print'' then handle_print E tokens i
          else if is_command cmd (CHR ''t'') ''set'' then handle_set E tokens i
          else if is_command cmd (CHR ''i'') ''inst'' then handle_plain (exec_inst E) tokens i
          else if is_command cmd (CHR ''l'') ''leave'' then handle_plain (exec_leave E) tokens i
          else if is_command cmd (CHR ''s'') ''step'' then handle_plain (exec_step E) tokens i
          else if is_command cmd (CHR ''n'') ''next'' then handle_plain (exec_next E) tokens i
          else if is_command cmd (CHR ''a'') ''backtrace'' then exec_backtrace E
          else emit (Err ''Unknown command''))"

definition handle_debug_command ::
  "('d, 's, 'h, 'w) env \<Rightarrow> string \<Rightarrow> (('s, 'h, 'w) debugger, unit) prog" where
  "handle_debug_command E line =
     (let tokens = get_command_tokens line in
      case next_token tokens 0 of
        (None, _) \<Rightarrow>
          then_do read_command (\<lambda>last.
            case last of
              Some last_line \<Rightarrow> handle_debug_command_tokens E (get_command_tokens last_line)
            | None \<Rightarrow> emit (Err ''No command to repeat''))
      | (Some _, _) \<Rightarrow>
          then_do (save_command line) (\<lambda>_. handle_debug_command_tokens E tokens))"

section \<open>The load address\<close>

text \<open>
  \<^verbatim>\<open>open_maps\<close> gives the content of a file that can be opened. \<^verbatim>\<open>getdelim\<close> stores the delimiter
  with the text in front of it, so that the number is never read to its end; the assertion
  that it is fails.
\<close>

definition proc_maps_filepath :: "pid_t \<Rightarrow> string" where
  "proc_maps_filepath pid = snprintf PROC_MAPS_FILEPATH_LEN (''/proc/'' @ show_int pid @ ''/maps'')"

definition getdelim :: "char \<Rightarrow> string \<Rightarrow> string option" where
  "getdelim delim content =
     (if content = [] then None
      else Some (takeWhile (\<lambda>c. c \<noteq> delim) content @ take 1 (dropWhile (\<lambda>c. c \<noteq> delim) content)))"

definition init_load_address ::
  "('d, 's, 'h, 'w) env \<Rightarrow> (string \<Rightarrow> string option) \<Rightarrow> (('s, 'h, 'w) debugger, unit) prog" where
  "init_load_address E open_maps =
     (if is_dyn_exec E then
        then_do (assert_some (open_maps (proc_maps_filepath (e_pid E)))) (\<lambda>content.
        then_do (assert_some (getdelim (CHR ''-'') content)) (\<lambda>addr_text.
        then_do (assert_some (parse_base16 addr_text)) (\<lambda>a st.
          Some (Value ((), st\<lparr>load_address := RealAddr a\<rparr>)))))
      else (\<lambda>st. Some (Value ((), st\<lparr>load_address := RealAddr 0\<rparr>))))"

section \<open>Setting up and running the debugger\<close>

text \<open>
  What \<^verbatim>\<open>setup_debugger\<close> comes to after \<^verbatim>\<open>fork\<close> has returned \<open>pid\<close>: in the child it is the
  program that is executed with its arguments, in the parent the new debugger, with the
  environment that has the executable and the process. The messages of a failure are printed
  before there is a debugger.
\<close>

datatype ('d, 's, 'h, 'w) setup_result =
    Setup_failed "event list"
  | In_child string "string list" 's
  | Set_up "('d, 's, 'h, 'w) env" "('s, 'h, 'w) debugger"

definition setup_debugger ::
  "('d, 's, 'h, 'w) env \<Rightarrow> elf_io \<Rightarrow> (string \<Rightarrow> bool) \<Rightarrow> (string \<Rightarrow> string option) \<Rightarrow> string \<Rightarrow> string list
     \<Rightarrow> pid_t \<Rightarrow> 's \<Rightarrow> ('d, 's, 'h, 'w) setup_result outcome option" where
  "setup_debugger E io file_exists open_maps prog_name prog_argv pid s =
     (if \<not> file_exists prog_name then
        Some (Value (Setup_failed [Err (''File '' @ prog_name @ '' doesn'' @ [CHR 0x27] @ ''t exist'')]))
      else
        (case init_debug_info (e_dwarf E) io (Some prog_name) of
           None \<Rightarrow> None
         | Some UB \<Rightarrow> Some Undefined
         | Some (Defined None) \<Rightarrow>
             Some (Value (Setup_failed [Err ''Failed to initialize debug information'',
               Hint (''Did you compile '' @ prog_name @ '' with debug information enabled? E.g. clang -g'')]))
         | Some (Defined (Some (elf, w))) \<Rightarrow>
             if pid = -1 then Some (Value (Setup_failed []))
             else if pid = 0 then
               (case pt_trace_me (e_kernel E) s of (_, s) \<Rightarrow> Some (Value (In_child prog_name prog_argv s)))
             else
               (case k_waitpid (e_kernel E) pid s of
                  (_, s) \<Rightarrow>
                    (case init_load_address (E\<lparr>e_elf := elf, e_pid := pid\<rparr>) open_maps
                        \<lparr>tracee = s, breakpoints = init_breakpoints (e_hashmap E) pid, dwarf = w,
                         symbols = [], load_address = RealAddr 0, last_command = init_history,
                         printed = []\<rparr> of
                       None \<Rightarrow> None
                     | Some Aborted \<Rightarrow> Some Aborted
                     | Some Undefined \<Rightarrow> Some Undefined
                     | Some (Value (_, st)) \<Rightarrow> Some (Value (Set_up (E\<lparr>e_elf := elf, e_pid := pid\<rparr>) st))))))"

text \<open>The lines that \<^verbatim>\<open>linenoise\<close> returns until it returns a null pointer.\<close>

primrec command_loop ::
  "('d, 's, 'h, 'w) env \<Rightarrow> string list \<Rightarrow> (('s, 'h, 'w) debugger, unit) prog" where
  "command_loop E [] = return ()"
| "command_loop E (line # lines) = then_do (handle_debug_command E line) (\<lambda>_. command_loop E lines)"

definition bugs :: string where
  "bugs = concat (replicate 3 [CHR 0xF0, CHR 0x9F, CHR 0x90, CHR 0x9B])"

definition start_at_main ::
  "('d, 's, 'h, 'w) env \<Rightarrow> nat \<Rightarrow> (('s, 'h, 'w) debugger, SprayResult) prog" where
  "start_at_main E main =
     then_do (function_start_addr E (Some main)) (\<lambda>start_main.
       case start_main of
         None \<Rightarrow> return SP_OK
       | Some start_main \<Rightarrow>
           then_do (get_state load_address) (\<lambda>load.
           then_do (enable_bp E (dbg_to_real load start_main)) (\<lambda>_.
           then_do (continue_execution E) (\<lambda>res.
             if res = SP_ERR then return SP_ERR
             else
               then_do (wait_for_signal E) (\<lambda>res.
                 if res = SP_ERR then return SP_ERR
                 else then_do (disable_bp E (dbg_to_real load start_main)) (\<lambda>_. return SP_OK))))))"

definition run_debugger ::
  "('d, 's, 'h, 'w) env \<Rightarrow> string list \<Rightarrow> (('s, 'h, 'w) debugger, unit) prog" where
  "run_debugger E lines =
     then_do (emit (Out (bugs @ '' '' @ show_int (e_pid E) @ '' '' @ bugs @ newline))) (\<lambda>_.
     then_do (sym_by_name E ''main'') (\<lambda>main.
       case main of
         None \<Rightarrow> return ()
       | Some main \<Rightarrow>
           then_do (start_at_main E main) (\<lambda>res.
             if res = SP_ERR then return ()
             else then_do (print_current_source E) (\<lambda>_. command_loop E lines))))"

end
