(* ===== verification/Running.thy ===== *)
theory Running
  imports Stepping
begin

text \<open>
  What running the process leaves as it is. The debugger's breakpoints are changed while it
  waits and steps, but only for a while: the contract \<open>stopped_process\<close> says what waiting,
  continuing and stepping rely on, and its two interpretations are the table of breakpoints
  alone and the table with the process memory.
\<close>

section \<open>What the kernel may do\<close>

text \<open>The states that letting the process run, or changing its registers, may lead to.\<close>

definition runs :: "('d, 's, 'h, 'w) env \<Rightarrow> 's \<Rightarrow> 's \<Rightarrow> bool" where
  "runs E s s' \<longleftrightarrow>
     s' = snd (snd (k_cont (e_kernel E) (e_pid E) s)) \<or>
     s' = snd (k_singlestep (e_kernel E) (e_pid E) s) \<or>
     s' = snd (k_waitpid (e_kernel E) (e_pid E) s) \<or>
     (\<exists>xs. s' = snd (k_setregs (e_kernel E) (e_pid E) xs s))"

lemma snd_write_registers: "snd (pt_write_registers K pid xs s) = snd (k_setregs K pid xs s)"
  by (simp add: pt_write_registers_def split: prod.split)

text \<open>No request to read or to write the memory fails, as while the process is stopped.\<close>

definition requests_ok :: "'s kernel \<Rightarrow> bool" where
  "requests_ok K \<longleftrightarrow>
     (\<forall>pid a s. pt_read_memory K pid a s \<noteq> None) \<and>
     (\<forall>pid a w s. fst (pt_write_memory K pid a w s) = SP_OK)"

text \<open>
  A computation is safe for an invariant: it keeps the invariant, enables no breakpoint that
  was not enabled, and disables none either if no request fails.
\<close>

definition safe ::
  "(('d, 's, 'h, 'w) env \<Rightarrow> ('s, 'h, 'w) debugger \<Rightarrow> bool) \<Rightarrow> ('d, 's, 'h, 'w) env
     \<Rightarrow> (('s, 'h, 'w) debugger, 'a) prog \<Rightarrow> bool" where
  "safe I E m \<longleftrightarrow>
     (\<forall>st a st'. I E st \<longrightarrow> m st = Some (Value (a, st')) \<longrightarrow>
        I E st' \<and> bp_set E st' \<subseteq> bp_set E st \<and>
        (requests_ok (e_kernel E) \<longrightarrow> bp_set E st' = bp_set E st))"

named_theorems safe_intros \<open>what is safe for an invariant\<close>

lemma safeD:
  assumes "safe I E m" "I E st" "m st = Some (Value (a, st'))"
  shows "I E st'" "bp_set E st' \<subseteq> bp_set E st"
    "requests_ok (e_kernel E) \<Longrightarrow> bp_set E st' = bp_set E st"
  using assms unfolding safe_def by blast+

lemma safe_return [safe_intros]: "safe I E (return a)"
  by (simp add: safe_def)

lemma safe_then_do [safe_intros]:
  assumes m: "safe I E m" and f: "\<And>a. safe I E (f a)"
  shows "safe I E (then_do m f)"
  unfolding safe_def
proof (intro allI impI)
  fix st b st'
  assume I: "I E st" and "then_do m f st = Some (Value (b, st'))"
  then obtain a st1 where 1: "m st = Some (Value (a, st1))" and 2: "f a st1 = Some (Value (b, st'))"
    by (auto simp: then_do_Value_iff)
  note first = safeD [OF m I 1]
  note second = safeD [OF f first(1) 2]
  from first second show "I E st' \<and> bp_set E st' \<subseteq> bp_set E st \<and>
      (requests_ok (e_kernel E) \<longrightarrow> bp_set E st' = bp_set E st)"
    by (intro conjI impI) auto
qed

lemma safe_elim:
  assumes "then_do m f st = Some (Value (a, st'))" "I E st" "safe I E m" "\<And>a. safe I E (f a)"
  shows "I E st' \<and> bp_set E st' \<subseteq> bp_set E st \<and>
    (requests_ok (e_kernel E) \<longrightarrow> bp_set E st' = bp_set E st)"
  using safe_then_do [OF assms(3,4)] assms(1,2) by (simp add: safe_def)

lemma safe_if [safe_intros]: "safe I E m \<Longrightarrow> safe I E n \<Longrightarrow> safe I E (if b then m else n)"
  by simp

lemma safe_option [safe_intros]:
  "safe I E m \<Longrightarrow> (\<And>a. safe I E (f a)) \<Longrightarrow> safe I E (case x of None \<Rightarrow> m | Some a \<Rightarrow> f a)"
  by (simp split: option.split)

lemma safe_if_at [safe_intros]:
  "safe I E m \<Longrightarrow> safe I E n \<Longrightarrow> safe I E (\<lambda>st. if b then m st else n st)"
  by (cases b) simp_all

lemma safe_option_at [safe_intros]:
  "safe I E m \<Longrightarrow> (\<And>a. safe I E (f a)) \<Longrightarrow>
   safe I E (\<lambda>st. case x of None \<Rightarrow> m st | Some a \<Rightarrow> f a st)"
  by (cases x) simp_all

text \<open>The results of the requests on the table when none fails.\<close>

lemma write_not_err: "requests_ok K \<Longrightarrow> pt_write_memory K pid a w s \<noteq> (SP_ERR, s')"
  by (metis SprayResult.distinct(1) fst_conv requests_ok_def)

lemma read_not_none: "requests_ok K \<Longrightarrow> pt_read_memory K pid a s \<noteq> None"
  by (simp add: requests_ok_def)

lemma enable_breakpoint_requests_ok:
  assumes "requests_ok K" "enable_breakpoint K H a (bps, s) = Ret (r, st')"
  shows "r = SP_OK"
  using assms(2) write_not_err [OF assms(1)] read_not_none [OF assms(1)]
  by (auto simp: enable_breakpoint_def Let_def
      simp del: not_None_eq
      split: option.splits if_splits prod.splits SprayResult.splits)

lemma disable_breakpoint_requests_ok:
  assumes "requests_ok K" "disable_breakpoint K H a (bps, s) = (r, st')"
  shows "r = SP_OK"
  using assms(2) write_not_err [OF assms(1)] read_not_none [OF assms(1)]
  by (auto simp: disable_breakpoint_def Let_def
      simp del: not_None_eq
      split: option.splits if_splits prod.splits SprayResult.splits)

lemma enable_bp_requests_ok:
  "requests_ok (e_kernel E) \<Longrightarrow> enable_bp E a st = Some (Value (r, st')) \<Longrightarrow> r = SP_OK"
  by (auto simp: enable_bp_def dest: enable_breakpoint_requests_ok split: run.splits prod.splits)

lemma disable_bp_requests_ok:
  "requests_ok (e_kernel E) \<Longrightarrow> disable_bp E a st = Some (Value (r, st')) \<Longrightarrow> r = SP_OK"
  by (auto simp: disable_bp_def dest: disable_breakpoint_requests_ok split: prod.splits)

section \<open>The contract\<close>

locale stopped_process =
  fixes inv :: "('d, 's, 'h, 'w) env \<Rightarrow> ('s, 'h, 'w) debugger \<Rightarrow> bool"
    and may_set :: "real_addr \<Rightarrow> bool"
  assumes enable_law: "inv E st \<Longrightarrow> may_set a \<Longrightarrow>
      \<exists>r st'. enable_bp E a st = Some (Value (r, st')) \<and> inv E st' \<and>
        bp_set E st' = (if r = SP_OK then insert a (bp_set E st) else bp_set E st)"
    and disable_law: "inv E st \<Longrightarrow>
      \<exists>r st'. disable_bp E a st = Some (Value (r, st')) \<and> inv E st' \<and>
        bp_set E st' = (if r = SP_OK then bp_set E st - {a} else bp_set E st)"
    and set_law: "inv E st \<Longrightarrow> a \<in> bp_set E st \<Longrightarrow> may_set a"
    and run_law: "inv E st \<Longrightarrow> runs E (tracee st) s' \<Longrightarrow> inv E (st\<lparr>tracee := s'\<rparr>)"
    and frame_law: "inv E st \<Longrightarrow> tracee st' = tracee st \<Longrightarrow> breakpoints st' = breakpoints st \<Longrightarrow> inv E st'"
begin

lemma enableD:
  assumes "inv E st" "may_set a" "enable_bp E a st = Some (Value (r, st'))"
  shows "inv E st'" "bp_set E st' = (if r = SP_OK then insert a (bp_set E st) else bp_set E st)"
  using enable_law [OF assms(1,2)] assms(3) by auto

lemma disableD:
  assumes "inv E st" "disable_bp E a st = Some (Value (r, st'))"
  shows "inv E st'" "bp_set E st' = (if r = SP_OK then bp_set E st - {a} else bp_set E st)"
  using disable_law [OF assms(1), of a] assms(2) by auto

lemma safe_keeps:
  assumes "keeps tracee m" "keeps breakpoints m"
  shows "safe inv E m"
  unfolding safe_def
proof (intro allI impI)
  fix st a st'
  assume inv: "inv E st" and m: "m st = Some (Value (a, st'))"
  have "breakpoints st' = breakpoints st" using keepsD [OF assms(2) m] .
  then show "inv E st' \<and> bp_set E st' \<subseteq> bp_set E st \<and>
      (requests_ok (e_kernel E) \<longrightarrow> bp_set E st' = bp_set E st)"
    using frame_law [OF inv keepsD [OF assms(1) m]] by (simp add: bp_set_def)
qed

lemma safe_runs:
  assumes "\<And>s. runs E s (snd (g s))"
  shows "safe inv E (change_tracee g)"
  using assms run_law by (fastforce simp: safe_def change_tracee_def bp_set_def split: prod.splits)

lemma safe_pc:
  "safe inv E (get_pc E)" "safe inv E (get_dbg_pc E)" "safe inv E (is_breakpoint E a)"
  "safe inv E (read_tracee g)" "safe inv E (emit e)" "safe inv E (from_c r)"
  unfolding get_pc_def get_dbg_pc_def is_breakpoint_def by (intro safe_keeps keeps_intros)+

lemma safe_single_step: "safe inv E (change_tracee (pt_single_step (e_kernel E) (e_pid E)))"
  by (rule safe_runs) (auto simp: runs_def pt_single_step_def split: prod.splits)

text \<open>
  The breakpoint under the program counter is disabled for one instruction; whatever runs in
  between does not see it.
\<close>

lemma safe_step_breakpoint:
  assumes wait: "safe inv E wait"
  shows "safe inv E (single_step_breakpoint_with E wait)"
proof -
  have run: "safe inv E (then_do (change_tracee (pt_single_step (e_kernel E) (e_pid E))) (\<lambda>_. wait))"
    by (intro safe_intros safe_single_step wait)
  have "inv E st' \<and> bp_set E st' \<subseteq> bp_set E st \<and>
      (requests_ok (e_kernel E) \<longrightarrow> bp_set E st' = bp_set E st)"
    if inv: "inv E st" and a: "a \<in> bp_set E st"
      and m: "then_do (disable_bp E a) (\<lambda>_.
         then_do (change_tracee (pt_single_step (e_kernel E) (e_pid E))) (\<lambda>_.
         then_do wait (\<lambda>res. then_do (enable_bp E a) (\<lambda>_. return res)))) st = Some (Value (x, st'))"
    for st a x st'
  proof -
    from m have "then_do (disable_bp E a) (\<lambda>_.
        then_do (then_do (change_tracee (pt_single_step (e_kernel E) (e_pid E))) (\<lambda>_. wait))
          (\<lambda>res. then_do (enable_bp E a) (\<lambda>_. return res))) st = Some (Value (x, st'))"
      by (simp only: then_do_assoc)
    then obtain r1 st1 st2 r2 where d: "disable_bp E a st = Some (Value (r1, st1))"
      and w: "then_do (change_tracee (pt_single_step (e_kernel E) (e_pid E))) (\<lambda>_. wait) st1 = Some (Value (x, st2))"
      and e: "enable_bp E a st2 = Some (Value (r2, st'))"
      by (auto simp: then_do_Value_iff)
    note d' = disableD [OF inv d]
    note w' = safeD [OF run d'(1) w]
    note e' = enableD [OF w'(1) set_law [OF inv a] e]
    have "bp_set E st' = bp_set E st" if ok: "requests_ok (e_kernel E)"
      using d'(2) w'(3) [OF ok] e'(2) a disable_bp_requests_ok [OF ok d] enable_bp_requests_ok [OF ok e]
      by auto
    moreover have "bp_set E st' \<subseteq> bp_set E st"
      using d'(2) w'(2) e'(2) a by (auto split: if_splits)
    ultimately show ?thesis using e'(1) by blast
  qed
  then show ?thesis
    unfolding safe_def single_step_breakpoint_with_def
    by (auto simp: then_do_Value_iff get_pc_def is_breakpoint_def bp_set_def split: if_splits)
qed

lemma safe_continue_with:
  assumes "safe inv E wait"
  shows "safe inv E (continue_execution_with E wait)"
proof -
  have "safe inv E (change_tracee (\<lambda>s.
      case pt_continue_execution (e_kernel E) (e_pid E) s of (_, errno, s') \<Rightarrow> (errno, s')))"
    by (rule safe_runs) (auto simp: runs_def pt_continue_execution_def split: prod.splits)
  then show ?thesis
    unfolding continue_execution_with_def
    by (intro safe_intros safe_step_breakpoint assms safe_pc)
qed

lemma safe_sigtrap: "safe inv E (handle_sigtrap E info)"
proof -
  have "runs E s (snd (pt_write_registers (e_kernel E) (e_pid E) xs s))" for s xs
    by (auto simp: runs_def snd_write_registers)
  then have "inv E (st\<lparr>tracee := snd (set_register_value (e_kernel E) (e_pid E) RIP v (tracee st))\<rparr>)"
    if "inv E st" for st v
    using that run_law [OF that]
    by (cases "pt_read_registers (e_kernel E) (e_pid E) (tracee st)") (simp_all add: set_register_value_def)
  then have "safe inv E (set_pc E a)" for a
    unfolding safe_def set_pc_def then_do_Value_iff change_tracee_def
    by (auto simp: bp_set_def split: prod.splits) (metis snd_conv)+
  then show ?thesis unfolding handle_sigtrap_def by (intro safe_intros safe_pc)
qed

lemma safe_messages: "safe inv E (print_info text)" "safe inv E (print_signal text sig)"
  unfolding print_info_def print_signal_def by (intro safe_intros safe_pc)+

lemma safe_wait: "safe inv E (wait_for_signal E)"
proof -
  have "inv E st \<longrightarrow> (\<forall>a st'. y = Value (a, st') \<longrightarrow> inv E st' \<and> bp_set E st' \<subseteq> bp_set E st \<and>
      (requests_ok (e_kernel E) \<longrightarrow> bp_set E st' = bp_set E st))"
    if "wait_for_signal E st = Some y" for E st y
    using that
  proof (induction rule: wait_for_signal.raw_induct [rotated, consumes 1, case_names step])
    case (step w E st y)
    then have w: "safe inv E (w E)" by (auto simp: safe_def)
    have waitpid: "safe inv E (change_tracee (k_waitpid (e_kernel E) (e_pid E)))"
      by (rule safe_runs) (auto simp: runs_def)
    show ?case
    proof (intro impI allI)
      fix a st'
      assume I: "inv E st" and y: "y = Value (a, st')"
      show "inv E st' \<and> bp_set E st' \<subseteq> bp_set E st \<and>
          (requests_ok (e_kernel E) \<longrightarrow> bp_set E st' = bp_set E st)"
        by (rule safe_elim [where I = inv, OF step(2) [unfolded y] I])
          (intro safe_intros safe_pc safe_messages safe_sigtrap safe_continue_with w waitpid)+
    qed
  qed
  then show ?thesis unfolding safe_def by blast
qed

lemma safe_continue: "safe inv E (continue_execution E)" "safe inv E (single_step_breakpoint E)"
  unfolding continue_execution_def single_step_breakpoint_def
  by (intro safe_continue_with safe_step_breakpoint safe_wait)+

lemma safe_step_instruction: "safe inv E (single_step_instruction E)"
  unfolding single_step_instruction_def
  by (intro safe_intros safe_pc safe_continue safe_single_step safe_wait)

lemma safe_position: "safe inv E (addr_position E a)"
  by (intro safe_keeps keeps_intros)

lemma safe_step_line_loop: "safe inv E (step_line_loop E l pos n)"
proof -
  have "inv E st \<longrightarrow> (\<forall>a st'. y = Value (a, st') \<longrightarrow> inv E st' \<and> bp_set E st' \<subseteq> bp_set E st \<and>
      (requests_ok (e_kernel E) \<longrightarrow> bp_set E st' = bp_set E st))"
    if "step_line_loop E l pos n st = Some y" for E l pos n st y
    using that
  proof (induction rule: step_line_loop.raw_induct [rotated, consumes 1, case_names step])
    case (step w E l pos n st y)
    then have w: "safe inv E (w E l p k)" for p k by (auto simp: safe_def)
    show ?case
    proof (intro impI allI)
      fix a st'
      assume I: "inv E st" and y: "y = Value (a, st')"
      show "inv E st' \<and> bp_set E st' \<subseteq> bp_set E st \<and>
          (requests_ok (e_kernel E) \<longrightarrow> bp_set E st' = bp_set E st)"
      proof (cases "\<not> pos_is_exact pos \<or> pos_line pos = l")
        case True
        show ?thesis
          by (rule safe_elim [where I = inv, OF step(2) [unfolded y if_P [OF True]] I])
            (intro safe_intros safe_pc safe_step_instruction safe_position w)+
      next
        case False
        with step(2) y I show ?thesis by simp
      qed
    qed
  qed
  then show ?thesis unfolding safe_def by blast
qed

lemma safe_step_line: "safe inv E (single_step_line E)"
  unfolding single_step_line_def
  by (intro safe_intros safe_pc safe_step_line_loop safe_position)

text \<open>
  Where every address may get a breakpoint, the internal ones are gone again after stepping
  out of a function and over a line.
\<close>

lemma return_address_breakpoint:
  assumes inv: "inv E st" and any: "\<And>a. may_set a"
    and m: "set_return_address_breakpoint E st = Some (Value ((new, a), st'))"
  shows "inv E st'"
    and "requests_ok (e_kernel E) \<Longrightarrow>
      bp_set E st' = (if new then insert a (bp_set E st) else bp_set E st) \<and> (new \<longrightarrow> a \<notin> bp_set E st)"
proof -
  from m consider "\<not> new" "st' = st" "a \<in> bp_set E st"
    | r where "new" "a \<notin> bp_set E st" "enable_bp E a st = Some (Value (r, st'))"
    by (auto simp: set_return_address_breakpoint_def then_do_Value_iff assert_some_def is_breakpoint_def
        bp_set_def Let_def split: option.splits if_splits)
  then have "inv E st' \<and> (requests_ok (e_kernel E) \<longrightarrow>
      bp_set E st' = (if new then insert a (bp_set E st) else bp_set E st) \<and> (new \<longrightarrow> a \<notin> bp_set E st))"
  proof cases
    case 1
    with inv show ?thesis by simp
  next
    case 2
    with enableD [OF inv any 2(3)] enable_bp_requests_ok [of E a st r st'] show ?thesis by simp
  qed
  then show "inv E st'" "requests_ok (e_kernel E) \<Longrightarrow>
      bp_set E st' = (if new then insert a (bp_set E st) else bp_set E st) \<and> (new \<longrightarrow> a \<notin> bp_set E st)"
    by blast+
qed

lemma disable_all_set:
  "inv E st \<Longrightarrow> disable_all E as st = Some (Value (u, st')) \<Longrightarrow>
   inv E st' \<and> (requests_ok (e_kernel E) \<longrightarrow> bp_set E st' = bp_set E st - set as)"
proof (induction as arbitrary: st)
  case (Cons a as)
  then obtain r st1 where d: "disable_bp E a st = Some (Value (r, st1))"
    and "disable_all E as st1 = Some (Value (u, st'))" by (auto simp: then_do_Value_iff)
  with disableD [OF Cons.prems(1) d] Cons.IH disable_bp_requests_ok [of E a st r st1]
  show ?case by auto
qed simp

lemma disable_if:
  assumes inv: "inv E st"
    and m: "(if new then then_do (disable_bp E a) (\<lambda>_. return ()) else return ()) st = Some (Value (u, st'))"
  shows "inv E st' \<and> (requests_ok (e_kernel E) \<longrightarrow>
    bp_set E st' = (if new then bp_set E st - {a} else bp_set E st))"
  using m disableD [OF inv, of a] inv disable_bp_requests_ok [of E a st]
  by (auto simp: then_do_Value_iff split: if_splits)

lemma safe_run: "safe inv E (then_do (continue_execution E) (\<lambda>_. wait_for_signal E))"
  by (intro safe_intros safe_continue safe_wait)

text \<open>How stepping out and stepping over end: both delete the breakpoints that they have set.\<close>

lemma internal_breakpoints:
  assumes inv: "inv E st" and any: "\<And>a. may_set a"
    and m: "then_do (set_return_address_breakpoint E) (\<lambda>(new, a).
      then_do (continue_execution E) (\<lambda>_.
      then_do (wait_for_signal E) (\<lambda>res.
      then_do (disable_all E dels) (\<lambda>_.
      then_do (if new then then_do (disable_bp E a) (\<lambda>_. return ()) else return ()) (\<lambda>_. return res))))) st
    = Some (Value (res, st'))"
  shows "inv E st' \<and> (requests_ok (e_kernel E) \<longrightarrow> bp_set E st' = bp_set E st - set dels)"
proof -
  from m have "then_do (set_return_address_breakpoint E) (\<lambda>(new, a).
      then_do (then_do (continue_execution E) (\<lambda>_. wait_for_signal E)) (\<lambda>res.
      then_do (disable_all E dels) (\<lambda>_.
      then_do (if new then then_do (disable_bp E a) (\<lambda>_. return ()) else return ()) (\<lambda>_. return res)))) st
    = Some (Value (res, st'))"
    by (simp only: then_do_assoc)
  then obtain new a st1 st2 st3 where
    1: "set_return_address_breakpoint E st = Some (Value ((new, a), st1))"
    and 2: "then_do (continue_execution E) (\<lambda>_. wait_for_signal E) st1 = Some (Value (res, st2))"
    and 3: "disable_all E dels st2 = Some (Value ((), st3))"
    and 4: "(if new then then_do (disable_bp E a) (\<lambda>_. return ()) else return ()) st3 = Some (Value ((), st'))"
    by (auto simp: then_do_Value_iff [of "set_return_address_breakpoint E"]
        then_do_Value_iff [of "then_do (continue_execution E) _"] then_do_Value_iff [of "disable_all E _"]
        then_do_Value_iff [of "if _ then _ else _"])
  note ret = return_address_breakpoint [OF inv any 1]
  note run = safeD [OF safe_run ret(1) 2]
  note dis = disable_all_set [OF run(1) 3]
  have inv3: "inv E st3" using dis by blast
  from disable_if [OF inv3 4] ret(2) run(3) dis show ?thesis by auto
qed

lemma step_out_restores:
  assumes "inv E st" and "\<And>a. may_set a" and m: "step_out E st = Some (Value (res, st'))"
  shows "inv E st' \<and> (requests_ok (e_kernel E) \<longrightarrow> bp_set E st' = bp_set E st)"
proof -
  have "step_out E st = then_do (set_return_address_breakpoint E) (\<lambda>(new, a).
      then_do (continue_execution E) (\<lambda>_.
      then_do (wait_for_signal E) (\<lambda>res.
      then_do (disable_all E []) (\<lambda>_.
      then_do (if new then then_do (disable_bp E a) (\<lambda>_. return ()) else return ()) (\<lambda>_. return res))))) st"
    by (simp add: step_out_def)
  from internal_breakpoints [OF assms(1,2) m [unfolded this]] show ?thesis by simp
qed

text \<open>The callback that sets the breakpoints works on the table and the process alone.\<close>

lemma set_line_breakpoints:
  assumes any: "\<And>a. may_set a"
  shows "inv E (st\<lparr>breakpoints := fst (cb_store c), tracee := snd (cb_store c)\<rparr>) \<Longrightarrow>
    run_all (callback__set_dwarf_line_breakpoint (e_kernel E) (e_hashmap E) load skip) lines c = Ret (r, c') \<Longrightarrow>
    inv E (st\<lparr>breakpoints := fst (cb_store c'), tracee := snd (cb_store c')\<rparr>) \<and>
    (requests_ok (e_kernel E) \<longrightarrow> (\<exists>new. to_del c' = to_del c @ new \<and>
       set new \<inter> bp_set E (st\<lparr>breakpoints := fst (cb_store c), tracee := snd (cb_store c)\<rparr>) = {} \<and>
       bp_set E (st\<lparr>breakpoints := fst (cb_store c'), tracee := snd (cb_store c')\<rparr>) =
       bp_set E (st\<lparr>breakpoints := fst (cb_store c), tracee := snd (cb_store c)\<rparr>) \<union> set new))"
proof (induction lines arbitrary: c)
  case (Cons l lines)
  let ?st = "\<lambda>c. st\<lparr>breakpoints := fst (cb_store c), tracee := snd (cb_store c)\<rparr>"
  let ?a = "RealAddr (dbg_value (addr l) - real_value load)"
  show ?case
  proof (cases "skip \<noteq> ln l \<and> ?a \<notin> bp_set E (?st c)")
    case False
    then have "callback__set_dwarf_line_breakpoint (e_kernel E) (e_hashmap E) load skip l c = Ret (SP_OK, c)"
      by (auto simp: callback__set_dwarf_line_breakpoint_def bp_set_def Let_def)
    with Cons show ?thesis by simp
  next
    case True
    from enable_law [OF Cons.prems(1) any, of ?a] obtain q b s where
      en: "enable_breakpoint (e_kernel E) (e_hashmap E) ?a (cb_store c) = Ret (q, b, s)"
      by (auto simp: enable_bp_def split: run.splits prod.splits)
    let ?c = "c\<lparr>to_del := to_del c @ [?a], cb_store := (b, s)\<rparr>"
    from True en have cb: "callback__set_dwarf_line_breakpoint (e_kernel E) (e_hashmap E) load skip l c
        = Ret (SP_OK, ?c)"
      by (simp add: callback__set_dwarf_line_breakpoint_def bp_set_def Let_def)
    from en have e: "enable_bp E ?a (?st c) = Some (Value (q, ?st ?c))"
      by (simp add: enable_bp_def)
    note e' = enableD [OF Cons.prems(1) any e]
    from Cons.prems(2) cb have "run_all (callback__set_dwarf_line_breakpoint (e_kernel E) (e_hashmap E) load skip)
        lines ?c = Ret (r, c')" by simp
    note rest = Cons.IH [OF e'(1) this]
    have "\<exists>new. to_del c' = to_del c @ new \<and> set new \<inter> bp_set E (?st c) = {} \<and>
        bp_set E (?st c') = bp_set E (?st c) \<union> set new" if ok: "requests_ok (e_kernel E)"
    proof -
      from rest ok obtain new where new: "to_del c' = to_del ?c @ new" "set new \<inter> bp_set E (?st ?c) = {}"
        "bp_set E (?st c') = bp_set E (?st ?c) \<union> set new" by blast
      with e'(2) enable_bp_requests_ok [OF ok e] True show ?thesis
        by (intro exI [of _ "?a # new"]) auto
    qed
    with rest show ?thesis by blast
  qed
qed auto

lemma for_each_line_breakpoints:
  assumes inv: "inv E st" and any: "\<And>a. may_set a"
    and m: "for_each_line_bp E f path skip st = Some (Value (dels, st'))"
  shows "inv E st' \<and> (requests_ok (e_kernel E) \<longrightarrow>
    set dels \<inter> bp_set E st = {} \<and> bp_set E st' = bp_set E st \<union> set dels)"
proof -
  let ?cb = "callback__set_dwarf_line_breakpoint (e_kernel E) (e_hashmap E) (load_address st) skip"
  let ?c = "\<lparr>to_del = [], cb_store = (breakpoints st, tracee st)\<rparr> :: ('s, 'h) CallbackData"
  let ?st = "\<lambda>c. st\<lparr>breakpoints := fst (cb_store c), tracee := snd (cb_store c)\<rparr>"
  from m obtain r c w where
    each: "sd_for_each_line (e_dwarf E) (e_realpath E) f path ?cb ?c (dwarf st) = Some (Ret (r, c), w)"
    and res: "dels = to_del c" "st' = (?st c)\<lparr>dwarf := w\<rparr>"
    by (auto simp: for_each_line_bp_def split: option.splits run.splits prod.splits)
  from each obtain lines r' where "run_all ?cb lines ?c = Ret (r', c)"
  proof (cases "\<exists>ls hi. line_loop ?cb hi ls ?c = Ret (r, c)")
    case True
    then show ?thesis using that unfolding line_loop_run_all by blast
  next
    case False
    with each have "c = ?c"
      by (auto simp: sd_for_each_line_def dw_bind_def dw_return_def split: option.splits prod.splits if_splits)
    then show ?thesis using that [of "[]"] by simp
  qed
  moreover have "inv E (?st ?c)" using inv by simp
  ultimately have "inv E (?st c) \<and> (requests_ok (e_kernel E) \<longrightarrow>
      set (to_del c) \<inter> bp_set E st = {} \<and> bp_set E (?st c) = bp_set E st \<union> set (to_del c))"
    using set_line_breakpoints [OF any, of E ?c st "load_address st" skip] by (fastforce simp: bp_set_def)
  then show ?thesis unfolding res using frame_law [of E "?st c" "(?st c)\<lparr>dwarf := w\<rparr>"]
    by (simp add: bp_set_def)
qed

lemma step_over_breakpoints_set:
  assumes inv: "inv E st" and any: "\<And>a. may_set a"
    and m: "set_step_over_breakpoints E func st = Some (Value (res, st'))"
  shows "inv E st' \<and> (requests_ok (e_kernel E) \<longrightarrow>
    (case res of None \<Rightarrow> bp_set E st' = bp_set E st
     | Some dels \<Rightarrow> set dels \<inter> bp_set E st = {} \<and> bp_set E st' = bp_set E st \<union> set dels))"
proof (cases func)
  case None
  with m inv show ?thesis by (simp add: set_step_over_breakpoints_def)
next
  case (Some p)
  have lookups: "safe inv E (then_do (sym_position E func) (\<lambda>pos.
      then_do (sym_name E func) (\<lambda>name. then_do (sym_filepath E func) (\<lambda>path. return (pos, name, path)))))"
    unfolding sym_name_def by (intro safe_keeps keeps_intros)+
  from m Some obtain pos st1 name st2 path st3 where
    l: "sym_position E func st = Some (Value (pos, st1))" "sym_name E func st1 = Some (Value (name, st2))"
       "sym_filepath E func st2 = Some (Value (path, st3))"
    and rest: "(case (pos, name, path) of
        (Some pos, Some func_name, Some path) \<Rightarrow>
          then_do (for_each_line_bp E func_name path (pos_line pos)) (\<lambda>dels. return (Some dels))
      | _ \<Rightarrow> return None) st3 = Some (Value (res, st'))"
    by (auto simp: set_step_over_breakpoints_def elim!: then_do_ValueE)
  from l have "then_do (sym_position E func) (\<lambda>pos.
      then_do (sym_name E func) (\<lambda>name. then_do (sym_filepath E func) (\<lambda>path. return (pos, name, path)))) st
      = Some (Value ((pos, name, path), st3))"
    by (simp add: then_do_Value)
  note l' = safeD [OF lookups inv this]
  show ?thesis
  proof (cases "(pos, name, path)")
    case (fields a b c)
    show ?thesis
    proof (cases "res")
      case None
      with rest l' show ?thesis by (auto simp: then_do_Value_iff split: option.splits)
    next
      case res: (Some dels)
      from rest res obtain f pa pl where "for_each_line_bp E f pa pl st3 = Some (Value (dels, st'))"
        by (auto simp: then_do_Value_iff split: option.splits)
      from for_each_line_breakpoints [OF l'(1) any this] l'(3) res show ?thesis by auto
    qed
  qed
qed

lemma step_over_restores:
  assumes inv: "inv E st" and any: "\<And>a. may_set a"
    and m: "step_over E st = Some (Value (res, st'))"
  shows "inv E st' \<and> (requests_ok (e_kernel E) \<longrightarrow> bp_set E st' = bp_set E st)"
proof -
  from m obtain pc st1 func st2 where pc: "get_dbg_pc E st = Some (Value (pc, st1))"
    and func: "sym_by_addr E pc st1 = Some (Value (func, st2))"
    and rest: "(case func of
       None \<Rightarrow> then_do (emit (Err ''Failed to find current function'')) (\<lambda>_. return SP_ERR)
     | Some _ \<Rightarrow> then_do (set_step_over_breakpoints E func) (\<lambda>set_res.
         case set_res of
           None \<Rightarrow> then_do (emit (Err ''Failed to set breakpoints in current scope'')) (\<lambda>_. return SP_ERR)
         | Some dels \<Rightarrow> then_do (set_return_address_breakpoint E) (\<lambda>(new, a).
             then_do (continue_execution E) (\<lambda>_. then_do (wait_for_signal E) (\<lambda>res.
             then_do (disable_all E dels) (\<lambda>_.
             then_do (if new then then_do (disable_bp E a) (\<lambda>_. return ()) else return ())
               (\<lambda>_. return res))))))) st2 = Some (Value (res, st'))"
    unfolding step_over_def by (elim then_do_ValueE) blast
  have "safe inv E (sym_by_addr E pc)" by (intro safe_keeps keeps_intros)
  with safeD [OF safe_pc(2) inv pc] func have inv2: "inv E st2" and same: "bp_set E st2 \<subseteq> bp_set E st"
    "requests_ok (e_kernel E) \<Longrightarrow> bp_set E st2 = bp_set E st"
    by (auto dest: safeD)
  show ?thesis
  proof (cases func)
    case None
    then have "safe inv E (then_do (emit (Err ''Failed to find current function'')) (\<lambda>_. return SP_ERR))"
      by (intro safe_intros safe_pc)
    from safeD [OF this inv2] rest None same show ?thesis by simp
  next
    case (Some p)
    from rest obtain set_res st3 where sets: "set_step_over_breakpoints E func st2 = Some (Value (set_res, st3))"
      and tail: "(case set_res of
           None \<Rightarrow> then_do (emit (Err ''Failed to set breakpoints in current scope'')) (\<lambda>_. return SP_ERR)
         | Some dels \<Rightarrow> then_do (set_return_address_breakpoint E) (\<lambda>(new, a).
             then_do (continue_execution E) (\<lambda>_. then_do (wait_for_signal E) (\<lambda>res.
             then_do (disable_all E dels) (\<lambda>_.
             then_do (if new then then_do (disable_bp E a) (\<lambda>_. return ()) else return ())
               (\<lambda>_. return res)))))) st3 = Some (Value (res, st'))"
      unfolding Some option.case by (elim then_do_ValueE) blast
    note set3 = step_over_breakpoints_set [OF inv2 any sets]
    show ?thesis
    proof (cases set_res)
      case None
      then have "safe inv E (then_do (emit (Err ''Failed to set breakpoints in current scope'')) (\<lambda>_. return SP_ERR))"
        by (intro safe_intros safe_pc)
      with None tail set3 same show ?thesis by (auto dest: safeD)
    next
      case dels: (Some dels)
      from set3 dels have inv3: "inv E st3" by simp
      from internal_breakpoints [OF inv3 any tail [unfolded dels option.case]] set3 dels same
      show ?thesis by auto
    qed
  qed
qed

end

section \<open>The table of breakpoints alone\<close>

definition table_ok :: "('d, 's, 'h, 'w) env \<Rightarrow> ('s, 'h, 'w) debugger \<Rightarrow> bool" where
  "table_ok E st \<longleftrightarrow> hashmap_ok (e_hashmap E) \<and>
     (\<forall>a b. get_breakpoint (e_hashmap E) (breakpoints st) a = Some b \<longrightarrow> bp_addr b = a)"

text \<open>The table after an entry has been made if there was none.\<close>

definition with_entry :: "'h hashmap \<Rightarrow> 'h Breakpoints \<Rightarrow> real_addr \<Rightarrow> 'h Breakpoints" where
  "with_entry H bps a =
     (case get_breakpoint H bps a of
        None \<Rightarrow> bps\<lparr>bp_map := hm_set H (bp_map bps) (entry_at a)\<rparr>
      | Some _ \<Rightarrow> bps)"

lemma get_with_entry:
  "hashmap_ok H \<Longrightarrow> get_breakpoint H (with_entry H bps a) b =
     (if b = a \<and> get_breakpoint H bps a = None then Some (entry_at a) else get_breakpoint H bps b)"
  by (auto simp: with_entry_def get_breakpoint_map split: option.split)

lemma enable_breakpoint_cases [consumes 2, case_names failed enabled set]:
  assumes "get_breakpoint H (with_entry H bps a) a = Some e" "bp_addr e = a"
  obtains (failed) s' where "enable_breakpoint K H a (bps, s) = Ret (SP_ERR, with_entry H bps a, s')"
  | (enabled) "bp_enabled e" "enable_breakpoint K H a (bps, s) = Ret (SP_OK, with_entry H bps a, s)"
  | (set) s' x where "enable_breakpoint K H a (bps, s) =
      Ret (SP_OK, with_entry H bps a\<lparr>bp_map := hm_set H (bp_map (with_entry H bps a))
        \<lparr>bp_addr = a, bp_enabled = True, bp_orig = x\<rparr>\<rparr>, s')"
proof -
  have eq: "enable_breakpoint K H a (bps, s) =
      (if \<not> bp_enabled e then
         (case pt_read_memory K (bp_pid (with_entry H bps a)) a s of
            None \<Rightarrow> Ret (SP_ERR, with_entry H bps a, s)
          | Some word \<Rightarrow>
              (case pt_write_memory K (bp_pid (with_entry H bps a)) a
                  ((word AND NOT BTM_BYTE_MASK) OR INT3) s of
                 (SP_ERR, s') \<Rightarrow> Ret (SP_ERR, with_entry H bps a, s')
               | (SP_OK, s') \<Rightarrow> Ret (SP_OK, with_entry H bps a\<lparr>bp_map :=
                   hm_set H (bp_map (with_entry H bps a)) \<lparr>bp_addr = a, bp_enabled = True,
                     bp_orig = ucast (word AND BTM_BYTE_MASK)\<rparr>\<rparr>, s')))
       else Ret (SP_OK, with_entry H bps a, s))"
    unfolding enable_breakpoint_def with_entry_def [symmetric] prod.case Let_def assms option.case ..
  show ?thesis
  proof (cases "bp_enabled e")
    case True
    then show ?thesis using that(2) eq by simp
  next
    case False
    show ?thesis
    proof (cases "pt_read_memory K (bp_pid (with_entry H bps a)) a s")
      case None
      with False show ?thesis using that(1) eq by simp
    next
      case (Some w)
      obtain r s' where "pt_write_memory K (bp_pid (with_entry H bps a)) a
          ((w AND NOT BTM_BYTE_MASK) OR INT3) s = (r, s')" by fastforce
      with False Some show ?thesis using that(1,3) eq by (cases r) simp_all
    qed
  qed
qed

lemma table_enable:
  assumes "table_ok E st"
  shows "\<exists>r st'. enable_bp E a st = Some (Value (r, st')) \<and> table_ok E st' \<and>
    bp_set E st' = (if r = SP_OK then insert a (bp_set E st) else bp_set E st)"
proof -
  let ?H = "e_hashmap E"
  from assms have ok: "hashmap_ok ?H" by (simp add: table_ok_def)
  let ?bps = "with_entry ?H (breakpoints st) a"
  obtain e where e: "get_breakpoint ?H ?bps a = Some e" "bp_addr e = a"
    and en: "bp_enabled e \<longleftrightarrow> a \<in> bp_set E st"
    using assms ok by (cases "get_breakpoint ?H (breakpoints st) a")
      (auto simp: get_with_entry table_ok_def bp_set_def lookup_get)
  from e show ?thesis
  proof (cases rule: enable_breakpoint_cases [where K = "e_kernel E" and s = "tracee st"])
    case (failed s')
    with assms ok show ?thesis
      by (auto simp: enable_bp_def table_ok_def bp_set_def lookup_get get_with_entry split: if_splits)
  next
    case enabled
    with assms ok en show ?thesis
      by (auto simp: enable_bp_def table_ok_def bp_set_def lookup_get get_with_entry split: if_splits)
  next
    case (set s' x)
    with assms ok show ?thesis
      by (auto simp: enable_bp_def table_ok_def bp_set_def lookup_get get_with_entry get_breakpoint_map
          split: if_splits)
  qed
qed

lemma table_disable:
  assumes "table_ok E st"
  shows "\<exists>r st'. disable_bp E a st = Some (Value (r, st')) \<and> table_ok E st' \<and>
    bp_set E st' = (if r = SP_OK then bp_set E st - {a} else bp_set E st)"
proof -
  let ?H = "e_hashmap E"
  let ?bps = "breakpoints st"
  from assms have ok: "hashmap_ok ?H" by (simp add: table_ok_def)
  show ?thesis
  proof (cases "\<exists>e. get_breakpoint ?H ?bps a = Some e \<and> bp_enabled e")
    case False
    then have "disable_bp E a st = Some (Value (SP_OK, st))" "a \<notin> bp_set E st"
      by (auto simp: disable_bp_def disable_breakpoint_def bp_set_def lookup_get split: option.splits)
    with assms show ?thesis by simp
  next
    case True
    then obtain e where e: "get_breakpoint ?H ?bps a = Some e" "bp_enabled e" by blast
    show ?thesis
    proof (cases "pt_read_memory (e_kernel E) (bp_pid ?bps) (bp_addr e) (tracee st)")
      case None
      with e assms show ?thesis by (simp add: disable_bp_def disable_breakpoint_def)
    next
      case (Some w)
      obtain r s' where w: "pt_write_memory (e_kernel E) (bp_pid ?bps) (bp_addr e)
          ((w AND NOT BTM_BYTE_MASK) OR ucast (bp_orig e)) (tracee st) = (r, s')" by fastforce
      show ?thesis
      proof (cases r)
        case SP_ERR
        with e Some w assms show ?thesis
          by (simp add: disable_bp_def disable_breakpoint_def table_ok_def bp_set_def)
      next
        case SP_OK
        with e assms ok Some w show ?thesis
          by (auto simp: disable_bp_def disable_breakpoint_def table_ok_def bp_set_def lookup_get
              get_breakpoint_map split: if_splits)
      qed
    qed
  qed
qed

lemma table_frame:
  "table_ok E st \<Longrightarrow> breakpoints st' = breakpoints st \<Longrightarrow> table_ok E st'"
  by (simp add: table_ok_def)

interpretation tab: stopped_process table_ok "\<lambda>_. True"
proof (unfold_locales, goal_cases)
  case 1
  then show ?case by (intro table_enable)
next
  case 2
  then show ?case by (intro table_disable)
next
  case 4
  show ?case by (rule table_frame [OF 4(1)]) simp
next
  case 5
  show ?case by (rule table_frame [OF 5(1,3)])
qed simp

section \<open>The table and the code in memory\<close>

text \<open>
  Letting the process run, or setting its registers, does not change the bytes at the
  addresses in \<open>code\<close>: the process does not write to its own code.
\<close>

definition keeps_code :: "('d, 's, 'h, 'w) env \<Rightarrow> ('s \<Rightarrow> u64 \<Rightarrow> u8) \<Rightarrow> u64 set \<Rightarrow> bool" where
  "keeps_code E mem code \<longleftrightarrow> (\<forall>s s' x. runs E s s' \<longrightarrow> x \<in> code \<longrightarrow> mem s' x = mem s x)"

text \<open>The breakpoints are in the code, and its memory is \<open>orig\<close> overlaid with \<^verbatim>\<open>int 3\<close>.\<close>

definition code_ok ::
  "('s \<Rightarrow> u64 \<Rightarrow> u8) \<Rightarrow> u64 set \<Rightarrow> (u64 \<Rightarrow> u8) \<Rightarrow> ('d, 's, 'h, 'w) env \<Rightarrow> ('s, 'h, 'w) debugger \<Rightarrow> bool" where
  "code_ok mem code orig E st \<longleftrightarrow>
     keeps_code E mem code \<and> real_value ` bp_set E st \<subseteq> code \<and>
     (\<exists>orig'. bps_ok E mem orig' st \<and> (\<forall>x\<in>code. orig' x = orig x))"

lemma code_ok_memory:
  assumes "code_ok mem code orig E st" "x \<in> code"
  shows "mem (tracee st) x = (if RealAddr x \<in> bp_set E st then ucast INT3 else orig x)"
  using assms bp.memory_law by (fastforce simp: code_ok_def bps_ok_def bp_set_def)

lemma code_ok_runs:
  assumes ok: "code_ok mem code orig E st" and run: "runs E (tracee st) s'"
  shows "code_ok mem code orig E (st\<lparr>tracee := s'\<rparr>)"
proof -
  from ok obtain orig' where inv: "bps_ok E mem orig' st" and same: "\<forall>x\<in>code. orig' x = orig x"
    and keep: "keeps_code E mem code" and sub: "real_value ` bp_set E st \<subseteq> code"
    by (auto simp: code_ok_def)
  let ?new = "\<lambda>x. if x \<in> code then orig' x else mem s' x"
  have "entry_inv (mem s') ?new a (get_breakpoint (e_hashmap E) (breakpoints st) a)" for a
  proof (cases "real_value a \<in> code")
    case True
    with keep run have "mem s' (real_value a) = mem (tracee st) (real_value a)" by (simp add: keeps_code_def)
    moreover from inv have "entry_inv (mem (tracee st)) orig' a (get_breakpoint (e_hashmap E) (breakpoints st) a)"
      by (simp add: bps_ok_def bp_inv_def)
    ultimately show ?thesis using True by (auto simp: entry_inv_def split: option.splits)
  next
    case False
    then have "a \<notin> bp_set E st" using sub by blast
    moreover from inv have "entry_inv (mem (tracee st)) orig' a (get_breakpoint (e_hashmap E) (breakpoints st) a)"
      by (simp add: bps_ok_def bp_inv_def)
    ultimately show ?thesis
      using False by (auto simp: entry_inv_def bp_set_def lookup_get split: option.splits)
  qed
  with inv have "bps_ok E mem ?new (st\<lparr>tracee := s'\<rparr>)" by (simp add: bps_ok_def bp_inv_def)
  with keep sub same show ?thesis
    unfolding code_ok_def by (intro conjI exI [of _ ?new]) (simp_all add: bp_set_def)
qed

interpretation code: stopped_process "code_ok mem code orig" "\<lambda>a. real_value a \<in> code"
  for mem :: "'s \<Rightarrow> u64 \<Rightarrow> u8" and code orig
proof unfold_locales
  fix E :: "('d, 's, 'h, 'w) env" and st :: "('s, 'h, 'w) debugger" and a
  assume ok: "code_ok mem code orig E st"
  then obtain orig' where inv: "bps_ok E mem orig' st" and same: "\<forall>x\<in>code. orig' x = orig x"
    and keep: "keeps_code E mem code" and sub: "real_value ` bp_set E st \<subseteq> code"
    by (auto simp: code_ok_def)
  have keep_code: "code_ok mem code orig E st'"
    if "bps_ok E mem orig' st'" "real_value ` bp_set E st' \<subseteq> code" for st'
    using that keep same unfolding code_ok_def by blast
  show "\<exists>r st'. enable_bp E a st = Some (Value (r, st')) \<and> code_ok mem code orig E st' \<and>
      bp_set E st' = (if r = SP_OK then insert a (bp_set E st) else bp_set E st)"
    if a: "real_value a \<in> code"
  proof -
    from enable_bp_spec [OF inv, of a] obtain r st' where e: "enable_bp E a st = Some (Value (r, st'))"
      "bps_ok E mem orig' st'" "bp_set E st' = (if r = SP_OK then insert a (bp_set E st) else bp_set E st)"
      by blast
    with a sub have "real_value ` bp_set E st' \<subseteq> code" by (simp split: if_splits)
    with e keep_code show ?thesis by blast
  qed
  show "\<exists>r st'. disable_bp E a st = Some (Value (r, st')) \<and> code_ok mem code orig E st' \<and>
      bp_set E st' = (if r = SP_OK then bp_set E st - {a} else bp_set E st)"
  proof -
    from disable_bp_spec [OF inv, of a] obtain r st' where d: "disable_bp E a st = Some (Value (r, st'))"
      "bps_ok E mem orig' st'" "bp_set E st' = (if r = SP_OK then bp_set E st - {a} else bp_set E st)"
      by blast
    with sub have "real_value ` bp_set E st' \<subseteq> code" by auto
    with d keep_code show ?thesis by blast
  qed
  show "real_value a \<in> code" if "a \<in> bp_set E st" using that sub by blast
  show "code_ok mem code orig E (st\<lparr>tracee := s'\<rparr>)" if "runs E (tracee st) s'" for s'
    by (rule code_ok_runs [OF ok that])
  show "code_ok mem code orig E st'" if "tracee st' = tracee st" "breakpoints st' = breakpoints st" for st'
    using ok that by (simp add: code_ok_def bps_ok_def bp_set_def)
qed

end
