(* ===== verification/Session.thy ===== *)
theory Session
  imports Commands Running
begin

text \<open>
  What the commands of a session change and what they leave alone.
\<close>

section \<open>Parts of the state\<close>

text \<open>The part that the user's commands are about, and the part that only the session has.\<close>

definition core :: "('s, 'h, 'w) debugger \<Rightarrow> 's \<times> 'h Breakpoints \<times> string option \<times> real_addr" where
  "core st = (tracee st, breakpoints st, last_command st, load_address st)"

definition control :: "('s, 'h, 'w) debugger \<Rightarrow> string option \<times> real_addr" where
  "control st = (last_command st, load_address st)"

lemma keeps_core_parts:
  assumes "keeps core m"
  shows "keeps tracee m" "keeps breakpoints m" "keeps last_command m" "keeps load_address m" "keeps control m"
  using assms by (auto simp: keeps_def core_def control_def)

lemma keeps_core_primitives [keeps_intros]:
  "keeps core (emit e)" "keeps core (from_dwarf m)" "keeps core (alloc_symbol x a)" "keeps core (sym_at p)"
  "keeps core (update_sym p g)" "keeps f (assert_some y)"
  by (auto simp: keeps_def core_def from_dwarf_def alloc_symbol_def sym_at_def update_sym_def assert_some_def
      split: option.splits if_splits)

lemma keeps_core_lookups [keeps_intros]:
  "keeps core (sym_by_name E n)" "keeps core (sym_by_addr E a)" "keeps core (sym_name E p)"
  "keeps core (sym_start_addr p)" "keeps core (sym_filepath E p)" "keeps core (sym_position E p)"
  "keeps core (addr_position E a)" "keeps core (addr_at E f l)" "keeps core (function_start_addr E p)"
  "keeps core (get_pc E)" "keeps core (get_dbg_pc E)" "keeps core (is_breakpoint E b)"
  unfolding lookup_defs get_pc_def get_dbg_pc_def is_breakpoint_def by (intro keeps_intros)+

lemma keeps_if_at [keeps_intros]:
  "keeps f m \<Longrightarrow> keeps f n \<Longrightarrow> keeps f (\<lambda>st. if b then m st else n st)"
  by (cases b) simp_all

lemma keeps_option_at [keeps_intros]:
  "keeps f m \<Longrightarrow> (\<And>a. keeps f (g a)) \<Longrightarrow> keeps f (\<lambda>st. case x of None \<Rightarrow> m st | Some a \<Rightarrow> g a st)"
  by (cases x) simp_all

lemma keeps_elim:
  assumes "then_do m g st = Some (Value (a, st'))" "keeps f m" "\<And>a. keeps f (g a)"
  shows "f st' = f st"
  using keeps_then_do [OF assms(2,3)] assms(1) by (auto simp: keeps_def)

section \<open>What only prints\<close>

lemma keeps_backtrace_loop: "keeps core (backtrace_loop E frames fp)"
proof -
  have frame: "keeps core (init_call_frame E' c pc q)" for E' c pc q
    unfolding init_call_frame_def by (intro keeps_intros)+
  have "\<forall>a st'. y = Value (a, st') \<longrightarrow> core st' = core st"
    if "backtrace_loop E frames fp st = Some y" for E frames fp st y
    using that
  proof (induction rule: backtrace_loop.raw_induct [rotated, consumes 1, case_names step])
    case (step w E frames fp st y)
    then have w: "keeps core (w E g q)" for g q by (auto simp: keeps_def)
    show ?case
    proof (intro allI impI, cases "real_value fp \<noteq> 0")
      case True
      fix a st'
      assume y: "y = Value (a, st')"
      show "core st' = core st"
        by (rule keeps_elim [OF step(2) [unfolded y if_P [OF True]]]) (intro keeps_intros w frame)+
    next
      case False
      fix a st'
      assume "y = Value (a, st')"
      with False step(2) show "core st' = core st" by simp
    qed
  qed
  then show ?thesis unfolding keeps_def by blast
qed

lemma keeps_backtrace [keeps_intros]: "keeps core (exec_backtrace E)"
proof -
  have frame: "keeps core (init_call_frame E c pc q)" for c pc q
    unfolding init_call_frame_def by (intro keeps_intros)+
  have "keeps core (init_backtrace E pc load)" for pc load
    unfolding init_backtrace_def stores_frame_pointer_def
    by (intro keeps_intros frame keeps_backtrace_loop)+
  then show ?thesis
    unfolding exec_backtrace_def print_backtrace_def by (intro keeps_intros)+
qed

lemma keeps_source [keeps_intros]: "keeps core (print_current_source E)"
  unfolding print_current_source_def print_as_relative_filepath_def print_source_def is_user_breakpoint_def
  by (intro keeps_intros)+

lemma keeps_info [keeps_intros]:
  assumes "keeps f a" "keeps f b" "\<And>n. keeps f (c n)" "\<And>n. keeps f (d n)" "\<And>v. keeps f (g v)" "\<And>v. keeps f (h v)"
  shows "keeps f (case info of MEM_READ \<Rightarrow> a | MEM_READ_CONFIRM \<Rightarrow> b | REG_READ n \<Rightarrow> c n
    | REG_READ_CONFIRM n \<Rightarrow> d n | VAR_READ v \<Rightarrow> g v | VAR_READ_CONFIRM v \<Rightarrow> h v)"
  using assms by (cases info) simp_all

lemma keeps_filtered [keeps_intros]: "keeps core (print_filtered E v flt info)"
  unfolding print_filtered_def print_dereferenced_def print_value_line_def by (intro keeps_intros)+

lemma keeps_current_var [keeps_intros]: "keeps core (current_var E name)"
proof -
  have "keeps core (eval_location E ctx loclist)" for ctx loclist
    by (auto simp: keeps_def eval_location_def core_def split: option.splits c_result.splits prod.splits)
  then show ?thesis
    unfolding current_var_def init_var_def by (intro keeps_intros)+
qed

lemma keeps_messages [keeps_intros]:
  "keeps core (register_err text reg)" "keeps core (end_of_tokens tokens i)"
  "keeps core (warn_register_name_conflict ident)"
  unfolding register_err_def end_of_tokens_def warn_register_name_conflict_def by (intro keeps_intros)+

lemma keeps_read_filter [keeps_intros]: "keeps core (read_filter tokens i)"
  unfolding read_filter_def by (intro keeps_intros)+

lemma keeps_exec_print [keeps_intros]:
  "keeps core (exec_print_memory E a flt)" "keeps core (exec_print_register E r name flt)"
  "keeps core (exec_print_variable E var flt)"
  unfolding exec_print_memory_def exec_print_register_def exec_print_variable_def by (intro keeps_intros)+

lemma keeps_print: "keeps core (handle_print E tokens i)"
  unfolding handle_print_def by (intro keeps_intros)+

lemma keeps_break_location [keeps_intros]: "keeps core (parse_break_location E loc)"
proof -
  have "keeps core (\<lambda>_. Some Aborted)" "keeps core (\<lambda>_. Some Undefined)" by (simp_all add: keeps_def)
  then show ?thesis unfolding parse_break_location_def by (intro keeps_intros)+
qed

section \<open>No command touches the last command and the load address\<close>

lemma keeps_control_primitives [keeps_intros]:
  "keeps control (change_tracee g)" "keeps control (enable_bp E a)" "keeps control (disable_bp E a)"
  "keeps control (for_each_line_bp E f path skip)" "keeps control (emit e)"
  by (auto simp: keeps_def control_def change_tracee_def enable_bp_def disable_bp_def for_each_line_bp_def
      split: option.splits run.splits prod.splits)

lemmas keeps_control_core = keeps_core_lookups [THEN keeps_core_parts(5)]
  keeps_source [THEN keeps_core_parts(5)] keeps_filtered [THEN keeps_core_parts(5)]
  keeps_current_var [THEN keeps_core_parts(5)] keeps_messages [THEN keeps_core_parts(5)]
  keeps_read_filter [THEN keeps_core_parts(5)] keeps_break_location [THEN keeps_core_parts(5)]
  keeps_backtrace [THEN keeps_core_parts(5)] keeps_print [THEN keeps_core_parts(5)]

lemma keeps_control_messages [keeps_intros]:
  "keeps control (print_info text)" "keeps control (print_signal text sig)" "keeps control (handle_sigtrap E info)"
  unfolding print_info_def print_signal_def handle_sigtrap_def set_pc_def
  by (intro keeps_intros keeps_control_core)+

lemma keeps_control_continue_with:
  assumes "keeps control wait"
  shows "keeps control (single_step_breakpoint_with E wait)" "keeps control (continue_execution_with E wait)"
  unfolding continue_execution_with_def single_step_breakpoint_with_def
  by (intro keeps_intros keeps_control_core assms)+

lemma keeps_control_wait [keeps_intros]: "keeps control (wait_for_signal E)"
proof -
  have "\<forall>a st'. y = Value (a, st') \<longrightarrow> control st' = control st"
    if "wait_for_signal E st = Some y" for E st y
    using that
  proof (induction rule: wait_for_signal.raw_induct [rotated, consumes 1, case_names step])
    case (step w E st y)
    then have w: "keeps control (w E)" by (auto simp: keeps_def)
    show ?case
    proof (intro allI impI)
      fix a st'
      assume y: "y = Value (a, st')"
      show "control st' = control st"
        by (rule keeps_elim [OF step(2) [unfolded y]])
          (intro keeps_intros keeps_control_core keeps_control_continue_with w)+
    qed
  qed
  then show ?thesis unfolding keeps_def by blast
qed

lemma keeps_control_instruction [keeps_intros]:
  "keeps control (single_step_breakpoint E)" "keeps control (continue_execution E)"
  "keeps control (single_step_instruction E)" "keeps control (set_return_address_breakpoint E)"
  unfolding single_step_instruction_def continue_execution_def single_step_breakpoint_def
    set_return_address_breakpoint_def Let_def
  by (intro keeps_intros keeps_control_core keeps_control_continue_with)+

lemma keeps_control_line_loop [keeps_intros]: "keeps control (step_line_loop E l pos n)"
proof -
  have "\<forall>a st'. y = Value (a, st') \<longrightarrow> control st' = control st"
    if "step_line_loop E l pos n st = Some y" for E l pos n st y
    using that
  proof (induction rule: step_line_loop.raw_induct [rotated, consumes 1, case_names step])
    case (step w E l pos n st y)
    then have w: "keeps control (w E l p k)" for p k by (auto simp: keeps_def)
    show ?case
    proof (intro allI impI, cases "\<not> pos_is_exact pos \<or> pos_line pos = l")
      case True
      fix a st'
      assume y: "y = Value (a, st')"
      show "control st' = control st"
        by (rule keeps_elim [OF step(2) [unfolded y if_P [OF True]]])
          (intro keeps_intros keeps_control_core w)+
    next
      case False
      fix a st'
      assume "y = Value (a, st')"
      with False step(2) show "control st' = control st" by simp
    qed
  qed
  then show ?thesis unfolding keeps_def by blast
qed

lemma keeps_control_disable_all [keeps_intros]: "keeps control (disable_all E as)"
  by (induction as) (simp_all only: disable_all.simps keeps_return keeps_then_do keeps_control_primitives)

lemma keeps_control_steps [keeps_intros]:
  "keeps control (step_out E)" "keeps control (single_step_line E)" "keeps control (step_over E)"
  unfolding step_out_def single_step_line_def step_over_def set_step_over_breakpoints_def
  by (intro keeps_intros keeps_control_core)+

lemma keeps_control_exec [keeps_intros]:
  "keeps control (exec_continue E)" "keeps control (exec_inst E)" "keeps control (exec_leave E)"
  "keeps control (exec_step E)" "keeps control (exec_next E)" "keeps control (exec_break E a)"
  "keeps control (exec_delete E a)" "keeps control (exec_set_memory E a v flt)"
  "keeps control (exec_set_register E r name v flt)" "keeps control (exec_set_variable E name v flt)"
  unfolding exec_continue_def exec_inst_def exec_leave_def exec_step_def exec_next_def exec_break_def
    exec_delete_def exec_set_memory_def exec_set_register_def exec_set_variable_def write_and_read_def
  by (intro keeps_intros keeps_control_core)+

lemma keeps_control_handlers:
  "(\<And>a. keeps control (exec a)) \<Longrightarrow> keeps control (handle_location E name exec tokens i)"
  "keeps control exec' \<Longrightarrow> keeps control (handle_plain exec' tokens i)"
  "keeps control (handle_set E tokens i)"
  unfolding handle_location_def handle_plain_def handle_set_def
  by (intro keeps_intros keeps_control_core | assumption)+

lemma keeps_control_tokens: "keeps control (handle_debug_command_tokens E tokens)"
  unfolding handle_debug_command_tokens_def
  by (intro keeps_intros keeps_control_handlers keeps_control_core)

text \<open>An empty line does again what the last line did.\<close>

lemma command_again:
  assumes blank: "get_command_tokens blank = []" and line: "get_command_tokens line \<noteq> []"
    and run: "handle_debug_command E line st = Some (Value (u, st'))"
  shows "handle_debug_command E blank st' = handle_debug_command E line st'"
proof -
  let ?again = "handle_debug_command_tokens E (get_command_tokens line)"
  have handle: "handle_debug_command E line s = ?again (s\<lparr>last_command := Some line\<rparr>)" for s
    using line by (simp add: handle_debug_command_def next_token_def then_do_def save_command_def)
  from run keepsD [OF keeps_control_tokens] have "control st' = control (st\<lparr>last_command := Some line\<rparr>)"
    unfolding handle by blast
  then have last: "last_command st' = Some line" by (simp add: control_def)
  then have same: "st'\<lparr>last_command := Some line\<rparr> = st'" by simp
  from last show ?thesis
    unfolding handle same
    by (simp add: handle_debug_command_def next_token_def blank then_do_def read_command_def)
qed

section \<open>Commands that change nothing\<close>

text \<open>The shapes of the commands that may change the process or its breakpoints.\<close>

definition changing :: "string list \<Rightarrow> bool" where
  "changing tokens \<longleftrightarrow> tokens \<noteq> [] \<and>
     (hd tokens \<in> {''c'', ''continue'', ''i'', ''inst'', ''l'', ''leave'', ''s'', ''step'', ''n'', ''next''} \<and>
        length tokens = 1 \<or>
      hd tokens \<in> {''b'', ''break'', ''d'', ''delete''} \<and> length tokens = 2 \<or>
      hd tokens \<in> {''t'', ''set''} \<and>
        (length tokens = 3 \<or>
         length tokens = 5 \<and> tokens ! 3 = ''|'' \<and> parse_filter (Some (tokens ! 4)) \<noteq> PF_NONE))"

lemma is_command_iff: "is_command (Some s) c l \<longleftrightarrow> s = [c] \<or> s = l"
  by (cases s) (auto simp: is_command_def str_eq_def)

lemma is_command_None [simp]: "\<not> is_command None c l"
  by (simp add: is_command_def)

lemma end_of_tokens_then:
  "then_do (end_of_tokens tokens i) f =
     (if length tokens \<le> i then f True
      else then_do (emit (Err ''Trailing characters in command'')) (\<lambda>_. f False))"
  by (simp add: end_of_tokens_def then_do_assoc)

lemma keeps_plain: "\<not> length tokens \<le> i \<Longrightarrow> keeps core (handle_plain exec tokens i)"
  by (simp add: handle_plain_def end_of_tokens_then keeps_then_do keeps_core_primitives(1) keeps_return)

lemma keeps_location:
  assumes "length tokens \<noteq> Suc i"
  shows "keeps core (handle_location E name exec tokens i)"
proof (cases "i < length tokens")
  case False
  then show ?thesis by (simp add: handle_location_def next_token_def keeps_core_primitives(1))
next
  case True
  with assms have "\<not> length tokens \<le> i + 1" by simp
  with True show ?thesis
    unfolding handle_location_def next_token_def
    by (simp only: if_True prod.case option.case end_of_tokens_then if_False not_True_eq_False not_False_eq_True)
      (intro keeps_intros)
qed

lemma keeps_set:
  fixes E :: "('d, 's, 'h, 'w) env"
  assumes "\<not> (length tokens = i + 2 \<or> length tokens = i + 4 \<and> tokens ! (i + 2) = ''|'' \<and>
    parse_filter (Some (tokens ! (i + 3))) \<noteq> PF_NONE)"
  shows "keeps core (handle_set E tokens i)"
proof (cases "i + 2 < length tokens")
  case False
  with assms have "\<not> i < length tokens \<or> i < length tokens \<and> \<not> i + 1 < length tokens" by linarith
  then show ?thesis
    by (auto simp: handle_set_def next_token_def keeps_core_primitives(1))
next
  case True
  have "keeps core (then_do (read_filter tokens (i + 2)) (\<lambda>res.
      case res of None \<Rightarrow> return () | Some (flt, j) \<Rightarrow>
        then_do (end_of_tokens tokens j) (\<lambda>at_end. if \<not> at_end then return () else m flt)))"
    for m :: "PrintFilter \<Rightarrow> (('s, 'h, 'w) debugger, unit) prog"
  proof (cases "tokens ! (i + 2) = ''|'' \<and>
      parse_filter (fst (next_token tokens (i + 3))) \<noteq> PF_NONE")
    case False
    obtain f j where nt: "next_token tokens (i + 3) = (f, j)" by fastforce
    have tok: "next_token tokens (i + 2) = (Some (tokens ! (i + 2)), i + 3)"
      using True by (simp add: next_token_def)
    from False nt have "(read_filter tokens (i + 2) :: (('s, 'h, 'w) debugger, _) prog)
        = then_do (emit (Err ''Invalid filter'')) (\<lambda>_. return None) \<or>
      (read_filter tokens (i + 2) :: (('s, 'h, 'w) debugger, _) prog)
        = then_do (emit (Err ''Trailing characters in command'')) (\<lambda>_. return None)"
      unfolding read_filter_def tok prod.case option.case nt is_filter_delim_def by auto
    then show ?thesis
      by (elim disjE) (simp_all only: then_do_assoc then_do_return option.case, (intro keeps_intros)+)
  next
    case delim: True
    then have 3: "i + 3 < length tokens"
      by (auto simp: next_token_def parse_filter_def split: if_splits)
    with delim have "parse_filter (Some (tokens ! (i + 3))) \<noteq> PF_NONE" by (simp add: next_token_def)
    with assms delim 3 have "\<not> length tokens \<le> i + 4" by auto
    moreover have "(read_filter tokens (i + 2) :: (('s, 'h, 'w) debugger, _) prog) = return (Some (parse_filter (Some (tokens ! (i + 3))), i + 4))"
      using True delim 3 by (simp add: read_filter_def next_token_def is_filter_delim_def eval_nat_numeral)
    ultimately show ?thesis
      by (simp only: then_do_return option.case prod.case end_of_tokens_then if_False if_True not_False_eq_True)
        (intro keeps_intros)
  qed
  with True show ?thesis
    by (simp add: handle_set_def next_token_def)
qed

lemma keeps_if_when:
  "(b \<Longrightarrow> keeps f m) \<Longrightarrow> (\<not> b \<Longrightarrow> keeps f n) \<Longrightarrow> keeps f (if b then m else n)"
  by simp

lemma unchanging_command:
  assumes "\<not> changing tokens"
  shows "keeps core (handle_debug_command_tokens E tokens)"
proof (cases tokens)
  case Nil
  then show ?thesis by (simp add: handle_debug_command_tokens_def next_token_def keeps_core_primitives(1))
next
  case (Cons cmd args)
  have next_tok: "next_token tokens 0 = (Some cmd, 1)" by (simp add: next_token_def Cons)
  have plain: "\<not> length tokens \<le> 1"
    if "cmd \<in> {''c'', ''continue'', ''i'', ''inst'', ''l'', ''leave'', ''s'', ''step'', ''n'', ''next''}"
    using that assms Cons unfolding changing_def by auto
  have location: "length tokens \<noteq> Suc 1" if "cmd \<in> {''b'', ''break'', ''d'', ''delete''}"
    using that assms Cons unfolding changing_def by auto
  show ?thesis
    unfolding handle_debug_command_tokens_def next_tok prod.case is_command_iff
  proof (intro keeps_if_when, goal_cases)
    case 1
    then show ?case by (intro keeps_plain plain) auto
  next
    case 2
    then show ?case by (intro keeps_location location) auto
  next
    case 3
    then show ?case by (intro keeps_location location) auto
  next
    case 4
    show ?case by (rule keeps_print)
  next
    case 5
    with assms Cons show ?case by (intro keeps_set) (auto simp: changing_def numeral_eq_Suc)
  next
    case 6
    then show ?case by (intro keeps_plain plain) auto
  next
    case 7
    then show ?case by (intro keeps_plain plain) auto
  next
    case 8
    then show ?case by (intro keeps_plain plain) auto
  next
    case 9
    then show ?case by (intro keeps_plain plain) auto
  next
    case 10
    show ?case by (rule keeps_backtrace)
  next
    case 11
    show ?case by (rule keeps_core_primitives)
  qed
qed

section \<open>Commands and breakpoints\<close>

text \<open>
  Computations that keep the table in order and the set of enabled breakpoints as it is,
  as long as no request fails.
\<close>

definition bps_kept :: "('d, 's, 'h, 'w) env \<Rightarrow> (('s, 'h, 'w) debugger, 'a) prog \<Rightarrow> bool" where
  "bps_kept E m \<longleftrightarrow>
     (\<forall>st a st'. table_ok E st \<longrightarrow> requests_ok (e_kernel E) \<longrightarrow> m st = Some (Value (a, st')) \<longrightarrow>
        table_ok E st' \<and> bp_set E st' = bp_set E st)"

named_theorems bps_intros \<open>what keeps the breakpoints\<close>

lemma bps_kept_return [bps_intros]: "bps_kept E (return a)"
  by (simp add: bps_kept_def)

lemma bps_kept_then_do [bps_intros]:
  assumes "bps_kept E m" "\<And>a. bps_kept E (f a)"
  shows "bps_kept E (then_do m f)"
  unfolding bps_kept_def
proof (intro allI impI)
  fix st b st'
  assume ok: "table_ok E st" "requests_ok (e_kernel E)" and "then_do m f st = Some (Value (b, st'))"
  then obtain a st1 where "m st = Some (Value (a, st1))" "f a st1 = Some (Value (b, st'))"
    by (auto simp: then_do_Value_iff)
  with ok assms show "table_ok E st' \<and> bp_set E st' = bp_set E st" unfolding bps_kept_def by metis
qed

lemma bps_kept_if [bps_intros]: "bps_kept E m \<Longrightarrow> bps_kept E n \<Longrightarrow> bps_kept E (if b then m else n)"
  by simp

lemma bps_kept_option [bps_intros]:
  "bps_kept E m \<Longrightarrow> (\<And>a. bps_kept E (f a)) \<Longrightarrow> bps_kept E (case x of None \<Rightarrow> m | Some a \<Rightarrow> f a)"
  by (simp split: option.split)

lemma bps_kept_prod [bps_intros]: "(\<And>a b. bps_kept E (f a b)) \<Longrightarrow> bps_kept E (case x of (a, b) \<Rightarrow> f a b)"
  by (simp split: prod.split)

lemma bps_kept_safe: "safe table_ok E m \<Longrightarrow> bps_kept E m"
  by (auto simp: bps_kept_def safe_def)

lemma bps_kept_core: "keeps core m \<Longrightarrow> bps_kept E m"
  by (intro bps_kept_safe tab.safe_keeps keeps_core_parts)

lemma bps_kept_change [bps_intros]: "bps_kept E (change_tracee g)"
  by (auto simp: bps_kept_def change_tracee_def bp_set_def table_frame split: prod.splits)

lemma bps_kept_get_state [bps_intros]: "bps_kept E (get_state g)" "bps_kept E (read_tracee h)" "bps_kept E (emit e)"
  by (intro bps_kept_safe tab.safe_pc tab.safe_keeps keeps_intros)+

lemma bps_kept_steps [bps_intros]:
  "bps_kept E (continue_execution E)" "bps_kept E (wait_for_signal E)" "bps_kept E (single_step_instruction E)"
  "bps_kept E (single_step_line E)" "bps_kept E (step_out E)" "bps_kept E (step_over E)"
proof -
  show "bps_kept E (step_out E)" unfolding bps_kept_def using tab.step_out_restores by blast
  show "bps_kept E (step_over E)" unfolding bps_kept_def using tab.step_over_restores by blast
qed (intro bps_kept_safe tab.safe_continue tab.safe_wait tab.safe_step_instruction tab.safe_step_line)+

lemmas bps_kept_prints [bps_intros] =
  keeps_source [THEN bps_kept_core] keeps_filtered [THEN bps_kept_core] keeps_current_var [THEN bps_kept_core]
  keeps_messages [THEN bps_kept_core] keeps_read_filter [THEN bps_kept_core] keeps_backtrace [THEN bps_kept_core]
  keeps_print [THEN bps_kept_core]

lemma bps_kept_exec [bps_intros]:
  "bps_kept E (exec_continue E)" "bps_kept E (exec_inst E)" "bps_kept E (exec_leave E)"
  "bps_kept E (exec_step E)" "bps_kept E (exec_next E)" "bps_kept E (exec_set_memory E a v flt)"
  "bps_kept E (exec_set_register E r name v flt)" "bps_kept E (exec_set_variable E name v flt)"
  unfolding exec_continue_def exec_inst_def exec_leave_def exec_step_def exec_next_def exec_set_memory_def
    exec_set_register_def exec_set_variable_def write_and_read_def
  by (intro bps_intros)+

lemma bps_kept_handlers [bps_intros]:
  "bps_kept E exec \<Longrightarrow> bps_kept E (handle_plain exec tokens i)" "bps_kept E (handle_set E tokens i)"
  unfolding handle_plain_def handle_set_def by (intro bps_intros | assumption)+

lemma other_commands_keep_breakpoints:
  assumes "\<not> is_command (fst (next_token tokens 0)) (CHR ''b'') ''break''"
    "\<not> is_command (fst (next_token tokens 0)) (CHR ''d'') ''delete''"
  shows "bps_kept E (handle_debug_command_tokens E tokens)"
  using assms unfolding handle_debug_command_tokens_def
  by (cases "next_token tokens 0") (simp only: prod.case fst_conv if_False, (intro bps_intros)+)

text \<open>What \<^verbatim>\<open>break\<close> and \<^verbatim>\<open>delete\<close> do with a location that can be read.\<close>

lemma location_command:
  assumes loc: "parse_break_location E loc st = Some (Value (Some a, st1))"
  shows "handle_location E name exec [cmd, loc] 1 st = exec (dbg_to_real (load_address st) a) st1"
proof -
  have "load_address st1 = load_address st"
    by (rule keepsD [OF keeps_core_parts(4) [OF keeps_break_location] loc])
  with loc show ?thesis
    by (simp add: handle_location_def next_token_def then_do_Value end_of_tokens_def then_do_def)
qed

lemma break_command:
  assumes ok: "table_ok E st" and req: "requests_ok (e_kernel E)"
    and loc: "parse_break_location E loc st = Some (Value (Some a, st1))"
  shows "\<exists>st'. handle_debug_command_tokens E [''break'', loc] st = Some (Value ((), st')) \<and>
    table_ok E st' \<and> bp_set E st' = insert (dbg_to_real (load_address st) a) (bp_set E st)"
proof -
  let ?a = "dbg_to_real (load_address st) a"
  have safe: "safe table_ok E (parse_break_location E loc)"
    by (intro tab.safe_keeps keeps_core_parts keeps_break_location)
  have ok1: "table_ok E st1" and same: "bp_set E st1 = bp_set E st"
    using safeD [OF safe ok loc] req by auto
  from tab.enable_law [OF ok1, of ?a] obtain r st' where e: "enable_bp E ?a st1 = Some (Value (r, st'))"
    "table_ok E st'" "bp_set E st' = (if r = SP_OK then insert ?a (bp_set E st1) else bp_set E st1)" by auto
  have "handle_debug_command_tokens E [''break'', loc] st = exec_break E ?a st1"
    using location_command [OF loc, of "''break''" "exec_break E" "''break''"]
    by (simp add: handle_debug_command_tokens_def next_token_def is_command_iff)
  with e same enable_bp_requests_ok [OF req e(1)] show ?thesis
    by (simp add: exec_break_def then_do_Value)
qed

lemma delete_command:
  assumes ok: "table_ok E st" and req: "requests_ok (e_kernel E)"
    and loc: "parse_break_location E loc st = Some (Value (Some a, st1))"
  shows "\<exists>st'. handle_debug_command_tokens E [''delete'', loc] st = Some (Value ((), st')) \<and>
    table_ok E st' \<and> bp_set E st' = bp_set E st - {dbg_to_real (load_address st) a}"
proof -
  let ?a = "dbg_to_real (load_address st) a"
  have safe: "safe table_ok E (parse_break_location E loc)"
    by (intro tab.safe_keeps keeps_core_parts keeps_break_location)
  have ok1: "table_ok E st1" and same: "bp_set E st1 = bp_set E st"
    using safeD [OF safe ok loc] req by auto
  from tab.disable_law [OF ok1, of ?a] obtain r st' where e: "disable_bp E ?a st1 = Some (Value (r, st'))"
    "table_ok E st'" "bp_set E st' = (if r = SP_OK then bp_set E st1 - {?a} else bp_set E st1)" by auto
  have "handle_debug_command_tokens E [''delete'', loc] st = exec_delete E ?a st1"
    using location_command [OF loc, of "''delete''" "exec_delete E" "''delete''"]
    by (simp add: handle_debug_command_tokens_def next_token_def is_command_iff)
  with e same disable_bp_requests_ok [OF req e(1)] show ?thesis
    by (simp add: exec_delete_def then_do_Value)
qed

section \<open>The load address\<close>

text \<open>A text that ends in a dash is no number.\<close>

lemma split_sign_suffix: "\<exists>p. s = p @ snd (split_sign s)"
proof (cases s)
  case (Cons c t)
  then show ?thesis
    by (cases "c = CHR ''-'' \<or> c = CHR ''+''") (auto intro: exI [of _ "[c]"])
qed simp

lemma skip_0x_suffix: "\<exists>p. s = p @ skip_0x base s"
proof (cases "(base, s)" rule: skip_0x.cases)
  case (1 b x y z t)
  then show ?thesis by (auto intro: exI [of _ "[x, y]"])
qed auto

lemma strtol_rest_dash: "snd (strtol 16 (s @ ''-'')) \<noteq> []"
proof -
  let ?w = "dropWhile isspace (s @ ''-'')"
  let ?u = "snd (split_sign ?w)"
  let ?t = "skip_0x 16 ?u"
  obtain p1 where 1: "s @ ''-'' = p1 @ ?w" by (metis takeWhile_dropWhile_id)
  obtain p2 where 2: "?w = p2 @ ?u" using split_sign_suffix by blast
  obtain p3 where 3: "?u = p3 @ ?t" using skip_0x_suffix by blast
  from 1 2 3 have all: "s @ ''-'' = (p1 @ p2 @ p3) @ ?t" by (metis append.assoc)
  have "dropWhile (is_digit_of 16) ?t \<noteq> []" if "takeWhile (is_digit_of 16) ?t \<noteq> []"
  proof -
    from that have "?t \<noteq> []" by auto
    with all have "last ?t = CHR ''-''" by (metis last_appendR last_snoc)
    with \<open>?t \<noteq> []\<close> have "CHR ''-'' \<in> set ?t" by (metis last_in_set)
    moreover have "\<not> is_digit_of 16 (CHR ''-'')" by (simp add: is_digit_of_def digit_val_def)
    ultimately show ?thesis by auto
  qed
  then show ?thesis by (auto simp: strtol_def Let_def split: prod.split)
qed

lemma load_address_aborts:
  assumes "is_dyn_exec E" and "open_maps (proc_maps_filepath (e_pid E)) = Some (pre @ CHR ''-'' # rest)"
    and "CHR ''-'' \<notin> set pre"
  shows "init_load_address E open_maps st = Some Aborted"
proof -
  have "takeWhile (\<lambda>c. c \<noteq> CHR ''-'') (pre @ CHR ''-'' # rest) = pre"
    "dropWhile (\<lambda>c. c \<noteq> CHR ''-'') (pre @ CHR ''-'' # rest) = CHR ''-'' # rest"
    using assms(3) by (induction pre) auto
  then have "getdelim (CHR ''-'') (pre @ CHR ''-'' # rest) = Some (pre @ ''-'')"
    by (simp add: getdelim_def)
  moreover have "parse_base16 (pre @ ''-'') = None"
    using strtol_rest_dash [of pre]
    by (auto simp: parse_base16_def parse_num_def split: prod.split)
  ultimately show ?thesis
    using assms(1,2) by (simp add: init_load_address_def then_do_def assert_some_def)
qed

end
