(* ===== verification/Ending.thy ===== *)
theory Ending
  imports Stepping
begin

text \<open>
  When stepping comes to an end. Waiting may go on for ever if the process keeps on reporting
  changes of the window size; without them every kind of step ends.
\<close>

section \<open>Computations that end\<close>

text \<open>It ends, whatever the outcome, from every state with a property, and keeps the property.\<close>

definition ends :: "('st \<Rightarrow> bool) \<Rightarrow> ('st, 'a) prog \<Rightarrow> bool" where
  "ends I m \<longleftrightarrow> (\<forall>st. I st \<longrightarrow> m st \<noteq> None \<and> (\<forall>a st'. m st = Some (Value (a, st')) \<longrightarrow> I st'))"

named_theorems ends_intros \<open>what comes to an end\<close>

lemma endsD: "ends I m \<Longrightarrow> I st \<Longrightarrow> m st \<noteq> None"
  by (simp add: ends_def)

lemma ends_return [ends_intros]: "ends I (return a)"
  by (simp add: ends_def)

lemma ends_then_do [ends_intros]:
  assumes m: "ends I m" and f: "\<And>a. ends I (f a)"
  shows "ends I (then_do m f)"
  unfolding ends_def
proof (intro allI impI)
  fix st
  assume I: "I st"
  show "then_do m f st \<noteq> None \<and> (\<forall>a st'. then_do m f st = Some (Value (a, st')) \<longrightarrow> I st')"
  proof (cases "\<exists>a st1. m st = Some (Value (a, st1))")
    case True
    then obtain a st1 where a: "m st = Some (Value (a, st1))" by blast
    with m I have "I st1" unfolding ends_def by blast
    with f [of a] a show ?thesis unfolding ends_def by (simp add: then_do_Value)
  next
    case False
    moreover from m I have "m st \<noteq> None" by (rule endsD)
    ultimately show ?thesis by (auto simp: then_do_def split: option.splits outcome.splits)
  qed
qed

lemma ends_if [ends_intros]:
  "(b \<Longrightarrow> ends I m) \<Longrightarrow> (\<not> b \<Longrightarrow> ends I n) \<Longrightarrow> ends I (if b then m else n)"
  by simp

lemma ends_option [ends_intros]:
  "ends I m \<Longrightarrow> (\<And>a. ends I (f a)) \<Longrightarrow> ends I (case x of None \<Rightarrow> m | Some a \<Rightarrow> f a)"
  by (simp split: option.split)

lemma ends_if_at [ends_intros]:
  "(b \<Longrightarrow> ends I m) \<Longrightarrow> (\<not> b \<Longrightarrow> ends I n) \<Longrightarrow> ends I (\<lambda>st. if b then m st else n st)"
  by (cases b) simp_all

lemma ends_option_at [ends_intros]:
  "ends I m \<Longrightarrow> (\<And>a. ends I (f a)) \<Longrightarrow> ends I (\<lambda>st. case x of None \<Rightarrow> m st | Some a \<Rightarrow> f a st)"
  by (cases x) simp_all

lemma ends_prod [ends_intros]: "(\<And>a b. ends I (f a b)) \<Longrightarrow> ends I (case x of (a, b) \<Rightarrow> f a b)"
  by (simp split: prod.split)

lemma ends_read [ends_intros]: "ends I (read_tracee f)" "ends I' (get_state g)" "ends I' (from_c r)"
  by (auto simp: ends_def from_c_def split: c_result.splits)

section \<open>Waiting and stepping\<close>

text \<open>The process never reports a change of the window size.\<close>

definition no_window_change :: "('d, 's, 'h, 'w) env \<Rightarrow> bool" where
  "no_window_change E \<longleftrightarrow>
     (\<forall>s info. pt_get_signal_info (e_kernel E) (e_pid E) (snd (k_waitpid (e_kernel E) (e_pid E) s)) = Some info
        \<longrightarrow> si_signo info \<noteq> SIGWINCH)"

text \<open>The environment is in order and the cached parts of the symbols are right.\<close>

definition looks_ok ::
  "('d, 's, 'h, 'w) env \<Rightarrow> ('d \<times> nat) list \<Rightarrow> (Elf64_Sym \<times> string) list \<Rightarrow> ('s, 'h, 'w) debugger \<Rightarrow> bool" where
  "looks_ok E ds syms st \<longleftrightarrow> world_ok E ds syms st \<and> cache_ok E ds (symbols st)"

lemma ends_keeping:
  assumes "\<And>st. m st \<noteq> None" "keeps dwarf m" "keeps symbols m"
  shows "ends (looks_ok E ds syms) m"
  unfolding ends_def
proof (intro allI impI conjI)
  fix st a st'
  assume "looks_ok E ds syms st" "m st = Some (Value (a, st'))"
  with keepsD [OF assms(2)] keepsD [OF assms(3)] show "looks_ok E ds syms st'"
    by (simp add: looks_ok_def world_ok_def)
qed (rule assms(1))

lemma ends_primitives [ends_intros]:
  "ends (looks_ok E ds syms) (emit e)" "ends (looks_ok E ds syms) (change_tracee g)"
  "ends (looks_ok E ds syms) (enable_bp E' a)" "ends (looks_ok E ds syms) (disable_bp E' a)"
  by (rule ends_keeping;
      auto simp: keeps_def change_tracee_def enable_bp_def disable_bp_def split: prod.splits run.splits)+

lemma ends_pc [ends_intros]:
  "ends (looks_ok E ds syms) (get_pc E)" "ends (looks_ok E ds syms) (get_dbg_pc E)"
  "ends (looks_ok E ds syms) (set_pc E a)" "ends (looks_ok E ds syms) (is_breakpoint E b)"
  unfolding get_pc_def get_dbg_pc_def set_pc_def is_breakpoint_def by (intro ends_intros)+

lemma ends_messages [ends_intros]:
  "ends (looks_ok E ds syms) (print_info text)" "ends (looks_ok E ds syms) (print_signal text sig)"
  "ends (looks_ok E ds syms) (handle_sigtrap E info)"
  unfolding print_info_def print_signal_def handle_sigtrap_def by (intro ends_intros)+

lemma ends_looks_up:
  "(\<And>st. looks_ok E ds syms st \<Longrightarrow> \<exists>x. looks_up E ds st m x) \<Longrightarrow> ends (looks_ok E ds syms) m"
  unfolding ends_def looks_up_def looks_ok_def world_ok_def by fastforce

lemma ends_position [ends_intros]: "ends (looks_ok E ds syms) (addr_position E a)"
  by (rule ends_looks_up) (unfold looks_ok_def, blast intro: addr_position_spec)

lemma ends_wait [ends_intros]:
  assumes "no_window_change E"
  shows "ends (looks_ok E ds syms) (wait_for_signal E)"
proof -
  have result: "wait_for_signal E st \<noteq> None \<and>
      (\<forall>a st'. wait_for_signal E st = Some (Value (a, st')) \<longrightarrow> looks_ok E ds syms st')"
    if ok: "looks_ok E ds syms st" for st :: "('b, 'c, 'd) debugger"
  proof -
    obtain status s where w: "k_waitpid (e_kernel E) (e_pid E) (tracee st) = (status, s)" by fastforce
    let ?st = "st\<lparr>tracee := s\<rparr>"
    define info where "info = (case pt_get_signal_info (e_kernel E) (e_pid E) s of
      Some info \<Rightarrow> info | None \<Rightarrow> \<lparr>si_signo = 0, si_code = 0\<rparr>)"
    have ok': "looks_ok E ds syms ?st" using ok by (simp add: looks_ok_def world_ok_def)
    have info: "si_signo info \<noteq> SIGWINCH"
      using assms w by (simp add: no_window_change_def info_def SIGWINCH_def split: option.split)
        (metis snd_conv)
    have run: "then_do (change_tracee (k_waitpid (e_kernel E) (e_pid E))) f st = f status ?st" for f
      by (simp add: then_do_def change_tracee_def w)
    have read: "then_do (read_tracee (\<lambda>s. case pt_get_signal_info (e_kernel E) (e_pid E) s of
        Some info \<Rightarrow> info | None \<Rightarrow> \<lparr>si_signo = 0, si_code = 0\<rparr>)) f ?st = f info ?st" for f
      by (simp add: then_do_def info_def)
    have step: "then_do m (\<lambda>_. return r) ?st \<noteq> None \<and>
        (\<forall>a st'. then_do m (\<lambda>_. return r) ?st = Some (Value (a, st')) \<longrightarrow> looks_ok E ds syms st')"
      if "ends (looks_ok E ds syms) m" for m and r :: SprayResult
    proof -
      have "ends (looks_ok E ds syms) (then_do m (\<lambda>_. return r))"
        by (intro ends_then_do that ends_return)
      with ok' show ?thesis unfolding ends_def by blast
    qed
    show ?thesis
      unfolding wait_for_signal.simps [of E st] run read
      using info step [OF ends_messages(1)] step [OF ends_messages(2)] step [OF ends_messages(3)]
        step [OF ends_primitives(1)]
      by (simp split: if_split)
  qed
  then show ?thesis by (simp add: ends_def)
qed

lemma ends_continue [ends_intros]:
  assumes "no_window_change E"
  shows "ends (looks_ok E ds syms) (single_step_breakpoint E)" "ends (looks_ok E ds syms) (continue_execution E)"
    "ends (looks_ok E ds syms) (single_step_instruction E)"
  unfolding single_step_instruction_def continue_execution_def continue_execution_with_def
    single_step_breakpoint_def single_step_breakpoint_with_def
  by (intro ends_intros assms)+

lemma ends_assert [ends_intros]: "ends I (assert_some x)"
  by (auto simp: ends_def assert_some_def split: option.splits)

lemma ends_step_out:
  assumes "no_window_change E"
  shows "ends (looks_ok E ds syms) (step_out E)"
  unfolding step_out_def set_return_address_breakpoint_def Let_def by (intro ends_intros assms)+

text \<open>The loop makes at most \<^verbatim>\<open>SINGLE_STEP_SEARCH_LIMIT\<close> instruction steps.\<close>

lemma ends_step_line_loop:
  assumes "no_window_change E"
  shows "ends (looks_ok E ds syms) (step_line_loop E l pos n)"
proof (induction "SINGLE_STEP_SEARCH_LIMIT - n" arbitrary: pos n rule: less_induct)
  case less
  then have rest: "ends (looks_ok E ds syms) (step_line_loop E l p (Suc n))"
    if "\<not> SINGLE_STEP_SEARCH_LIMIT \<le> Suc n" for p
    using that by simp
  note eq = ext [where f = "step_line_loop E l pos n", OF step_line_loop.simps]
  show ?case unfolding eq by (intro ends_intros rest assms | assumption)+
qed

lemma ends_step_line:
  assumes "no_window_change E"
  shows "ends (looks_ok E ds syms) (single_step_line E)"
  unfolding single_step_line_def by (intro ends_intros ends_step_line_loop assms)

end
