(* ===== verification/Simulation_Env.thy ===== *)
theory Simulation_Env
  imports Simulation Simulation_Elf Session Ending
begin

text \<open>
  A debugger in the concrete environment: the process is stopped at the start
      of \<^verbatim>\<open>main\<close>, and
  stepping takes it to the second line. The assumptions of the properties of sessions hold here.
\<close>

section \<open>The environment\<close>

type_synonym sim_debugger = "(sim_process, real_addr \<Rightarrow> Breakpoint option, nat) debugger"
type_synonym sim_environment = "(nat, sim_process, real_addr \<Rightarrow> Breakpoint option, nat) env"

text \<open>The terminal keeps its size.\<close>

definition quiet_kernel :: "sim_process kernel" where
  "quiet_kernel = sim_kernel\<lparr>k_getsiginfo := (\<lambda>pid s.
     (0, if si_signo (sim_siginfo s) = SIGWINCH then \<lparr>si_signo = 0, si_code = 0\<rparr> else
         sim_siginfo s))\<rparr>"

definition sim_env :: sim_environment where
  "sim_env =
     \<lparr>e_kernel = quiet_kernel, e_hashmap = sim_hashmap, e_dwarf = sim_dwarf, e_realpath = Resolved,
      e_getcwd = Some ''/src'', e_elf = sim_elf, e_pid = 1, e_print_source = (\<lambda>_ _ _.
          SP_OK)\<rparr>"

lemma sim_env_simps [simp]:
  "e_kernel sim_env = quiet_kernel" "e_hashmap sim_env = sim_hashmap" "e_dwarf sim_env = sim_dwarf"
  "e_realpath sim_env = Resolved" "e_getcwd sim_env = Some ''/src''" "e_elf sim_env = sim_elf"
  "e_pid sim_env = 1" "e_print_source sim_env = (\<lambda>_ _ _. SP_OK)"
  by (simp_all add: sim_env_def)

text \<open>
  The memory holds the first instructions of \<^verbatim>\<open>main\<close>, which save the frame
      pointer, and a frame
  at 0x7000 whose caller has none. The process reports that it has executed one instruction.
\<close>

definition sim_memory :: "u64 \<Rightarrow> u8" where
  "sim_memory a =
     (if a = 0x401000 then 0x55 else if a = 0x401001 then 0x48 else if a = 0x401002 then 0x89
      else if a = 0x401003 then 0xe5 else if a = 0x7008 then 0x30 else if a = 0x7009 then 0x10
      else if a = 0x700a then 0x40 else 0)"

definition sim_proc :: sim_process where
  "sim_proc =
     \<lparr>sim_mem = sim_memory,
      sim_regs = (replicate 27 0)[reg_index RIP := 0x401000, reg_index RBP := 0x7000],
      sim_events = [(0x057f, \<lparr>si_signo = 5, si_code = 2\<rparr>, 0x401008)],
      sim_siginfo = \<lparr>si_signo = 0, si_code = 0\<rparr>, sim_alive = True\<rparr>"

definition sim_dbg :: sim_debugger where
  "sim_dbg =
     \<lparr>tracee = sim_proc, breakpoints = init_breakpoints sim_hashmap 1, dwarf = 0, symbols = [],
      load_address = RealAddr 0, last_command = None, printed = []\<rparr>"

lemma sim_dbg_simps [simp]:
  "tracee sim_dbg = sim_proc" "breakpoints sim_dbg = init_breakpoints sim_hashmap 1" "dwarf sim_dbg = 0"
  "symbols sim_dbg = []" "load_address sim_dbg = RealAddr 0" "last_command sim_dbg = None"
  "printed sim_dbg = []"
  by (simp_all add: sim_dbg_def)

section \<open>The assumptions hold\<close>

lemma quiet_kernel_requests [simp]:
  "k_peekdata quiet_kernel pid a s = (word_of_bytes (map (\<lambda>i. sim_mem s (a + of_nat i)) [0..<8]),
      0)"
  "k_pokedata quiet_kernel pid a w s = (0, s\<lparr>sim_mem := put_word (sim_mem s) a w\<rparr>)"
  "k_getregs quiet_kernel pid s = (0, sim_registers s)"
  "k_singlestep quiet_kernel pid s = (0, s)"
  by (simp_all add: quiet_kernel_def sim_kernel_def)

lemma quiet_kernel_mem: "kernel_mem quiet_kernel pid sim_mem"
  using sim_kernel_mem [of pid] by (simp add: kernel_mem_def quiet_kernel_def)

lemma quiet_kernel_regs: "kernel_regs quiet_kernel pid sim_registers"
  using sim_kernel_regs [of pid] by (simp add: kernel_regs_def quiet_kernel_def)

lemma sim_requests_ok: "requests_ok quiet_kernel"
  by (simp add: requests_ok_def pt_read_memory_def pt_write_memory_def PTRACE_ERROR_def Let_def)

lemma sim_world_ok: "dwarf st = 0 \<Longrightarrow> world_ok sim_env sim_dies sim_symbols st"
  unfolding world_ok_def
  by (intro conjI exI [of _ sim_info] exI [of _ "[]"]) (simp_all add: sim_symbols_ok sim_dwarf_ok
      sim_info_dies)

lemma sim_cache_ok: "cache_ok sim_env sim_dies []"
  by (simp add: cache_ok_def)

lemma sim_looks_ok: "looks_ok sim_env sim_dies sim_symbols sim_dbg"
  by (simp add: looks_ok_def sim_world_ok sim_cache_ok)

lemma sim_no_breakpoints: "get_breakpoint sim_hashmap (init_breakpoints sim_hashmap pid) a = None"
  by (simp add: get_breakpoint_def init_breakpoints_def sim_hashmap_def)

lemma sim_table_ok: "table_ok sim_env sim_dbg"
  by (simp add: table_ok_def sim_hashmap_ok sim_no_breakpoints)

lemma sim_bp_set: "bp_set sim_env sim_dbg = {}"
  by (simp add: bp_set_def lookup_breakpoint_def init_breakpoints_def sim_hashmap_def)

lemma sim_no_window_change: "no_window_change sim_env"
  by (simp add: no_window_change_def pt_get_signal_info_def quiet_kernel_def SIGWINCH_def PTRACE_ERROR_def)

lemma sim_keeps_code: "keeps_code sim_env sim_mem code"
  by (auto simp: keeps_code_def runs_def quiet_kernel_def sim_kernel_def split: list.splits)

lemma sim_code_ok: "code_ok sim_mem UNIV sim_memory sim_env sim_dbg"
proof -
  have "bps_ok sim_env sim_mem sim_memory sim_dbg"
    using bp_inv_init [OF sim_hashmap_ok quiet_kernel_mem, where s = sim_proc]
    by (simp add: bps_ok_def sim_proc_def)
  then show ?thesis
    by (auto simp: code_ok_def sim_keeps_code)
qed

section \<open>What the lookups give there\<close>

lemma sim_registers_length [simp]: "length (sim_registers s) = 27"
  by (simp add: sim_registers_def)

lemmas dwarf_numbers = DW_AT_comp_dir_def DW_AT_decl_file_def DW_AT_name_def DW_FORM_addr_def
    DW_TAG_compile_unit_def dwarf_bool_to_bool_def

lemma sim_checks: "pc_match sim_dwarf pc 0 = (if 0x401000 \<le> pc \<and> pc \<le> 0x401040 then Some
    (Some ''/src/main.c'') else None)"
  by (simp add: pc_match_def sd_check_pc_in_die_def sim_dwarf_def sd_get_high_and_low_pc_def
      sd_get_filepath_def sd_has_at_def dwarf_numbers)

lemma sim_file: "0x401000 \<le> pc \<Longrightarrow> pc \<le> 0x401040 \<Longrightarrow> file_spec sim_env
    sim_dies (DbgAddr pc) = Some ''/src/main.c''"
  by (simp add: file_spec_def sim_dies_def sim_checks)

definition sim_lines :: "LineEntry list" where
  "sim_lines = [
     \<lparr>is_ok = True, new_statement = True, prologue_end = False, is_exact = False, ln = 2, cl = 5,
         addr = DbgAddr 0x401000, filepath = ''/src/main.c''\<rparr>,
     \<lparr>is_ok = True, new_statement = True, prologue_end = True, is_exact = False, ln = 3, cl = 5,
         addr = DbgAddr 0x401008, filepath = ''/src/main.c''\<rparr>,
     \<lparr>is_ok = True, new_statement = True, prologue_end = False, is_exact = False, ln = 4, cl = 5,
         addr = DbgAddr 0x401010, filepath = ''/src/main.c''\<rparr>]"

lemma sim_base_names: "basename (Some ''/src/main.c'') = ''main.c''" "dirname (Some ''/src/main.c'')
    = ''/src''"
  by code_simp+

lemma sim_filepath: "sd_get_filepath sim_dwarf 0 = Some ''/src/main.c''"
  by (simp add: sd_get_filepath_def sd_has_at_def dwarf_numbers sim_dwarf_def)

lemma sim_table: "file_table sim_dwarf Resolved sim_dies ''/src/main.c'' = \<lparr>is_set = True, lt_lines
    = sim_lines\<rparr>"
proof -
  have "sd_has_tag sim_dwarf 0 DW_TAG_compile_unit" by (simp add: sd_has_tag_def sim_dwarf_def
      dwarf_numbers)
  moreover have "sd_is_die_from_file sim_dwarf Resolved 0 ''/src/main.c''"
   by (simp add: sd_is_die_from_file_def sim_filepath Let_def str_eq_def)
  moreover have "sd_get_line_context sim_dwarf 0 = Some 40" "lw_lines_of_context sim_dwarf 40 =
      DW_OK [30,31,32]"
    by (simp_all add: sd_get_line_context_def sim_dwarf_def)
  moreover have "line_entries_of sim_dwarf [30,31,32] = Some sim_lines"
    by (simp add: sd_line_entry_from_dwarf_line_def sim_dwarf_def sim_lines_def dwarf_bool_to_bool_def)
  ultimately show ?thesis
    by (simp add: file_table_def sim_dies_def cu_lines_def)
qed

lemma sim_position:
  "pos_spec sim_env sim_dies (DbgAddr 0x401000) = Some \<lparr>pos_line = 2, pos_column = 5, pos_is_exact
      = True\<rparr>"
  "pos_spec sim_env sim_dies (DbgAddr 0x401008) = Some \<lparr>pos_line = 3, pos_column = 5, pos_is_exact
      = True\<rparr>"
  by (simp_all add: pos_spec_def line_spec_def sim_file sim_table line_entry_for_pc_def sim_lines_def
      position_of_def)

lemma sim_covering: "covering sim_symbols (DbgAddr 0x401000) = Some (sim_main, ''main'')"
  "covering sim_symbols (DbgAddr 0x401008) = Some (sim_main, ''main'')"
  "covering sim_symbols (DbgAddr 0x401030) = Some (sim_main, ''main'')"
  by code_simp+

section \<open>The requests to the process\<close>

lemma sim_read_register: "get_register_value quiet_kernel 1 r s = Some (sim_registers s ! reg_index r)"
  by (simp add: get_register_value_def pt_read_registers_def PTRACE_ERROR_def)

lemma sim_read_word: "pt_read_memory quiet_kernel 1 (RealAddr a) s = Some (word_of_bytes (map (\<lambda>i.
    sim_mem s (a + of_nat i)) [0..<8]))"
  by (simp add: pt_read_memory_def)

lemma sim_write_word: "pt_write_memory quiet_kernel 1 (RealAddr a) w s = (SP_OK, s\<lparr>sim_mem :=
    put_word (sim_mem s) a w\<rparr>)"
  by (simp add: pt_write_memory_def PTRACE_ERROR_def)

lemma sim_wait:
  assumes "sim_events (tracee st) = (0x57f, \<lparr>si_signo = 5, si_code = 2\<rparr>, pc) # es"
  shows "wait_for_signal sim_env st = Some (Value (SP_OK, st\<lparr>tracee := (tracee
      st)\<lparr>sim_events := es,
    sim_siginfo := \<lparr>si_signo = 5, si_code = 2\<rparr>, sim_regs := (sim_registers (tracee
        st))[reg_index RIP := pc]\<rparr>\<rparr>))"
proof -
  have "k_waitpid quiet_kernel 1 (tracee st) = (0x57f, (tracee st)\<lparr>sim_events := es,
    sim_siginfo := \<lparr>si_signo = 5, si_code = 2\<rparr>, sim_regs := (sim_registers (tracee
        st))[reg_index RIP := pc]\<rparr>)"
    using assms by (simp add: quiet_kernel_def sim_kernel_def)
  moreover have "\<not> WIFEXITED 0x57f" "\<not> WIFSIGNALED 0x57f" "\<not> WIFCONTINUED 0x57f"
      "WIFSTOPPED 0x57f"
    by (simp_all add: WIFEXITED_def WIFSIGNALED_def WIFCONTINUED_def WIFSTOPPED_def WTERMSIG_def)
  moreover have "pt_get_signal_info quiet_kernel 1 s = Some (sim_siginfo s)" if "si_signo (sim_siginfo s)
      = 5" for s
    using that by (simp add: quiet_kernel_def sim_kernel_def pt_get_signal_info_def PTRACE_ERROR_def
        SIGWINCH_def)
  ultimately show ?thesis
    by (subst wait_for_signal.simps)
      (simp add: then_do_Value change_tracee_def SIGSEGV_def SIGTRAP_def handle_sigtrap_def SI_KERNEL_def
          TRAP_BRKPT_def)
qed

lemma sim_regs_proc: "sim_registers sim_proc ! reg_index RIP = 0x401000" "sim_registers sim_proc !
    reg_index RBP = 0x7000"
  by (simp_all add: sim_registers_def sim_proc_def)

lemma sim_return_address: "pt_read_memory quiet_kernel 1 (RealAddr 0x7008) sim_proc = Some 0x401030"
  by (simp add: sim_read_word sim_proc_def sim_memory_def word_of_bytes_def upt_rec)

lemma sim_caller_frame: "pt_read_memory quiet_kernel 1 (RealAddr 0x7000) sim_proc = Some 0"
  by (simp add: sim_read_word sim_proc_def sim_memory_def word_of_bytes_def upt_rec)

lemma sim_main_code: "pt_read_memory quiet_kernel 1 (RealAddr 0x401000) sim_proc = Some 0xe5894855"
  by (simp add: sim_read_word sim_proc_def sim_memory_def word_of_bytes_def upt_rec)

section \<open>Stepping to the next line\<close>

lemma sim_get_dbg_pc: "get_dbg_pc sim_env st = Some (Value (real_to_dbg (load_address st) (RealAddr
    (sim_registers (tracee st) ! reg_index RIP)), st))"
  by (simp add: get_dbg_pc_def get_pc_def sim_read_register then_do_Value)

lemma sim_get_pc: "get_pc sim_env st = Some (Value (RealAddr (sim_registers (tracee st) ! reg_index RIP),
    st))"
  by (simp add: get_pc_def sim_read_register)

lemma sim_addr_position:
  assumes "dwarf st = 0" "cache_ok sim_env sim_dies (symbols st)" "a = 0x401000 \<or> a = 0x401008"
  shows "looks_up sim_env sim_dies st (addr_position sim_env (DbgAddr a)) (pos_spec sim_env sim_dies
      (DbgAddr a))"
  using addr_position_spec [OF sim_world_ok [OF assms(1)] assms(2), of "DbgAddr a"] assms(3)
  by (auto simp: sim_covering)

definition sim_proc2 :: sim_process where
  "sim_proc2 = sim_proc\<lparr>sim_events := [], sim_siginfo := \<lparr>si_signo = 5, si_code = 2\<rparr>,
     sim_regs := (sim_registers sim_proc)[reg_index RIP := 0x401008]\<rparr>"

lemma sim_step:
  assumes "tracee st = sim_proc" "breakpoints st = init_breakpoints sim_hashmap 1"
  shows "single_step_instruction sim_env st = Some (Value (SP_OK, st\<lparr>tracee := sim_proc2\<rparr>))"
proof -
  have "\<not> lookup_breakpoint sim_hashmap (init_breakpoints sim_hashmap 1) a" for a
   by (simp add: lookup_breakpoint_def init_breakpoints_def sim_hashmap_def)
  moreover have "wait_for_signal sim_env (st\<lparr>tracee := sim_proc\<rparr>) = Some (Value (SP_OK,
      st\<lparr>tracee := sim_proc2\<rparr>))"
    using sim_wait [of "st\<lparr>tracee := sim_proc\<rparr>" "0x401008" "[]"] by (simp add: sim_proc2_def
        sim_proc_def)
  ultimately show ?thesis
    using assms(1,2) by (simp add: single_step_instruction_def sim_get_pc then_do_def is_breakpoint_def
        get_state_def change_tracee_def
      pt_single_step_def PTRACE_ERROR_def)
qed

lemma sim_single_step_line: "\<exists>st'. single_step_line sim_env sim_dbg = Some (Value (SP_OK, st'))"
proof -
  have pc: "sim_registers sim_proc ! reg_index RIP = 0x401000" "sim_registers sim_proc2 ! reg_index RIP =
      0x401008"
    by (simp_all add: sim_registers_def sim_proc_def sim_proc2_def)
  obtain ss where 1: "addr_position sim_env (DbgAddr 0x401000) sim_dbg =
      Some (Value (Some \<lparr>pos_line = 2, pos_column = 5, pos_is_exact = True\<rparr>,
          sim_dbg\<lparr>symbols := ss\<rparr>))"
    and ss: "cache_ok sim_env sim_dies ss"
    using sim_addr_position [of sim_dbg "0x401000"] by (auto simp: looks_up_def sim_position sim_cache_ok)
  let ?st = "sim_dbg\<lparr>symbols := ss, tracee := sim_proc2\<rparr>"
  from ss obtain ss' where 2: "addr_position sim_env (DbgAddr 0x401008) ?st =
      Some (Value (Some \<lparr>pos_line = 3, pos_column = 5, pos_is_exact =
          True\<rparr>, ?st\<lparr>symbols := ss'\<rparr>))"
    using sim_addr_position [of ?st "0x401008"] by (auto simp: looks_up_def sim_position)
  have "step_line_loop sim_env 2 \<lparr>pos_line = 3, pos_column = 5, pos_is_exact = True\<rparr> 1
      (?st\<lparr>symbols := ss'\<rparr>) =
     Some (Value (SP_OK, ?st\<lparr>symbols := ss'\<rparr>))" by (subst step_line_loop.simps) simp
  with sim_step [of "sim_dbg\<lparr>symbols := ss\<rparr>"] 2 pc
  have "step_line_loop sim_env 2 \<lparr>pos_line = 2, pos_column = 5, pos_is_exact = True\<rparr> 0
      (sim_dbg\<lparr>symbols := ss\<rparr>) =
     Some (Value (SP_OK, ?st\<lparr>symbols := ss'\<rparr>))"
    by (subst step_line_loop.simps) (simp add: then_do_Value sim_get_dbg_pc real_to_dbg_def
        SINGLE_STEP_SEARCH_LIMIT_def)
  then show ?thesis
    using 1 pc by (simp add: single_step_line_def sim_get_dbg_pc then_do_Value real_to_dbg_def)
qed

section \<open>Stepping out and over\<close>

lemma sim_main_name: "symbol_name sim_main sim_elf = Defined ''main''"
  using sim_symbols_ok by (auto simp: symbols_ok_def sim_symbols_def sim_main_def dest!: spec [of _ 1])

lemma sim_continue:
  assumes "sim_alive (tracee st)" "RealAddr (sim_registers (tracee st) ! reg_index RIP) \<notin> bp_set
      sim_env st"
  shows "continue_execution sim_env st = Some (Value (SP_OK, st))"
proof -
  have "k_cont quiet_kernel 1 (tracee st) = (0, 0, tracee st)" using assms by (simp add: quiet_kernel_def
      sim_kernel_def)
  then show ?thesis using assms
  by (simp add: continue_execution_def continue_execution_with_def single_step_breakpoint_with_def
      then_do_def bp_set_def
    sim_get_pc is_breakpoint_def get_state_def change_tracee_def pt_continue_execution_def
        PTRACE_ERROR_def ESRCH_def)
qed

text \<open>The process has not run yet; breakpoints are set at the addresses in \<open>A\<close>.\<close>

definition at_start :: "sim_debugger \<Rightarrow> real_addr set \<Rightarrow> bool" where
  "at_start st A \<longleftrightarrow> code_ok sim_mem UNIV sim_memory sim_env st \<and> bp_set sim_env st
      = A \<and>
     sim_regs (tracee st) = sim_regs sim_proc \<and> sim_events (tracee st) = sim_events sim_proc \<and>
     sim_alive (tracee st)"

lemma sim_at_start: "at_start sim_dbg {}"
  by (simp add: at_start_def sim_code_ok sim_bp_set) (simp add: sim_proc_def)

lemma at_start_enable:
  assumes "at_start st A"
  obtains b s where "enable_breakpoint quiet_kernel sim_hashmap a (breakpoints st, tracee st) = Ret
      (SP_OK, b, s)"
    "at_start (st\<lparr>breakpoints := b, tracee := s\<rparr>) (insert a A)"
proof -
  from assms have ok: "code_ok sim_mem UNIV sim_memory sim_env st" by (simp add: at_start_def)
  from code.enable_law [OF ok, of a] obtain r st' where r: "enable_bp sim_env a st = Some (Value (r, st'))"
    "code_ok sim_mem UNIV sim_memory sim_env st'" "bp_set sim_env st' = (if r = SP_OK then insert a
        (bp_set sim_env st) else bp_set sim_env st)" by auto
  from enable_bp_requests_ok [OF _ r(1)] sim_requests_ok have r_ok: "r = SP_OK" by simp
  from r(1) obtain b s where en: "enable_breakpoint quiet_kernel sim_hashmap a (breakpoints st, tracee st)
      = Ret (r, b, s)"
    and st': "st' = st\<lparr>breakpoints := b, tracee := s\<rparr>" by (auto simp: enable_bp_def split:
        run.splits prod.splits)
  from en have "sim_regs s = sim_regs (tracee st) \<and> sim_events s = sim_events (tracee st) \<and>
      sim_alive s = sim_alive (tracee st)"
   by (auto simp: enable_breakpoint_def pt_read_memory_def pt_write_memory_def PTRACE_ERROR_def Let_def
       split: prod.splits option.splits if_splits)
  with assms en r r_ok st' that [of b s] show ?thesis by (simp add: at_start_def)
qed

lemma at_start_word:
  assumes "at_start st A" "\<forall>i\<in>{0,1,2,3,4,5,6,7}. RealAddr (a + of_nat i) \<notin> A"
  shows "pt_read_memory quiet_kernel 1 (RealAddr a) (tracee st) = pt_read_memory quiet_kernel 1 (RealAddr
      a) sim_proc"
proof -
  have "sim_mem (tracee st) (a + of_nat i) = sim_memory (a + of_nat i)" if "i < 8" for i
  proof -
    from that have "i \<in> {0,1,2,3,4,5,6,7}" by auto
    with assms(2) have "RealAddr (a + of_nat i) \<notin> A" by blast
    then show ?thesis using assms(1) code_ok_memory [of sim_mem UNIV sim_memory sim_env st "a + of_nat i"]
        by (simp add: at_start_def)
  qed
  then have "map (\<lambda>i. sim_mem (tracee st) (a + of_nat i)) [0..<8] = map (\<lambda>i. sim_memory
      (a + of_nat i)) [0..<8]" by simp
  then have "word_of_bytes (map (\<lambda>i. sim_mem (tracee st) (a + of_nat i)) [0..<8]) =
      word_of_bytes (map (\<lambda>i. sim_memory (a + of_nat i)) [0..<8])" by (rule arg_cong)
  then show ?thesis by (simp only: sim_read_word) (simp add: sim_proc_def)
qed

lemma at_start_registers: "at_start st A \<Longrightarrow> sim_registers (tracee st) = sim_registers
    sim_proc"
  by (simp add: at_start_def sim_registers_def)

lemma sim_set_return:
  assumes "at_start st A" "\<forall>i\<in>{0,1,2,3,4,5,6,7}. RealAddr (0x7008 + of_nat i) \<notin> A"
      "RealAddr 0x401030 \<notin> A"
  obtains st' where "set_return_address_breakpoint sim_env st = Some (Value ((True, RealAddr 0x401030),
      st'))"
     "at_start st' (insert (RealAddr 0x401030) A)"
proof -
  from assms(1) obtain b s where en: "enable_breakpoint quiet_kernel sim_hashmap (RealAddr 0x401030)
      (breakpoints st, tracee st) = Ret (SP_OK, b, s)"
    "at_start (st\<lparr>breakpoints := b, tracee := s\<rparr>) (insert (RealAddr 0x401030) A)" by (rule
        at_start_enable)
  have word: "pt_read_memory quiet_kernel 1 (RealAddr 0x7008) (tracee st) = Some 0x401030"
    using at_start_word [OF assms(1,2)] sim_return_address by simp
  have "\<not> lookup_breakpoint sim_hashmap (breakpoints st) (RealAddr 0x401030)" using assms(1,3) by
      (auto simp: at_start_def bp_set_def)
  then have "set_return_address_breakpoint sim_env st = Some (Value ((True, RealAddr 0x401030),
      st\<lparr>breakpoints := b, tracee := s\<rparr>))"
    using en(1) word at_start_registers [OF assms(1)] sim_regs_proc(2)
    by (simp add: set_return_address_breakpoint_def then_do_def sim_read_register
      assert_some_def is_breakpoint_def get_state_def read_tracee_def Let_def enable_bp_def)
  with en show ?thesis using that by blast
qed

lemma sim_disable_all:
  "table_ok sim_env st \<Longrightarrow> \<exists>st'. disable_all sim_env as st = Some (Value ((), st'))"
proof (induction as arbitrary: st)
  case (Cons a as)
  from tab.disable_law [OF Cons.prems, of a] obtain r st1 where "disable_bp sim_env a st = Some (Value (r,
      st1))" "table_ok sim_env st1" by blast
  with Cons.IH [of st1] show ?case by (auto simp: then_do_Value)
qed simp

lemma code_ok_table: "code_ok sim_mem UNIV sim_memory sim_env st \<Longrightarrow> table_ok sim_env st"
  by (auto simp: code_ok_def bps_ok_def bp_inv_def table_ok_def entry_inv_def sim_hashmap_ok split:
      option.splits)

lemma sim_internal:
  assumes "at_start st A" "\<forall>i\<in>{0,1,2,3,4,5,6,7}. RealAddr (0x7008 + of_nat i) \<notin> A"
      "RealAddr 0x401000 \<notin> A" "RealAddr 0x401030 \<notin> A"
  shows "\<exists>st'. then_do (set_return_address_breakpoint sim_env) (\<lambda>(new, a).
    then_do (continue_execution sim_env) (\<lambda>_. then_do (wait_for_signal sim_env) (\<lambda>res.
    then_do (disable_all sim_env dels) (\<lambda>_.
    then_do (if new then then_do (disable_bp sim_env a) (\<lambda>_. return ()) else return ())
        (\<lambda>_. return res))))) st =
    Some (Value (SP_OK, st'))"
proof -
  from assms obtain st1 where 1: "set_return_address_breakpoint sim_env st = Some (Value ((True, RealAddr
      0x401030), st1))"
     and s1: "at_start st1 (insert (RealAddr 0x401030) A)"
    using sim_set_return [of st A] by blast
  have "sim_registers (tracee st1) ! reg_index RIP = 0x401000"
    using at_start_registers [OF s1] sim_regs_proc by simp
  with 1 s1 assms have 2: "continue_execution sim_env st1 = Some (Value (SP_OK, st1))"
    by (intro sim_continue) (auto simp: at_start_def)
  have "sim_events (tracee st1) = (0x57f, \<lparr>si_signo = 5, si_code = 2\<rparr>, 0x401008) # []"
    using s1 by (simp add: at_start_def sim_proc_def)
  from sim_wait [OF this] obtain st2 where 3: "wait_for_signal sim_env st1 = Some (Value (SP_OK, st2))"
      "breakpoints st2 = breakpoints st1"
    by simp
  with s1 code_ok_table have "table_ok sim_env st2" unfolding at_start_def by (blast intro: table_frame)
  with sim_disable_all obtain st3 where 4: "disable_all sim_env dels st2 = Some (Value ((), st3))" by blast
  with tab.disable_all_set [OF \<open>table_ok sim_env st2\<close>] have "table_ok sim_env st3" by blast
  from tab.disable_law [OF this] obtain r st4 where "disable_bp sim_env (RealAddr 0x401030) st3 = Some
      (Value (r, st4))" by blast
  with 1 2 3 4 show ?thesis by (simp add: then_do_Value)
qed

lemma sim_step_out: "\<exists>st'. step_out sim_env sim_dbg = Some (Value (SP_OK, st'))"
  using sim_internal [OF sim_at_start, of "[]"] by (simp add: step_out_def)

lemma sim_subprog: "first_match (subprog_range sim_dwarf ''main'') sim_dies = Some (0x401000, 0x401040)"
  by (simp add: sim_dies_def subprog_range_def sd_is_subprog_with_name_def sd_has_tag_def sim_dwarf_def
      str_eq_def
     sd_get_high_and_low_pc_def DW_TAG_subprogram_def DW_AT_name_def DW_FORM_addr_def)

lemma sim_for_each_line:
  "sd_for_each_line sim_dwarf Resolved ''main'' ''/src/main.c'' cb c 0 = Some (run_all cb sim_lines c, 0)"
proof -
  have "sd_get_subprog_pc_range sim_dwarf ''main'' 0 = Some (\<lparr>range_is_set = True, range_lowpc =
      DbgAddr 0x401000, range_highpc = DbgAddr 0x401040\<rparr>, 0)"
    using get_subprog_pc_range_first [OF sim_dwarf_ok] sim_subprog by (simp add: sim_info_dies)
  moreover have "sd_get_line_table sim_dwarf Resolved ''/src/main.c'' 0 = Some (\<lparr>is_set = True,
      lt_lines = sim_lines\<rparr>, 0)"
    using get_line_table_first [OF sim_dwarf_ok] sim_table by (simp add: sim_info_dies)
  moreover have "get_line_table_index_of_pc \<lparr>is_set = True, lt_lines = sim_lines\<rparr> (DbgAddr
      0x401000) = Some 0"
    by (simp add: get_line_table_index_of_pc_def sim_lines_def)
  moreover have "function_lines (DbgAddr 0x401040) sim_lines = sim_lines" by (simp add: function_lines_def
      sim_lines_def)
  ultimately show ?thesis by (simp add: sd_for_each_line_def line_loop_run_all)
qed

lemma sim_line_breakpoints:
  assumes "at_start st {}" "dwarf st = 0" "load_address st = RealAddr 0"
  obtains st' where "for_each_line_bp sim_env ''main'' ''/src/main.c'' 2 st = Some (Value ([RealAddr
      0x401008, RealAddr 0x401010], st'))"
    "at_start st' {RealAddr 0x401010, RealAddr 0x401008}"
proof -
  from assms(1) obtain b1 s1 where 1: "enable_breakpoint quiet_kernel sim_hashmap (RealAddr 0x401008)
      (breakpoints st, tracee st) = Ret (SP_OK, b1, s1)"
    "at_start (st\<lparr>breakpoints := b1, tracee := s1\<rparr>) {RealAddr 0x401008}" by (rule
        at_start_enable)
  from 1(2) obtain b2 s2 where 2: "enable_breakpoint quiet_kernel sim_hashmap (RealAddr 0x401010) (b1, s1)
      = Ret (SP_OK, b2, s2)"
    "at_start (st\<lparr>breakpoints := b2, tracee := s2\<rparr>) {RealAddr 0x401010, RealAddr 0x401008}"
     by (rule at_start_enable [of _ _ "RealAddr 0x401010"]) simp
  from assms(1) 1(2) have off: "\<not> lookup_breakpoint sim_hashmap (breakpoints st) a"
    "lookup_breakpoint sim_hashmap b1 a \<longleftrightarrow> a = RealAddr 0x401008" for a
    by (auto simp: at_start_def bp_set_def)
  have "run_all (callback__set_dwarf_line_breakpoint quiet_kernel sim_hashmap (RealAddr 0) 2)
      sim_lines \<lparr>to_del = [], cb_store = (breakpoints st, tracee st)\<rparr>
    = Ret (SP_OK, \<lparr>to_del = [RealAddr 0x401008, RealAddr 0x401010], cb_store = (b2, s2)\<rparr>)"
    using 1(1) 2(1) off by (simp add: sim_lines_def callback__set_dwarf_line_breakpoint_def Let_def)
  with assms 2(2) that [of "st\<lparr>breakpoints := b2, tracee := s2\<rparr>"] show ?thesis
    by (simp add: for_each_line_bp_def sim_for_each_line)
qed

lemma sim_step_over: "\<exists>st'. step_over sim_env sim_dbg = Some (Value (SP_OK, st'))"
proof -
  let ?sym = "\<lparr>sym_elf = sim_main, sym_has_addr = Some (DbgAddr 0x401000), sym_has_position = None,
      sym_file = None\<rparr>"
  let ?st1 = "sim_dbg\<lparr>symbols := [?sym]\<rparr>"
  have 1: "sym_by_addr sim_env (DbgAddr 0x401000) sim_dbg = Some (Value (Some 0, ?st1))"
    using sym_by_addr_spec [OF sim_world_ok, of sim_dbg "DbgAddr 0x401000"] by (simp add: sim_covering)
  have c1: "cache_ok sim_env sim_dies [?sym]" by (simp add: cache_ok_def)
  obtain ss2 where 2: "sym_position sim_env (Some 0) ?st1 = Some (Value (Some \<lparr>pos_line = 2,
      pos_column = 5, pos_is_exact = True\<rparr>, sim_dbg\<lparr>symbols := ss2\<rparr>))"
    and c2: "cache_ok sim_env sim_dies ss2" "grows [?sym] ss2"
    using sym_position_spec [OF sim_world_ok, of ?st1 0] c1 by (auto simp: looks_up_def addr_of_def
        sim_position)
  have len: "0 < length ss2" "sym_elf (ss2 ! 0) = sim_main" "sym_has_addr (ss2 ! 0) = Some (DbgAddr
      0x401000)"
    using c2(2) by (auto simp: grows_def)
  have 3: "sym_name sim_env (Some 0) (sim_dbg\<lparr>symbols := ss2\<rparr>) = Some (Value (Some ''main'',
      sim_dbg\<lparr>symbols := ss2\<rparr>))"
    using len by (simp add: sym_name_def then_do_Value sim_main_name)
  obtain ss3 where 4: "sym_filepath sim_env (Some 0) (sim_dbg\<lparr>symbols := ss2\<rparr>) = Some (Value
      (Some ''/src/main.c'', sim_dbg\<lparr>symbols := ss3\<rparr>))"
    using sym_filepath_spec [OF sim_world_ok, of "sim_dbg\<lparr>symbols := ss2\<rparr>" 0] c2 len by
        (auto simp: looks_up_def addr_of_def sim_file)
  have "at_start (sim_dbg\<lparr>symbols := ss3\<rparr>) {}"
    using sim_at_start code.frame_law [of sim_mem UNIV sim_memory sim_env sim_dbg
        "sim_dbg\<lparr>symbols := ss3\<rparr>"] by (simp add: at_start_def bp_set_def)
  then obtain st4 where 5: "for_each_line_bp sim_env ''main'' ''/src/main.c'' 2 (sim_dbg\<lparr>symbols :=
      ss3\<rparr>) = Some (Value ([RealAddr 0x401008, RealAddr 0x401010], st4))"
    and s4: "at_start st4 {RealAddr 0x401010, RealAddr 0x401008}"
    by (rule sim_line_breakpoints) simp_all
  have "set_step_over_breakpoints sim_env (Some 0) ?st1 = Some (Value (Some [RealAddr 0x401008, RealAddr
      0x401010], st4))"
    using 2 3 4 5 by (simp add: set_step_over_breakpoints_def then_do_Value)
  moreover have "\<forall>i\<in>{0,1,2,3,4,5,6,7}. RealAddr (0x7008 + of_nat i) \<notin> {RealAddr
      0x401010, RealAddr 0x401008}"
    by simp
  ultimately show ?thesis
    using sim_internal [OF s4, of "[RealAddr 0x401008, RealAddr 0x401010]"] 1 sim_regs_proc(1)
    by (simp add: step_over_def then_do_Value sim_get_dbg_pc real_to_dbg_def)
qed

section \<open>The variable \<^verbatim>\<open>x\<close>\<close>

definition sim_int :: SdBasetype where
  "sim_int = \<lparr>base_tag = BASE_TYPE_INT, base_size = 4\<rparr>"

definition sim_type :: SdType where
  "sim_type = \<lparr>nodes = [Some (NODE_BASE_TYPE sim_int)], n_alloc = 32\<rparr>"

lemma sim_tags:
  "sd_has_tag sim_dwarf 0 t = (t = 0x11)" "sd_has_tag sim_dwarf (Suc 0) t = (t = 0x2e)"
  "sd_has_tag sim_dwarf 3 t = (t = 0x34)" "sd_has_tag sim_dwarf 2 t = (t = 0x24)"
  by (auto simp: sd_has_tag_def sim_dwarf_def)

lemma sim_type_die: "sd_type_die sim_dwarf d = (if d = 3 then Some 2 else None)"
  by (simp add: sd_type_die_def sim_dwarf_def)

lemma sim_has_at:
  "sd_has_at sim_dwarf d a = (d = 0 \<and> (a = 0x03 \<or> a = 0x1b) \<or> d = 3 \<and> (a = 0x02 \<or> a = 0x49))"
  by (auto simp: sd_has_at_def sim_dwarf_def dwarf_bool_to_bool_def)

lemma sim_base_type: "sd_build_base_type sim_dwarf 2 = Some (NODE_BASE_TYPE sim_int)"
  by (simp add: sd_build_base_type_def sim_dwarf_def base_type_names_def sim_int_def)

lemma sim_variable_type: "sd_variable_type sim_dwarf 3 = Some (Some sim_type)"
  by (simp add: sd_variable_type_def sim_has_at DW_AT_type_def, subst sd_build_type.simps)
    (simp add: sim_has_at DW_AT_type_def alloc_node_def alloc_type_def TYPE_ALLOC_def sim_type_die
      sim_base_type DW_TAG_base_type_def set_node_def sim_type_def
      sim_dwarf_def [THEN arg_cong [where f = lw_tag]])

lemma sim_check_pc:
  "d < 2 \<Longrightarrow> sd_check_pc_in_die sim_dwarf d pc = DW_OK (0x401000 \<le> pc \<and> pc \<le> 0x401040)"
  by (simp add: sd_check_pc_in_die_def sd_get_high_and_low_pc_def sim_dwarf_def DW_FORM_addr_def)

lemma sim_match:
  "match_variable sim_dwarf ''x'' 3 f = Some (True, f\<lparr>decl_file := Some ''/src/main.c'', decl_line := 3,
     loc_attr := Some 21, var_type := sim_type\<rparr>)"
proof -
  have "lw_diename sim_dwarf 3 = DW_OK ''x''" "lw_attr sim_dwarf 3 DW_AT_location = DW_OK 21"
    by (simp_all add: sim_dwarf_def DW_AT_location_def)
  moreover have "declared_in sim_dwarf 3 = Some ''/src/main.c''"
    by (simp add: declared_in_def sim_dwarf_def sd_get_die_source_files_def sd_get_cu_of_die_def
        DW_AT_decl_file_def Let_def)
  moreover have "declared_at sim_dwarf 3 = 3"
    by (simp add: declared_at_def sim_dwarf_def DW_AT_decl_line_def Let_def)
  moreover have "sd_init_loc_attr sim_dwarf 3 21 = Some 21" by (simp add: sd_init_loc_attr_def sim_dwarf_def)
  ultimately show ?thesis
    by (simp add: match_variable_def sim_tags sim_has_at DW_TAG_variable_def DW_AT_location_def str_eq_def
        sim_variable_type)
qed

lemma sim_variable:
  assumes "0x401000 \<le> pc" "pc \<le> 0x401040"
  shows "sd_runtime_variable sim_dwarf (DbgAddr pc) ''x'' 0 =
     Some (Some (\<lparr>va_loc = Some 21, va_type = sim_type\<rparr>, Some ''/src/main.c'', 3), 0)"
proof -
  have "search_variable sim_dwarf \<lparr>vs_pc = DbgAddr pc, use_scope = True, vs_var_name = ''x''\<rparr> no_findings 0
      = Some ((DW_DLV_OK, \<lparr>in_scope = True, scope_level = 1, loc_attr = Some 21, var_type = sim_type,
          decl_file = Some ''/src/main.c'', decl_line = 3\<rparr>), 0)"
    unfolding search_variable_def search_dwarf_dbg_scan [OF sim_dwarf_ok] sim_info_dies sim_dies_def
    using assms
    by (simp add: find_runtime_variable_def sim_tags DW_TAG_subprogram_def leave_scope_def
        enter_subprogram_def sim_check_pc no_findings_def sim_match search_code_def)
  then show ?thesis by (simp add: sd_runtime_variable_def found_variable_def Let_def)
qed

definition sim_op :: "u8 \<Rightarrow> u64 \<Rightarrow> SdOperation" where
  "sim_op c a = \<lparr>opcode = c, operand1 = a, operand2 = 0, operand3 = 0\<rparr>"

definition sim_everywhere :: SdLocRange where
  "sim_everywhere = \<lparr>meaningful = False, lr_lowpc = DbgAddr 0, lr_highpc = DbgAddr 0\<rparr>"

lemma sim_loclists:
  "sd_init_loclist sim_dwarf (Some 20) = Some [([sim_op 0x56 0], sim_everywhere)]"
  "sd_init_loclist sim_dwarf (Some 21) = Some [([sim_op 0x91 (- 4)], sim_everywhere)]"
  by (simp_all add: sd_init_loclist_def sim_dwarf_def sd_init_loc_range_def sim_everywhere_def sim_op_def
      dwarf_bool_to_bool_def eval_nat_numeral)

definition sim_eval_env :: "(nat, nat, sim_process) eval_env" where
  "sim_eval_env = \<lparr>env_dwarf = sim_dwarf, env_kernel = quiet_kernel, env_tracee = sim_proc,
     env_ctx = \<lparr>ctx_pid = 1, ctx_pc = DbgAddr 0x401000, ctx_elf = sim_elf,
                ctx_load_address = RealAddr 0\<rparr>\<rparr>"

lemma sim_eval_env_ok: "env_ok sim_eval_env 0 sim_info [] sim_symbols"
  by (simp add: env_ok_def sim_eval_env_def sim_dwarf_ok sim_symbols_ok)

lemma sim_frame_base:
  "frame_base sim_eval_env (dies (sim_info @ [])) sim_symbols = Some [([sim_op 0x56 0], sim_everywhere)]"
proof -
  have "first_match (loc_attr_match sim_dwarf ''main'' DW_AT_frame_base) sim_dies = Some (Some 20)"
    by (simp add: sim_dies_def loc_attr_match_def sd_is_subprog_with_name_def sim_tags DW_TAG_subprogram_def
        DW_AT_name_def sim_dwarf_def str_eq_def DW_AT_frame_base_def sd_init_loc_attr_def)
  then show ?thesis
    using sim_covering(1)
    by (simp add: frame_base_def sim_eval_env_def covering_def sim_info_dies sim_loclists split: option.splits)
qed

lemma sim_choose: "choose_entry pc [(expr, sim_everywhere)] = Some expr"
  by (simp add: choose_entry_def sim_everywhere_def is_active_range_def)

lemma sim_frame_register: "dwarf_regnum_to_x86_reg 6 = Some RBP"
  by code_simp

lemma sim_location:
  "sd_eval_loclist sim_eval_env [([sim_op 0x91 (- 4)], sim_everywhere)] 0 =
     Some (Defined (Some (LOC_ADDR (RealAddr 0x6ffc))), 0)"
  using eval_fbreg_loclist [OF sim_eval_env_ok sim_choose _ sim_frame_base sim_choose,
      of "sim_op 0x91 (- 4)" RBP "0x7000"] sim_regs_proc(2) sim_frame_register
  by (simp add: sim_op_def sim_eval_env_def sim_read_register DW_OP_reg0_def add_int64_def
      LONG_MIN_def LONG_MAX_def)

lemma sim_frame_base_value:
  "sd_eval_loclist sim_eval_env [([sim_op 0x56 0], sim_everywhere)] 0 = Some (Defined (Some (LOC_REG RBP)), 0)"
  using eval_register_expr [of "sim_op 0x56 0" RBP] sim_frame_register
  by (simp add: eval_loclist_choose [OF sim_choose] sim_op_def DW_OP_reg0_def)

lemma sim_offset_fits:
  "offset_fits sim_eval_env 0 [([sim_op 0x56 0], sim_everywhere)] (sim_op 0x91 (- 4))"
  unfolding offset_fits_def sim_frame_base_value
  using sim_regs_proc(2) by (simp add: sim_op_def sim_eval_env_def sim_read_register)

definition sim_var :: RuntimeVariable where
  "sim_var = \<lparr>var_loc = LOC_ADDR (RealAddr 0x6ffc), var_decl_file = Some ''/src/main.c'',
     var_decl_line = 3, var_SdType = sim_type\<rparr>"

lemma sim_init_var:
  "init_var sim_env (DbgAddr 0x401000) (RealAddr 0) ''x'' sim_dbg = Some (Value (Some sim_var, sim_dbg))"
  using sim_variable [of "0x401000"] sim_location
  by (simp add: init_var_def then_do_def from_dwarf_def sim_loclists eval_location_def sim_eval_env_def
      sim_var_def)

end
