(* ===== verification/Debug_Info_Properties.thy ===== *)
theory Debug_Info_Properties
  imports Simulation_Env
begin

text \<open>
  The properties of the debug information: searching libdwarf's DIEs, lines, types, variables and
  their locations, executable files and their symbols, the printing of values, backtraces. Each
  has an example in the environment of \<^verbatim>\<open>Simulation_Env\<close>.
\<close>

section \<open>Searching and lines\<close>

text \<open>
  C23. If libdwarf presents the compilation units as trees, a search calls its callback on the
  DIEs of all units in preorder, each with its level, until the callback says that it has found
  what it looks for. The iterator over the units is then back where it was, so that the next
  search starts from the first unit.
\<close>

theorem search_in_preorder:
  assumes "dwarf_ok L w info types"
  shows "sd_search_dwarf_dbg L cb f w =
    (case scan cb (dies (info @ types)) f of
       (found, f') \<Rightarrow> Some (if found then DW_DLV_OK else DW_DLV_NO_ENTRY, f', w))"
  using search_dwarf_dbg_scan [OF assms, of cb f] by (simp add: search_code_def split: prod.split)

theorem search_in_preorder_example:
  "sd_search_dwarf_dbg sim_dwarf (\<lambda>d level seen. (d = 3, seen @ [(d, level)])) [] 0 =
     Some (DW_DLV_OK, [(0, 0), (1, 1), (3, 2)], 0)"
  by (simp add: search_in_preorder [OF sim_dwarf_ok] sim_info_dies sim_dies_def)





section \<open>Types, variables and locations\<close>

text \<open>
  C26. The chain of nodes that is built for the type of a variable consists of modifiers and
  typedefs that end in a base type, or in the pointer of a \<^verbatim>\<open>void *\<close>; all of its nodes are
  initialised and lie within the allocated array.
\<close>

theorem variable_type_complete:
  assumes "sd_variable_type L die = Some (Some type)"
  shows "length (nodes type) < n_alloc type \<and>
    (\<exists>ms. (\<forall>m \<in> set ms. \<exists>t. m = NODE_MODIFIER t \<or> m = NODE_TYPEDEF) \<and>
       ((\<exists>b. nodes type = map Some (ms @ [NODE_BASE_TYPE b])) \<or>
        nodes type = map Some (ms @ [NODE_MODIFIER TYPE_MOD_POINTER])))"
proof -
  have "\<exists>t. m = NODE_MODIFIER t \<or> m = NODE_TYPEDEF" if "modifies m" for m
    using that by (cases m) auto
  with variable_type_ok [OF assms] show ?thesis
    unfolding type_ok_def complete_nodes_def by blast
qed

theorem variable_type_complete_example:
  "\<exists>type. sd_variable_type sim_dwarf 3 = Some (Some type) \<and> length (nodes type) < n_alloc type"
  using variable_type_complete [OF sim_variable_type] sim_variable_type by blast

text \<open>
  Building a type comes to an end if the types of the debug information are not circular:
  if every step from a DIE to its type goes down in some rank.
\<close>

theorem variable_type_ends:
  assumes "\<And>d d'. sd_type_die L d = Some d' \<Longrightarrow> rank d' < (rank d :: nat)"
  shows "\<exists>r. sd_variable_type L die = Some r"
  by (rule variable_type_terminates) (rule assms)

theorem variable_type_ends_example: "\<exists>r. sd_variable_type sim_dwarf 3 = Some r"
  by (rule variable_type_ends [where rank = "\<lambda>d. d"]) (simp add: sim_type_die split: if_splits)



text \<open>
  C20. A location \<^verbatim>\<open>DW_OP_fbreg\<close> gives the address at that offset from the frame base, if the
  frame base of the subprogram at the program counter is a register: the value of the register
  plus the offset, both read as signed numbers. A sum that does not fit 64 bits is undefined.
\<close>

theorem frame_base_location:
  assumes "env_ok E w info types syms"
    and "choose_entry (ctx_pc (env_ctx E)) loclist = Some [op]" and "opcode op = 0x91"
    and "frame_base E (dies (info @ types)) syms = Some fb"
    and "choose_entry (ctx_pc (env_ctx E)) fb = Some [reg_op]"
    and "0x50 \<le> opcode reg_op" and "opcode reg_op \<le> 0x6f"
    and "dwarf_regnum_to_x86_reg (opcode reg_op - 0x50) = Some r"
    and "get_register_value (env_kernel E) (ctx_pid (env_ctx E)) r (env_tracee E) = Some b"
  shows "sd_eval_loclist E loclist w =
    Some (let s = sint b + sint (operand1 op) in
            if - (2 ^ 63) \<le> s \<and> s < 2 ^ 63 then Defined (Some (LOC_ADDR (RealAddr (word_of_int s)))) else UB, w)"
  using eval_fbreg_loclist [OF assms(1-7) _ assms(9)] assms(8)
  by (auto simp: DW_OP_reg0_def add_int64_def LONG_MIN_def LONG_MAX_def Let_def)

theorem frame_base_location_example:
  "sd_eval_loclist sim_eval_env [([sim_op 0x91 (- 8)], sim_everywhere)] 0 =
     Some (Defined (Some (LOC_ADDR (RealAddr 0x6ff8))), 0)"
  using frame_base_location [OF sim_eval_env_ok sim_choose _ sim_frame_base sim_choose,
      of "sim_op 0x91 (- 8)" RBP "0x7000"] sim_regs_proc(2) sim_frame_register
  by (simp add: sim_op_def sim_eval_env_def sim_read_register)

text \<open>
  C21. The evaluation of a location list comes to an end and does nothing that C leaves
  undefined if the list that is active has operations, and the frame base has some, too, and is
  not given relative to itself, and the offsets from the frame base stay within 64 bits. (An
  active list without operations reads the top of an empty stack.)
\<close>

theorem location_defined:
  assumes "env_ok E w info types syms"
    and "\<And>expr. choose_entry (ctx_pc (env_ctx E)) loclist = Some expr \<Longrightarrow> expr \<noteq> []"
    and "\<And>fb expr. frame_base E (dies (info @ types)) syms = Some fb \<Longrightarrow>
      choose_entry (ctx_pc (env_ctx E)) fb = Some expr \<Longrightarrow> expr \<noteq> [] \<and> (\<forall>op \<in> set expr. opcode op \<noteq> 0x91)"
    and "\<And>fb expr op. frame_base E (dies (info @ types)) syms = Some fb \<Longrightarrow>
      choose_entry (ctx_pc (env_ctx E)) loclist = Some expr \<Longrightarrow> op \<in> set expr \<Longrightarrow> opcode op = 0x91 \<Longrightarrow>
      offset_fits E w fb op"
  shows "\<exists>r. sd_eval_loclist E loclist w = Some (Defined r, w)"
  by (rule eval_loclist_total [OF assms(1)]) (use assms(2-4) in \<open>auto simp: plain_op_def\<close>)

theorem location_defined_example:
  "\<exists>r. sd_eval_loclist sim_eval_env [([sim_op 0x91 (- 4), sim_op 0x23 8], sim_everywhere)] 0 = Some (Defined r, 0)"
  by (rule location_defined [OF sim_eval_env_ok])
    (auto simp: sim_choose sim_frame_base [simplified] sim_op_def
      intro: sim_offset_fits [unfolded sim_op_def])

section \<open>Executable files and their symbols\<close>



text \<open>
  C29. If the symbol table of a file holds the symbols \<open>syms\<close> with their names, the look-ups by
  address and by name give the first symbol that covers the address, its end included, and the
  first with the name.
\<close>

theorem first_symbol:
  assumes "symbols_ok elf syms" and "c_string name"
  shows "se_symbol_from_addr (DbgAddr a) elf =
      Defined (map_option fst (find (\<lambda>(s, n). st_value s \<le> a \<and> a \<le> st_value s + st_size s) syms)) \<and>
    se_symbol_from_name name elf = Defined (map_option fst (find (\<lambda>(s, n). n = name) syms))"
proof -
  have "(\<lambda>s. covers (DbgAddr a) (fst s)) =
      (\<lambda>(s :: Elf64_Sym, n :: string). st_value s \<le> a \<and> a \<le> st_value s + st_size s)"
    by (auto simp: covers_def se_symbol_start_addr_def se_symbol_end_addr_def)
  moreover have "(\<lambda>s :: Elf64_Sym \<times> string. snd s = name) = (\<lambda>(s, n). n = name)" by auto
  ultimately show ?thesis
    using symbol_from_addr_list [OF assms(1), of "DbgAddr a"] symbol_from_name_list [OF assms] by simp
qed

theorem first_symbol_example:
  "se_symbol_from_addr (DbgAddr 0x401040) sim_elf = Defined (Some sim_main) \<and>
   se_symbol_from_name ''main'' sim_elf = Defined (Some sim_main)"
  using first_symbol [OF sim_symbols_ok, of "''main''" "0x401040"]
  by (simp add: c_string_def sim_symbols_def sim_main_def)

text \<open>
  C31. The position of a symbol is the one that libdwarf's line tables give for its address,
  whether it is cached in the symbol or not: the cached look-up agrees with the specification
  without a cache, and leaves the caches right and the rest of the debugger as it was.
\<close>

theorem cached_position:
  assumes "world_ok E ds syms st" and "cache_ok E ds (symbols st)" and "p < length (symbols st)"
  shows "\<exists>ss. sym_position E (Some p) st =
      Some (Value (pos_spec E ds (addr_of (symbols st ! p)), st\<lparr>symbols := ss\<rparr>)) \<and>
    cache_ok E ds ss \<and> grows (symbols st) ss"
  using sym_position_spec [OF assms] by (simp add: looks_up_def)

theorem cached_position_example:
  "\<exists>ss. sym_position sim_env (Some 0) (sim_dbg\<lparr>symbols := [\<lparr>sym_elf = sim_main, sym_has_addr = None,
      sym_has_position = None, sym_file = None\<rparr>]\<rparr>) =
    Some (Value (Some \<lparr>pos_line = 2, pos_column = 5, pos_is_exact = True\<rparr>, sim_dbg\<lparr>symbols := ss\<rparr>))"
  using cached_position [OF sim_world_ok, of "sim_dbg\<lparr>symbols := [\<lparr>sym_elf = sim_main, sym_has_addr = None,
      sym_has_position = None, sym_file = None\<rparr>]\<rparr>" 0]
  by (auto simp: cache_ok_def addr_of_def se_symbol_start_addr_def sim_main_def sim_position)

section \<open>The values of variables\<close>



text \<open>
  C27. Printing a variable whose type is complete never reads an uninitialised node. A type with
  a pointer in it is printed as an address and keeps all bytes; otherwise the base type at the
  end of the chain decides about the text, and the value keeps the bytes of that type.
\<close>

theorem typed_value_text:
  assumes "type_ok (var_SdType var)"
  shows "if Some (NODE_MODIFIER TYPE_MOD_POINTER) \<in> set (nodes (var_SdType var))
    then print_var_value (Some var) v flt = Defined (print_format v (default_format flt FMT_ADDR)) \<and>
         mask_var_value (Some var) v = Defined v
    else (\<exists>b m. last (nodes (var_SdType var)) = Some (NODE_BASE_TYPE b) \<and>
            print_var_value (Some var) v flt = Defined (print_base_type b v flt) \<and>
            mask_var_value (Some var) v = Defined m \<and> unat m = unat v mod 2 ^ (8 * unat (base_size b)))"
  using print_typed_value [OF assms, of v flt] by (auto simp: mask_var_value_mod)

theorem typed_value_text_example:
  "\<exists>m. mask_var_value (Some sim_var) 0x500000007 = Defined m \<and> unat m = 7"
  using typed_value_text [of sim_var "0x500000007" FMT_NONE] variable_type_ok [OF sim_variable_type]
  by (simp add: sim_var_def sim_type_def sim_int_def)

text \<open>
  A variable that the debugger finds at a program counter is described by a DIE with its
  name: it has the DIE's type and declaration, and its location is what the evaluation of the
  DIE's location list gives there.
\<close>

theorem found_variable_is_described:
  assumes "world_ok E ds syms st" and "init_var E pc load name st = Some (Value (Some var, st'))"
  shows "\<exists>d f loclist w'. describes (e_dwarf E) name d f \<and> d \<in> fst ` set ds \<and>
    var_SdType var = var_type f \<and> var_decl_file var = declared_in (e_dwarf E) d \<and>
    var_decl_line var = declared_at (e_dwarf E) d \<and>
    sd_init_loclist (e_dwarf E) (loc_attr f) = Some loclist \<and>
    sd_eval_loclist \<lparr>env_dwarf = e_dwarf E, env_kernel = e_kernel E, env_tracee = tracee st,
        env_ctx = \<lparr>ctx_pid = e_pid E, ctx_pc = pc, ctx_elf = e_elf E, ctx_load_address = load\<rparr>\<rparr>
      loclist (dwarf st) = Some (Defined (Some (var_loc var)), w') \<and>
    st' = st\<lparr>dwarf := w'\<rparr>"
  using init_var_found [OF assms] by (fastforce simp: describes_def)

theorem found_variable_is_described_example:
  "\<exists>d f. describes sim_dwarf ''x'' d f \<and> d \<in> fst ` set sim_dies \<and> var_type f = sim_type"
  using found_variable_is_described [OF sim_world_ok sim_init_var] by (simp add: sim_var_def) metis

section \<open>Backtraces\<close>

text \<open>
  C22. If the frame pointers of the process form a chain that ends in zero, the backtrace is
  that chain: one entry for each frame with the function that covers its program counter and
  the line. There is a warning in front exactly if the current function does not start by saving
  the frame pointer. Apart from the symbols that are looked up nothing else changes.
\<close>

theorem backtrace_is_frame_chain:
  assumes "world_ok E ds syms st" and "cache_ok E ds (symbols st)"
    and "get_register_value (e_kernel E) (e_pid E) RBP (tracee st) = Some fp"
    and "frame_chain (\<lambda>a. pt_read_memory (e_kernel E) (e_pid E) (RealAddr a) (tracee st)) fp chain"
  shows "\<exists>ss. init_backtrace E (DbgAddr pc) load st =
    Some (Value (Some (rev (map (frame_spec E ds syms) ((pc, fp) # chain))),
      st\<lparr>symbols := ss, printed := printed st @
        (if saves_frame E syms (tracee st) pc load then [] else [Out no_frame_pointer_warning])\<rparr>))"
proof -
  have "frame_chain (tracee_reads E (tracee st)) fp chain" using assms(4) by (simp add: tracee_reads_def [abs_def])
  from backtrace_of_chain [OF assms(1-3) this] show ?thesis by blast
qed

theorem backtrace_is_frame_chain_example:
  "\<exists>frames st. init_backtrace sim_env (DbgAddr 0x401000) (RealAddr 0) sim_dbg = Some (Value (Some frames, st)) \<and>
     map cl_pc frames = [DbgAddr 0x401030, DbgAddr 0x401000]"
proof -
  have "frame_chain (\<lambda>a. pt_read_memory quiet_kernel 1 (RealAddr a) sim_proc) 0x7000 [(0x401030, 0)]"
    by (intro frame_chain.intros) (simp_all add: sim_return_address sim_caller_frame)
  with backtrace_is_frame_chain [of sim_env sim_dies sim_symbols sim_dbg "0x7000"]
  show ?thesis
    by (fastforce simp: sim_world_ok sim_cache_ok sim_read_register sim_regs_proc [simplified] frame_spec_def)
qed

text \<open>
  C32. A chain of frame pointers that comes back to itself makes the backtrace run for ever: the
  walk does not check for this and has no bound, so that it has no result, not even an error.
\<close>

theorem cyclic_chain_has_no_backtrace:
  assumes "world_ok E ds syms st" and "cache_ok E ds (symbols st)"
    and "get_register_value (e_kernel E) (e_pid E) RBP (tracee st) = Some fp" and "fp \<in> fps"
    and "\<And>a. a \<in> fps \<Longrightarrow> a \<noteq> 0 \<and> pt_read_memory (e_kernel E) (e_pid E) (RealAddr (a + 8)) (tracee st) \<noteq> None \<and>
      (\<exists>b \<in> fps. pt_read_memory (e_kernel E) (e_pid E) (RealAddr a) (tracee st) = Some b)"
  shows "init_backtrace E (DbgAddr pc) load st = None"
proof (rule backtrace_of_cycle [OF assms(1-4)])
  show "no_way_out (tracee_reads E (tracee st)) fps"
    unfolding no_way_out_def tracee_reads_def using assms(5) by blast
qed

theorem cyclic_chain_has_no_backtrace_example:
  "init_backtrace sim_env (DbgAddr 0x401000) (RealAddr 0)
     (sim_dbg\<lparr>tracee := sim_proc\<lparr>sim_mem := \<lambda>a. if a = 0x7001 then 0x70 else 0\<rparr>\<rparr>) = None"
proof -
  let ?s = "sim_proc\<lparr>sim_mem := \<lambda>a. if a = 0x7001 then 0x70 else 0\<rparr>"
  have read: "pt_read_memory quiet_kernel 1 (RealAddr 0x7000) ?s = Some 0x7000"
    by (simp add: sim_read_word word_of_bytes_def upt_rec)
  have "world_ok sim_env sim_dies sim_symbols (sim_dbg\<lparr>tracee := ?s\<rparr>)" by (rule sim_world_ok) simp
  moreover have "cache_ok sim_env sim_dies (symbols (sim_dbg\<lparr>tracee := ?s\<rparr>))" using sim_cache_ok by simp
  ultimately show ?thesis
    by (rule cyclic_chain_has_no_backtrace [where fps = "{0x7000}" and fp = "0x7000"])
      (use read in \<open>simp_all add: sim_read_word sim_read_register sim_registers_def sim_proc_def\<close>)
qed

end
