(* ===== verification/Lookups.thy ===== *)
theory Lookups
  imports Session Ending
begin

text \<open>
  No command of a session spoils the debug information: libdwarf's iterator is always back at the
  first unit, and what is cached in the symbols stays what a lookup gives.
\<close>

section \<open>What looks nothing up\<close>

text \<open>The part of the state that lookups use.\<close>

definition lookup_state :: "('s, 'h, 'w) debugger \<Rightarrow> 'w \<times> DebugSymbol list" where
  "lookup_state st = (dwarf st, symbols st)"

lemma keeps_lookup_state [keeps_intros]:
  "keeps lookup_state (change_tracee g)" "keeps lookup_state (enable_bp E a)" "keeps lookup_state (disable_bp E a)"
  "keeps lookup_state (emit e)" "keeps lookup_state (from_c r)"
  by (auto simp: keeps_def lookup_state_def change_tracee_def enable_bp_def disable_bp_def from_c_def
      split: option.splits run.splits prod.splits c_result.splits)

lemma keeps_lookup_state_pc [keeps_intros]:
  "keeps lookup_state (get_pc E)" "keeps lookup_state (get_dbg_pc E)" "keeps lookup_state (set_pc E a)"
  "keeps lookup_state (is_breakpoint E b)"
  unfolding get_pc_def get_dbg_pc_def set_pc_def is_breakpoint_def by (intro keeps_intros)+

lemma keeps_lookup_state_messages [keeps_intros]:
  "keeps lookup_state (print_info text)" "keeps lookup_state (print_signal text sig)"
  "keeps lookup_state (handle_sigtrap E info)"
  unfolding print_info_def print_signal_def handle_sigtrap_def by (intro keeps_intros)+

lemma keeps_lookup_state_continue_with:
  assumes "keeps lookup_state wait"
  shows "keeps lookup_state (single_step_breakpoint_with E wait)"
    "keeps lookup_state (continue_execution_with E wait)"
  unfolding continue_execution_with_def single_step_breakpoint_with_def
  by (intro keeps_intros assms)+

lemma keeps_lookup_state_wait [keeps_intros]: "keeps lookup_state (wait_for_signal E)"
proof -
  have "\<forall>a st'. y = Value (a, st') \<longrightarrow> lookup_state st' = lookup_state st"
    if "wait_for_signal E st = Some y" for E st y
    using that
  proof (induction rule: wait_for_signal.raw_induct [rotated, consumes 1, case_names step])
    case (step w E st y)
    then have w: "keeps lookup_state (w E)" by (auto simp: keeps_def)
    show ?case
    proof (intro allI impI)
      fix a st'
      assume y: "y = Value (a, st')"
      show "lookup_state st' = lookup_state st"
        by (rule keeps_elim [OF step(2) [unfolded y]])
          (intro keeps_intros keeps_lookup_state_continue_with w)+
    qed
  qed
  then show ?thesis unfolding keeps_def by blast
qed

lemma keeps_lookup_state_instruction [keeps_intros]:
  "keeps lookup_state (single_step_breakpoint E)" "keeps lookup_state (single_step_instruction E)"
  unfolding single_step_instruction_def single_step_breakpoint_def
  by (intro keeps_intros keeps_lookup_state_continue_with)+

lemma looks_ok_keeps:
  "keeps lookup_state m \<Longrightarrow> looks_ok E ds syms st \<Longrightarrow> m st = Some (Value (a, st')) \<Longrightarrow> looks_ok E ds syms st'"
  using keepsD [of lookup_state m st a st'] by (simp add: looks_ok_def world_ok_def lookup_state_def)

section \<open>Computations on libdwarf's state\<close>

definition still :: "'w \<Rightarrow> ('w, 'a) dw_state \<Rightarrow> bool" where
  "still w m \<longleftrightarrow> (\<forall>r w'. m w = Some (r, w') \<longrightarrow> w' = w)"

lemma still_return: "still w (dw_return a)" "still w (eval_return r)"
  by (simp_all add: still_def)

lemma still_bind: "still w m \<Longrightarrow> (\<And>a. still w (h a)) \<Longrightarrow> still w (dw_bind m h)"
  unfolding still_def dw_bind_def by (auto split: option.splits prod.splits)

lemma still_eval_bind: "still w m \<Longrightarrow> (\<And>a. still w (h a)) \<Longrightarrow> still w (eval_bind m h)"
  unfolding eval_bind_def
  by (rule still_bind) (auto simp: still_return still_def split: c_result.splits option.splits)

lemma still_Some: "m w = Some (r, w) \<Longrightarrow> still w m"
  by (simp add: still_def)

lemma still_search_variable:
  "dwarf_ok L w info types \<Longrightarrow> still w (search_variable L sf f)"
  unfolding still_def using search_variable_found by fastforce

lemma still_runtime_variable:
  "dwarf_ok L w info types \<Longrightarrow> still w (sd_runtime_variable L pc name)"
  unfolding sd_runtime_variable_def Let_def
  by (intro still_bind still_search_variable, assumption)
    (auto simp: still_return intro!: still_bind still_search_variable split: dw_code.splits)

lemma still_for_each_line:
  "dwarf_ok L w info types \<Longrightarrow> still w (sd_for_each_line L realpath f path cb c)"
  unfolding sd_for_each_line_def
  by (intro still_bind still_Some [OF get_subprog_pc_range_first] )
    (auto simp: still_return intro!: still_bind still_Some [OF get_line_table_first] split: option.splits)

lemma still_operations:
  assumes "\<And>op stack. still w (sd_eval_locop rec E op stack)"
  shows "still w (eval_operations rec E ops stack)"
  by (induction ops arbitrary: stack) (auto intro: still_return still_eval_bind assms)

lemma still_eval_loclist_with:
  assumes ok: "env_ok E w info types syms" and rec: "\<And>l. still w (rec l)"
  shows "still w (eval_loclist_with rec E loclist)"
proof -
  have push: "still w (push_value stack v)" for stack v by (simp add: push_value_def still_return)
  have "still w (push_offset stack b op)" for stack b op
    by (simp add: push_offset_def still_return push split: c_result.split)
  note push = push this
  have "still w (sd_eval_op_fbreg rec E op stack)" for op stack
  proof (cases "frame_base E (dies (info @ types)) syms")
    case None
    with fbreg_frame_base [OF ok] show ?thesis by (simp add: still_def)
  next
    case (Some fb)
    have "still w (eval_bind (rec fb) (\<lambda>location.
           case location of
             LOC_REG reg \<Rightarrow>
               (case get_register_value (env_kernel E) (ctx_pid (env_ctx E)) reg (env_tracee E) of
                  None \<Rightarrow> eval_return (Defined None)
                | Some base_addr \<Rightarrow> push_offset stack base_addr op)
           | LOC_ADDR _ \<Rightarrow> eval_return (Defined None)))"
      by (intro still_eval_bind rec) (auto simp: still_return push split: SdLocation.splits option.splits)
    with Some fbreg_frame_base [OF ok] show ?thesis by (simp add: still_def)
  qed
  then have "still w (sd_eval_locop rec E op stack)" for op stack
    by (auto simp: sd_eval_locop_def sd_eval_op_regn_def sd_eval_op_addr_def still_return push
        split: option.splits eval_handler.splits)
  then show ?thesis
    by (auto simp: eval_loclist_with_def sd_eval_locexpr_def still_return
        intro!: still_eval_bind still_operations split: option.splits prod.splits)
qed

lemma still_eval_loclist:
  assumes "env_ok E w info types syms"
  shows "still w (sd_eval_loclist E loclist)"
proof -
  have "env_ok E w info types syms \<longrightarrow> snd y = w" if "sd_eval_loclist E loclist w = Some y" for E loclist w y
    using that
  proof (induction rule: sd_eval_loclist.raw_induct [rotated, consumes 1, case_names step])
    case (step rec E loclist w y)
    show ?case
    proof
      assume ok: "env_ok E w info types syms"
      have "still v (rec E l) " if "v = w" for l v
        using step(1) ok that unfolding still_def by fastforce
      then have "still w (eval_loclist_with (rec E) E loclist)"
        by (intro still_eval_loclist_with [OF ok]) simp
      with step(2) show "snd y = w" by (cases y) (auto simp: still_def)
    qed
  qed
  with assms show ?thesis unfolding still_def by fastforce
qed

section \<open>Computations that keep the lookups right\<close>

definition looks_kept ::
  "('d, 's, 'h, 'w) env \<Rightarrow> ('d \<times> nat) list \<Rightarrow> (Elf64_Sym \<times> string) list
     \<Rightarrow> (('s, 'h, 'w) debugger, 'a) prog \<Rightarrow> bool" where
  "looks_kept E ds syms m \<longleftrightarrow>
     (\<forall>st a st'. looks_ok E ds syms st \<longrightarrow> m st = Some (Value (a, st')) \<longrightarrow> looks_ok E ds syms st')"

named_theorems looks_intros \<open>what keeps the lookups right\<close>

lemma looks_keptD:
  "looks_kept E ds syms m \<Longrightarrow> looks_ok E ds syms st \<Longrightarrow> m st = Some (Value (a, st')) \<Longrightarrow> looks_ok E ds syms st'"
  unfolding looks_kept_def by blast

lemma looks_kept_return [looks_intros]: "looks_kept E ds syms (return a)"
  by (simp add: looks_kept_def)

lemma looks_kept_then_do [looks_intros]:
  assumes "looks_kept E ds syms m" "\<And>a. looks_kept E ds syms (f a)"
  shows "looks_kept E ds syms (then_do m f)"
  unfolding looks_kept_def
proof (intro allI impI)
  fix st b st'
  assume ok: "looks_ok E ds syms st" and "then_do m f st = Some (Value (b, st'))"
  then obtain a st1 where "m st = Some (Value (a, st1))" "f a st1 = Some (Value (b, st'))"
    by (auto simp: then_do_Value_iff)
  with looks_keptD [OF assms(1) ok] looks_keptD [OF assms(2)] show "looks_ok E ds syms st'" by blast
qed

lemma looks_kept_if [looks_intros]:
  "looks_kept E ds syms m \<Longrightarrow> looks_kept E ds syms n \<Longrightarrow> looks_kept E ds syms (if b then m else n)"
  by simp

lemma looks_kept_option [looks_intros]:
  "looks_kept E ds syms m \<Longrightarrow> (\<And>a. looks_kept E ds syms (f a)) \<Longrightarrow>
   looks_kept E ds syms (case x of None \<Rightarrow> m | Some a \<Rightarrow> f a)"
  by (simp split: option.split)

lemma looks_kept_prod [looks_intros]:
  "(\<And>a b. looks_kept E ds syms (f a b)) \<Longrightarrow> looks_kept E ds syms (case x of (a, b) \<Rightarrow> f a b)"
  by (simp split: prod.split)

lemma looks_kept_keeps: "keeps lookup_state m \<Longrightarrow> looks_kept E ds syms m"
  unfolding looks_kept_def by (blast intro: looks_ok_keeps)

lemma looks_kept_state [looks_intros]:
  "looks_kept E ds syms (get_state g)" "looks_kept E ds syms (read_tracee h)" "looks_kept E ds syms (emit e)"
  "looks_kept E ds syms (from_c r)" "looks_kept E ds syms (change_tracee k)" "looks_kept E ds syms (enable_bp E' a)"
  "looks_kept E ds syms (disable_bp E' a)" "looks_kept E ds syms (assert_some x)"
  "looks_kept E ds syms (get_pc E)" "looks_kept E ds syms (get_dbg_pc E)" "looks_kept E ds syms (is_breakpoint E a)"
  "looks_kept E ds syms (single_step_instruction E)" "looks_kept E ds syms (wait_for_signal E)"
  "looks_kept E ds syms (single_step_breakpoint E)"
  by (intro looks_kept_keeps keeps_intros)+

lemma looks_kept_continue [looks_intros]: "looks_kept E ds syms (continue_execution E)"
  unfolding continue_execution_def
  by (intro looks_kept_keeps keeps_lookup_state_continue_with keeps_lookup_state_wait)

lemma looks_kept_looks_up:
  "(\<And>st a st'. looks_ok E ds syms st \<Longrightarrow> m st = Some (Value (a, st')) \<Longrightarrow> \<exists>x. looks_up E ds st m x) \<Longrightarrow>
   looks_kept E ds syms m"
  unfolding looks_kept_def looks_up_def looks_ok_def by fastforce

lemma sym_at_some: "then_do (sym_at p) f st = Some (Value r) \<Longrightarrow> p < length (symbols st)"
  by (simp add: sym_at_def then_do_def split: if_splits)

lemma looks_kept_cached [looks_intros]:
  "looks_kept E ds syms (sym_position E p)" "looks_kept E ds syms (sym_filepath E p)"
  "looks_kept E ds syms (addr_position E a)"
proof -
  show "looks_kept E ds syms (sym_position E p)"
  proof (rule looks_kept_looks_up)
    fix st a st'
    assume ok: "looks_ok E ds syms st" and m: "sym_position E p st = Some (Value (a, st'))"
    show "\<exists>x. looks_up E ds st (sym_position E p) x"
    proof (cases p)
      case None
      with ok show ?thesis
        by (auto simp: looks_up_def looks_ok_def sym_position_def intro!: exI [of _ "symbols st"])
    next
      case (Some q)
      with m have "q < length (symbols st)" by (auto simp: sym_position_def dest: sym_at_some)
      with ok Some show ?thesis unfolding looks_ok_def by (blast intro: sym_position_spec)
    qed
  qed
  show "looks_kept E ds syms (sym_filepath E p)"
  proof (rule looks_kept_looks_up)
    fix st a st'
    assume ok: "looks_ok E ds syms st" and m: "sym_filepath E p st = Some (Value (a, st'))"
    show "\<exists>x. looks_up E ds st (sym_filepath E p) x"
    proof (cases p)
      case None
      with ok show ?thesis
        by (auto simp: looks_up_def looks_ok_def sym_filepath_def intro!: exI [of _ "symbols st"])
    next
      case (Some q)
      with m have "q < length (symbols st)" by (auto simp: sym_filepath_def dest: sym_at_some)
      with ok Some show ?thesis unfolding looks_ok_def by (blast intro: sym_filepath_spec)
    qed
  qed
  show "looks_kept E ds syms (addr_position E a)"
    by (rule looks_kept_looks_up) (unfold looks_ok_def, blast intro: addr_position_spec)
qed

lemma looks_kept_symbols [looks_intros]:
  "looks_kept E ds syms (sym_by_addr E a)" "looks_kept E ds syms (sym_by_name E name)"
  "looks_kept E ds syms (sym_name E p)" "looks_kept E ds syms (sym_start_addr p)"
  "looks_kept E ds syms (addr_at E path n)" "looks_kept E ds syms (function_start_addr E p)"
proof -
  have alloc: "looks_kept E ds syms (alloc_symbol elf b)" for elf b
    by (simp add: looks_kept_def looks_ok_def alloc_symbol_Value)
  show "looks_kept E ds syms (sym_by_addr E a)" "looks_kept E ds syms (sym_by_name E name)"
    unfolding sym_by_addr_def sym_by_name_def by (intro looks_intros alloc)+
  have at: "keeps lookup_state (sym_at q)" for q by (simp add: keeps_def sym_at_def)
  show "looks_kept E ds syms (sym_name E p)" "looks_kept E ds syms (sym_start_addr p)"
    unfolding sym_name_def sym_start_addr_def by (intro looks_intros looks_kept_keeps at)+
  have dwarf: "looks_kept E ds syms (from_dwarf m)"
    if "\<And>w info types. dwarf_ok (e_dwarf E) w info types \<Longrightarrow> still w m" for m
    unfolding looks_kept_def
  proof (intro allI impI)
    fix st b st'
    assume ok: "looks_ok E ds syms st" and m: "from_dwarf m st = Some (Value (b, st'))"
    then obtain info types where "dwarf_ok (e_dwarf E) (dwarf st) info types"
      by (auto simp: looks_ok_def world_ok_def)
    from that [OF this] m have "st' = st" by (auto simp: from_dwarf_def still_def split: option.splits)
    with ok show "looks_ok E ds syms st'" by simp
  qed
  show "looks_kept E ds syms (addr_at E path n)"
    unfolding addr_at_def by (intro looks_intros dwarf still_Some [OF line_entry_at_first])
  have "keeps lookup_state (sym_end_addr q)" for q
    unfolding sym_end_addr_def by (intro keeps_intros at)
  then show "looks_kept E ds syms (function_start_addr E p)"
    unfolding function_start_addr_def sym_start_addr_def
    by (intro looks_intros looks_kept_keeps [of "sym_at _"] looks_kept_keeps [of "sym_end_addr _"] at
        dwarf still_Some [OF effective_start_addr_first])
qed

section \<open>Commands\<close>

lemma looks_kept_at [looks_intros]:
  "looks_kept E ds syms m \<Longrightarrow> looks_kept E ds syms n \<Longrightarrow> looks_kept E ds syms (\<lambda>st. if b then m st else n st)"
  "looks_kept E ds syms m \<Longrightarrow> (\<And>a. looks_kept E ds syms (f a)) \<Longrightarrow>
   looks_kept E ds syms (\<lambda>st. case x of None \<Rightarrow> m st | Some a \<Rightarrow> f a st)"
  by (cases b, simp_all) (cases x, simp_all)

lemma looks_kept_dwarf:
  assumes "\<And>info types. dwarf_ok (e_dwarf E) (dwarf st) info types \<Longrightarrow> still (dwarf st) n"
    and "looks_ok E ds syms st" and "n (dwarf st) = Some (r, w)" and "dwarf st' = w" "symbols st' = symbols st"
  shows "looks_ok E ds syms st'"
proof -
  from assms(2) obtain info types where "dwarf_ok (e_dwarf E) (dwarf st) info types"
    by (auto simp: looks_ok_def world_ok_def)
  from assms(1) [OF this] assms(3,4) have "dwarf st' = dwarf st" by (simp add: still_def)
  with assms(2,5) show ?thesis by (simp add: looks_ok_def world_ok_def)
qed

lemma looks_kept_for_each_line [looks_intros]: "looks_kept E ds syms (for_each_line_bp E f path skip)"
  unfolding looks_kept_def
proof (intro allI impI)
  fix st a st'
  assume ok: "looks_ok E ds syms st" and "for_each_line_bp E f path skip st = Some (Value (a, st'))"
  then obtain r w where "sd_for_each_line (e_dwarf E) (e_realpath E) f path
      (callback__set_dwarf_line_breakpoint (e_kernel E) (e_hashmap E) (load_address st) skip)
      \<lparr>to_del = [], cb_store = (breakpoints st, tracee st)\<rparr> (dwarf st) = Some (r, w)"
    "dwarf st' = w" "symbols st' = symbols st"
    by (auto simp: for_each_line_bp_def split: option.splits run.splits prod.splits)
  from looks_kept_dwarf [OF still_for_each_line ok this] show "looks_ok E ds syms st'" .
qed

lemma looks_kept_current_var [looks_intros]: "looks_kept E ds syms (current_var E name)"
proof -
  have dwarf: "looks_kept E ds syms (from_dwarf (sd_runtime_variable (e_dwarf E) pc name))" for pc
    unfolding looks_kept_def
  proof (intro allI impI)
    fix st b st'
    assume ok: "looks_ok E ds syms st"
      and "from_dwarf (sd_runtime_variable (e_dwarf E) pc name) st = Some (Value (b, st'))"
    then obtain r w where "sd_runtime_variable (e_dwarf E) pc name (dwarf st) = Some (r, w)"
      "dwarf st' = w" "symbols st' = symbols st"
      by (auto simp: from_dwarf_def split: option.splits)
    from looks_kept_dwarf [OF still_runtime_variable ok this] show "looks_ok E ds syms st'" .
  qed
  have "looks_kept E ds syms (eval_location E \<lparr>ctx_pid = e_pid E, ctx_pc = pc, ctx_elf = e_elf E,
      ctx_load_address = load\<rparr> loclist)" for pc load loclist
    unfolding looks_kept_def
  proof (intro allI impI)
    fix st :: "('b, 'c, 'd) debugger" and b st'
    let ?E = "\<lparr>env_dwarf = e_dwarf E, env_kernel = e_kernel E, env_tracee = tracee st, env_ctx =
      \<lparr>ctx_pid = e_pid E, ctx_pc = pc, ctx_elf = e_elf E, ctx_load_address = load\<rparr>\<rparr>"
    assume ok: "looks_ok E ds syms st" and "eval_location E \<lparr>ctx_pid = e_pid E, ctx_pc = pc, ctx_elf = e_elf E,
      ctx_load_address = load\<rparr> loclist st = Some (Value (b, st'))"
    then obtain r w where w: "sd_eval_loclist ?E loclist (dwarf st) = Some (r, w)"
      "dwarf st' = w" "symbols st' = symbols st"
      by (auto simp: eval_location_def split: option.splits c_result.splits)
    have "still (dwarf st) (sd_eval_loclist ?E loclist)" if "dwarf_ok (e_dwarf E) (dwarf st) info types" for info types
    proof (rule still_eval_loclist)
      show "env_ok ?E (dwarf st) info types syms"
        using that ok by (simp add: env_ok_def looks_ok_def world_ok_def)
    qed
    from looks_kept_dwarf [OF this ok w] show "looks_ok E ds syms st'" .
  qed
  with dwarf show ?thesis
    unfolding current_var_def init_var_def by (intro looks_intros)
qed

lemma looks_kept_line_loop [looks_intros]: "looks_kept E ds syms (step_line_loop E l pos n)"
proof -
  have "looks_ok E ds syms st \<longrightarrow> (\<forall>a st'. y = Value (a, st') \<longrightarrow> looks_ok E ds syms st')"
    if "step_line_loop E l pos n st = Some y" for E l pos n st y
    using that
  proof (induction rule: step_line_loop.raw_induct [rotated, consumes 1, case_names step])
    case (step w E l pos n st y)
    then have w: "looks_kept E ds syms (w E l p k)" for p k unfolding looks_kept_def by blast
    have body: "looks_kept E ds syms (then_do (single_step_instruction E) (\<lambda>res st.
          if res = SP_ERR then return SP_ERR st
          else
            then_do (get_dbg_pc E) (\<lambda>pc st.
            then_do (addr_position E pc) (\<lambda>pos' st.
              case pos' of
                None \<Rightarrow>
                  then_do (emit (Err ''Failed to find another line to step to'')) (\<lambda>_. return SP_ERR) st
              | Some p \<Rightarrow>
                  if Suc n \<ge> SINGLE_STEP_SEARCH_LIMIT then
                    then_do (emit (Err ''Failed to find another line to step to'')) (\<lambda>_. return SP_ERR) st
                  else w E l p (Suc n) st) st) st))"
      by (intro looks_intros w)
    from step(2) show ?case
      by (auto split: if_splits dest: looks_keptD [OF body])
  qed
  then show ?thesis unfolding looks_kept_def by blast
qed

lemma looks_kept_frame: "looks_kept E ds syms (init_call_frame E frames pc fp)"
  unfolding init_call_frame_def by (intro looks_intros)

lemma looks_kept_backtrace_loop: "looks_kept E ds syms (backtrace_loop E frames fp)"
proof -
  have "looks_ok E ds syms st \<longrightarrow> (\<forall>a st'. y = Value (a, st') \<longrightarrow> looks_ok E ds syms st')"
    if "backtrace_loop E frames fp st = Some y" for E frames fp st y
    using that
  proof (induction rule: backtrace_loop.raw_induct [rotated, consumes 1, case_names step])
    case (step w E frames fp st y)
    then have w: "looks_kept E ds syms (w E g q)" for g q unfolding looks_kept_def by blast
    have body: "looks_kept E ds syms (then_do (read_tracee (pt_read_memory (e_kernel E) (e_pid E)
            (RealAddr (real_value fp + 8)))) (\<lambda>pc st.
          case pc of
            None \<Rightarrow> return None st
          | Some pc \<Rightarrow>
              then_do (read_tracee (pt_read_memory (e_kernel E) (e_pid E) fp)) (\<lambda>fp st.
                case fp of
                  None \<Rightarrow> return None st
                | Some fp \<Rightarrow>
                    then_do (init_call_frame E frames (DbgAddr pc) (RealAddr fp)) (\<lambda>frame st.
                      w E frame (RealAddr fp) st) st) st))"
      by (intro looks_intros looks_kept_frame w)
    from step(2) show ?case
      by (auto split: if_splits dest: looks_keptD [OF body])
  qed
  then show ?thesis unfolding looks_kept_def by blast
qed

lemma looks_kept_disable_all [looks_intros]: "looks_kept E ds syms (disable_all E as)"
  by (induction as) (simp_all only: disable_all.simps looks_intros)

lemma looks_kept_steps [looks_intros]:
  "looks_kept E ds syms (set_return_address_breakpoint E)" "looks_kept E ds syms (step_out E)"
  "looks_kept E ds syms (single_step_line E)" "looks_kept E ds syms (step_over E)"
proof -
  show return: "looks_kept E ds syms (set_return_address_breakpoint E)"
    unfolding set_return_address_breakpoint_def Let_def by (intro looks_intros)
  show "looks_kept E ds syms (step_out E)" "looks_kept E ds syms (single_step_line E)"
    "looks_kept E ds syms (step_over E)"
    unfolding step_out_def single_step_line_def step_over_def set_step_over_breakpoints_def
    by (intro looks_intros return)+
qed

lemma looks_kept_info [looks_intros]:
  assumes "looks_kept E ds syms a" "looks_kept E ds syms b" "\<And>n. looks_kept E ds syms (c n)"
    "\<And>n. looks_kept E ds syms (d n)" "\<And>v. looks_kept E ds syms (g v)" "\<And>v. looks_kept E ds syms (h v)"
  shows "looks_kept E ds syms (case info of MEM_READ \<Rightarrow> a | MEM_READ_CONFIRM \<Rightarrow> b | REG_READ n \<Rightarrow> c n
    | REG_READ_CONFIRM n \<Rightarrow> d n | VAR_READ v \<Rightarrow> g v | VAR_READ_CONFIRM v \<Rightarrow> h v)"
  using assms by (cases info) simp_all

lemma looks_kept_printing [looks_intros]:
  "looks_kept E ds syms (print_filtered E v flt info)" "looks_kept E ds syms (print_current_source E)"
  "looks_kept E ds syms (exec_backtrace E)" "looks_kept E ds syms (register_err text reg)"
  "looks_kept E ds syms (end_of_tokens tokens i)" "looks_kept E ds syms (read_filter tokens i)"
  "looks_kept E ds syms (warn_register_name_conflict ident)"
proof -
  show "looks_kept E ds syms (exec_backtrace E)"
    unfolding exec_backtrace_def print_backtrace_def init_backtrace_def stores_frame_pointer_def
    by (intro looks_intros looks_kept_frame looks_kept_backtrace_loop)
  show "looks_kept E ds syms (print_filtered E v flt info)" "looks_kept E ds syms (print_current_source E)"
    "looks_kept E ds syms (register_err text reg)" "looks_kept E ds syms (end_of_tokens tokens i)"
    "looks_kept E ds syms (read_filter tokens i)" "looks_kept E ds syms (warn_register_name_conflict ident)"
    unfolding print_filtered_def print_dereferenced_def print_value_line_def print_current_source_def
      print_as_relative_filepath_def print_source_def is_user_breakpoint_def register_err_def end_of_tokens_def
      read_filter_def warn_register_name_conflict_def
    by (intro looks_intros)+
qed

lemma looks_kept_exec [looks_intros]:
  "looks_kept E ds syms (exec_print_memory E a flt)" "looks_kept E ds syms (exec_print_register E r name flt)"
  "looks_kept E ds syms (exec_print_variable E name flt)" "looks_kept E ds syms (exec_set_memory E a v flt)"
  "looks_kept E ds syms (exec_set_register E r name v flt)" "looks_kept E ds syms (exec_set_variable E name v flt)"
  "looks_kept E ds syms (exec_break E a)" "looks_kept E ds syms (exec_delete E a)"
  "looks_kept E ds syms (exec_continue E)" "looks_kept E ds syms (exec_inst E)" "looks_kept E ds syms (exec_leave E)"
  "looks_kept E ds syms (exec_step E)" "looks_kept E ds syms (exec_next E)"
  unfolding exec_print_memory_def exec_print_register_def exec_print_variable_def exec_set_memory_def
    exec_set_register_def exec_set_variable_def write_and_read_def exec_break_def exec_delete_def
    exec_continue_def exec_inst_def exec_leave_def exec_step_def exec_next_def
  by (intro looks_intros)+

lemma looks_kept_location [looks_intros]: "looks_kept E ds syms (parse_break_location E loc)"
proof -
  have "looks_kept E ds syms (\<lambda>_. Some Aborted)" "looks_kept E ds syms (\<lambda>_. Some Undefined)"
    by (simp_all add: looks_kept_def)
  then show ?thesis unfolding parse_break_location_def by (intro looks_intros)
qed

lemma looks_kept_handlers [looks_intros]:
  "(\<And>a. looks_kept E ds syms (exec a)) \<Longrightarrow> looks_kept E ds syms (handle_location E name exec tokens i)"
  "looks_kept E ds syms exec' \<Longrightarrow> looks_kept E ds syms (handle_plain exec' tokens i)"
  "looks_kept E ds syms (handle_print E tokens i)" "looks_kept E ds syms (handle_set E tokens i)"
  unfolding handle_location_def handle_plain_def handle_print_def handle_set_def
  by (intro looks_intros | assumption)+

lemma commands_keep_lookups: "looks_kept E ds syms (handle_debug_command_tokens E tokens)"
  unfolding handle_debug_command_tokens_def by (intro looks_intros)

end
