(* ===== verification/Session_Effect.thy ===== *)
theory Session_Effect
  imports Lookups
begin

text \<open>
  What a location means, and what a whole session does to the breakpoints: the set of enabled
  breakpoints after any number of command lines, computed from the lines and the debug
  information.
\<close>

section \<open>Locations\<close>

text \<open>
  What a location means: the effective start of the first symbol with the name, if it is a
  function; an address; or the first entry of a file's line table that is not in front of a line.
\<close>

definition function_location ::
  "('d, 's, 'h, 'w) env \<Rightarrow> ('d \<times> nat) list \<Rightarrow> (Elf64_Sym \<times> string) list \<Rightarrow> string \<Rightarrow> dbg_addr option" where
  "function_location E ds syms name =
     (case find (\<lambda>s. snd s = name) syms of
        None \<Rightarrow> None
      | Some (func, _) \<Rightarrow>
          if se_symbol_type func = STT_FUNC then
            first_start (file_table (e_dwarf E) (e_realpath E) ds) (se_symbol_start_addr func)
              (se_symbol_end_addr func) (concat (map (\<lambda>(d, l). cu_files (e_dwarf E) d) ds))
          else None)"

definition line_location ::
  "('d, 's, 'h, 'w) env \<Rightarrow> ('d \<times> nat) list \<Rightarrow> string \<Rightarrow> u32 \<Rightarrow> dbg_addr option" where
  "line_location E ds path n =
     (let t = file_table (e_dwarf E) (e_realpath E) ds path in
      if \<not> is_set t then None
      else
        (case get_line_table_index_of_line t n of
           None \<Rightarrow> None
         | Some i \<Rightarrow> if is_ok (lt_lines t ! i) then Some (addr (lt_lines t ! i)) else None))"

definition location_spec ::
  "('d, 's, 'h, 'w) env \<Rightarrow> ('d \<times> nat) list \<Rightarrow> (Elf64_Sym \<times> string) list \<Rightarrow> string \<Rightarrow> dbg_addr option" where
  "location_spec E ds syms loc =
     (if is_valid_identifier loc then function_location E ds syms loc
      else
        (case parse_base16 loc of
           Some v \<Rightarrow> Some (DbgAddr v)
         | None \<Rightarrow>
             if is_file_with_line loc then
               (case parse_lineno (tl (dropWhile (\<lambda>c. c \<noteq> CHR '':'') loc)) of
                  None \<Rightarrow> None
                | Some n \<Rightarrow> line_location E ds (takeWhile (\<lambda>c. c \<noteq> CHR '':'') loc) n)
             else None))"

lemma identifier_c_string: "is_valid_identifier s \<Longrightarrow> c_string s"
  unfolding c_string_def
  by (cases s) (auto simp: is_valid_identifier_def is_letter_def is_digit_def list_all_iff Let_def)

lemma function_location_lookup:
  assumes ok: "looks_ok E ds syms st" and name: "c_string name"
  shows "looks_up E ds st (then_do (sym_by_name E name) (function_start_addr E)) (function_location E ds syms name)"
proof -
  from ok obtain info types where syms: "symbols_ok (e_elf E) syms" and ds: "ds = dies (info @ types)"
    and dwarf: "dwarf_ok (e_dwarf E) (dwarf st) info types" and cache: "cache_ok E ds (symbols st)"
    by (auto simp: looks_ok_def world_ok_def)
  show ?thesis
  proof (cases "find (\<lambda>s. snd s = name) syms")
    case None
    with symbol_from_name_list [OF syms name] cache show ?thesis
      by (auto simp: looks_up_def sym_by_name_def function_start_addr_def function_location_def then_do_Value
          intro!: exI [of _ "symbols st"])
  next
    case (Some s)
    let ?ss = "symbols st @ [\<lparr>sym_elf = fst s, sym_has_addr = None, sym_has_position = None, sym_file = None\<rparr>]"
    have "sym_by_name E name st = Some (Value (Some (length (symbols st)), st\<lparr>symbols := ?ss\<rparr>))"
      using symbol_from_name_list [OF syms name] Some
      by (simp add: sym_by_name_def then_do_Value alloc_symbol_Value)
    moreover have "from_dwarf (sd_effective_start_addr (e_dwarf E) (e_realpath E) lo hi) (st\<lparr>symbols := ?ss\<rparr>) =
      Some (Value (Defined (first_start (file_table (e_dwarf E) (e_realpath E) ds) lo hi
        (concat (map (\<lambda>(d, l). cu_files (e_dwarf E) d) ds))), st\<lparr>symbols := ?ss\<rparr>))" for lo hi
      by (rule from_dwarf_same) (simp add: effective_start_addr_first [OF dwarf] ds)
    ultimately have "then_do (sym_by_name E name) (function_start_addr E) st =
        Some (Value (function_location E ds syms name, st\<lparr>symbols := ?ss\<rparr>))"
      using Some by (cases s) (simp add: then_do_Value function_start_addr_def sym_start_addr_def sym_end_addr_def
          function_location_def)
    with cache show ?thesis by (auto simp: looks_up_def)
  qed
qed

lemma line_location_lookup:
  assumes ok: "looks_ok E ds syms st"
  shows "addr_at E path n st = Some (Value (line_location E ds path n, st))"
proof -
  from ok obtain info types where ds: "ds = dies (info @ types)"
    and dwarf: "dwarf_ok (e_dwarf E) (dwarf st) info types"
    by (auto simp: looks_ok_def world_ok_def)
  have "from_dwarf (sd_line_entry_at (e_dwarf E) (e_realpath E) path n) st = Some (Value
      (let t = file_table (e_dwarf E) (e_realpath E) ds path in
       if \<not> is_set t then no_line_entry
       else (case get_line_table_index_of_line t n of
               None \<Rightarrow> no_line_entry | Some i \<Rightarrow> lt_lines t ! i), st))"
    by (rule from_dwarf_same) (simp add: line_entry_at_first [OF dwarf] ds)
  then show ?thesis
    by (simp add: addr_at_def then_do_Value line_location_def Let_def no_line_entry_def split: option.split)
qed

lemma location_lookup:
  assumes ok: "looks_ok E ds syms st"
  shows "looks_up E ds st (parse_break_location E loc) (location_spec E ds syms loc)"
proof -
  have same: "looks_up E ds st m x" if "m st = Some (Value (x, st))" for m :: "(_, dbg_addr option) prog" and x
    using that ok by (auto simp: looks_up_def looks_ok_def intro!: exI [of _ "symbols st"])
  consider "is_valid_identifier loc"
    | v where "\<not> is_valid_identifier loc" "parse_base16 loc = Some v"
    | path digits where "\<not> is_valid_identifier loc" "parse_base16 loc = None" "loc = path @ CHR '':'' # digits"
      "path \<noteq> []" "CHR '':'' \<notin> set path" "digits \<noteq> []" "list_all is_digit digits"
    | "\<not> is_valid_identifier loc" "parse_base16 loc = None" "\<not> is_file_with_line loc"
    using is_file_with_line_iff [of loc] by (cases "parse_base16 loc") auto
  then show ?thesis
  proof cases
    case 1
    then show ?thesis
      using function_location_lookup [OF ok identifier_c_string]
      by (simp add: parse_break_location_def location_spec_def)
  next
    case 2
    then show ?thesis by (intro same) (simp add: parse_break_location_def location_spec_def)
  next
    case 3
    then have "is_file_with_line loc" using is_file_with_line_iff [of loc] by blast
    with 3 show ?thesis
      using parse_file_line [OF 3(4-7)] line_location_lookup [OF ok]
      by (intro same) (auto simp: parse_break_location_def location_spec_def colon_split split: option.split)
  next
    case 4
    then show ?thesis by (intro same) (simp add: parse_break_location_def location_spec_def)
  qed
qed

section \<open>The effect of one command\<close>

definition bp_effect ::
  "('d, 's, 'h, 'w) env \<Rightarrow> ('d \<times> nat) list \<Rightarrow> (Elf64_Sym \<times> string) list \<Rightarrow> real_addr \<Rightarrow> string list
     \<Rightarrow> real_addr set \<Rightarrow> real_addr set" where
  "bp_effect E ds syms load tokens A =
     (case tokens of
        [cmd, loc] \<Rightarrow>
          (case location_spec E ds syms loc of
             None \<Rightarrow> A
           | Some a \<Rightarrow>
               if cmd = ''b'' \<or> cmd = ''break'' then insert (dbg_to_real load a) A
               else if cmd = ''d'' \<or> cmd = ''delete'' then A - {dbg_to_real load a}
               else A)
      | _ \<Rightarrow> A)"

lemma bp_effect_location:
  "cmd \<in> {''b'', ''break''} \<Longrightarrow> bp_effect E ds syms load [cmd, loc] A =
     (case location_spec E ds syms loc of None \<Rightarrow> A | Some a \<Rightarrow> insert (dbg_to_real load a) A)"
  "cmd \<in> {''d'', ''delete''} \<Longrightarrow> bp_effect E ds syms load [cmd, loc] A =
     (case location_spec E ds syms loc of None \<Rightarrow> A | Some a \<Rightarrow> A - {dbg_to_real load a})"
  by (auto simp: bp_effect_def split: option.split)

text \<open>\<^verbatim>\<open>break\<close> and \<^verbatim>\<open>delete\<close> with one word.\<close>

lemma location_effect:
  assumes "table_ok E st" "looks_ok E ds syms st"
    and exec: "\<And>a st a' st'. table_ok E st \<Longrightarrow> exec a st = Some (Value (a', st')) \<Longrightarrow>
      table_ok E st' \<and> bp_set E st' = change a (bp_set E st)"
    and run: "handle_location E name exec [cmd, loc] 1 st = Some (Value (u, st'))"
  shows "table_ok E st' \<and> bp_set E st' = (case location_spec E ds syms loc of None \<Rightarrow> bp_set E st
    | Some a \<Rightarrow> change (dbg_to_real (load_address st) a) (bp_set E st))"
proof -
  from location_lookup [OF assms(2), of loc] obtain ss where
    parsed: "parse_break_location E loc st = Some (Value (location_spec E ds syms loc, st\<lparr>symbols := ss\<rparr>))"
    by (auto simp: looks_up_def)
  have kept: "table_ok E (st\<lparr>symbols := ss\<rparr>)" "bp_set E (st\<lparr>symbols := ss\<rparr>) = bp_set E st"
    using assms(1) by (simp_all add: table_ok_def bp_set_def)
  show ?thesis
  proof (cases "location_spec E ds syms loc")
    case None
    from run parsed None have "breakpoints st' = breakpoints st"
      by (auto simp: handle_location_def next_token_def then_do_Value emit_def)
    with None assms(1) show ?thesis by (simp add: table_frame bp_set_def)
  next
    case (Some a)
    from location_command [OF parsed [unfolded Some], of name exec cmd] run
    have "exec (dbg_to_real (load_address st) a) (st\<lparr>symbols := ss\<rparr>) = Some (Value (u, st'))" by simp
    from exec [OF kept(1) this] kept(2) Some show ?thesis by simp
  qed
qed

lemma command_effect:
  assumes "table_ok E st" "requests_ok (e_kernel E)" "looks_ok E ds syms st"
    and run: "handle_debug_command_tokens E tokens st = Some (Value (u, st'))"
  shows "table_ok E st' \<and> bp_set E st' = bp_effect E ds syms (load_address st) tokens (bp_set E st)"
proof -
  consider (other) "tokens = [] \<or> hd tokens \<notin> {''b'', ''break'', ''d'', ''delete''}"
    | (malformed) "hd tokens \<in> {''b'', ''break'', ''d'', ''delete''}" "length tokens \<noteq> 2" "tokens \<noteq> []"
    | (set) cmd loc where "tokens = [cmd, loc]" "cmd \<in> {''b'', ''break''}"
    | (unset) cmd loc where "tokens = [cmd, loc]" "cmd \<in> {''d'', ''delete''}"
  proof -
    have "\<exists>cmd loc. tokens = [cmd, loc]" if "length tokens = 2"
      using that by (auto simp: numeral_2_eq_2 length_Suc_conv)
    then show ?thesis using that by force
  qed
  then show ?thesis
  proof cases
    case other
    then have "\<not> is_command (fst (next_token tokens 0)) (CHR ''b'') ''break''"
      "\<not> is_command (fst (next_token tokens 0)) (CHR ''d'') ''delete''"
      by (cases tokens; simp add: next_token_def is_command_iff)+
    from other_commands_keep_breakpoints [OF this, of E] assms(1,2) run
    have "table_ok E st' \<and> bp_set E st' = bp_set E st" unfolding bps_kept_def by blast
    moreover from other have "bp_effect E ds syms (load_address st) tokens A = A" for A
      by (auto simp: bp_effect_def split: list.split option.split)
    ultimately show ?thesis by simp
  next
    case malformed
    then have "\<not> changing tokens" by (auto simp: changing_def)
    from keepsD [OF unchanging_command [OF this] run] have "breakpoints st' = breakpoints st"
      by (simp add: core_def)
    with assms(1) have "table_ok E st' \<and> bp_set E st' = bp_set E st"
      by (simp add: table_frame bp_set_def)
    moreover from malformed(2) have "bp_effect E ds syms (load_address st) tokens A = A" for A
      by (auto simp: bp_effect_def split: list.split option.split)
    ultimately show ?thesis by simp
  next
    case set
    have exec: "table_ok E st' \<and> bp_set E st' = insert a (bp_set E st)"
      if "table_ok E st" "exec_break E a st = Some (Value (b, st'))" for a st b st'
      using that table_enable [OF that(1), of a] enable_bp_requests_ok [OF assms(2)]
      by (fastforce simp: exec_break_def then_do_Value_iff)
    from set run have "handle_location E ''break'' (exec_break E) [cmd, loc] 1 st = Some (Value (u, st'))"
      by (auto simp: handle_debug_command_tokens_def next_token_def is_command_iff)
    from location_effect [where exec = "exec_break E" and change = insert, OF assms(1,3) exec this]
    show ?thesis unfolding set(1) bp_effect_location(1) [OF set(2)] .
  next
    case unset
    have exec: "table_ok E st' \<and> bp_set E st' = bp_set E st - {a}"
      if "table_ok E st" "exec_delete E a st = Some (Value (b, st'))" for a st b st'
      using that table_disable [OF that(1), of a] disable_bp_requests_ok [OF assms(2)]
      by (fastforce simp: exec_delete_def then_do_Value_iff)
    from unset run have "handle_location E ''delete'' (exec_delete E) [cmd, loc] 1 st = Some (Value (u, st'))"
      by (auto simp: handle_debug_command_tokens_def next_token_def is_command_iff)
    from location_effect [where exec = "exec_delete E" and change = "\<lambda>a A. A - {a}", OF assms(1,3) exec this]
    show ?thesis unfolding unset(1) bp_effect_location(2) [OF unset(2)] .
  qed
qed

section \<open>The effect of a session\<close>

text \<open>An empty line stands for the last line before it that was not empty.\<close>

fun session_effect ::
  "('d, 's, 'h, 'w) env \<Rightarrow> ('d \<times> nat) list \<Rightarrow> (Elf64_Sym \<times> string) list \<Rightarrow> real_addr \<Rightarrow> string option \<Rightarrow> string list
     \<Rightarrow> real_addr set \<Rightarrow> real_addr set" where
  "session_effect E ds syms load recent [] A = A"
| "session_effect E ds syms load recent (line # lines) A =
     (if get_command_tokens line \<noteq> []
      then session_effect E ds syms load (Some line) lines (bp_effect E ds syms load (get_command_tokens line) A)
      else
        (case recent of
           None \<Rightarrow> session_effect E ds syms load None lines A
         | Some again \<Rightarrow>
             session_effect E ds syms load recent lines (bp_effect E ds syms load (get_command_tokens again) A)))"

lemma line_effect:
  assumes "table_ok E st" "requests_ok (e_kernel E)" "looks_ok E ds syms st"
    and run: "handle_debug_command E line st = Some (Value (u, st'))"
  shows "table_ok E st' \<and> looks_ok E ds syms st' \<and> load_address st' = load_address st \<and>
    last_command st' = (if get_command_tokens line \<noteq> [] then Some line else last_command st) \<and>
    bp_set E st' = session_effect E ds syms (load_address st) (last_command st) [line] (bp_set E st)"
proof (cases "get_command_tokens line = []")
  case False
  let ?st = "st\<lparr>last_command := Some line\<rparr>"
  from False run have run: "handle_debug_command_tokens E (get_command_tokens line) ?st = Some (Value (u, st'))"
    by (simp add: handle_debug_command_def next_token_def then_do_def save_command_def)
  have ok: "table_ok E ?st" "looks_ok E ds syms ?st"
    using assms(1,3) by (simp_all add: table_ok_def looks_ok_def world_ok_def)
  from command_effect [OF ok(1) assms(2) ok(2) run] keepsD [OF keeps_control_tokens run] False
    looks_keptD [OF commands_keep_lookups ok(2) run]
  show ?thesis by (simp add: control_def bp_set_def)
next
  case blank: True
  show ?thesis
  proof (cases "last_command st")
    case None
    with blank run obtain e where "st' = st\<lparr>printed := e\<rparr>"
      by (auto simp: handle_debug_command_def next_token_def then_do_def read_command_def emit_def)
    with assms(1,3) blank None show ?thesis
      by (simp add: table_ok_def looks_ok_def world_ok_def bp_set_def)
  next
    case (Some again)
    with blank run have run: "handle_debug_command_tokens E (get_command_tokens again) st = Some (Value (u, st'))"
      by (simp add: handle_debug_command_def next_token_def then_do_def read_command_def)
    from command_effect [OF assms(1-3) run] keepsD [OF keeps_control_tokens run] blank Some
      looks_keptD [OF commands_keep_lookups assms(3) run]
    show ?thesis by (simp add: control_def)
  qed
qed

lemma session_effect_Cons:
  "session_effect E ds syms load recent (line # lines) A =
     session_effect E ds syms load (if get_command_tokens line \<noteq> [] then Some line else recent) lines
       (session_effect E ds syms load recent [line] A)"
  by (cases recent) simp_all

lemma command_loop_effect:
  assumes "table_ok E st" "requests_ok (e_kernel E)" "looks_ok E ds syms st"
    and "command_loop E lines st = Some (Value (u, st'))"
  shows "table_ok E st' \<and> looks_ok E ds syms st' \<and>
    bp_set E st' = session_effect E ds syms (load_address st) (last_command st) lines (bp_set E st)"
  using assms(1,3,4)
proof (induction lines arbitrary: st)
  case Nil
  then show ?case by (simp add: return_def)
next
  case (Cons line lines)
  from Cons.prems(3) obtain v st1 where
    1: "handle_debug_command E line st = Some (Value (v, st1))" and
    2: "command_loop E lines st1 = Some (Value (u, st'))"
    by (auto simp: then_do_Value_iff)
  from line_effect [OF Cons.prems(1) assms(2) Cons.prems(2) 1]
  have st1: "table_ok E st1" "looks_ok E ds syms st1" "load_address st1 = load_address st"
    "last_command st1 = (if get_command_tokens line \<noteq> [] then Some line else last_command st)"
    "bp_set E st1 = session_effect E ds syms (load_address st) (last_command st) [line] (bp_set E st)" by blast+
  from Cons.IH [OF st1(1,2) 2] show ?case
    by (subst session_effect_Cons) (simp add: st1(3-5) del: session_effect.simps(2))
qed

end
