(* ===== verification/Commands_End.thy ===== *)
theory Commands_End
  imports Lookups
begin

text \<open>
  Which commands come to an end: all but \<^verbatim>\<open>backtrace\<close>, whose chain of frames may be cyclic, and
  those that print or set a variable, whose type may be circular.
\<close>

section \<open>Lookups\<close>

lemma ends_kept:
  "looks_kept E ds syms m \<Longrightarrow> (\<And>st. looks_ok E ds syms st \<Longrightarrow> m st \<noteq> None) \<Longrightarrow> ends (looks_ok E ds syms) m"
  unfolding ends_def looks_kept_def by blast

lemma ends_read_symbol [ends_intros]:
  "ends (looks_ok E ds syms) (sym_at p)" "ends (looks_ok E ds syms) (assert_some x)"
  by (auto simp: ends_def sym_at_def assert_some_def split: option.splits)

lemma ends_sym_addr [ends_intros]:
  "ends (looks_ok E ds syms) (sym_start_addr p)" "ends (looks_ok E ds syms) (sym_end_addr p)"
  "ends (looks_ok E ds syms) (sym_addr p)" "ends (looks_ok E ds syms) (sym_name E p)"
  unfolding sym_start_addr_def sym_end_addr_def sym_addr_def sym_name_def by (intro ends_intros)+

lemma ends_dwarf:
  fixes E :: "('d, 's, 'h, 'w) env"
  assumes "\<And>w info types. dwarf_ok (e_dwarf E) w info types \<Longrightarrow> \<exists>r. m w = Some (r, w)"
  shows "ends (looks_ok E ds syms) (from_dwarf m)"
  unfolding ends_def
proof (intro allI impI)
  fix st :: "('s, 'h, 'w) debugger"
  assume ok: "looks_ok E ds syms st"
  then obtain info types where "dwarf_ok (e_dwarf E) (dwarf st) info types"
    by (auto simp: looks_ok_def world_ok_def)
  with assms obtain r where "m (dwarf st) = Some (r, dwarf st)" by blast
  with ok show "from_dwarf m st \<noteq> None \<and> (\<forall>a st'. from_dwarf m st = Some (Value (a, st')) \<longrightarrow> looks_ok E ds syms st')"
    by (simp add: from_dwarf_same)
qed

lemma ends_lookups [ends_intros]:
  "ends (looks_ok E ds syms) (sym_by_addr E a)" "ends (looks_ok E ds syms) (sym_by_name E name)"
  "ends (looks_ok E ds syms) (function_start_addr E p)" "ends (looks_ok E ds syms) (addr_at E path n)"
proof -
  have alloc: "ends (looks_ok E ds syms) (alloc_symbol elf b)" for elf b
    by (simp add: ends_def looks_ok_def world_ok_def alloc_symbol_Value)
  show "ends (looks_ok E ds syms) (sym_by_addr E a)" "ends (looks_ok E ds syms) (sym_by_name E name)"
    unfolding sym_by_addr_def sym_by_name_def by (intro ends_intros alloc)+
  show "ends (looks_ok E ds syms) (function_start_addr E p)"
    unfolding function_start_addr_def
    by (intro ends_intros ends_dwarf) (auto dest: effective_start_addr_first)
  show "ends (looks_ok E ds syms) (addr_at E path n)"
    unfolding addr_at_def by (intro ends_intros ends_dwarf) (auto dest: line_entry_at_first)
qed

lemma ends_cached [ends_intros]:
  "ends (looks_ok E ds syms) (sym_position E p)" "ends (looks_ok E ds syms) (sym_filepath E p)"
proof -
  have position: "sym_position E p st \<noteq> None" and path: "sym_filepath E p st \<noteq> None" if "looks_ok E ds syms st" for st
  proof -
    from that have w: "world_ok E ds syms st" "cache_ok E ds (symbols st)" by (simp_all add: looks_ok_def)
    show "sym_position E p st \<noteq> None"
    proof (cases p)
      case (Some q)
      show ?thesis
      proof (cases "q < length (symbols st)")
        case True
        from sym_position_spec [OF w this] Some show ?thesis by (auto simp: looks_up_def)
      qed (simp add: sym_position_def sym_at_def then_do_def Some)
    qed (simp add: sym_position_def)
    show "sym_filepath E p st \<noteq> None"
    proof (cases p)
      case (Some q)
      show ?thesis
      proof (cases "q < length (symbols st)")
        case True
        from sym_filepath_spec [OF w this] Some show ?thesis by (auto simp: looks_up_def)
      qed (simp add: sym_filepath_def sym_at_def then_do_def Some)
    qed (simp add: sym_filepath_def)
  qed
  show "ends (looks_ok E ds syms) (sym_position E p)" by (rule ends_kept [OF looks_kept_cached(1) position])
  show "ends (looks_ok E ds syms) (sym_filepath E p)" by (rule ends_kept [OF looks_kept_cached(2) path])
qed

section \<open>Stepping over a line\<close>

lemma ends_for_each_line [ends_intros]:
  fixes E :: "('d, 's, 'h, 'w) env"
  shows "ends (looks_ok E ds syms) (for_each_line_bp E f path skip)"
proof (rule ends_kept [OF looks_kept_for_each_line])
  fix st :: "('s, 'h, 'w) debugger"
  assume "looks_ok E ds syms st"
  then obtain info types where "dwarf_ok (e_dwarf E) (dwarf st) info types"
    by (auto simp: looks_ok_def world_ok_def)
  from get_subprog_pc_range_first [OF this] get_line_table_first [OF this]
  have "sd_for_each_line (e_dwarf E) (e_realpath E) f path cb c (dwarf st) \<noteq> None" for cb c
    by (simp add: sd_for_each_line_def dw_bind_def split: option.split)
  then show "for_each_line_bp E f path skip st \<noteq> None"
    by (auto simp: for_each_line_bp_def split: option.splits run.splits)
qed

lemma ends_disable_all [ends_intros]: "ends (looks_ok E ds syms) (disable_all E as)"
  by (induction as) (simp_all only: disable_all.simps ends_intros)

lemma ends_step_over [ends_intros]:
  assumes "no_window_change E"
  shows "ends (looks_ok E ds syms) (step_over E)"
  unfolding step_over_def set_step_over_breakpoints_def set_return_address_breakpoint_def Let_def
  by (intro ends_intros assms)

section \<open>Commands\<close>

lemma ends_info [ends_intros]:
  assumes "ends I a" "ends I b" "\<And>n. ends I (c n)" "\<And>n. ends I (d n)" "\<And>v. ends I (g v)" "\<And>v. ends I (h v)"
  shows "ends I (case info of MEM_READ \<Rightarrow> a | MEM_READ_CONFIRM \<Rightarrow> b | REG_READ n \<Rightarrow> c n
    | REG_READ_CONFIRM n \<Rightarrow> d n | VAR_READ v \<Rightarrow> g v | VAR_READ_CONFIRM v \<Rightarrow> h v)"
  using assms by (cases info) simp_all

lemma ends_printing [ends_intros]:
  "ends (looks_ok E ds syms) (print_filtered E v flt info)" "ends (looks_ok E ds syms) (print_current_source E)"
  "ends (looks_ok E ds syms) (register_err text reg)" "ends (looks_ok E ds syms) (end_of_tokens tokens i)"
  "ends (looks_ok E ds syms) (read_filter tokens i)"
  unfolding print_filtered_def print_dereferenced_def print_value_line_def print_current_source_def
    print_as_relative_filepath_def print_source_def is_user_breakpoint_def register_err_def end_of_tokens_def
    read_filter_def
  by (intro ends_intros)+

lemma ends_exec [ends_intros]:
  "ends (looks_ok E ds syms) (exec_print_memory E a flt)" "ends (looks_ok E ds syms) (exec_print_register E r name flt)"
  "ends (looks_ok E ds syms) (exec_set_memory E a v flt)" "ends (looks_ok E ds syms) (exec_set_register E r name v flt)"
  "ends (looks_ok E ds syms) (exec_break E a)" "ends (looks_ok E ds syms) (exec_delete E a)"
  unfolding exec_print_memory_def exec_print_register_def exec_set_memory_def exec_set_register_def
    exec_break_def exec_delete_def
  by (intro ends_intros)+

lemma ends_exec_step [ends_intros]:
  assumes "no_window_change E"
  shows "ends (looks_ok E ds syms) (exec_continue E)" "ends (looks_ok E ds syms) (exec_inst E)"
    "ends (looks_ok E ds syms) (exec_leave E)" "ends (looks_ok E ds syms) (exec_step E)"
    "ends (looks_ok E ds syms) (exec_next E)"
  unfolding exec_continue_def exec_inst_def exec_leave_def exec_step_def exec_next_def
  by (intro ends_intros assms ends_step_out ends_step_line)+

lemma ends_location [ends_intros]: "ends (looks_ok E ds syms) (parse_break_location E loc)"
proof -
  have "ends (looks_ok E ds syms) (\<lambda>_. Some Aborted)" "ends (looks_ok E ds syms) (\<lambda>_. Some Undefined)"
    by (simp_all add: ends_def)
  then show ?thesis unfolding parse_break_location_def by (intro ends_intros)
qed

text \<open>Neither a backtrace nor the name of a variable.\<close>

definition bounded_command :: "string list \<Rightarrow> bool" where
  "bounded_command tokens =
     (case tokens of
        [] \<Rightarrow> True
      | cmd # args \<Rightarrow>
          cmd \<notin> {''a'', ''backtrace''} \<and>
          (cmd \<in> {''p'', ''print'', ''t'', ''set''} \<longrightarrow>
             (case args of [] \<Rightarrow> True | loc # _ \<Rightarrow> \<not> is_valid_identifier loc)))"

lemma ends_print_set:
  assumes "tokens = cmd # args" "\<And>loc rest. args = loc # rest \<Longrightarrow> \<not> is_valid_identifier loc"
  shows "ends (looks_ok E ds syms) (handle_print E tokens 1)" "ends (looks_ok E ds syms) (handle_set E tokens 1)"
proof -
  have loc: "\<not> is_valid_identifier loc" if "next_token tokens 1 = (Some loc, i)" for loc i
    using that assms by (cases args) (auto simp: next_token_def)
  show "ends (looks_ok E ds syms) (handle_print E tokens 1)"
    unfolding handle_print_def
    by (cases "next_token tokens 1" rule: prod.exhaust; cases "fst (next_token tokens 1)"; simp)
      (auto intro!: ends_intros simp: loc)
  show "ends (looks_ok E ds syms) (handle_set E tokens 1)"
    unfolding handle_set_def
    by (cases "next_token tokens 1" rule: prod.exhaust; cases "fst (next_token tokens 1)"; simp)
      (auto intro!: ends_intros simp: loc split: option.split prod.split)
qed

lemma ends_handlers [ends_intros]:
  "(\<And>a. ends (looks_ok E ds syms) (exec a)) \<Longrightarrow> ends (looks_ok E ds syms) (handle_location E name exec tokens i)"
  "ends (looks_ok E ds syms) exec' \<Longrightarrow> ends (looks_ok E ds syms) (handle_plain exec' tokens i)"
  unfolding handle_location_def handle_plain_def by (intro ends_intros | assumption)+

lemma command_ends:
  assumes "no_window_change E" "bounded_command tokens"
  shows "ends (looks_ok E ds syms) (handle_debug_command_tokens E tokens)"
proof (cases tokens)
  case Nil
  then show ?thesis
    by (simp add: handle_debug_command_tokens_def next_token_def is_command_def ends_primitives)
next
  case (Cons cmd args)
  have first: "next_token (cmd # args) 0 = (Some cmd, 1)" by (simp add: next_token_def)
  from assms(2) Cons have trace: "\<not> is_command (Some cmd) (CHR ''a'') ''backtrace''"
    by (auto simp: bounded_command_def is_command_iff)
  from assms(2) Cons have loc: "\<not> is_valid_identifier loc"
    if "is_command (Some cmd) (CHR ''p'') ''print'' \<or> is_command (Some cmd) (CHR ''t'') ''set''" "args = loc # rest"
    for loc rest
    using that by (auto simp: bounded_command_def is_command_iff)
  show ?thesis
    unfolding handle_debug_command_tokens_def Cons first prod.case
    by (intro ends_intros assms ends_print_set [OF refl]) (use trace loc in blast)+
qed

section \<open>Sessions\<close>

text \<open>The last command, which an empty line repeats, has to be one that ends, too.\<close>

definition session_ok ::
  "('d, 's, 'h, 'w) env \<Rightarrow> ('d \<times> nat) list \<Rightarrow> (Elf64_Sym \<times> string) list \<Rightarrow> ('s, 'h, 'w) debugger \<Rightarrow> bool" where
  "session_ok E ds syms st \<longleftrightarrow>
     looks_ok E ds syms st \<and>
     (case last_command st of None \<Rightarrow> True | Some again \<Rightarrow> bounded_command (get_command_tokens again))"

lemma tokens_end:
  assumes "no_window_change E" "bounded_command tokens"
  shows "ends (session_ok E ds syms) (handle_debug_command_tokens E tokens)"
  unfolding ends_def
proof (intro allI impI conjI)
  fix st assume ok: "session_ok E ds syms st"
  note ends = command_ends [OF assms, of ds syms, unfolded ends_def, rule_format, of st]
  from ends ok show "handle_debug_command_tokens E tokens st \<noteq> None" by (simp add: session_ok_def)
  fix u st' assume run: "handle_debug_command_tokens E tokens st = Some (Value (u, st'))"
  from keepsD [OF keeps_control_tokens run] have "last_command st' = last_command st" by (simp add: control_def)
  with ends ok run show "session_ok E ds syms st'" by (simp add: session_ok_def)
qed

lemma line_ends:
  assumes "no_window_change E" "bounded_command (get_command_tokens line)"
  shows "ends (session_ok E ds syms) (handle_debug_command E line)"
  unfolding ends_def
proof (intro allI impI)
  fix st assume ok: "session_ok E ds syms st"
  show "handle_debug_command E line st \<noteq> None \<and>
    (\<forall>a st'. handle_debug_command E line st = Some (Value (a, st')) \<longrightarrow> session_ok E ds syms st')"
  proof (cases "get_command_tokens line = []")
    case False
    let ?st = "st\<lparr>last_command := Some line\<rparr>"
    have "session_ok E ds syms ?st"
      using ok assms(2) by (simp add: session_ok_def looks_ok_def world_ok_def)
    moreover from False have "handle_debug_command E line st = handle_debug_command_tokens E (get_command_tokens line) ?st"
      by (simp add: handle_debug_command_def next_token_def then_do_def save_command_def)
    ultimately show ?thesis using tokens_end [OF assms] unfolding ends_def by simp
  next
    case blank: True
    show ?thesis
    proof (cases "last_command st")
      case None
      with blank have "handle_debug_command E line st = emit (Err ''No command to repeat'') st"
        by (simp add: handle_debug_command_def next_token_def then_do_def read_command_def)
      with ok show ?thesis by (simp add: session_ok_def looks_ok_def world_ok_def emit_def)
    next
      case (Some again)
      with blank have "handle_debug_command E line st = handle_debug_command_tokens E (get_command_tokens again) st"
        by (simp add: handle_debug_command_def next_token_def then_do_def read_command_def)
      moreover from ok Some have "bounded_command (get_command_tokens again)" by (simp add: session_ok_def)
      ultimately show ?thesis using tokens_end [OF assms(1)] ok unfolding ends_def by simp
    qed
  qed
qed

lemma session_ends:
  assumes "no_window_change E" "\<forall>line \<in> set lines. bounded_command (get_command_tokens line)"
  shows "ends (session_ok E ds syms) (command_loop E lines)"
  using assms(2)
proof (induction lines)
  case (Cons line lines)
  then have "ends (session_ok E ds syms) (handle_debug_command E line)" "ends (session_ok E ds syms) (command_loop E lines)"
    using line_ends [OF assms(1)] by simp_all
  then show ?case by (simp add: ends_then_do)
qed (simp add: ends_return)

end
