(* ===== verification/Args.thy ===== *)
theory Args
  imports Prelude
begin

text \<open>
  The command line of the debugger, \<^verbatim>\<open>src/src/args.c\<close>: flags, then the executable to debug,
  then its arguments. \<^verbatim>\<open>argv\<close> is a list, with a null pointer after its last element; -1 is \<open>None\<close>.
\<close>

section \<open>Parsing\<close>

record Flags =
  no_color :: bool

record Args =
  args_flags :: Flags
  args_file :: "string option"
  args_args :: "string list option"
  args_n_args :: nat

definition zero_flags :: Flags where "zero_flags = \<lparr>no_color = False\<rparr>"

definition zero_args :: Args where
  "zero_args = \<lparr>args_flags = zero_flags, args_file = None, args_args = None, args_n_args = 0\<rparr>"

definition prog_name_arg :: "string list \<Rightarrow> string option" where
  "prog_name_arg argv = (if length argv > 0 then Some (argv ! 0) else None)"

definition parse_short_flag :: "string \<Rightarrow> Flags \<Rightarrow> Flags option" where
  "parse_short_flag flag flags = (if flag = ''-c'' then Some (flags\<lparr>no_color := True\<rparr>) else None)"

definition parse_long_flag :: "string \<Rightarrow> Flags \<Rightarrow> Flags option" where
  "parse_long_flag flag flags = (if flag = ''--no-color'' then Some (flags\<lparr>no_color := True\<rparr>) else None)"

text \<open>The loop over the arguments from index \<open>i\<close> on; the result has the index where it ended.\<close>

primrec parse_flags_loop :: "string list \<Rightarrow> nat \<Rightarrow> Flags \<Rightarrow> (nat \<times> Flags) option" where
  "parse_flags_loop [] i flags_buf = Some (i, flags_buf)"
| "parse_flags_loop (arg # rest) i flags_buf =
     (if take 2 arg = ''--'' then
        (case parse_long_flag arg flags_buf of
           None \<Rightarrow> None
         | Some flags_buf \<Rightarrow> parse_flags_loop rest (i + 1) flags_buf)
      else if take 1 arg = ''-'' then
        (case parse_short_flag arg flags_buf of
           None \<Rightarrow> None
         | Some flags_buf \<Rightarrow> parse_flags_loop rest (i + 1) flags_buf)
      else Some (i, flags_buf))"

definition parse_flags :: "string list \<Rightarrow> (nat \<times> Flags) option" where
  "parse_flags argv =
     (case parse_flags_loop (drop 1 argv) 1 zero_flags of
        None \<Rightarrow> None
      | Some (i, flags_buf) \<Rightarrow> if i = length argv then None else Some (i, flags_buf))"

text \<open>With an empty \<^verbatim>\<open>argv\<close> the index is 1, one behind the null pointer that ends the array.\<close>

definition parse_args :: "string list \<Rightarrow> Args \<Rightarrow> Args option c_result" where
  "parse_args argv args =
     (case parse_flags argv of
        None \<Rightarrow> Defined None
      | Some (file_idx, flags) \<Rightarrow>
          if file_idx > length argv then UB
          else
            (let args = args\<lparr>args_flags := flags,
                             args_file := (if file_idx < length argv then Some (argv ! file_idx) else None)\<rparr>
             in Defined (Some
               (if file_idx + 1 < length argv
                then args\<lparr>args_args := Some (drop file_idx argv), args_n_args := length argv - file_idx\<rparr>
                else args))))"

section \<open>The global copy\<close>

text \<open>
  \<^verbatim>\<open>set_args\<close> copies the arguments, null-terminated, and never stores their number. \<^verbatim>\<open>strdup\<close> of a
  null pointer is undefined. The entries of \<^verbatim>\<open>args->args\<close> up to \<^verbatim>\<open>n_args\<close> are copied.
\<close>

definition set_args :: "Args \<Rightarrow> Args \<Rightarrow> Args c_result" where
  "set_args args global =
     (case args_file args of
        None \<Rightarrow> UB
      | Some path \<Rightarrow>
          (let global = global\<lparr>args_flags := args_flags args, args_file := Some path\<rparr> in
           case args_args args of
             None \<Rightarrow> if args_n_args args = 0 then Defined (global\<lparr>args_args := Some []\<rparr>) else UB
           | Some xs \<Rightarrow>
               if args_n_args args \<le> length xs
               then Defined (global\<lparr>args_args := Some (take (args_n_args args) xs)\<rparr>)
               else UB))"

text \<open>\<^verbatim>\<open>setup_args\<close> of \<^verbatim>\<open>src/src/spray.c\<close>, where \<open>None\<close> stands for the help message and -1.\<close>

definition setup_args :: "string list \<Rightarrow> Args \<Rightarrow> Args option c_result" where
  "setup_args argv global =
     c_bind (parse_args argv zero_args) (\<lambda>res.
       case res of
         None \<Rightarrow> Defined None
       | Some args \<Rightarrow> c_bind (set_args args global) (\<lambda>g. Defined (Some g)))"

section \<open>What is accepted\<close>

definition is_flag :: "string \<Rightarrow> bool" where
  "is_flag arg \<longleftrightarrow> arg = ''-c'' \<or> arg = ''--no-color''"

definition is_flag_like :: "string \<Rightarrow> bool" where
  "is_flag_like arg \<longleftrightarrow> (\<exists>s. arg = CHR ''-'' # s)"

lemma take_dash: "take 1 arg = ''-'' \<longleftrightarrow> is_flag_like arg"
  by (cases arg) (auto simp: is_flag_like_def)

lemma take_dashes: "take 2 arg = ''--'' \<longleftrightarrow> (\<exists>s. arg = CHR ''-'' # CHR ''-'' # s)"
  by (cases arg; cases "tl arg") (auto simp: take_Cons' numeral_2_eq_2)

lemma parse_flags_loop_Cons:
  "parse_flags_loop (arg # rest) i f =
     (if is_flag arg then parse_flags_loop rest (i + 1) \<lparr>no_color = True\<rparr>
      else if is_flag_like arg then None else Some (i, f))"
proof -
  have "take 2 arg = ''--'' \<Longrightarrow> is_flag_like arg" by (auto simp: take_dashes is_flag_like_def)
  moreover have "take 2 ''-c'' \<noteq> ''--''" "take 2 ''--no-color'' = ''--''" by simp_all
  moreover have upd: "f\<lparr>no_color := True\<rparr> = \<lparr>no_color = True\<rparr>" by simp
  moreover have "is_flag_like ''-c''" "is_flag_like ''--no-color''" by (simp_all add: is_flag_like_def)
  ultimately show ?thesis
    unfolding parse_flags_loop.simps take_dash is_flag_def parse_short_flag_def parse_long_flag_def upd
    by auto
qed

lemma parse_flags_loop_iff:
  "parse_flags_loop xs i f = Some (j, g) \<longleftrightarrow>
     (\<exists>k. j = i + k \<and> k \<le> length xs \<and> (\<forall>a \<in> set (take k xs). is_flag a) \<and>
        (k < length xs \<longrightarrow> \<not> is_flag_like (xs ! k)) \<and> g = (if k = 0 then f else \<lparr>no_color = True\<rparr>))"
proof (induction xs arbitrary: i f)
  case Nil
  then show ?case by auto
next
  case (Cons a xs)
  have like: "is_flag a \<Longrightarrow> is_flag_like a" by (auto simp: is_flag_def is_flag_like_def)
  show ?case
  proof (cases "is_flag a")
    case True
    show ?thesis
    proof
      assume "parse_flags_loop (a # xs) i f = Some (j, g)"
      with True Cons.IH obtain k where "j = i + 1 + k" "k \<le> length xs" "\<forall>a \<in> set (take k xs). is_flag a"
        "k < length xs \<longrightarrow> \<not> is_flag_like (xs ! k)" "g = \<lparr>no_color = True\<rparr>"
        by (auto simp: parse_flags_loop_Cons simp del: parse_flags_loop.simps split: if_splits)
      with True show "\<exists>k. j = i + k \<and> k \<le> length (a # xs) \<and> (\<forall>a \<in> set (take k (a # xs)). is_flag a) \<and>
        (k < length (a # xs) \<longrightarrow> \<not> is_flag_like ((a # xs) ! k)) \<and> g = (if k = 0 then f else \<lparr>no_color = True\<rparr>)"
        by (intro exI [of _ "Suc k"]) simp
    next
      assume "\<exists>k. j = i + k \<and> k \<le> length (a # xs) \<and> (\<forall>a \<in> set (take k (a # xs)). is_flag a) \<and>
        (k < length (a # xs) \<longrightarrow> \<not> is_flag_like ((a # xs) ! k)) \<and> g = (if k = 0 then f else \<lparr>no_color = True\<rparr>)"
      then obtain k where k: "j = i + k" "k \<le> length (a # xs)" "\<forall>a \<in> set (take k (a # xs)). is_flag a"
        "k < length (a # xs) \<longrightarrow> \<not> is_flag_like ((a # xs) ! k)" "g = (if k = 0 then f else \<lparr>no_color = True\<rparr>)"
        by blast
      from k(4) like True have "k \<noteq> 0" by (cases k) auto
      then obtain m where "k = Suc m" by (cases k) auto
      with k True Cons.IH show "parse_flags_loop (a # xs) i f = Some (j, g)"
        by (simp add: parse_flags_loop_Cons del: parse_flags_loop.simps)
    qed
  next
    case False
    show ?thesis
    proof (cases "is_flag_like a")
      case True
      with False show ?thesis
        by (auto simp: parse_flags_loop_Cons take_Cons' simp del: parse_flags_loop.simps split: if_splits)
    next
      case like: False
      with False show ?thesis
        by (auto simp: parse_flags_loop_Cons take_Cons' simp del: parse_flags_loop.simps split: if_splits)
    qed
  qed
qed

lemma parse_flags_iff:
  assumes "argv \<noteq> []"
  shows "parse_flags argv = Some (i, f) \<longleftrightarrow>
    0 < i \<and> i < length argv \<and> (\<forall>k. 0 < k \<and> k < i \<longrightarrow> is_flag (argv ! k)) \<and>
    \<not> is_flag_like (argv ! i) \<and> no_color f = (1 < i)"
proof -
  obtain me xs where argv: "argv = me # xs" using assms by (cases argv) auto
  have flags: "(\<forall>a \<in> set (take k xs). is_flag a) \<longleftrightarrow> (\<forall>n. 0 < n \<and> n < Suc k \<longrightarrow> is_flag (argv ! n))"
    if "k \<le> length xs" for k
  proof -
    have "(\<forall>a \<in> set (take k xs). is_flag a) \<longleftrightarrow> (\<forall>n < k. is_flag (xs ! n))"
      using that by (simp add: all_set_conv_all_nth)
    also have "\<dots> \<longleftrightarrow> (\<forall>n. 0 < n \<and> n < Suc k \<longrightarrow> is_flag (argv ! n))"
    proof
      assume all: "\<forall>n < k. is_flag (xs ! n)"
      show "\<forall>n. 0 < n \<and> n < Suc k \<longrightarrow> is_flag (argv ! n)"
      proof (intro allI impI)
        fix n assume "0 < n \<and> n < Suc k"
        with all show "is_flag (argv ! n)" by (cases n) (simp_all add: argv)
      qed
    next
      assume all: "\<forall>n. 0 < n \<and> n < Suc k \<longrightarrow> is_flag (argv ! n)"
      show "\<forall>n < k. is_flag (xs ! n)"
        using all [rule_format, of "Suc n" for n] by (simp add: argv)
    qed
    finally show ?thesis .
  qed
  have f: "f = (if k = 0 then zero_flags else \<lparr>no_color = True\<rparr>) \<longleftrightarrow> no_color f = (1 < Suc k)" for k
    by (auto simp: zero_flags_def)
  show ?thesis
  proof
    assume "parse_flags argv = Some (i, f)"
    then obtain k where "i = 1 + k" "k < length xs" "\<forall>a \<in> set (take k xs). is_flag a"
      "\<not> is_flag_like (xs ! k)" "f = (if k = 0 then zero_flags else \<lparr>no_color = True\<rparr>)"
      by (auto simp: parse_flags_def argv parse_flags_loop_iff split: option.splits if_splits prod.splits)
        force+
    with flags [of k] f [of k] show "0 < i \<and> i < length argv \<and>
      (\<forall>k. 0 < k \<and> k < i \<longrightarrow> is_flag (argv ! k)) \<and> \<not> is_flag_like (argv ! i) \<and> no_color f = (1 < i)"
      by (simp add: argv)
  next
    assume i: "0 < i \<and> i < length argv \<and> (\<forall>k. 0 < k \<and> k < i \<longrightarrow> is_flag (argv ! k)) \<and>
      \<not> is_flag_like (argv ! i) \<and> no_color f = (1 < i)"
    then obtain k where k: "i = Suc k" by (cases i) auto
    with i flags [of k] f [of k] have "parse_flags_loop xs 1 zero_flags = Some (i, f)"
      unfolding parse_flags_loop_iff by (intro exI [of _ k]) (simp add: argv)
    with i show "parse_flags argv = Some (i, f)" by (simp add: parse_flags_def argv)
  qed
qed

lemma setup_args_result:
  assumes "parse_flags argv = Some (i, f)" "argv \<noteq> []"
  shows "setup_args argv global = Defined (Some (global\<lparr>args_flags := f, args_file := Some (argv ! i),
    args_args := Some (if i + 1 < length argv then drop i argv else [])\<rparr>))"
proof -
  from parse_flags_iff [OF assms(2)] assms(1) have "i < length argv" by blast
  with assms(1) show ?thesis
    by (simp add: setup_args_def parse_args_def set_args_def Let_def zero_args_def)
qed

end
