(* ===== verification/Messages.thy ===== *)
theory Messages
  imports Program
begin

text \<open>
  The functions of \<^verbatim>\<open>src/src/magic.c\<close> that print messages, and the text that the debugger's
  output comes to. \<^verbatim>\<open>printf\<close> is written out as far as the program uses it: each conversion
  specification is replaced by the next argument, which is given as the text that the conversion
  makes of it.
\<close>

section \<open>Formats\<close>

text \<open>Flags, field widths, precisions and length modifiers, and the conversions.\<close>

definition modifier_char :: "char \<Rightarrow> bool" where
  "modifier_char c \<longleftrightarrow> c \<in> set ''#0- +'' \<or> c \<in> set ''123456789.'' \<or> c \<in> set ''hlzjt''"

definition conversion_char :: "char \<Rightarrow> bool" where
  "conversion_char c \<longleftrightarrow> c \<in> set ''diouxXscpfFeEgG''"

lemma dropWhile_shorter [termination_simp]: "dropWhile P s = d # t \<Longrightarrow> length t < Suc (length s)"
  using length_dropWhile_le [of P s] by simp

text \<open>Too few arguments and an invalid conversion specification are undefined.\<close>

fun vformat :: "string \<Rightarrow> string list \<Rightarrow> string c_result" where
  "vformat [] args = Defined []"
| "vformat (c # s) args =
     (if c \<noteq> CHR ''%'' then c_bind (vformat s args) (\<lambda>r. Defined (c # r))
      else
        (case dropWhile modifier_char s of
           [] \<Rightarrow> UB
         | d # t \<Rightarrow>
             if d = CHR ''%'' then c_bind (vformat t args) (\<lambda>r. Defined (d # r))
             else if conversion_char d then
               (case args of
                  [] \<Rightarrow> UB
                | a # as \<Rightarrow> c_bind (vformat t as) (\<lambda>r. Defined (a @ r)))
             else UB))"

lemma vformat_plain: "CHR ''%'' \<notin> set p \<Longrightarrow> vformat (p @ s) args = c_bind (vformat s args) (\<lambda>r. Defined (p @ r))"
proof (induction p)
  case Nil
  then show ?case by (cases "vformat s args") simp_all
next
  case (Cons c p)
  then show ?case by (cases "vformat s args") auto
qed

lemma vformat_newline: "vformat (s @ newline) args = c_bind (vformat s args) (\<lambda>r. Defined (r @ newline))"
proof (induction s args rule: vformat.induct)
  case (1 args)
  then show ?case by (simp add: newline_def)
next
  case (2 c s args)
  have nl: "\<not> modifier_char (CHR 0x0A)" "\<not> conversion_char (CHR 0x0A)"
    by (simp_all add: modifier_char_def conversion_char_def)
  show ?case
  proof (cases "c = CHR ''%''")
    case False
    with 2 show ?thesis by (cases "vformat s args") simp_all
  next
    case True
    show ?thesis
    proof (cases "dropWhile modifier_char s")
      case Nil
      then have "dropWhile modifier_char (s @ newline) = newline"
        using nl by (simp add: newline_def)
      with True Nil nl show ?thesis by (simp add: newline_def)
    next
      case (Cons d t)
      then obtain x where "x \<in> set s" "\<not> modifier_char x"
        using dropWhile_eq_Nil_conv [of modifier_char s] by auto
      with Cons have "dropWhile modifier_char (s @ newline) = d # t @ newline"
        by (simp add: dropWhile_append1)
      with True Cons 2 show ?thesis
        by (cases "vformat t args"; cases args; cases "vformat t (tl args)") auto
    qed
  qed
qed

section \<open>Messages\<close>

text \<open>
  \<^verbatim>\<open>print_msg\<close> joins the kind of the message and the format in a buffer, asserts that they fit,
  and formats the whole.
\<close>

definition print_msg :: "string \<Rightarrow> string \<Rightarrow> string list \<Rightarrow> string c_result run" where
  "print_msg kind fmt argp =
     (let len = length fmt + length kind + 4;
          msg_fmt = kind @ '': '' @ fmt @ newline;
          fmt_buf = snprintf len msg_fmt;
          n_printed = length msg_fmt
      in if n_printed = len - 1 then Ret (vformat fmt_buf argp) else Abort)"

definition spray_err :: "string \<Rightarrow> string list \<Rightarrow> string c_result run" where
  "spray_err fmt argp = print_msg ''ERR'' fmt argp"

definition spray_warn :: "string \<Rightarrow> string list \<Rightarrow> string c_result run" where
  "spray_warn fmt argp = print_msg ''WARN'' fmt argp"

definition spray_hint :: "string \<Rightarrow> string list \<Rightarrow> string c_result run" where
  "spray_hint fmt argp = print_msg ''HINT'' fmt argp"

definition repl_err :: "string \<Rightarrow> string list \<Rightarrow> string c_result run" where
  "repl_err fmt argp = print_msg ''ERR'' fmt argp"

definition repl_warn :: "string \<Rightarrow> string list \<Rightarrow> string c_result run" where
  "repl_warn fmt argp = print_msg ''WARN'' fmt argp"

definition repl_hint :: "string \<Rightarrow> string list \<Rightarrow> string c_result run" where
  "repl_hint fmt argp = print_msg ''HINT'' fmt argp"

text \<open>The buffer is always large enough, and the kind is not taken for a conversion.\<close>

lemma print_msg_text:
  assumes "CHR ''%'' \<notin> set kind"
  shows "print_msg kind fmt args =
    Ret (c_bind (vformat fmt args) (\<lambda>text. Defined (kind @ '': '' @ text @ newline)))"
proof -
  have "snprintf (length fmt + length kind + 4) (kind @ '': '' @ fmt @ newline) = kind @ '': '' @ fmt @ newline"
    by (rule snprintf_fits) (simp add: newline_def)
  moreover have "vformat ((kind @ '': '') @ fmt @ newline) args =
      c_bind (vformat fmt args) (\<lambda>text. Defined (kind @ '': '' @ text @ newline))"
    using assms by (subst vformat_plain; cases "vformat fmt args") (simp_all add: vformat_newline)
  ultimately show ?thesis by (simp add: print_msg_def newline_def)
qed

text \<open>
  The text on the standard output that an event stands for; that of a piece of source code is
  made by the Scheme part of the program.
\<close>

definition message_text :: "string c_result run \<Rightarrow> string" where
  "message_text r = (case r of Ret (Defined text) \<Rightarrow> text | _ \<Rightarrow> [])"

fun event_text :: "(string \<Rightarrow> u32 \<Rightarrow> nat \<Rightarrow> string) \<Rightarrow> event \<Rightarrow> string" where
  "event_text source (Out text) = text"
| "event_text source (Err text) = message_text (repl_err ''%s'' [text])"
| "event_text source (Warn text) = message_text (repl_warn ''%s'' [text])"
| "event_text source (Hint text) = message_text (repl_hint ''%s'' [text])"
| "event_text source (Source path lineno n_context) = source path lineno n_context"

end
