(* ===== verification/Entry.thy ===== *)
theory Entry
  imports Commands Args Messages
begin

text \<open>
  \<^verbatim>\<open>main\<close> of \<^verbatim>\<open>src/src/spray.c\<close> with the rest of \<^verbatim>\<open>args.c\<close> and \<^verbatim>\<open>print_source.c\<close>: from the
  command line over the set-up of the process to the commands of the session.
\<close>

section \<open>Help\<close>

definition help_format :: string where
  "help_format = concat (map (\<lambda>line. line @ newline)
     [''usage: %s [-c | --no-color] file [arg1 ...]'',
      '''',
      ''  file            The name of the executable file to debug'',
      ''  arg1 ...        Arguments passed to the executable to debug'',
      ''  -c, --no-color  Disable colored output'',
      '''',
      ''Spray is a simple debugger for programs written in C.'',
      ''For the best output, programs should be compiled using'',
      ''Clang and with debug information enabled: clang -g foo.c.'',
      '''',
      ''A description of the commands available in Spray'' @ [CHR 0x27] @ ''s REPL and'',
      ''of how to use Spray can be found in the README.md file.'',
      '''',
      ''spray <https://github.com/thass0/spray>''])"

definition print_help_message :: "string option \<Rightarrow> string c_result" where
  "print_help_message me =
     (let me = (case me of None \<Rightarrow> ''spray'' | Some me \<Rightarrow> me) in vformat help_format [me])"

section \<open>The pieces that are outside of the program\<close>

text \<open>
  Files of the system, the CHICKEN procedure \<^verbatim>\<open>print_source_extern\<close>, which prints a part of a
  source file, with colors or not, and whether a file can be executed with some arguments.
\<close>

record system =
  sys_elf :: elf_io
  sys_file_exists :: "string \<Rightarrow> bool"
  sys_open_maps :: "string \<Rightarrow> string option"
  sys_print_source_extern :: "string \<Rightarrow> u32 \<Rightarrow> nat \<Rightarrow> bool \<Rightarrow> int"
  sys_execv_ok :: "string \<Rightarrow> string list \<Rightarrow> bool"

definition get_args :: "Args \<Rightarrow> Args" where "get_args global = global"

definition print_source_result :: "system \<Rightarrow> Args \<Rightarrow> string \<Rightarrow> u32 \<Rightarrow> nat \<Rightarrow> SprayResult" where
  "print_source_result sys global path lineno n_context =
     (let use_color = \<not> no_color (args_flags (get_args global));
          res = sys_print_source_extern sys path lineno n_context use_color
      in if res = 0 then SP_OK else SP_ERR)"

section \<open>The program\<close>

text \<open>\<^verbatim>\<open>del_debugger\<close> and \<^verbatim>\<open>free_debug_info\<close>, whose only visible effect is the result of \<^verbatim>\<open>munmap\<close>.\<close>

definition free_debug_info :: "system \<Rightarrow> ('d, 's, 'h, 'w) env \<Rightarrow> SprayResult" where
  "free_debug_info sys E = se_free_elf (sys_elf sys) (e_elf E)"

definition del_debugger :: "system \<Rightarrow> ('d, 's, 'h, 'w) env \<Rightarrow> SprayResult" where
  "del_debugger sys E = free_debug_info sys E"

text \<open>
  The process exits with a status, after it has written to the standard error and printed to the
  standard output, or, in the child, another program is executed. If that fails, the child
  returns from \<^verbatim>\<open>setup_debugger\<close> as if it was the parent and uses a debugger that has not been
  initialised, which is undefined.
\<close>

datatype 's main_result = Exit int string "event list" | Executes string "string list" 's

definition run_main ::
  "system \<Rightarrow> ('d, 's, 'h, 'w) env \<Rightarrow> ('s, 'h, 'w) debugger \<Rightarrow> string list \<Rightarrow> 's main_result outcome option" where
  "run_main sys E debugger lines =
     (case run_debugger E lines debugger of
        None \<Rightarrow> None
      | Some Aborted \<Rightarrow> Some Aborted
      | Some Undefined \<Rightarrow> Some Undefined
      | Some (Value (_, debugger)) \<Rightarrow>
          Some (Value (Exit (if del_debugger sys E = SP_ERR then -1 else 0) [] (printed debugger))))"

definition main ::
  "system \<Rightarrow> ('d, 's, 'h, 'w) env \<Rightarrow> string list \<Rightarrow> pid_t \<Rightarrow> 's \<Rightarrow> string list
     \<Rightarrow> 's main_result outcome option" where
  "main sys E argv pid s lines =
     (case setup_args argv zero_args of
        UB \<Rightarrow> Some Undefined
      | Defined None \<Rightarrow>
          (case print_help_message (prog_name_arg argv) of
             UB \<Rightarrow> Some Undefined
           | Defined text \<Rightarrow> Some (Value (Exit (-1) text [])))
      | Defined (Some global) \<Rightarrow>
          (case (args_file (get_args global), args_args (get_args global)) of
             (Some path, Some prog_argv) \<Rightarrow>
               (case setup_debugger (E\<lparr>e_print_source := print_source_result sys global\<rparr>) (sys_elf sys)
                   (sys_file_exists sys) (sys_open_maps sys) path prog_argv pid s of
                  None \<Rightarrow> None
                | Some Aborted \<Rightarrow> Some Aborted
                | Some Undefined \<Rightarrow> Some Undefined
                | Some (Value (Setup_failed messages)) \<Rightarrow> Some (Value (Exit (-1) [] messages))
                | Some (Value (In_child prog args s)) \<Rightarrow>
                    if sys_execv_ok sys prog args then Some (Value (Executes prog args s)) else Some Undefined
                | Some (Value (Set_up E debugger)) \<Rightarrow> run_main sys E debugger lines)
           | _ \<Rightarrow> Some Undefined))"

section \<open>What it comes to\<close>

lemma help_message_text:
  "print_help_message me = Defined (''usage: '' @ (case me of None \<Rightarrow> ''spray'' | Some me \<Rightarrow> me) @ drop 9 help_format)"
proof -
  have split: "help_format = ''usage: '' @ CHR ''%'' # CHR ''s'' # drop 9 help_format" by (simp add: help_format_def)
  have "CHR ''%'' \<notin> set (drop 9 help_format)" by (simp add: help_format_def newline_def)
  then have "vformat (drop 9 help_format) args = Defined (drop 9 help_format)" for args
    using vformat_plain [of "drop 9 help_format" "[]" args] by simp
  then have "vformat (CHR ''%'' # CHR ''s'' # drop 9 help_format) [m] = Defined (m @ drop 9 help_format)" for m
    by (simp add: modifier_char_def conversion_char_def)
  then show ?thesis
    by (subst (1) print_help_message_def, subst (1) split, subst vformat_plain) (simp_all add: Let_def)
qed

text \<open>The child executes the program that is named on the command line.\<close>

lemma main_in_child:
  assumes "parse_flags argv = Some (i, f)" "argv \<noteq> []" and "sys_file_exists sys (argv ! i)"
    and "\<And>args. sys_execv_ok sys (argv ! i) args"
    and "init_debug_info (e_dwarf E) (sys_elf sys) (Some (argv ! i)) = Some (Defined (Some (elf, w)))"
  shows "main sys E argv 0 s lines = Some (Value (Executes (argv ! i)
    (if i + 1 < length argv then drop i argv else []) (snd (pt_trace_me (e_kernel E) s))))"
  using setup_args_result [OF assms(1,2), of zero_args] assms(3-5)
  by (simp add: main_def get_args_def setup_debugger_def split: prod.split)

text \<open>A command line that is not accepted only gives the help message.\<close>

lemma main_rejects:
  assumes "parse_flags argv = None"
  shows "main sys E argv pid s lines = Some (Value (Exit (-1)
    (''usage: '' @ (case prog_name_arg argv of None \<Rightarrow> ''spray'' | Some me \<Rightarrow> me) @ drop 9 help_format) []))"
  using assms by (simp add: main_def setup_args_def parse_args_def help_message_text)

end
