(* ===== verification/Debugger_Properties.thy ===== *)
theory Debugger_Properties
  imports Simulation_Env Session_Effect Commands_End Entry
begin

text \<open>
  The properties of the debugger as a whole: running and stepping the process with breakpoints
  set, and the commands of a session. Each has an example in the environment of
  \<^verbatim>\<open>Simulation_Env\<close>.
\<close>

section \<open>Running and stepping\<close>

text \<open>
  C1. While the process is continued, waited for or stepped by instructions or source lines,
  the breakpoints and the code stay consistent: when control is back at the prompt, each byte of
  the code is \<^verbatim>\<open>int 3\<close> where a breakpoint is enabled and the byte of the original program
  elsewhere. No breakpoint is enabled on the way, and none is lost unless a request fails.
\<close>

theorem stepping_keeps_code:
  assumes ok: "code_ok mem code orig E st"
    and m: "m \<in> {wait_for_signal E, continue_execution E, single_step_breakpoint E,
      single_step_instruction E, single_step_line E}"
    and run: "m st = Some (Value (res, st'))"
  shows "code_ok mem code orig E st' \<and>
    (\<forall>x\<in>code. mem (tracee st') x = (if RealAddr x \<in> bp_set E st' then 0xcc else orig x)) \<and>
    bp_set E st' \<subseteq> bp_set E st \<and> (requests_ok (e_kernel E) \<longrightarrow> bp_set E st' = bp_set E st)"
proof -
  have "safe (code_ok mem code orig) E m"
    using m code.safe_wait code.safe_continue code.safe_step_instruction code.safe_step_line by blast
  note kept = safeD [OF this ok run]
  from code_ok_memory [OF kept(1)] have "\<forall>x\<in>code. mem (tracee st') x =
      (if RealAddr x \<in> bp_set E st' then 0xcc else orig x)"
    by (simp add: INT3_def)
  with kept show ?thesis by blast
qed

theorem stepping_keeps_code_example:
  "\<exists>st'. single_step_line sim_env sim_dbg = Some (Value (SP_OK, st')) \<and>
     sim_mem (tracee st') = sim_memory \<and> bp_set sim_env st' = {}"
proof -
  from sim_single_step_line obtain st' where st': "single_step_line sim_env sim_dbg = Some (Value (SP_OK, st'))" ..
  from stepping_keeps_code [where m = "single_step_line sim_env", OF sim_code_ok _ st'] sim_bp_set
  have "bp_set sim_env st' = {}" "\<forall>x. sim_mem (tracee st') x = sim_memory x" by auto
  with st' show ?thesis by (auto simp: fun_eq_iff)
qed





text \<open>
  C8. A session comes to its end, whatever is entered: each way of stepping (to the next line, over
  it, out of a function, by an instruction), continuing, the commands for breakpoints, memory and
  registers, malformed and unknown commands, and empty lines that repeat them. The exceptions are
  a process that keeps reporting that the terminal has changed its size, which the mutual recursion
  of waiting and continuing follows without a bound, \<^verbatim>\<open>backtrace\<close>, and the printing and setting
  of variables: chains of frames and of types may be circular. Stepping to the next line gives up
  after a fixed number of instructions.
\<close>

theorem session_comes_to_end:
  assumes world: "world_ok E ds syms st" "cache_ok E ds (symbols st)" and "last_command st = None"
    and quiet: "\<And>s info. pt_get_signal_info (e_kernel E) (e_pid E)
      (snd (k_waitpid (e_kernel E) (e_pid E) s)) = Some info \<Longrightarrow> si_signo info \<noteq> 28"
    and lines: "\<And>line. line \<in> set lines \<Longrightarrow> bounded_command (get_command_tokens line)"
  shows "\<exists>out. command_loop E lines st = Some out"
proof -
  have quiet: "no_window_change E" using quiet by (auto simp: no_window_change_def SIGWINCH_def)
  have lines: "\<forall>line \<in> set lines. bounded_command (get_command_tokens line)" using lines by blast
  have "session_ok E ds syms st" using assms(1-3) by (simp add: session_ok_def looks_ok_def)
  from endsD [OF session_ends [OF quiet lines] this] show ?thesis by auto
qed

theorem session_comes_to_end_example:
  "\<exists>out. command_loop sim_env [''next'', ''break main'', ''step'', '' '', ''leave now'', ''print %rip''] sim_dbg = Some out"
proof (rule session_comes_to_end)
  show "world_ok sim_env sim_dies sim_symbols sim_dbg" by (rule sim_world_ok) simp
  show "cache_ok sim_env sim_dies (symbols sim_dbg)" using sim_cache_ok by simp
  show "si_signo info \<noteq> 28" if "pt_get_signal_info (e_kernel sim_env) (e_pid sim_env)
      (snd (k_waitpid (e_kernel sim_env) (e_pid sim_env) s)) = Some info" for s info
    using sim_no_window_change that by (auto simp: no_window_change_def SIGWINCH_def)
  have "get_command_tokens ''next'' = [''next'']" "get_command_tokens ''break main'' = [''break'', ''main'']"
    "get_command_tokens ''step'' = [''step'']" "get_command_tokens '' '' = []"
    "get_command_tokens ''leave now'' = [''leave'', ''now'']" "get_command_tokens ''print %rip'' = [''print'', ''%rip'']"
    by code_simp+
  then show "bounded_command (get_command_tokens line)"
    if "line \<in> set [''next'', ''break main'', ''step'', '' '', ''leave now'', ''print %rip'']" for line
    using that by (auto simp: bounded_command_def is_valid_identifier_def is_letter_def)
qed simp

text \<open>The position at the program counter, as the debug information gives it.\<close>

definition pc_now :: "('d, 's, 'h, 'w) env \<Rightarrow> ('s, 'h, 'w) debugger \<Rightarrow> dbg_addr" where
  "pc_now E st = real_to_dbg (load_address st)
     (case get_register_value (e_kernel E) (e_pid E) RIP (tracee st) of
        Some pc \<Rightarrow> RealAddr pc | None \<Rightarrow> RealAddr 0)"

definition position_now ::
  "('d, 's, 'h, 'w) env \<Rightarrow> ('d \<times> nat) list \<Rightarrow> (Elf64_Sym \<times> string) list \<Rightarrow> ('s, 'h, 'w) debugger
     \<Rightarrow> Position option" where
  "position_now E ds syms st =
     (case covering syms (pc_now E st) of None \<Rightarrow> None | Some _ \<Rightarrow> pos_spec E ds (pc_now E st))"

lemma get_dbg_pc_now: "get_dbg_pc E st = Some (Value (pc_now E st, st))"
  by (simp add: get_dbg_pc_def get_pc_def pc_now_def then_do_def get_state_def read_tracee_def return_def)

lemma addr_position_now:
  assumes "looks_ok E ds syms st" "addr_position E (pc_now E st) st = Some (Value (p, st'))"
  shows "p = position_now E ds syms st" "looks_ok E ds syms st'" "position_now E ds syms st' = p"
proof -
  from assms(1) have w: "world_ok E ds syms st" "cache_ok E ds (symbols st)" by (simp_all add: looks_ok_def)
  from addr_position_spec [OF this, of "pc_now E st"] assms(2) obtain ss where
    "p = position_now E ds syms st" "st' = st\<lparr>symbols := ss\<rparr>" "cache_ok E ds ss"
    by (auto simp: looks_up_def position_now_def)
  moreover have "pc_now E (st\<lparr>symbols := ss\<rparr>) = pc_now E st" for ss by (simp add: pc_now_def)
  ultimately show "p = position_now E ds syms st" "looks_ok E ds syms st'" "position_now E ds syms st' = p"
    using w by (simp_all add: looks_ok_def world_ok_def position_now_def cong: option.case_cong)
qed

lemma step_line_loop_reaches:
  "step_line_loop E l pos n st = Some y \<Longrightarrow>
   (\<forall>st'. looks_ok E ds syms st \<longrightarrow> position_now E ds syms st = Some pos \<longrightarrow> y = Value (SP_OK, st') \<longrightarrow>
     (\<exists>p. position_now E ds syms st' = Some p \<and> pos_is_exact p \<and> pos_line p \<noteq> l))"
proof (induction rule: step_line_loop.raw_induct [rotated, consumes 1, case_names step])
  case (step w E l pos n st y)
  show ?case
  proof (intro allI impI)
    fix st'
    assume ok: "looks_ok E ds syms st" and pos: "position_now E ds syms st = Some pos"
      and y: "y = Value (SP_OK, st')"
    show "\<exists>p. position_now E ds syms st' = Some p \<and> pos_is_exact p \<and> pos_line p \<noteq> l"
    proof (cases "\<not> pos_is_exact pos \<or> pos_line pos = l")
      case False
      with step(2) y pos show ?thesis by simp
    next
      case True
      from step(2) [unfolded y if_P [OF True]] obtain r st1 p st3 where
        inst: "single_step_instruction E st = Some (Value (r, st1))"
        and at: "addr_position E (pc_now E st1) st1 = Some (Value (Some p, st3))"
        and rest: "w E l p (Suc n) st3 = Some (Value (SP_OK, st'))"
        by (auto simp: then_do_Value_iff get_dbg_pc_now split: if_splits option.splits)
      from looks_ok_keeps [OF keeps_lookup_state_instruction(2) ok inst] have "looks_ok E ds syms st1" .
      from addr_position_now(2,3) [OF this at] step(1) [OF rest] show ?thesis by simp
    qed
  qed
qed

text \<open>
  C7. When stepping to the next line reports success, the debug information has an exact
  position at the new program counter, and it is on another line than the position from which
  the step started.
\<close>

theorem step_line_reaches_line:
  assumes "world_ok E ds syms st" "cache_ok E ds (symbols st)"
    and run: "single_step_line E st = Some (Value (SP_OK, st'))"
  shows "\<exists>p q. position_now E ds syms st = Some p \<and> position_now E ds syms st' = Some q \<and>
    pos_is_exact q \<and> pos_line q \<noteq> pos_line p"
proof -
  from assms(1,2) have ok: "looks_ok E ds syms st" by (simp add: looks_ok_def)
  from run obtain p st1 where
    at: "addr_position E (pc_now E st) st = Some (Value (Some p, st1))"
    and loop: "step_line_loop E (pos_line p) p 0 st1 = Some (Value (SP_OK, st'))"
    by (auto simp: single_step_line_def then_do_Value_iff get_dbg_pc_now split: option.splits)
  from addr_position_now [OF ok at] step_line_loop_reaches [OF loop, of ds syms]
  have "position_now E ds syms st = Some p" "\<exists>q. position_now E ds syms st' = Some q \<and>
    pos_is_exact q \<and> pos_line q \<noteq> pos_line p" by simp_all
  then show ?thesis by blast
qed

theorem step_line_reaches_line_example:
  "\<exists>st' p q. single_step_line sim_env sim_dbg = Some (Value (SP_OK, st')) \<and>
     position_now sim_env sim_dies sim_symbols st' = Some q \<and> pos_is_exact q \<and> pos_line q \<noteq> 2"
proof -
  from sim_single_step_line obtain st' where st': "single_step_line sim_env sim_dbg = Some (Value (SP_OK, st'))" ..
  have "cache_ok sim_env sim_dies (symbols sim_dbg)" using sim_cache_ok by simp
  from step_line_reaches_line [OF sim_world_ok this st'] obtain p q where
    p: "position_now sim_env sim_dies sim_symbols sim_dbg = Some p"
    and q: "position_now sim_env sim_dies sim_symbols st' = Some q" "pos_is_exact q" "pos_line q \<noteq> pos_line p"
    by auto
  have "pc_now sim_env sim_dbg = DbgAddr 0x401000"
    using sim_get_dbg_pc [of sim_dbg] sim_regs_proc by (simp add: get_dbg_pc_now real_to_dbg_def)
  with p sim_position(1) sim_covering(1) have "pos_line p = 2" by (auto simp: position_now_def)
  with st' q show ?thesis by auto
qed

text \<open>
  C6. When the process stops because it has executed a breakpoint's \<^verbatim>\<open>int 3\<close>, waiting moves the
  program counter back by the one byte of the instruction, to the address of the breakpoint, and
  changes nothing else.
\<close>

theorem breakpoint_hit_moves_pc:
  assumes regs: "kernel_regs (e_kernel E) (e_pid E) regs"
    and wait: "k_waitpid (e_kernel E) (e_pid E) (tracee st) = (status, s)"
    and stopped: "status AND 0xff = 0x7f" "status \<noteq> 0xffff"
    and info: "pt_get_signal_info (e_kernel E) (e_pid E) s = Some \<lparr>si_signo = 5, si_code = code\<rparr>"
      "code = 0x80 \<or> code = 1"
    and pc: "get_register_value (e_kernel E) (e_pid E) RIP s = Some pc"
    and moved: "set_register_value (e_kernel E) (e_pid E) RIP (pc - 1) s = (SP_OK, s')"
  shows "wait_for_signal E st = Some (Value (SP_OK, st\<lparr>tracee := s'\<rparr>)) \<and>
    regs s' = (regs s)[reg_index RIP := pc - 1]"
proof -
  have "status AND 0x7f = (status AND 0xff) AND 0x7f" by (simp add: and.assoc)
  also have "\<dots> = 0x7f" unfolding stopped(1) by simp
  finally have sig: "WTERMSIG status = 127" by (simp add: WTERMSIG_def)
  from moved obtain xs where xs: "pt_read_registers (e_kernel E) (e_pid E) s = Some xs"
    "pt_write_registers (e_kernel E) (e_pid E) (xs[reg_index RIP := pc - 1]) s = (SP_OK, s')"
    by (auto simp: set_register_value_def split: option.splits)
  have "regs s' = (regs s)[reg_index RIP := pc - 1]"
    using kernel_regs_write_ok [OF regs xs(2)] kernel_regs_read [OF regs xs(1)] by simp
  moreover have "wait_for_signal E st = Some (Value (SP_OK, st\<lparr>tracee := s'\<rparr>))"
    using sig stopped info pc moved
    by (subst wait_for_signal.simps)
      (auto simp: then_do_Value change_tracee_def wait WIFEXITED_def WIFSIGNALED_def WIFCONTINUED_def
        WIFSTOPPED_def SIGSEGV_def SIGTRAP_def handle_sigtrap_def SI_KERNEL_def TRAP_BRKPT_def
        get_pc_def set_pc_def)
  ultimately show ?thesis by blast
qed

text \<open>The process of the environment, which has executed an \<^verbatim>\<open>int 3\<close> in front of 0x401009.\<close>

definition sim_trapped :: sim_process where
  "sim_trapped = sim_proc\<lparr>sim_events := [(0x057f, \<lparr>si_signo = 5, si_code = 0x80\<rparr>, 0x401009)]\<rparr>"

theorem breakpoint_hit_moves_pc_example:
  "\<exists>s. wait_for_signal sim_env (sim_dbg\<lparr>tracee := sim_trapped\<rparr>) =
       Some (Value (SP_OK, sim_dbg\<lparr>tracee := s\<rparr>)) \<and> sim_registers s ! reg_index RIP = 0x401008"
proof -
  let ?regs = "(sim_registers sim_trapped)[reg_index RIP := 0x401009]"
  let ?s = "sim_trapped\<lparr>sim_events := [], sim_siginfo := \<lparr>si_signo = 5, si_code = 0x80\<rparr>, sim_regs := ?regs\<rparr>"
  let ?s' = "?s\<lparr>sim_regs := ?regs[reg_index RIP := 0x401008]\<rparr>"
  have len: "length (sim_registers sim_trapped) = 27" by simp
  have regs: "sim_registers ?s = ?regs" by (simp add: sim_registers_def)
  have "k_waitpid (e_kernel sim_env) (e_pid sim_env) (tracee (sim_dbg\<lparr>tracee := sim_trapped\<rparr>)) = (0x057f, ?s)"
    by (simp add: quiet_kernel_def sim_kernel_def sim_trapped_def)
  moreover have "kernel_regs (e_kernel sim_env) (e_pid sim_env) sim_registers" using quiet_kernel_regs by simp
  moreover have "pt_get_signal_info (e_kernel sim_env) (e_pid sim_env) ?s =
      Some \<lparr>si_signo = 5, si_code = 0x80\<rparr>"
    by (simp add: quiet_kernel_def sim_kernel_def pt_get_signal_info_def PTRACE_ERROR_def SIGWINCH_def)
  moreover have "get_register_value (e_kernel sim_env) (e_pid sim_env) RIP ?s = Some 0x401009"
    using regs by (simp add: sim_read_register)
  moreover have "set_register_value (e_kernel sim_env) (e_pid sim_env) RIP (0x401009 - 1) ?s = (SP_OK, ?s')"
    using regs by (simp add: set_register_value_def pt_read_registers_def pt_write_registers_def quiet_kernel_def
        sim_kernel_def PTRACE_ERROR_def)
  ultimately have "wait_for_signal sim_env (sim_dbg\<lparr>tracee := sim_trapped\<rparr>) =
      Some (Value (SP_OK, sim_dbg\<lparr>tracee := sim_trapped, tracee := ?s'\<rparr>)) \<and>
      sim_registers ?s' = (sim_registers ?s)[reg_index RIP := 0x401009 - 1]"
    by (intro breakpoint_hit_moves_pc) auto
  then show ?thesis using regs by auto
qed

section \<open>Command lines\<close>

text \<open>
  C37. A command line is split into its words: for words that are separated, preceded and
  followed by any number of blanks, the tokens are exactly the words.
\<close>

theorem tokens_are_words:
  assumes "\<forall>(pre, w) \<in> set ws. (\<forall>c \<in> set pre. is_blank c) \<and> w \<noteq> [] \<and> (\<forall>c \<in> set w. \<not> is_blank c)"
    and "\<forall>(pre, w) \<in> set (tl ws). pre \<noteq> []" and "\<forall>c \<in> set trail. is_blank c"
  shows "get_command_tokens (words_line ws @ trail) = map snd ws"
  by (rule get_command_tokens_line [OF assms])

theorem tokens_are_words_example:
  "get_command_tokens ''  break main '' = [''break'', ''main'']"
  using tokens_are_words [of "[(''  '', ''break''), ('' '', ''main'')]" "'' ''"]
  by (simp add: is_blank_def blanks_def)

text \<open>
  C36. A number that is printed reads back as the same number: hexadecimal up to the largest
  signed 64-bit value, at which larger ones are cut off, and decimal in the range of signed
  64-bit values.
\<close>

theorem numbers_read_back:
  "parse_base16 (CHR ''0'' # CHR ''x'' # show_base 16 (unat a)) =
     Some (if unat a < 2 ^ 63 then a else 2 ^ 63 - 1) \<and>
   parse_base10 (show_int (sint b)) = Some b"
proof -
  have "of_nat (min (unat a) (2 ^ 63 - 1)) = (if unat a < 2 ^ 63 then a else 2 ^ 63 - 1)"
    by (auto simp: min_def)
  then show ?thesis
    using sint_u64_bounds [of b] by (simp add: parse_base16_hex parse_base10_int LONG_MIN_def LONG_MAX_def)
qed

section \<open>Commands\<close>

lemma hex_location:
  assumes "n < 2 ^ 63"
  shows "parse_break_location E (CHR ''0'' # CHR ''x'' # show_base 16 n) st =
    Some (Value (Some (DbgAddr (of_nat n)), st))"
  using assms
  by (simp add: parse_break_location_def is_valid_identifier_def is_letter_def parse_base16_hex return_def min_def)

lemma sim_main_location: "location_spec sim_env sim_dies sim_symbols ''main'' = Some (DbgAddr 0x401008)"
proof -
  have main: "find (\<lambda>s. snd s = ''main'') sim_symbols = Some (sim_main, ''main'')"
    "is_valid_identifier ''main''" "se_symbol_type sim_main = STT_FUNC"
    "se_symbol_start_addr sim_main = DbgAddr 0x401000" "se_symbol_end_addr sim_main = DbgAddr 0x401040"
    by code_simp+
  have files: "concat (map (\<lambda>(d, l). cu_files sim_dwarf d) sim_dies) = [''/src/main.c'']"
    by (simp add: sim_dies_def cu_files_def sd_has_tag_def sim_dwarf_def dwarf_numbers)
  have "get_line_table_index_of_pc \<lparr>is_set = True, lt_lines = sim_lines\<rparr> (DbgAddr 0x401000) = Some 0"
    "start_in_table \<lparr>is_set = True, lt_lines = sim_lines\<rparr> 0 (DbgAddr 0x401040) = DbgAddr 0x401008"
    by code_simp+
  then show ?thesis
    by (simp add: location_spec_def function_location_def main files sim_table)
qed




lemma example_session:
  "\<exists>st'. command_loop sim_env [''break 0x401008'', ''continue now'', '' ''] sim_dbg = Some (Value ((), st'))"
proof -
  have tokens: "get_command_tokens ''break 0x401008'' = [''break'', ''0x401008'']"
    "get_command_tokens ''continue now'' = [''continue'', ''now'']" "get_command_tokens '' '' = []" by code_simp+
  let ?st = "sim_dbg\<lparr>last_command := Some ''break 0x401008''\<rparr>"
  have hex: "show_base 16 0x401008 = ''401008''"
    by (simp add: show_base.simps digit_char_def char_of_def bit_0)
  have "parse_break_location sim_env ''0x401008'' ?st = Some (Value (Some (DbgAddr 0x401008), ?st))"
    using hex_location [of "0x401008" sim_env ?st] unfolding hex by simp
  moreover have "table_ok sim_env ?st" using sim_table_ok by (simp add: table_ok_def)
  ultimately obtain st1 where
    1: "handle_debug_command_tokens sim_env [''break'', ''0x401008''] ?st = Some (Value ((), st1))"
    using break_command [of sim_env ?st "''0x401008''"] sim_requests_ok by fastforce
  have error: "\<exists>st'. handle_debug_command_tokens sim_env [''continue'', ''now''] st = Some (Value ((), st')) \<and>
      last_command st' = last_command st" for st
    by (simp add: handle_debug_command_tokens_def next_token_def is_command_iff handle_plain_def
        end_of_tokens_def emit_def then_do_def return_def)
  obtain st2 where
    2: "handle_debug_command_tokens sim_env [''continue'', ''now''] (st1\<lparr>last_command := Some ''continue now''\<rparr>) =
      Some (Value ((), st2))" "last_command st2 = Some ''continue now''"
    using error [of "st1\<lparr>last_command := Some ''continue now''\<rparr>"] by auto
  obtain st3 where
    3: "handle_debug_command_tokens sim_env [''continue'', ''now''] st2 = Some (Value ((), st3))"
    using error [of st2] by blast
  have "command_loop sim_env [''break 0x401008'', ''continue now'', '' ''] sim_dbg = Some (Value ((), st3))"
    using 1 2 3
    by (simp add: handle_debug_command_def tokens next_token_def then_do_def save_command_def read_command_def
        return_def get_state_def)
  then show ?thesis by blast
qed


text \<open>
  C12. A command that is none of those that run the process, set or delete breakpoints or set a
  value, or that is one of these but with missing or surplus words, changes neither the process,
  its memory and registers, nor the table of breakpoints.
\<close>

theorem harmless_command:
  assumes "\<not> changing tokens"
    and "handle_debug_command_tokens E tokens st = Some (Value (u, st'))"
  shows "tracee st' = tracee st \<and> breakpoints st' = breakpoints st \<and>
    last_command st' = last_command st \<and> load_address st' = load_address st"
  using keepsD [OF unchanging_command [OF assms(1)] assms(2)] by (simp add: core_def)

theorem harmless_command_example:
  "\<exists>st'. handle_debug_command_tokens sim_env [''continue'', ''now''] sim_dbg = Some (Value ((), st')) \<and>
     tracee st' = sim_proc"
proof -
  have "\<exists>st'. handle_debug_command_tokens sim_env [''continue'', ''now''] sim_dbg = Some (Value ((), st'))"
    by (simp add: handle_debug_command_tokens_def next_token_def is_command_iff handle_plain_def
        end_of_tokens_def emit_def then_do_def return_def)
  then obtain st' where st': "handle_debug_command_tokens sim_env [''continue'', ''now''] sim_dbg =
      Some (Value ((), st'))" by blast
  have "\<not> changing [''continue'', ''now'']" by (simp add: changing_def)
  from harmless_command [OF this st'] st' show ?thesis by simp
qed



text \<open>
  C38. For a position-independent executable the debugger never gets to its first command: the
  text in front of the first dash of \<^verbatim>\<open>/proc/pid/maps\<close> is read together with the dash, so that it
  is no number, and the assertion that it is one fails.
\<close>

theorem load_address_never_read:
  assumes "is_dyn_exec E" and "open_maps (proc_maps_filepath (e_pid E)) = Some content"
    and "CHR ''-'' \<in> set content"
  shows "init_load_address E open_maps st = Some Aborted"
proof -
  from assms(3) obtain pre rest where "content = pre @ CHR ''-'' # rest" "CHR ''-'' \<notin> set pre"
    by (metis split_list_first)
  with load_address_aborts [OF assms(1), of open_maps pre rest st] assms(2) show ?thesis by simp
qed

theorem load_address_never_read_example:
  "init_load_address (sim_env\<lparr>e_elf := sim_elf\<lparr>elf_type := ELF_TYPE_DYN\<rparr>\<rparr>)
     (\<lambda>path. if path = ''/proc/1/maps'' then Some ''555555554000-555555555000 r--p'' else None) sim_dbg = Some Aborted"
proof (rule load_address_never_read)
  show "is_dyn_exec (sim_env\<lparr>e_elf := sim_elf\<lparr>elf_type := ELF_TYPE_DYN\<rparr>\<rparr>)"
    by (simp add: is_dyn_exec_def)
  have "proc_maps_filepath 1 = ''/proc/1/maps''" by code_simp
  then show "(\<lambda>path. if path = ''/proc/1/maps'' then Some ''555555554000-555555555000 r--p'' else None)
      (proc_maps_filepath (e_pid (sim_env\<lparr>e_elf := sim_elf\<lparr>elf_type := ELF_TYPE_DYN\<rparr>\<rparr>))) =
      Some ''555555554000-555555555000 r--p''" by simp
  show "CHR ''-'' \<in> set ''555555554000-555555555000 r--p''" by code_simp
qed

section \<open>The program that is debugged\<close>

text \<open>
  C40. In the child process the file that is named on the command line is executed, behind any
  number of flags, with the rest of the command line as its arguments, its name first. But if
  there is no further argument, the program gets an empty vector that does not even hold its name.
\<close>

theorem executed_program:
  assumes "0 < i" "i < length argv" and "\<forall>k. 0 < k \<and> k < i \<longrightarrow> argv ! k = ''-c'' \<or> argv ! k = ''--no-color''"
    and "\<nexists>s. argv ! i = CHR ''-'' # s" and "sys_file_exists sys (argv ! i)"
    and "\<And>args. sys_execv_ok sys (argv ! i) args"
    and "init_debug_info (e_dwarf E) (sys_elf sys) (Some (argv ! i)) = Some (Defined (Some (elf, w)))"
  shows "main sys E argv 0 s lines = Some (Value (Executes (argv ! i)
    (if i + 1 < length argv then drop i argv else []) (snd (pt_trace_me (e_kernel E) s))))"
proof -
  from assms(2) have "argv \<noteq> []" by auto
  moreover from this have "parse_flags argv = Some (i, \<lparr>no_color = 1 < i\<rparr>)"
    using assms(1-4) by (subst parse_flags_iff) (simp_all add: is_flag_def is_flag_like_def)
  ultimately show ?thesis using assms(5-7) by (intro main_in_child) auto
qed

definition sim_system :: system where
  "sim_system =
     \<lparr>sys_elf = sim_io, sys_file_exists = (\<lambda>path. path = ''a.out''), sys_open_maps = (\<lambda>path. None),
      sys_print_source_extern = (\<lambda>path lineno n_context use_color. 0), sys_execv_ok = (\<lambda>path args. True)\<rparr>"

theorem executed_program_example:
  "main sim_system sim_env [''spray'', ''-c'', ''a.out'', ''-x''] 0 sim_proc [] =
     Some (Value (Executes ''a.out'' [''a.out'', ''-x''] sim_proc)) \<and>
   main sim_system sim_env [''spray'', ''a.out''] 0 sim_proc [] = Some (Value (Executes ''a.out'' [] sim_proc))"
proof -
  have "strstr ''clang version 15.0.7'' ''clang''" by code_simp
  then have "built_by_clang sim_dwarf 0" by (simp add: built_by_clang_def sim_dwarf_def DW_AT_producer_def)
  then have "\<forall>(d, l) \<in> set (dies (sim_info @ [])). sd_has_tag sim_dwarf d DW_TAG_compile_unit \<longrightarrow>
      built_by_clang sim_dwarf d"
    by (auto simp: sim_info_dies sim_dies_def sd_has_tag_def sim_dwarf_def DW_TAG_compile_unit_def)
  then have "sd_dwarf_init sim_dwarf ''a.out'' = Some (Some 0)"
    using is_valid_compiler_iff [OF sim_dwarf_ok] by (simp add: sd_dwarf_init_def) (simp add: sim_dwarf_def)
  then have init: "init_debug_info (e_dwarf sim_env) (sys_elf sim_system) (Some ''a.out'') =
      Some (Defined (Some (sim_elf, 0)))"
    using sim_parse by (simp add: init_debug_info_def sim_system_def)
  have trace: "snd (pt_trace_me (e_kernel sim_env) sim_proc) = sim_proc"
    by (simp add: pt_trace_me_def quiet_kernel_def sim_kernel_def)
  have flags: "\<forall>k. 0 < k \<and> k < 2 \<longrightarrow> [''spray'', ''-c'', ''a.out'', ''-x''] ! k = ''-c'' \<or>
      [''spray'', ''-c'', ''a.out'', ''-x''] ! k = ''--no-color''"
  proof (intro allI impI)
    fix k :: nat
    assume "0 < k \<and> k < 2"
    then have "k = 1" by linarith
    then show "[''spray'', ''-c'', ''a.out'', ''-x''] ! k = ''-c'' \<or>
      [''spray'', ''-c'', ''a.out'', ''-x''] ! k = ''--no-color''" by simp
  qed
  have "main sim_system sim_env [''spray'', ''-c'', ''a.out'', ''-x''] 0 sim_proc [] =
     Some (Value (Executes ''a.out'' [''a.out'', ''-x''] sim_proc))"
    using executed_program [of 2 "[''spray'', ''-c'', ''a.out'', ''-x'']" sim_system sim_env sim_elf 0 sim_proc "[]", OF _ _ flags]
      init trace
    by (simp add: sim_system_def)
  moreover have "main sim_system sim_env [''spray'', ''a.out''] 0 sim_proc [] = Some (Value (Executes ''a.out'' [] sim_proc))"
    using executed_program [of 1 "[''spray'', ''a.out'']" sim_system sim_env sim_elf 0 sim_proc "[]"] init trace
    by (auto simp: sim_system_def)
  ultimately show ?thesis by blast
qed

end
