(* ===== verification/Symbol_Memory.thy ===== *)
theory Symbol_Memory
  imports Commands
begin

text \<open>
  The buffer of symbols of \<^verbatim>\<open>src/src/info.c\<close> as it lies in memory. In the other theories a pointer
  to a symbol is an index that never becomes invalid. In the code it is an address in a block
  that \<^verbatim>\<open>realloc\<close> gives back when the buffer grows. Here the lookups and the functions that use
  them are written with such pointers, and shown to do the same as those with indices.
\<close>

section \<open>Blocks of memory\<close>

text \<open>The members of a symbol; \<open>buf_idx\<close> is its index in the buffer.\<close>

record symbol_cell =
  buf_idx :: nat
  cell_elf :: "Elf64_Sym option"
  cell_addr :: "dbg_addr option"
  cell_position :: "Position option"
  cell_file :: "string option"

definition zero_cell :: symbol_cell where
  "zero_cell = \<lparr>buf_idx = 0, cell_elf = None, cell_addr = None, cell_position = None, cell_file = None\<rparr>"

text \<open>
  The memory maps the addresses of blocks that are in use to their cells; a cell that has not
  been written to is \<open>None\<close>. \<open>next_block\<close> is an address that has not been used yet, \<open>grants\<close> tells
  which requests for memory succeed. The other components are \<^verbatim>\<open>DebugSymbolBuf\<close>.
\<close>

record symbol_memory =
  blocks :: "nat \<Rightarrow> symbol_cell option list option"
  next_block :: nat
  grants :: "nat \<Rightarrow> bool"
  buf_struct :: nat
  buf_n_symbols :: nat
  buf_n_alloc :: nat
  buf_syms :: nat

definition SYM_ALLOC_SIZE :: nat where [magic_numbers]: "SYM_ALLOC_SIZE = 16"

text \<open>A symbol is referred to by the block and the index in it.\<close>

datatype sym_ptr = SymPtr (ptr_block: nat) (ptr_index: nat)

definition new_block :: "symbol_cell option list \<Rightarrow> (symbol_memory, nat option) prog" where
  "new_block cells m =
     (let b = next_block m in
      if grants m b
      then Some (Value (Some b, m\<lparr>blocks := (blocks m)(b \<mapsto> cells), next_block := Suc b\<rparr>))
      else Some (Value (None, m\<lparr>next_block := Suc b\<rparr>)))"

definition free_block :: "nat \<Rightarrow> (symbol_memory, unit) prog" where
  "free_block b m =
     (if b \<in> dom (blocks m) then Some (Value ((), m\<lparr>blocks := (blocks m)(b := None)\<rparr>)) else Some Undefined)"

text \<open>\<^verbatim>\<open>realloc\<close> to a larger size: the cells behind the old ones have no value yet.\<close>

definition grow_block :: "nat \<Rightarrow> nat \<Rightarrow> (symbol_memory, nat option) prog" where
  "grow_block b n m =
     (case blocks m b of
        None \<Rightarrow> Some Undefined
      | Some cells \<Rightarrow>
          then_do (new_block (cells @ replicate (n - length cells) None)) (\<lambda>res.
            case res of
              None \<Rightarrow> return None
            | Some b' \<Rightarrow> then_do (free_block b) (\<lambda>_. return (Some b'))) m)"

definition load_cell :: "sym_ptr \<Rightarrow> (symbol_memory, symbol_cell) prog" where
  "load_cell p m =
     (case blocks m (ptr_block p) of
        None \<Rightarrow> Some Undefined
      | Some cells \<Rightarrow>
          if ptr_index p < length cells then
            (case cells ! ptr_index p of None \<Rightarrow> Some Undefined | Some c \<Rightarrow> Some (Value (c, m)))
          else Some Undefined)"

definition store_cell :: "sym_ptr \<Rightarrow> symbol_cell \<Rightarrow> (symbol_memory, unit) prog" where
  "store_cell p c m =
     (case blocks m (ptr_block p) of
        None \<Rightarrow> Some Undefined
      | Some cells \<Rightarrow>
          if ptr_index p < length cells
          then Some (Value ((), m\<lparr>blocks := (blocks m)(ptr_block p \<mapsto> cells[ptr_index p := Some c])\<rparr>))
          else Some Undefined)"

definition modify_cell :: "sym_ptr \<Rightarrow> (symbol_cell \<Rightarrow> symbol_cell) \<Rightarrow> (symbol_memory, unit) prog" where
  "modify_cell p f = then_do (load_cell p) (\<lambda>c. store_cell p (f c))"

definition set_memory :: "(symbol_memory \<Rightarrow> symbol_memory) \<Rightarrow> (symbol_memory, unit) prog" where
  "set_memory f m = Some (Value ((), f m))"

section \<open>The buffer\<close>

text \<open>The result says whether there is a buffer.\<close>

definition init_symbol_buf :: "(symbol_memory, bool) prog" where
  "init_symbol_buf =
     then_do (new_block []) (\<lambda>buf.
       case buf of
         None \<Rightarrow> return False
       | Some buf \<Rightarrow>
           then_do (new_block (replicate SYM_ALLOC_SIZE (Some zero_cell))) (\<lambda>syms.
             case syms of
               None \<Rightarrow> then_do (free_block buf) (\<lambda>_. return False)
             | Some syms \<Rightarrow>
                 then_do (set_memory (\<lambda>m. m\<lparr>buf_struct := buf, buf_n_symbols := 0,
                     buf_n_alloc := SYM_ALLOC_SIZE, buf_syms := syms\<rparr>)) (\<lambda>_. return True)))"

definition alloc_symbol_cell :: "(symbol_memory, sym_ptr) prog" where
  "alloc_symbol_cell =
     then_do (get_state (\<lambda>m. m)) (\<lambda>m.
     then_do (if buf_n_symbols m \<ge> buf_n_alloc m then
                then_do (set_memory (\<lambda>m. m\<lparr>buf_n_alloc := buf_n_alloc m + SYM_ALLOC_SIZE\<rparr>)) (\<lambda>_.
                then_do (grow_block (buf_syms m) (buf_n_alloc m + SYM_ALLOC_SIZE)) (\<lambda>syms.
                then_do (assert_some syms) (\<lambda>syms. set_memory (\<lambda>m. m\<lparr>buf_syms := syms\<rparr>))))
              else return ()) (\<lambda>_.
     then_do (get_state (\<lambda>m. SymPtr (buf_syms m) (buf_n_symbols m))) (\<lambda>sym.
     then_do (store_cell sym zero_cell) (\<lambda>_.
     then_do (modify_cell sym (\<lambda>c. c\<lparr>buf_idx := buf_n_symbols m\<rparr>)) (\<lambda>_.
     then_do (set_memory (\<lambda>m. m\<lparr>buf_n_symbols := buf_n_symbols m + 1\<rparr>)) (\<lambda>_. return sym))))))"

text \<open>The file paths that are freed with the symbols are values here: each symbol is only read.\<close>

fun free_paths :: "nat \<Rightarrow> nat \<Rightarrow> (symbol_memory, unit) prog" where
  "free_paths b 0 = return ()"
| "free_paths b (Suc n) = then_do (free_paths b n) (\<lambda>_. then_do (load_cell (SymPtr b n)) (\<lambda>_. return ()))"

definition free_symbol_buf :: "(symbol_memory, unit) prog" where
  "free_symbol_buf =
     then_do (get_state (\<lambda>m. m)) (\<lambda>m.
     then_do (free_paths (buf_syms m) (buf_n_symbols m)) (\<lambda>_.
     then_do (free_block (buf_syms m)) (\<lambda>_.
     then_do (set_memory (\<lambda>m. m\<lparr>buf_n_symbols := 0, buf_n_alloc := 0\<rparr>)) (\<lambda>_.
       free_block (buf_struct m)))))"

definition mut_sym_ptr :: "sym_ptr \<Rightarrow> (symbol_memory, sym_ptr) prog" where
  "mut_sym_ptr p =
     then_do (load_cell p) (\<lambda>c. get_state (\<lambda>m. SymPtr (buf_syms m) (buf_idx c)))"

section \<open>What the buffer holds\<close>

definition cell_of :: "nat \<Rightarrow> DebugSymbol \<Rightarrow> symbol_cell" where
  "cell_of i s = \<lparr>buf_idx = i, cell_elf = Some (sym_elf s), cell_addr = sym_has_addr s,
     cell_position = sym_has_position s, cell_file = sym_file s\<rparr>"

text \<open>The symbols of the buffer are the given ones, and there is enough memory.\<close>

definition holds :: "symbol_memory \<Rightarrow> DebugSymbol list \<Rightarrow> bool" where
  "holds m ss \<longleftrightarrow>
     (\<forall>b. grants m b) \<and> (\<forall>b \<ge> next_block m. blocks m b = None) \<and>
     buf_struct m \<in> dom (blocks m) \<and> buf_struct m \<noteq> buf_syms m \<and> buf_n_symbols m = length ss \<and>
     (\<exists>cells. blocks m (buf_syms m) = Some cells \<and> length cells = buf_n_alloc m \<and>
        length ss \<le> buf_n_alloc m \<and> (\<forall>i < length ss. cells ! i = Some (cell_of i (ss ! i))))"

lemma holds_block: "holds m ss \<Longrightarrow> buf_syms m < next_block m"
  unfolding holds_def by (metis leI option.distinct(1))

lemma load_symbol:
  "holds m ss \<Longrightarrow> i < length ss \<Longrightarrow> load_cell (SymPtr (buf_syms m) i) m = Some (Value (cell_of i (ss ! i), m))"
  by (auto simp: holds_def load_cell_def)

lemma modify_symbol:
  assumes "holds m ss" "i < length ss" "f (cell_of i (ss ! i)) = cell_of i s"
  shows "\<exists>m'. modify_cell (SymPtr (buf_syms m) i) f m = Some (Value ((), m')) \<and> holds m' (ss[i := s]) \<and>
    buf_syms m' = buf_syms m"
proof -
  from assms(1) obtain cells where cells: "blocks m (buf_syms m) = Some cells" "length cells = buf_n_alloc m"
    "length ss \<le> buf_n_alloc m" "\<forall>i < length ss. cells ! i = Some (cell_of i (ss ! i))"
    by (auto simp: holds_def)
  let ?m = "m\<lparr>blocks := (blocks m)(buf_syms m \<mapsto> cells[i := Some (cell_of i s)])\<rparr>"
  have "modify_cell (SymPtr (buf_syms m) i) f m = Some (Value ((), ?m))"
    using assms(2,3) cells load_symbol [OF assms(1,2)]
    by (simp add: modify_cell_def then_do_Value store_cell_def)
  moreover have "holds ?m (ss[i := s])"
    using assms(1,2) cells holds_block [OF assms(1)] by (auto simp: holds_def nth_list_update)
  ultimately show ?thesis by auto
qed

text \<open>
  A new symbol is behind the others. If there was no room left, they are all in another block now,
  and the old one is not in use any more.
\<close>

definition keeps_others :: "symbol_memory \<Rightarrow> symbol_memory \<Rightarrow> bool" where
  "keeps_others m m' \<longleftrightarrow>
     next_block m \<le> next_block m' \<and> buf_struct m' = buf_struct m \<and>
     (\<forall>b < next_block m. b \<noteq> buf_syms m \<longrightarrow> b \<noteq> buf_syms m' \<and> blocks m' b = blocks m b) \<and>
     dom (blocks m') - {buf_syms m'} = dom (blocks m) - {buf_syms m}"

lemma alloc_cell:
  assumes "holds m ss"
  shows "\<exists>m' cells. alloc_symbol_cell m = Some (Value (SymPtr (buf_syms m') (length ss), m')) \<and>
    (\<forall>b. grants m' b) \<and> (\<forall>b \<ge> next_block m'. blocks m' b = None) \<and> buf_n_symbols m' = Suc (length ss) \<and>
    blocks m' (buf_syms m') = Some cells \<and> length cells = buf_n_alloc m' \<and> Suc (length ss) \<le> buf_n_alloc m' \<and>
    (\<forall>i < length ss. cells ! i = Some (cell_of i (ss ! i))) \<and>
    cells ! length ss = Some (zero_cell\<lparr>buf_idx := length ss\<rparr>) \<and> keeps_others m m' \<and>
    (if length ss < buf_n_alloc m then buf_syms m' = buf_syms m \<and> buf_n_alloc m' = buf_n_alloc m
     else buf_syms m' \<noteq> buf_syms m \<and> blocks m' (buf_syms m) = None)"
proof -
  from assms obtain cells where cells: "blocks m (buf_syms m) = Some cells" "length cells = buf_n_alloc m"
    "length ss \<le> buf_n_alloc m" "\<forall>i < length ss. cells ! i = Some (cell_of i (ss ! i))"
    and m: "\<And>b. grants m b" "All (grants m)" "\<And>b. next_block m \<le> b \<Longrightarrow> blocks m b = None"
      "buf_n_symbols m = length ss" "blocks m (next_block m) = None"
    by (auto simp: holds_def)
  note [simp] = alloc_symbol_cell_def then_do_def set_memory_def grow_block_def new_block_def free_block_def
    store_cell_def modify_cell_def load_cell_def assert_some_def Let_def SYM_ALLOC_SIZE_def keeps_others_def
  show ?thesis
  proof (cases "length ss < buf_n_alloc m")
    case True
    with cells m holds_block [OF assms] show ?thesis by (auto simp: nth_list_update)
  next
    case False
    with cells(3) have full: "buf_n_alloc m = length ss" by simp
    have "buf_syms m \<noteq> next_block m" using holds_block [OF assms] by simp
    with full cells m holds_block [OF assms] show ?thesis
      by (auto simp: nth_list_update nth_append domI)
  qed
qed

lemma new_symbol:
  assumes "holds m ss"
    and f: "\<And>c. f c = c\<lparr>cell_elf := Some elf, cell_addr := (case a of None \<Rightarrow> cell_addr c | Some a \<Rightarrow> Some a)\<rparr>"
  shows "\<exists>m'. then_do alloc_symbol_cell (\<lambda>p. then_do (modify_cell p f) (\<lambda>_. return p)) m =
      Some (Value (SymPtr (buf_syms m') (length ss), m')) \<and>
    holds m' (ss @ [\<lparr>sym_elf = elf, sym_has_addr = a, sym_has_position = None, sym_file = None\<rparr>]) \<and>
    keeps_others m m' \<and>
    (if length ss < buf_n_alloc m then buf_syms m' = buf_syms m \<and> buf_n_alloc m' = buf_n_alloc m
     else buf_syms m' \<noteq> buf_syms m \<and> blocks m' (buf_syms m) = None)"
proof -
  let ?n = "length ss"
  let ?s = "\<lparr>sym_elf = elf, sym_has_addr = a, sym_has_position = None, sym_file = None\<rparr>"
  from alloc_cell [OF assms(1)] obtain m1 cells where
    alloc: "alloc_symbol_cell m = Some (Value (SymPtr (buf_syms m1) ?n, m1))"
    and m1: "\<forall>b. grants m1 b" "\<forall>b \<ge> next_block m1. blocks m1 b = None" "buf_n_symbols m1 = Suc ?n"
      "blocks m1 (buf_syms m1) = Some cells" "length cells = buf_n_alloc m1" "Suc ?n \<le> buf_n_alloc m1"
      "\<forall>i < ?n. cells ! i = Some (cell_of i (ss ! i))" "cells ! ?n = Some (zero_cell\<lparr>buf_idx := ?n\<rparr>)"
    and others: "keeps_others m m1"
    and grown: "if ?n < buf_n_alloc m then buf_syms m1 = buf_syms m \<and> buf_n_alloc m1 = buf_n_alloc m
      else buf_syms m1 \<noteq> buf_syms m \<and> blocks m1 (buf_syms m) = None" by blast
  let ?m = "m1\<lparr>blocks := (blocks m1)(buf_syms m1 \<mapsto> cells[?n := Some (cell_of ?n ?s)])\<rparr>"
  have "f (zero_cell\<lparr>buf_idx := ?n\<rparr>) = cell_of ?n ?s"
    by (cases a) (simp_all add: f zero_cell_def cell_of_def)
  with m1 alloc have "then_do alloc_symbol_cell (\<lambda>p. then_do (modify_cell p f) (\<lambda>_. return p)) m =
      Some (Value (SymPtr (buf_syms m1) ?n, ?m))"
    by (simp add: modify_cell_def then_do_def load_cell_def store_cell_def)
  moreover have "buf_syms m1 < next_block m1" using m1(2,4) by (metis leI option.distinct(1))
  moreover from assms(1) others have "buf_struct m1 \<in> dom (blocks m1)" "buf_struct m1 \<noteq> buf_syms m1"
    by (auto simp: holds_def keeps_others_def)
  ultimately show ?thesis
    using m1 others grown
    by (intro exI [of _ ?m])
      (auto simp: holds_def nth_list_update nth_append less_Suc_eq keeps_others_def)
qed

section \<open>The lookups with pointers\<close>

text \<open>The state is that of the debugger, whose list of symbols is not used, with the memory.\<close>

definition on_memory :: "(symbol_memory, 'a) prog \<Rightarrow> ('b \<times> symbol_memory, 'a) prog" where
  "on_memory m = (\<lambda>(st, mem).
     case m mem of
       None \<Rightarrow> None
     | Some Aborted \<Rightarrow> Some Aborted
     | Some Undefined \<Rightarrow> Some Undefined
     | Some (Value (a, mem')) \<Rightarrow> Some (Value (a, (st, mem'))))"

definition on_debugger :: "('b, 'a) prog \<Rightarrow> ('b \<times> symbol_memory, 'a) prog" where
  "on_debugger n = (\<lambda>(st, mem).
     case n st of
       None \<Rightarrow> None
     | Some Aborted \<Rightarrow> Some Aborted
     | Some Undefined \<Rightarrow> Some Undefined
     | Some (Value (a, st')) \<Rightarrow> Some (Value (a, (st', mem))))"

type_synonym ('s, 'h, 'w, 'a) mem_prog = "(('s, 'h, 'w) debugger \<times> symbol_memory, 'a) prog"

definition sym_by_name_p ::
  "('d, 's, 'h, 'w) env \<Rightarrow> string \<Rightarrow> ('s, 'h, 'w, sym_ptr option) mem_prog" where
  "sym_by_name_p E name =
     then_do (on_debugger (from_c (se_symbol_from_name name (e_elf E)))) (\<lambda>elf.
       case elf of
         None \<Rightarrow> return None
       | Some elf \<Rightarrow>
           then_do (on_memory alloc_symbol_cell) (\<lambda>p.
           then_do (on_memory (modify_cell p (\<lambda>c. c\<lparr>cell_elf := Some elf\<rparr>))) (\<lambda>_. return (Some p))))"

definition sym_by_addr_p ::
  "('d, 's, 'h, 'w) env \<Rightarrow> dbg_addr \<Rightarrow> ('s, 'h, 'w, sym_ptr option) mem_prog" where
  "sym_by_addr_p E a =
     then_do (on_debugger (from_c (se_symbol_from_addr a (e_elf E)))) (\<lambda>elf.
       case elf of
         None \<Rightarrow> return None
       | Some elf \<Rightarrow>
           then_do (on_memory alloc_symbol_cell) (\<lambda>p.
           then_do (on_memory (modify_cell p (\<lambda>c. c\<lparr>cell_elf := Some elf, cell_addr := Some a\<rparr>))) (\<lambda>_.
             return (Some p))))"

text \<open>\<^verbatim>\<open>sym->elf\<close>, for a use that follows the pointer.\<close>

definition elf_of :: "sym_ptr \<Rightarrow> (symbol_memory, Elf64_Sym) prog" where
  "elf_of p =
     then_do (load_cell p) (\<lambda>c. case cell_elf c of None \<Rightarrow> \<lambda>_. Some Undefined | Some elf \<Rightarrow> return elf)"

definition sym_name_p ::
  "('d, 's, 'h, 'w) env \<Rightarrow> sym_ptr option \<Rightarrow> ('s, 'h, 'w, string option) mem_prog" where
  "sym_name_p E sp =
     (case sp of
        None \<Rightarrow> return None
      | Some p \<Rightarrow>
          then_do (on_memory (elf_of p)) (\<lambda>elf.
          then_do (on_debugger (from_c (symbol_name elf (e_elf E)))) (\<lambda>name. return (Some name))))"

definition sym_start_addr_p :: "sym_ptr option \<Rightarrow> ('s, 'h, 'w, dbg_addr) mem_prog" where
  "sym_start_addr_p sp =
     (case sp of
        None \<Rightarrow> return (DbgAddr 0)
      | Some p \<Rightarrow> then_do (on_memory (elf_of p)) (\<lambda>elf. return (se_symbol_start_addr elf)))"

definition sym_end_addr_p :: "sym_ptr option \<Rightarrow> ('s, 'h, 'w, dbg_addr) mem_prog" where
  "sym_end_addr_p sp =
     (case sp of
        None \<Rightarrow> return (DbgAddr 0)
      | Some p \<Rightarrow> then_do (on_memory (elf_of p)) (\<lambda>elf. return (se_symbol_end_addr elf)))"

definition sym_addr_p :: "sym_ptr option \<Rightarrow> ('s, 'h, 'w, dbg_addr) mem_prog" where
  "sym_addr_p sp =
     (case sp of
        None \<Rightarrow> return (DbgAddr 0)
      | Some p \<Rightarrow>
          then_do (on_memory (load_cell p)) (\<lambda>c.
            case cell_addr c of
              Some a \<Rightarrow> return a
            | None \<Rightarrow> sym_start_addr_p sp))"

definition function_start_addr_p ::
  "('d, 's, 'h, 'w) env \<Rightarrow> sym_ptr option \<Rightarrow> ('s, 'h, 'w, dbg_addr option) mem_prog" where
  "function_start_addr_p E func =
     (case func of
        None \<Rightarrow> return None
      | Some p \<Rightarrow>
          then_do (on_memory (elf_of p)) (\<lambda>elf.
            if se_symbol_type elf = STT_FUNC then
              then_do (sym_start_addr_p func) (\<lambda>lo.
              then_do (sym_end_addr_p func) (\<lambda>hi.
              then_do (on_debugger (from_dwarf (sd_effective_start_addr (e_dwarf E) (e_realpath E) lo hi)))
                (\<lambda>res. on_debugger (from_c res))))
            else return None))"

text \<open>A write through the pointer that is not constant.\<close>

definition write_symbol :: "sym_ptr \<Rightarrow> (symbol_cell \<Rightarrow> symbol_cell) \<Rightarrow> (symbol_memory, unit) prog" where
  "write_symbol p f = then_do (mut_sym_ptr p) (\<lambda>mut. modify_cell mut f)"

definition sym_filepath_p ::
  "('d, 's, 'h, 'w) env \<Rightarrow> sym_ptr option \<Rightarrow> ('s, 'h, 'w, string option) mem_prog" where
  "sym_filepath_p E sp =
     (case sp of
        None \<Rightarrow> return None
      | Some p \<Rightarrow>
          then_do (on_memory (load_cell p)) (\<lambda>c.
            case cell_file c of
              Some path \<Rightarrow> return (Some path)
            | None \<Rightarrow>
                then_do (sym_addr_p sp) (\<lambda>a.
                then_do (on_debugger (from_dwarf (sd_filepath_from_pc (e_dwarf E) a))) (\<lambda>path.
                  case path of
                    None \<Rightarrow> return None
                  | Some path \<Rightarrow>
                      then_do (on_memory (write_symbol p (\<lambda>c. c\<lparr>cell_file := Some path\<rparr>))) (\<lambda>_.
                        return (Some path))))))"

text \<open>The result points to the position in the symbol; \<open>position_at\<close> follows such a pointer.\<close>

definition sym_position_p ::
  "('d, 's, 'h, 'w) env \<Rightarrow> sym_ptr option \<Rightarrow> ('s, 'h, 'w, sym_ptr option) mem_prog" where
  "sym_position_p E sp =
     (case sp of
        None \<Rightarrow> return None
      | Some p \<Rightarrow>
          then_do (on_memory (load_cell p)) (\<lambda>c.
            case cell_position c of
              Some _ \<Rightarrow> return (Some p)
            | None \<Rightarrow>
                then_do (sym_addr_p sp) (\<lambda>a.
                then_do (on_debugger (from_dwarf (sd_line_entry_from_pc (e_dwarf E) (e_realpath E) a)))
                  (\<lambda>line_entry.
                    if \<not> is_ok line_entry then return None
                    else
                      then_do (on_memory (write_symbol p
                          (\<lambda>c. c\<lparr>cell_position := Some (position_of line_entry)\<rparr>)))
                        (\<lambda>_. return (Some p))))))"

definition position_at :: "sym_ptr \<Rightarrow> (symbol_memory, Position) prog" where
  "position_at p =
     then_do (load_cell p) (\<lambda>c.
       return (case cell_position c of
                 Some pos \<Rightarrow> pos
               | None \<Rightarrow> \<lparr>pos_line = 0, pos_column = 0, pos_is_exact = False\<rparr>))"

definition addr_position_p ::
  "('d, 's, 'h, 'w) env \<Rightarrow> dbg_addr \<Rightarrow> ('s, 'h, 'w, sym_ptr option) mem_prog" where
  "addr_position_p E a =
     then_do (sym_by_addr_p E a) (\<lambda>addr_sym.
       case addr_sym of None \<Rightarrow> return None | Some p \<Rightarrow> sym_position_p E (Some p))"

section \<open>The functions that follow the pointers\<close>

definition print_current_source_p :: "('d, 's, 'h, 'w) env \<Rightarrow> ('s, 'h, 'w, unit) mem_prog" where
  "print_current_source_p E =
     then_do (on_debugger (get_dbg_pc E)) (\<lambda>pc.
     then_do (sym_by_addr_p E pc) (\<lambda>s.
     then_do (sym_position_p E s) (\<lambda>pos.
     then_do (sym_filepath_p E s) (\<lambda>path.
       case (pos, path) of
         (Some pos, Some path) \<Rightarrow>
           then_do (on_debugger (is_user_breakpoint E)) (\<lambda>user.
           then_do (on_debugger
                     (if user then
                        then_do (get_pc E) (\<lambda>real_pc.
                        then_do (emit (Out (''Hit breakpoint at address '' @
                            addr_format (real_value real_pc) @ '' in ''))) (\<lambda>_.
                        then_do (print_as_relative_filepath E path) (\<lambda>_. emit (Out newline))))
                      else return ())) (\<lambda>_.
           then_do (on_memory (position_at pos)) (\<lambda>pos.
           then_do (on_debugger (print_source E path (pos_line pos) 3)) (\<lambda>res. on_debugger
             (if res = SP_ERR then
                emit (Err (''Failed to read source file '' @ path @ ''. Can't print source''))
              else return ())))))
       | _ \<Rightarrow> on_debugger (emit (Err (''No source info for PC '' @ addr_format (dbg_value pc))))))))"

definition init_call_frame_p ::
  "('d, 's, 'h, 'w) env \<Rightarrow> CallFrame \<Rightarrow> dbg_addr \<Rightarrow> real_addr \<Rightarrow> ('s, 'h, 'w, CallFrame) mem_prog" where
  "init_call_frame_p E caller pc frame_pointer =
     then_do (sym_by_addr_p E pc) (\<lambda>func_sym.
     then_do (case func_sym of
                None \<Rightarrow> return (None, None)
              | Some _ \<Rightarrow>
                  then_do (sym_name_p E func_sym) (\<lambda>func_name.
                  then_do (sym_position_p E func_sym) (\<lambda>pos. return (func_name, pos))))
       (\<lambda>(func_name, pos).
     then_do (case pos of
                None \<Rightarrow> return None
              | Some pos \<Rightarrow> then_do (on_memory (position_at pos)) (\<lambda>pos. return (Some (pos_line pos))))
       (\<lambda>lineno.
         return (\<lparr>cl_pc = pc, cl_frame_pointer = frame_pointer, cl_lineno = lineno, cl_function = func_name\<rparr>
           # caller))))"

definition stores_frame_pointer_p ::
  "('d, 's, 'h, 'w) env \<Rightarrow> dbg_addr \<Rightarrow> real_addr \<Rightarrow> ('s, 'h, 'w, bool) mem_prog" where
  "stores_frame_pointer_p E pc load =
     then_do (sym_by_addr_p E pc) (\<lambda>func.
       case func of
         None \<Rightarrow> return False
       | Some _ \<Rightarrow>
           then_do (sym_start_addr_p func) (\<lambda>start.
           then_do (on_debugger (read_tracee
               (pt_read_memory (e_kernel E) (e_pid E) (dbg_to_real load start)))) (\<lambda>inst_bytes.
             case inst_bytes of
               None \<Rightarrow> return False
             | Some inst_bytes \<Rightarrow> return (inst_bytes AND 0xffffffff = 0xe5894855))))"

definition set_step_over_breakpoints_p ::
  "('d, 's, 'h, 'w) env \<Rightarrow> sym_ptr option \<Rightarrow> ('s, 'h, 'w, real_addr list option) mem_prog" where
  "set_step_over_breakpoints_p E func =
     (case func of
        None \<Rightarrow> return None
      | Some p \<Rightarrow>
          then_do (sym_position_p E func) (\<lambda>pos.
          then_do (sym_name_p E func) (\<lambda>func_name.
          then_do (sym_filepath_p E func) (\<lambda>path.
            case (pos, func_name, path) of
              (Some pos, Some func_name, Some path) \<Rightarrow>
                then_do (on_memory (position_at pos)) (\<lambda>pos.
                then_do (on_debugger (for_each_line_bp E func_name path (pos_line pos))) (\<lambda>dels.
                  return (Some dels)))
            | _ \<Rightarrow> return None))))"

section \<open>The life of the buffer\<close>

lemma keeps_others_trans: "keeps_others m1 m2 \<Longrightarrow> keeps_others m2 m3 \<Longrightarrow> keeps_others m1 m3"
  unfolding keeps_others_def by auto

lemma keeps_others_blocks:
  assumes "holds m ss" "keeps_others m m'"
  shows "(blocks m')(buf_syms m' := None) = (blocks m)(buf_syms m := None)"
proof
  fix b
  from assms(1) have fresh: "blocks m b = None" if "next_block m \<le> b" for b using that by (simp add: holds_def)
  from assms(2) have dom: "b \<noteq> buf_syms m' \<and> b \<in> dom (blocks m') \<longleftrightarrow> b \<noteq> buf_syms m \<and> b \<in> dom (blocks m)" for b
    unfolding keeps_others_def by blast
  from assms(2) have same: "b \<noteq> buf_syms m' \<and> blocks m' b = blocks m b" if "b < next_block m" "b \<noteq> buf_syms m" for b
    using that unfolding keeps_others_def by blast
  show "((blocks m')(buf_syms m' := None)) b = ((blocks m)(buf_syms m := None)) b"
    using same [of b] dom [of b] fresh [of b] by (cases "b < next_block m"; cases "b = buf_syms m") auto
qed

text \<open>As many symbols as the list has, made as \<^verbatim>\<open>sym_by_name\<close> makes them.\<close>

primrec alloc_symbols :: "Elf64_Sym list \<Rightarrow> (symbol_memory, unit) prog" where
  "alloc_symbols [] = return ()"
| "alloc_symbols (elf # elfs) =
     then_do (then_do alloc_symbol_cell (\<lambda>p.
       then_do (modify_cell p (\<lambda>c. c\<lparr>cell_elf := Some elf\<rparr>)) (\<lambda>_. return p))) (\<lambda>_. alloc_symbols elfs)"

definition named_symbol :: "Elf64_Sym \<Rightarrow> DebugSymbol" where
  "named_symbol elf = \<lparr>sym_elf = elf, sym_has_addr = None, sym_has_position = None, sym_file = None\<rparr>"

text \<open>The block of the symbols is the same until there are more than it has room for.\<close>

lemma alloc_symbols_result:
  "holds m ss \<Longrightarrow>
   \<exists>m'. alloc_symbols elfs m = Some (Value ((), m')) \<and> holds m' (ss @ map named_symbol elfs) \<and> keeps_others m m' \<and>
     (if length ss + length elfs \<le> buf_n_alloc m then buf_syms m' = buf_syms m \<and> buf_n_alloc m' = buf_n_alloc m
      else buf_syms m' \<noteq> buf_syms m \<and> blocks m' (buf_syms m) = None)"
proof (induction elfs arbitrary: m ss)
  case Nil
  then show ?case by (auto simp: holds_def keeps_others_def)
next
  case (Cons elf elfs)
  from new_symbol [OF Cons.prems, where f = "\<lambda>c. c\<lparr>cell_elf := Some elf\<rparr>" and elf = elf and a = None] obtain m1 where
    1: "then_do alloc_symbol_cell (\<lambda>p. then_do (modify_cell p (\<lambda>c. c\<lparr>cell_elf := Some elf\<rparr>)) (\<lambda>_. return p)) m =
      Some (Value (SymPtr (buf_syms m1) (length ss), m1))" "holds m1 (ss @ [named_symbol elf])" "keeps_others m m1"
      "if length ss < buf_n_alloc m then buf_syms m1 = buf_syms m \<and> buf_n_alloc m1 = buf_n_alloc m
       else buf_syms m1 \<noteq> buf_syms m \<and> blocks m1 (buf_syms m) = None"
    by (auto simp: named_symbol_def)
  from Cons.IH [OF 1(2)] obtain m2 where
    2: "alloc_symbols elfs m1 = Some (Value ((), m2))" "holds m2 (ss @ map named_symbol (elf # elfs))"
      "keeps_others m1 m2"
      "if length ss + length (elf # elfs) \<le> buf_n_alloc m1
       then buf_syms m2 = buf_syms m1 \<and> buf_n_alloc m2 = buf_n_alloc m1
       else buf_syms m2 \<noteq> buf_syms m1 \<and> blocks m2 (buf_syms m1) = None"
    by (auto split: if_splits)
  have gone: "buf_syms m2 \<noteq> buf_syms m \<and> blocks m2 (buf_syms m) = None"
    if "buf_syms m1 \<noteq> buf_syms m" "blocks m1 (buf_syms m) = None"
  proof -
    have "buf_syms m < next_block m1" using 1(3) holds_block [OF Cons.prems] by (simp add: keeps_others_def)
    with 2(3) that show ?thesis unfolding keeps_others_def by metis
  qed
  show ?case
    using 1 2 gone keeps_others_trans [OF 1(3) 2(3)] holds_block [OF Cons.prems]
    by (intro exI [of _ m2]) (auto simp: then_do_Value split: if_splits)
qed

lemma free_paths_result:
  "holds m ss \<Longrightarrow> n \<le> length ss \<Longrightarrow> free_paths (buf_syms m) n m = Some (Value ((), m))"
  by (induction n) (simp_all add: then_do_Value load_symbol)

lemma free_symbol_buf_result:
  assumes "holds m ss"
  shows "\<exists>m'. free_symbol_buf m = Some (Value ((), m')) \<and>
    blocks m' = (blocks m)(buf_syms m := None, buf_struct m := None)"
proof -
  from assms have "buf_syms m \<in> dom (blocks m)" "buf_struct m \<in> dom (blocks m)" "buf_struct m \<noteq> buf_syms m"
    "buf_n_symbols m = length ss" by (auto simp: holds_def)
  then show ?thesis
    using free_paths_result [OF assms, of "length ss"]
    by (auto simp: free_symbol_buf_def then_do_def free_block_def set_memory_def)
qed

lemma init_symbol_buf_result:
  assumes "\<And>b. grants m b" "\<And>b. next_block m \<le> b \<Longrightarrow> blocks m b = None"
  shows "\<exists>m'. init_symbol_buf m = Some (Value (True, m')) \<and> holds m' [] \<and> buf_n_alloc m' = SYM_ALLOC_SIZE \<and>
    blocks m = (blocks m')(buf_syms m' := None, buf_struct m' := None) \<and> next_block m \<le> next_block m' \<and>
    next_block m \<le> buf_syms m' \<and> next_block m \<le> buf_struct m'"
  using assms
  by (auto simp: init_symbol_buf_def then_do_def new_block_def Let_def set_memory_def holds_def fun_eq_iff)

text \<open>Failing requests for memory leave nothing behind.\<close>

lemma init_symbol_buf_fails:
  assumes "init_symbol_buf m = Some (Value (False, m'))" "blocks m (next_block m) = None"
  shows "blocks m' = blocks m"
  using assms
  by (auto simp: init_symbol_buf_def then_do_def new_block_def Let_def set_memory_def free_block_def fun_eq_iff
      split: if_splits)

end
