(* ===== verification/Symbol_Simulation.thy ===== *)
theory Symbol_Simulation
  imports Symbol_Memory
begin

text \<open>
  The lookups with pointers do the same as those with indices: no function of the debugger follows
  a pointer into a block that has been given back. The programs are related step by step.
\<close>

section \<open>Simulation\<close>

text \<open>What a pointer stands for.\<close>

definition points_to :: "sym_ptr \<Rightarrow> nat \<Rightarrow> DebugSymbol list \<Rightarrow> symbol_memory \<Rightarrow> bool" where
  "points_to p i ss mem \<longleftrightarrow> p = SymPtr (buf_syms mem) i \<and> i < length ss"

definition points_to_position :: "sym_ptr \<Rightarrow> Position \<Rightarrow> DebugSymbol list \<Rightarrow> symbol_memory \<Rightarrow> bool" where
  "points_to_position p pos ss mem \<longleftrightarrow>
     (\<exists>i. points_to p i ss mem \<and> sym_has_position (ss ! i) = Some pos)"

text \<open>
  From every memory that holds the symbols of the state, and for which \<open>P\<close> is true of these, the
  two programs have the same outcome; if it is a value, the memory holds the symbols again, and
  \<open>Q\<close> is true of the values, the symbols and the memory.
\<close>

definition without_symbols :: "('s, 'h, 'w) debugger \<Rightarrow> ('s, 'h, 'w) debugger" where
  "without_symbols st = st\<lparr>symbols := []\<rparr>"

definition simulates ::
  "(DebugSymbol list \<Rightarrow> symbol_memory \<Rightarrow> bool) \<Rightarrow> ('s, 'h, 'w, 'b) mem_prog \<Rightarrow> (('s, 'h, 'w) debugger, 'a) prog
     \<Rightarrow> ('b \<Rightarrow> 'a \<Rightarrow> DebugSymbol list \<Rightarrow> symbol_memory \<Rightarrow> bool) \<Rightarrow> bool" where
  "simulates P m n Q \<longleftrightarrow>
     (\<forall>st mem. holds mem (symbols st) \<longrightarrow> P (symbols st) mem \<longrightarrow>
        rel_option (rel_outcome (\<lambda>(b, st1, mem') (a, st').
            st1 = without_symbols st' \<and> holds mem' (symbols st') \<and> Q b a (symbols st') mem'))
          (m (without_symbols st, mem)) (n st))"

lemma simulates_return:
  "(\<And>ss mem. P ss mem \<Longrightarrow> Q b a ss mem) \<Longrightarrow> simulates P (return b) (return a) Q"
  by (auto simp: simulates_def)

lemma rel_then_do:
  assumes "rel_option (rel_outcome R) (m s) (n t)"
    and "\<And>b s' a t'. R (b, s') (a, t') \<Longrightarrow> rel_option (rel_outcome S) (f b s') (g a t')"
  shows "rel_option (rel_outcome S) (then_do m f s) (then_do n g t)"
  using assms by (auto simp: then_do_def elim!: option.rel_cases outcome.rel_cases)

lemma simulates_then_do:
  assumes "simulates P m n Q" "\<And>b a. simulates (Q b a) (f b) (g a) R"
  shows "simulates P (then_do m f) (then_do n g) R"
  using assms unfolding simulates_def by (auto intro!: rel_then_do)

lemma simulates_if: "simulates P m n Q \<Longrightarrow> simulates P m' n' Q \<Longrightarrow>
  simulates P (if b then m else m') (if b then n else n') Q"
  by simp

lemma simulates_weaken:
  fixes n :: "(('s, 'h, 'w) debugger, 'a) prog"
  assumes "simulates P m n Q" "\<And>ss mem. P' ss mem \<Longrightarrow> P ss mem" "\<And>b a ss mem. Q b a ss mem \<Longrightarrow> Q' b a ss mem"
  shows "simulates P' m n Q'"
  unfolding simulates_def
proof (intro allI impI)
  fix st :: "('s, 'h, 'w) debugger" and mem assume "holds mem (symbols st)" "P' (symbols st) mem"
  with assms(1,2) have "rel_option (rel_outcome (\<lambda>(b, st1, mem') (a, st').
      st1 = without_symbols st' \<and> holds mem' (symbols st') \<and> Q b a (symbols st') mem'))
      (m (without_symbols st, mem)) (n st)" by (simp add: simulates_def)
  then show "rel_option (rel_outcome (\<lambda>(b, st1, mem') (a, st').
      st1 = without_symbols st' \<and> holds mem' (symbols st') \<and> Q' b a (symbols st') mem'))
      (m (without_symbols st, mem)) (n st)"
    by (rule option.rel_mono [OF outcome.rel_mono, THEN predicate2D, rotated])
      (simp add: le_fun_def assms(3) split: prod.split)
qed

lemma simulates_given: "(X \<Longrightarrow> simulates P m n Q) \<Longrightarrow> simulates (\<lambda>ss mem. X \<and> P ss mem) m n Q"
  unfolding simulates_def by blast

text \<open>A program that has nothing to do with the symbols.\<close>

definition blind :: "(('s, 'h, 'w) debugger, 'a) prog \<Rightarrow> bool" where
  "blind n \<longleftrightarrow>
     (\<forall>st. rel_option (rel_outcome (\<lambda>(b, st1) (a, st').
          b = a \<and> st1 = without_symbols st' \<and> symbols st' = symbols st))
        (n (without_symbols st)) (n st))"

named_theorems blind_intros \<open>what has nothing to do with the symbols\<close>

lemma simulates_blind:
  fixes n :: "(('s, 'h, 'w) debugger, 'a) prog"
  shows "blind n \<Longrightarrow> simulates P (on_debugger n) n (\<lambda>b a ss mem. b = a \<and> P ss mem)"
proof -
  assume blind: "blind n"
  show ?thesis
    unfolding simulates_def
  proof (intro allI impI)
    fix st :: "('s, 'h, 'w) debugger" and mem
    assume mem: "holds mem (symbols st)" "P (symbols st) mem"
    from blind have "rel_option (rel_outcome (\<lambda>(b, st1) (a, st').
        b = a \<and> st1 = without_symbols st' \<and> symbols st' = symbols st)) (n (without_symbols st)) (n st)"
      by (simp add: blind_def)
    then show "rel_option (rel_outcome (\<lambda>(b, st1, mem') (a, st'). st1 = without_symbols st' \<and>
        holds mem' (symbols st') \<and> b = a \<and> P (symbols st') mem'))
      (on_debugger n (without_symbols st, mem)) (n st)"
      using mem unfolding on_debugger_def by cases (auto elim!: outcome.rel_cases)
  qed
qed

lemma blind_then_do [blind_intros]:
  assumes "blind m" "\<And>a. blind (f a)"
  shows "blind (then_do m f)"
  unfolding blind_def
proof
  fix st
  show "rel_option (rel_outcome (\<lambda>(b, st1) (a, st'). b = a \<and> st1 = without_symbols st' \<and> symbols st' = symbols st))
      (then_do m f (without_symbols st)) (then_do m f st)"
  proof (rule rel_then_do [where R = "\<lambda>(b, st1) (a, st').
      b = a \<and> st1 = without_symbols st' \<and> symbols st' = symbols st"], goal_cases)
    case (2 b st1 a st')
    with assms(2) [of a, unfolded blind_def, rule_format, of st'] show ?case by simp
  qed (use assms(1) in \<open>simp add: blind_def\<close>)
qed

lemma blind_cases [blind_intros]:
  "blind (return a)" "blind m \<Longrightarrow> blind n \<Longrightarrow> blind (if b then m else n)"
  "blind m \<Longrightarrow> (\<And>a. blind (f a)) \<Longrightarrow> blind (case x of None \<Rightarrow> m | Some a \<Rightarrow> f a)"
  by (auto simp: blind_def split: option.split)

lemma blind_primitives [blind_intros]:
  "blind (from_c r)" "blind (from_dwarf d)" "blind (emit e)" "blind (read_tracee k)" "blind (get_state load_address)"
  "blind (is_breakpoint E a)"
  by (auto simp: blind_def from_c_def from_dwarf_def without_symbols_def is_breakpoint_def
      split: c_result.split option.split)

lemma blind_debugger [blind_intros]:
  "blind (get_pc E)" "blind (get_dbg_pc E)" "blind (is_user_breakpoint E)" "blind (print_as_relative_filepath E path)"
  "blind (print_source E path n k)"
  unfolding get_pc_def get_dbg_pc_def is_user_breakpoint_def print_as_relative_filepath_def print_source_def
  by (intro blind_intros)+

lemma blind_for_each_line [blind_intros]: "blind (for_each_line_bp E f path n)"
  by (auto simp: blind_def for_each_line_bp_def without_symbols_def split: option.split run.split prod.split)

section \<open>The primitives\<close>

lemma on_memory_Value: "m mem = Some (Value (a, mem')) \<Longrightarrow> on_memory m (st, mem) = Some (Value (a, (st, mem')))"
  by (simp add: on_memory_def)

lemma simulates_load:
  "simulates (\<lambda>ss mem. points_to p i ss mem \<and> P ss mem) (on_memory (load_cell p)) (sym_at i)
     (\<lambda>c s ss mem. c = cell_of i s \<and> s = ss ! i \<and> points_to p i ss mem \<and> P ss mem)"
  by (auto simp: simulates_def points_to_def sym_at_def load_symbol on_memory_Value)

lemma simulates_elf:
  "simulates (\<lambda>ss mem. points_to p i ss mem \<and> P ss mem) (on_memory (elf_of p)) (sym_at i)
     (\<lambda>elf s ss mem. elf = sym_elf s \<and> points_to p i ss mem \<and> P ss mem)"
proof -
  have "elf_of p mem = Some (Value (sym_elf (ss ! i), mem))" if "points_to p i ss mem" "holds mem ss" for ss mem
    using that by (simp add: elf_of_def points_to_def then_do_def load_symbol cell_of_def)
  then show ?thesis
    by (auto simp: simulates_def points_to_def sym_at_def on_memory_Value)
qed

lemma simulates_write:
  assumes f: "\<And>s. f (cell_of i s) = cell_of i (g s)"
    and Q: "\<And>ss mem mem'. P ss mem \<Longrightarrow> points_to p i ss mem \<Longrightarrow> buf_syms mem' = buf_syms mem \<Longrightarrow>
      Q (ss[i := g (ss ! i)]) mem'"
  shows "simulates (\<lambda>ss mem. points_to p i ss mem \<and> P ss mem) (on_memory (write_symbol p f)) (update_sym i g)
     (\<lambda>_ _. Q)"
  unfolding simulates_def
proof (intro allI impI)
  fix st :: "('s, 'h, 'w) debugger" and mem
  assume mem: "holds mem (symbols st)" and P: "points_to p i (symbols st) mem \<and> P (symbols st) mem"
  then have p: "p = SymPtr (buf_syms mem) i" "i < length (symbols st)" by (simp_all add: points_to_def)
  from modify_symbol [OF mem p(2), of f "g (symbols st ! i)"] f obtain mem' where
    mem': "modify_cell p f mem = Some (Value ((), mem'))" "holds mem' ((symbols st)[i := g (symbols st ! i)])"
      "buf_syms mem' = buf_syms mem" by (auto simp: p(1))
  from load_symbol [OF mem p(2)] mem'(1) have "write_symbol p f mem = Some (Value ((), mem'))"
    by (simp add: write_symbol_def mut_sym_ptr_def p(1) then_do_def cell_of_def)
  then show "rel_option (rel_outcome (\<lambda>(b, st1, mem') (a, st').
      st1 = without_symbols st' \<and> holds mem' (symbols st') \<and> Q (symbols st') mem'))
    (on_memory (write_symbol p f) (without_symbols st, mem)) (update_sym i g st)"
    using mem' p(2) P Q [of "symbols st" mem mem']
    by (simp add: on_memory_Value update_sym_def without_symbols_def)
qed

text \<open>A new symbol, with the members that the caller sets.\<close>

lemma simulates_alloc:
  assumes "\<And>c. f c = c\<lparr>cell_elf := Some elf, cell_addr := (case a of None \<Rightarrow> cell_addr c | Some a \<Rightarrow> Some a)\<rparr>"
  shows "simulates P
     (then_do (on_memory alloc_symbol_cell) (\<lambda>p. then_do (on_memory (modify_cell p f)) (\<lambda>_. return (Some p))))
     (then_do (alloc_symbol elf a) (\<lambda>i. return (Some i)))
     (\<lambda>p i ss mem. rel_option (\<lambda>p i. points_to p i ss mem) p i)"
  unfolding simulates_def
proof (intro allI impI)
  fix st :: "('s, 'h, 'w) debugger" and mem
  let ?n = "length (symbols st)"
  let ?s = "\<lparr>sym_elf = elf, sym_has_addr = a, sym_has_position = None, sym_file = None\<rparr>"
  assume mem: "holds mem (symbols st)"
  from new_symbol [OF this assms] obtain mem' where
    new: "then_do alloc_symbol_cell (\<lambda>p. then_do (modify_cell p f) (\<lambda>_. return p)) mem =
      Some (Value (SymPtr (buf_syms mem') ?n, mem'))" and holds: "holds mem' (symbols st @ [?s])" by blast
  have "then_do (on_memory alloc_symbol_cell) (\<lambda>p. then_do (on_memory (modify_cell p f)) (\<lambda>_. return (Some p)))
      (without_symbols st, mem) =
    then_do (on_memory (then_do alloc_symbol_cell (\<lambda>p. then_do (modify_cell p f) (\<lambda>_. return p))))
      (\<lambda>p. return (Some p)) (without_symbols st, mem)"
    by (auto simp: then_do_def on_memory_def split: option.split outcome.split)
  with new holds show "rel_option (rel_outcome (\<lambda>(p, st1, mem') (i, st').
      st1 = without_symbols st' \<and> holds mem' (symbols st') \<and>
      rel_option (\<lambda>p i. points_to p i (symbols st') mem') p i))
    (then_do (on_memory alloc_symbol_cell) (\<lambda>p. then_do (on_memory (modify_cell p f)) (\<lambda>_. return (Some p)))
      (without_symbols st, mem))
    (then_do (alloc_symbol elf a) (\<lambda>i. return (Some i)) st)"
    by (simp add: then_do_def on_memory_Value alloc_symbol_def without_symbols_def points_to_def)
qed

lemma simulates_pointer:
  assumes "simulates P (m None) (n None) Q"
    and "\<And>p i. simulates (\<lambda>ss mem. points_to p i ss mem \<and> P ss mem) (m (Some p)) (n (Some i)) Q"
  shows "simulates (\<lambda>ss mem. rel_option (\<lambda>p i. points_to p i ss mem) x y \<and> P ss mem) (m x) (n y) Q"
  using assms by (cases x; cases y) (auto simp: simulates_def)

section \<open>The lookups are simulated\<close>

lemma simulates_start:
  "simulates (\<lambda>ss mem. points_to p i ss mem \<and> P ss mem) (sym_start_addr_p (Some p)) (sym_start_addr (Some i))
     (\<lambda>b a ss mem. b = a \<and> points_to p i ss mem \<and> P ss mem)"
  "simulates (\<lambda>ss mem. points_to p i ss mem \<and> P ss mem) (sym_end_addr_p (Some p)) (sym_end_addr (Some i))
     (\<lambda>b a ss mem. b = a \<and> points_to p i ss mem \<and> P ss mem)"
  unfolding sym_start_addr_p_def sym_start_addr_def sym_end_addr_p_def sym_end_addr_def option.case
  by (rule simulates_then_do [OF simulates_elf], rule simulates_given, rule simulates_return, simp)+

lemma simulates_addr:
  "simulates (\<lambda>ss mem. points_to p i ss mem \<and> P ss mem) (sym_addr_p (Some p)) (sym_addr (Some i))
     (\<lambda>b a ss mem. b = a \<and> points_to p i ss mem \<and> P ss mem)"
  unfolding sym_addr_p_def sym_addr_def option.case
proof (rule simulates_then_do [OF simulates_load], intro simulates_given)
  fix c s assume c: "c = cell_of i s"
  show "simulates (\<lambda>ss mem. s = ss ! i \<and> points_to p i ss mem \<and> P ss mem)
    (case cell_addr c of None \<Rightarrow> sym_start_addr_p (Some p) | Some a \<Rightarrow> return a)
    (case sym_has_addr s of None \<Rightarrow> sym_start_addr (Some i) | Some a \<Rightarrow> return a)
    (\<lambda>b a ss mem. b = a \<and> points_to p i ss mem \<and> P ss mem)"
    by (cases "sym_has_addr s")
      (auto simp: c cell_of_def intro: simulates_return simulates_weaken [OF simulates_start(1)])
qed

lemma simulates_name:
  "simulates (\<lambda>ss mem. points_to p i ss mem \<and> P ss mem) (sym_name_p E (Some p)) (sym_name E (Some i))
     (\<lambda>b a ss mem. b = a \<and> points_to p i ss mem \<and> P ss mem)"
  unfolding sym_name_p_def sym_name_def option.case
  by (rule simulates_then_do [OF simulates_elf], rule simulates_given, hypsubst,
      rule simulates_then_do [OF simulates_blind [OF blind_primitives(1)]], rule simulates_given,
      rule simulates_return, simp)

lemma simulates_function_start:
  "simulates (\<lambda>ss mem. points_to p i ss mem \<and> P ss mem)
     (function_start_addr_p E (Some p)) (function_start_addr E (Some i)) (\<lambda>b a ss mem. b = a)"
  unfolding function_start_addr_p_def function_start_addr_def option.case
proof (rule simulates_then_do [OF simulates_elf], rule simulates_given, hypsubst, rule simulates_if)
  fix s
  show "simulates (\<lambda>ss mem. points_to p i ss mem \<and> P ss mem)
    (then_do (sym_start_addr_p (Some p)) (\<lambda>lo. then_do (sym_end_addr_p (Some p)) (\<lambda>hi.
      then_do (on_debugger (from_dwarf (sd_effective_start_addr (e_dwarf E) (e_realpath E) lo hi)))
        (\<lambda>res. on_debugger (from_c res)))))
    (then_do (sym_start_addr (Some i)) (\<lambda>lo. then_do (sym_end_addr (Some i)) (\<lambda>hi.
      then_do (from_dwarf (sd_effective_start_addr (e_dwarf E) (e_realpath E) lo hi)) from_c)))
    (\<lambda>b a ss mem. b = a)"
    by (rule simulates_then_do [OF simulates_start(1)], rule simulates_given, hypsubst,
        rule simulates_then_do [OF simulates_start(2)], rule simulates_given, hypsubst,
        rule simulates_then_do [OF simulates_blind [OF blind_primitives(2)]], rule simulates_given, hypsubst,
        rule simulates_weaken [OF simulates_blind [OF blind_primitives(1)]]) auto
qed (rule simulates_return, simp)

text \<open>What stays true if only the caches of symbols are filled.\<close>

definition stable :: "(DebugSymbol list \<Rightarrow> symbol_memory \<Rightarrow> bool) \<Rightarrow> bool" where
  "stable P \<longleftrightarrow>
     (\<forall>ss mem ss' mem'. P ss mem \<longrightarrow> buf_syms mem' = buf_syms mem \<longrightarrow> length ss' = length ss \<longrightarrow>
        (\<forall>i < length ss. \<forall>pos. sym_has_position (ss ! i) = Some pos \<longrightarrow> sym_has_position (ss' ! i) = Some pos) \<longrightarrow>
        P ss' mem')"

lemma stable_pointers [intro]:
  "stable (points_to p i)" "stable (points_to_position p pos)"
  "stable P \<Longrightarrow> stable Q \<Longrightarrow> stable (\<lambda>ss mem. P ss mem \<and> Q ss mem)"
  "stable (\<lambda>_ _. X)"
  unfolding stable_def points_to_def points_to_position_def by metis+

lemma simulates_filepath:
  assumes P: "stable P"
  shows "simulates (\<lambda>ss mem. points_to p i ss mem \<and> P ss mem) (sym_filepath_p E (Some p)) (sym_filepath E (Some i))
    (\<lambda>b a ss mem. b = a \<and> points_to p i ss mem \<and> P ss mem)"
  unfolding sym_filepath_p_def sym_filepath_def option.case
proof (rule simulates_then_do [OF simulates_load], intro simulates_given)
  fix c s assume c: "c = cell_of i s"
  let ?Q = "\<lambda>ss mem. points_to p i ss mem \<and> P ss mem"
  have store: "simulates ?Q
    (then_do (on_memory (write_symbol p (\<lambda>c. c\<lparr>cell_file := Some path\<rparr>))) (\<lambda>_. return (Some path)))
    (then_do (update_sym i (\<lambda>s. s\<lparr>sym_file := Some path\<rparr>)) (\<lambda>_. return (Some path)))
    (\<lambda>b a ss mem. b = a \<and> ?Q ss mem)" for path
  proof (rule simulates_then_do [OF simulates_write [where Q = ?Q]])
    show "?Q (ss[i := (ss ! i)\<lparr>sym_file := Some path\<rparr>]) mem'"
      if "P ss mem" "points_to p i ss mem" "buf_syms mem' = buf_syms mem" for ss mem mem'
      using that P by (auto simp: stable_def points_to_def nth_list_update)
  qed (auto simp: cell_of_def intro: simulates_return)
  show "simulates (\<lambda>ss mem. s = ss ! i \<and> ?Q ss mem)
    (case cell_file c of
       None \<Rightarrow> then_do (sym_addr_p (Some p)) (\<lambda>a.
         then_do (on_debugger (from_dwarf (sd_filepath_from_pc (e_dwarf E) a))) (\<lambda>path.
           case path of
             None \<Rightarrow> return None
           | Some path \<Rightarrow> then_do (on_memory (write_symbol p (\<lambda>c. c\<lparr>cell_file := Some path\<rparr>)))
               (\<lambda>_. return (Some path))))
     | Some path \<Rightarrow> return (Some path))
    (case sym_file s of
       None \<Rightarrow> then_do (sym_addr (Some i)) (\<lambda>a.
         then_do (from_dwarf (sd_filepath_from_pc (e_dwarf E) a)) (\<lambda>path.
           case path of
             None \<Rightarrow> return None
           | Some path \<Rightarrow> then_do (update_sym i (\<lambda>s. s\<lparr>sym_file := Some path\<rparr>))
               (\<lambda>_. return (Some path))))
     | Some path \<Rightarrow> return (Some path))
    (\<lambda>b a ss mem. b = a \<and> ?Q ss mem)"
  proof (cases "sym_file s")
    case None
    then show ?thesis
      by (simp add: c cell_of_def)
        (rule simulates_then_do [OF simulates_weaken [OF simulates_addr [where P = P]]], blast, assumption,
          rule simulates_given, hypsubst,
          rule simulates_then_do [OF simulates_blind [OF blind_primitives(2)]], rule simulates_given, hypsubst,
          auto intro: store simulates_return split: option.split)
  qed (auto simp: c cell_of_def intro: simulates_return)
qed

text \<open>The position is stored in the symbol, and the pointer to it is the result.\<close>

lemma simulates_store_position:
  assumes P: "stable P" and new: "sym_has_position s = None"
  shows "simulates (\<lambda>ss mem. s = ss ! i \<and> points_to p i ss mem \<and> P ss mem)
    (then_do (on_memory (write_symbol p (\<lambda>c. c\<lparr>cell_position := Some pos\<rparr>))) (\<lambda>_. return (Some p)))
    (then_do (update_sym i (\<lambda>s. s\<lparr>sym_has_position := Some pos\<rparr>)) (\<lambda>_. return (Some pos)))
    (\<lambda>b a ss mem. rel_option (\<lambda>q pos. points_to_position q pos ss mem) b a \<and> points_to p i ss mem \<and> P ss mem)"
proof -
  let ?after = "\<lambda>ss mem. points_to_position p pos ss mem \<and> points_to p i ss mem \<and> P ss mem"
  have "simulates (\<lambda>ss mem. points_to p i ss mem \<and> s = ss ! i \<and> P ss mem)
    (on_memory (write_symbol p (\<lambda>c. c\<lparr>cell_position := Some pos\<rparr>)))
    (update_sym i (\<lambda>s. s\<lparr>sym_has_position := Some pos\<rparr>)) (\<lambda>_ _. ?after)"
  proof (rule simulates_write)
    show "?after (ss[i := (ss ! i)\<lparr>sym_has_position := Some pos\<rparr>]) mem'"
      if "s = ss ! i \<and> P ss mem" "points_to p i ss mem" "buf_syms mem' = buf_syms mem" for ss mem mem'
      using that P new by (auto simp: stable_def points_to_def points_to_position_def nth_list_update)
  qed (simp add: cell_of_def)
  then have "simulates (\<lambda>ss mem. s = ss ! i \<and> points_to p i ss mem \<and> P ss mem)
    (on_memory (write_symbol p (\<lambda>c. c\<lparr>cell_position := Some pos\<rparr>)))
    (update_sym i (\<lambda>s. s\<lparr>sym_has_position := Some pos\<rparr>)) (\<lambda>_ _. ?after)"
    by (rule simulates_weaken) auto
  then show ?thesis by (rule simulates_then_do) (intro simulates_return, simp)
qed

text \<open>The pointer to the position of a symbol, and what else stays true.\<close>

lemma simulates_position:
  assumes P: "stable P"
  shows "simulates (\<lambda>ss mem. points_to p i ss mem \<and> P ss mem) (sym_position_p E (Some p)) (sym_position E (Some i))
    (\<lambda>b a ss mem. rel_option (\<lambda>q pos. points_to_position q pos ss mem) b a \<and> points_to p i ss mem \<and> P ss mem)"
  unfolding sym_position_p_def sym_position_def option.case
proof (rule simulates_then_do [OF simulates_load], rule simulates_given)
  fix c s assume c: "c = cell_of i s"
  let ?Q = "\<lambda>ss mem. points_to p i ss mem \<and> P ss mem"
  let ?R = "\<lambda>b a ss mem. rel_option (\<lambda>q pos. points_to_position q pos ss mem) b a \<and> ?Q ss mem"
  note store = simulates_store_position [OF P]
  show "simulates (\<lambda>ss mem. s = ss ! i \<and> ?Q ss mem)
    (case cell_position c of
       None \<Rightarrow> then_do (sym_addr_p (Some p)) (\<lambda>a.
         then_do (on_debugger (from_dwarf (sd_line_entry_from_pc (e_dwarf E) (e_realpath E) a))) (\<lambda>line_entry.
           if \<not> is_ok line_entry then return None
           else then_do (on_memory (write_symbol p (\<lambda>c. c\<lparr>cell_position := Some (position_of line_entry)\<rparr>)))
             (\<lambda>_. return (Some p))))
     | Some _ \<Rightarrow> return (Some p))
    (case sym_has_position s of
       None \<Rightarrow> then_do (sym_addr (Some i)) (\<lambda>a.
         then_do (from_dwarf (sd_line_entry_from_pc (e_dwarf E) (e_realpath E) a)) (\<lambda>line_entry.
           if \<not> is_ok line_entry then return None
           else then_do (update_sym i (\<lambda>s. s\<lparr>sym_has_position := Some (position_of line_entry)\<rparr>))
             (\<lambda>_. return (Some (position_of line_entry)))))
     | Some pos \<Rightarrow> return (Some pos)) ?R"
  proof (cases "sym_has_position s")
    case None
    then show ?thesis
      by (simp add: c cell_of_def)
        (rule simulates_then_do [OF simulates_weaken [OF simulates_addr [where P = "\<lambda>ss mem. s = ss ! i \<and> P ss mem"]]],
          blast, assumption, rule simulates_given, hypsubst,
          rule simulates_then_do [OF simulates_blind [OF blind_primitives(2)]], rule simulates_given, hypsubst,
          auto intro!: simulates_weaken [OF store] simulates_return)
  next
    case (Some pos)
    have "simulates (\<lambda>ss mem. s = ss ! i \<and> ?Q ss mem) (return (Some p)) (return (Some pos)) ?R"
      using Some by (intro simulates_return) (auto simp: points_to_position_def)
    with Some show ?thesis by (simp add: c cell_of_def)
  qed
qed

lemma simulates_position_at:
  "simulates (\<lambda>ss mem. points_to_position q pos ss mem \<and> P ss mem) (on_memory (position_at q)) (return pos)
    (\<lambda>b a ss mem. b = a \<and> P ss mem)"
  by (auto simp: simulates_def points_to_position_def points_to_def position_at_def then_do_def load_symbol
      cell_of_def on_memory_Value)

section \<open>The functions are simulated\<close>

lemma simulates_lookup:
  "simulates P (sym_by_addr_p E a) (sym_by_addr E a) (\<lambda>p i ss mem. rel_option (\<lambda>p i. points_to p i ss mem) p i \<and> True)"
  "simulates P (sym_by_name_p E name) (sym_by_name E name)
     (\<lambda>p i ss mem. rel_option (\<lambda>p i. points_to p i ss mem) p i \<and> True)"
proof -
  have new: "simulates P
    (case elf of None \<Rightarrow> return None
     | Some elf \<Rightarrow> then_do (on_memory alloc_symbol_cell) (\<lambda>p.
         then_do (on_memory (modify_cell p (f elf))) (\<lambda>_. return (Some p))))
    (case elf of None \<Rightarrow> return None
     | Some elf \<Rightarrow> then_do (alloc_symbol elf a) (\<lambda>i. return (Some i)))
    (\<lambda>p i ss mem. rel_option (\<lambda>p i. points_to p i ss mem) p i \<and> True)"
    if "\<And>elf c. f elf c = c\<lparr>cell_elf := Some elf, cell_addr := (case a of None \<Rightarrow> cell_addr c | Some a \<Rightarrow> Some a)\<rparr>"
    for P elf f a
    using simulates_alloc [of "f _", OF that] by (cases elf) (simp_all add: simulates_return)
  show "simulates P (sym_by_addr_p E a) (sym_by_addr E a)
      (\<lambda>p i ss mem. rel_option (\<lambda>p i. points_to p i ss mem) p i \<and> True)"
    unfolding sym_by_addr_p_def sym_by_addr_def
    by (rule simulates_then_do [OF simulates_blind [OF blind_primitives(1)]], rule simulates_given, hypsubst,
        rule new, simp)
  show "simulates P (sym_by_name_p E name) (sym_by_name E name)
      (\<lambda>p i ss mem. rel_option (\<lambda>p i. points_to p i ss mem) p i \<and> True)"
    unfolding sym_by_name_p_def sym_by_name_def
    by (rule simulates_then_do [OF simulates_blind [OF blind_primitives(1)]], rule simulates_given, hypsubst,
        rule new, simp)
qed

abbreviation same :: "'a \<Rightarrow> 'a \<Rightarrow> DebugSymbol list \<Rightarrow> symbol_memory \<Rightarrow> bool" where
  "same b a ss mem \<equiv> b = a"

lemma simulates_stores_frame_pointer:
  "simulates P (stores_frame_pointer_p E pc load) (stores_frame_pointer E pc load) same"
  unfolding stores_frame_pointer_p_def stores_frame_pointer_def
proof (rule simulates_then_do [OF simulates_lookup(1)], rule simulates_pointer, goal_cases)
  case (2 p i)
  show ?case
    unfolding option.case
    by (rule simulates_then_do [OF simulates_start(1)], rule simulates_given, hypsubst,
        rule simulates_then_do [OF simulates_blind [OF blind_primitives(4)]], rule simulates_given, hypsubst)
      (auto intro: simulates_return split: option.split)
qed (unfold option.case, rule simulates_return, simp)

text \<open>A location of \<^verbatim>\<open>break\<close> that is the name of a function.\<close>

lemma simulates_function_location:
  "simulates P (then_do (sym_by_name_p E name) (function_start_addr_p E))
     (then_do (sym_by_name E name) (function_start_addr E)) same"
proof (rule simulates_then_do [OF simulates_lookup(2)], rule simulates_pointer, goal_cases)
  case (2 p i)
  show ?case by (rule simulates_function_start)
qed (unfold function_start_addr_p_def function_start_addr_def option.case, rule simulates_return, simp)

lemma simulates_read_position:
  "simulates (\<lambda>ss mem. rel_option (\<lambda>q pos. points_to_position q pos ss mem) q pos \<and> P ss mem)
     (case q of
        None \<Rightarrow> return None
      | Some q \<Rightarrow> then_do (on_memory (position_at q)) (\<lambda>pos. return (Some (pos_line pos))))
     (return (map_option pos_line pos)) (\<lambda>b a ss mem. b = a \<and> P ss mem)"
proof (cases q; cases pos)
  fix q' pos' assume eq: "q = Some q'" "pos = Some pos'"
  have "simulates (\<lambda>ss mem. points_to_position q' pos' ss mem \<and> P ss mem)
     (then_do (on_memory (position_at q')) (\<lambda>pos. return (Some (pos_line pos))))
     (then_do (return pos') (\<lambda>pos. return (Some (pos_line pos)))) (\<lambda>b a ss mem. b = a \<and> P ss mem)"
    by (rule simulates_then_do [OF simulates_position_at], rule simulates_given, hypsubst, rule simulates_return, simp)
  then show ?thesis by (simp only: eq then_do_return option.case option.map option.rel_inject)
qed (auto simp: simulates_def)

lemma simulates_init_call_frame:
  "simulates P (init_call_frame_p E caller pc fp) (init_call_frame E caller pc fp) same"
proof -
  have parts: "simulates (\<lambda>ss mem. rel_option (\<lambda>p i. points_to p i ss mem) p i \<and> True)
    (case p of None \<Rightarrow> return (None, None)
     | Some _ \<Rightarrow> then_do (sym_name_p E p) (\<lambda>name. then_do (sym_position_p E p) (\<lambda>pos. return (name, pos))))
    (case i of None \<Rightarrow> return (None, None)
     | Some _ \<Rightarrow> then_do (sym_name E i) (\<lambda>name. then_do (sym_position E i) (\<lambda>pos. return (name, pos))))
    (\<lambda>b a ss mem. fst b = fst a \<and> rel_option (\<lambda>q pos. points_to_position q pos ss mem) (snd b) (snd a) \<and> True)"
    for p i
  proof (rule simulates_pointer, goal_cases)
    case (2 p i)
    have position: "simulates (\<lambda>ss mem. points_to p i ss mem \<and> True)
      (then_do (sym_position_p E (Some p)) (\<lambda>pos. return (name, pos)))
      (then_do (sym_position E (Some i)) (\<lambda>pos. return (name, pos)))
      (\<lambda>b a ss mem. fst b = fst a \<and> rel_option (\<lambda>q pos. points_to_position q pos ss mem) (snd b) (snd a) \<and> True)"
      for name
      by (rule simulates_then_do [OF simulates_position]) (auto intro: simulates_return)
    show ?case
      unfolding option.case
      by (rule simulates_then_do [OF simulates_name], rule simulates_given, hypsubst, rule position)
  qed (unfold option.case, rule simulates_return, simp)
  show ?thesis
    unfolding init_call_frame_p_def init_call_frame_def
  proof (rule simulates_then_do [OF simulates_lookup(1)], rule simulates_then_do [OF parts], goal_cases)
    case (1 _ _ b a)
    obtain name q where b: "b = (name, q)" by fastforce
    obtain name' pos where a: "a = (name', pos)" by fastforce
    have "simulates (\<lambda>ss mem. rel_option (\<lambda>q pos. points_to_position q pos ss mem) q pos \<and> True)
      (then_do (case q of None \<Rightarrow> return None
         | Some q \<Rightarrow> then_do (on_memory (position_at q)) (\<lambda>pos. return (Some (pos_line pos)))) (\<lambda>lineno.
       return (\<lparr>cl_pc = pc, cl_frame_pointer = fp, cl_lineno = lineno, cl_function = name\<rparr> # caller)))
      (then_do (return (map_option pos_line pos)) (\<lambda>lineno.
       return (\<lparr>cl_pc = pc, cl_frame_pointer = fp, cl_lineno = lineno, cl_function = name\<rparr> # caller))) same"
      by (rule simulates_then_do [OF simulates_read_position], rule simulates_given, hypsubst,
          rule simulates_return, simp)
    then show ?case
      unfolding a b prod.case fst_conv snd_conv then_do_return by (intro simulates_given) (simp del: return_apply)
  qed
qed

lemma stable_positions [intro]: "stable (\<lambda>ss mem. rel_option (\<lambda>q pos. points_to_position q pos ss mem) q pos)"
  using stable_pointers(2) by (cases q; cases pos) (auto simp: stable_def)

lemma simulates_cached:
  "simulates (\<lambda>ss mem. rel_option (\<lambda>p i. points_to p i ss mem) p i \<and> True) (sym_position_p E p) (sym_position E i)
    (\<lambda>b a ss mem. rel_option (\<lambda>p i. points_to p i ss mem) p i \<and>
      rel_option (\<lambda>q pos. points_to_position q pos ss mem) b a)"
  "simulates (\<lambda>ss mem. rel_option (\<lambda>p i. points_to p i ss mem) p i \<and>
      rel_option (\<lambda>q pos. points_to_position q pos ss mem) q pos) (sym_filepath_p E p) (sym_filepath E i)
    (\<lambda>b a ss mem. b = a \<and> rel_option (\<lambda>q pos. points_to_position q pos ss mem) q pos)"
proof -
  show "simulates (\<lambda>ss mem. rel_option (\<lambda>p i. points_to p i ss mem) p i \<and> True)
    (sym_position_p E p) (sym_position E i)
    (\<lambda>b a ss mem. rel_option (\<lambda>p i. points_to p i ss mem) p i \<and>
      rel_option (\<lambda>q pos. points_to_position q pos ss mem) b a)"
  proof (cases p; cases i)
    fix p' i' assume "p = Some p'" "i = Some i'"
    then show ?thesis
      using simulates_weaken [OF simulates_position [OF stable_pointers(4) [of True], of p' i' E]] by fastforce
  qed (auto simp: simulates_def sym_position_p_def sym_position_def)
  show "simulates (\<lambda>ss mem. rel_option (\<lambda>p i. points_to p i ss mem) p i \<and>
      rel_option (\<lambda>q pos. points_to_position q pos ss mem) q pos) (sym_filepath_p E p) (sym_filepath E i)
    (\<lambda>b a ss mem. b = a \<and> rel_option (\<lambda>q pos. points_to_position q pos ss mem) q pos)"
  proof (cases p; cases i)
    fix p' i' assume eq: "p = Some p'" "i = Some i'"
    show ?thesis
      unfolding eq option.rel_inject by (rule simulates_weaken [OF simulates_filepath [OF stable_positions]]) auto
  qed (auto simp: simulates_def sym_filepath_p_def sym_filepath_def)
qed

lemma simulates_print_current_source:
  "simulates P (print_current_source_p E) (print_current_source E) same"
proof -
  have report: "simulates (\<lambda>ss mem. rel_option (\<lambda>q pos. points_to_position q pos ss mem) q pos \<and> True)
    (case (q, path) of
       (Some q, Some path) \<Rightarrow>
         then_do (on_debugger (is_user_breakpoint E)) (\<lambda>user.
         then_do (on_debugger (message user path)) (\<lambda>_.
         then_do (on_memory (position_at q)) (\<lambda>pos.
         then_do (on_debugger (print_source E path (pos_line pos) 3)) (\<lambda>res. on_debugger (failed path res)))))
     | _ \<Rightarrow> on_debugger (emit e))
    (case (pos, path) of
       (Some pos, Some path) \<Rightarrow>
         then_do (is_user_breakpoint E) (\<lambda>user.
         then_do (message user path) (\<lambda>_.
         then_do (print_source E path (pos_line pos) 3) (\<lambda>res. failed path res)))
     | _ \<Rightarrow> emit e) same"
    if "\<And>user path. blind (message user path)" "\<And>path res. blind (failed path res)" for q pos path message failed e
  proof (cases q; cases pos; cases path)
    fix q' pos' path' assume eq: "q = Some q'" "pos = Some pos'" "path = Some path'"
    have "simulates (\<lambda>ss mem. points_to_position q' pos' ss mem \<and> True)
       (then_do (on_debugger (is_user_breakpoint E)) (\<lambda>user.
        then_do (on_debugger (message user path')) (\<lambda>_.
        then_do (on_memory (position_at q')) (\<lambda>pos.
        then_do (on_debugger (print_source E path' (pos_line pos) 3)) (\<lambda>res. on_debugger (failed path' res))))))
       (then_do (is_user_breakpoint E) (\<lambda>user.
        then_do (message user path') (\<lambda>_.
        then_do (return pos') (\<lambda>pos.
        then_do (print_source E path' (pos_line pos) 3) (\<lambda>res. failed path' res))))) same"
      by (rule simulates_then_do [OF simulates_blind [OF blind_debugger(3)]], rule simulates_given, hypsubst,
          rule simulates_then_do [OF simulates_blind [OF that(1)]], rule simulates_given, hypsubst,
          rule simulates_then_do [OF simulates_position_at], rule simulates_given, hypsubst,
          rule simulates_then_do [OF simulates_blind [OF blind_debugger(5)]], rule simulates_given, hypsubst,
          rule simulates_weaken [OF simulates_blind [OF that(2)]]) auto
    then show ?thesis by (simp only: eq then_do_return option.case prod.case option.rel_inject)
  qed (auto simp: simulates_def on_debugger_def without_symbols_def)
  show ?thesis
    unfolding print_current_source_p_def print_current_source_def
    by (rule simulates_then_do [OF simulates_blind [OF blind_debugger(2)]], rule simulates_given, hypsubst,
        rule simulates_then_do [OF simulates_lookup(1)], rule simulates_then_do [OF simulates_cached(1)],
        rule simulates_then_do [OF simulates_cached(2)], rule simulates_given, hypsubst,
        rule simulates_weaken [OF report]) (auto intro!: blind_intros)
qed

lemma simulates_position_of_addr:
  "simulates P (addr_position_p E a) (addr_position E a)
     (\<lambda>q pos ss mem. rel_option (\<lambda>q pos. points_to_position q pos ss mem) q pos)"
proof -
  have "simulates (\<lambda>ss mem. rel_option (\<lambda>p i. points_to p i ss mem) p i \<and> True)
    (case p of None \<Rightarrow> return None | Some p \<Rightarrow> sym_position_p E (Some p))
    (case i of None \<Rightarrow> return None | Some i \<Rightarrow> sym_position E (Some i))
    (\<lambda>b a ss mem. rel_option (\<lambda>q pos. points_to_position q pos ss mem) b a)" for p i
  proof -
    have "(case p of None \<Rightarrow> return None | Some p \<Rightarrow> sym_position_p E (Some p)) = sym_position_p E p"
      "(case i of None \<Rightarrow> return None | Some i \<Rightarrow> sym_position E (Some i)) = sym_position E i"
      by (cases p; simp add: sym_position_p_def) (cases i; simp add: sym_position_def)
    then show ?thesis by (simp only:) (rule simulates_weaken [OF simulates_cached(1)], auto)
  qed
  then show ?thesis
    unfolding addr_position_p_def addr_position_def by (rule simulates_then_do [OF simulates_lookup(1)])
qed

text \<open>A position that is read as soon as it has been looked up.\<close>

lemma simulates_addr_position:
  "simulates P
     (then_do (addr_position_p E a) (\<lambda>q.
        case q of None \<Rightarrow> return None | Some q \<Rightarrow> then_do (on_memory (position_at q)) (\<lambda>pos. return (Some pos))))
     (addr_position E a) same"
proof -
  have "simulates (\<lambda>ss mem. rel_option (\<lambda>q pos. points_to_position q pos ss mem) q pos)
    (case q of None \<Rightarrow> return None | Some q \<Rightarrow> then_do (on_memory (position_at q)) (\<lambda>pos. return (Some pos)))
    (return pos) same" for q pos
    by (cases q; cases pos) (auto simp: simulates_def then_do_def points_to_position_def points_to_def
        position_at_def load_symbol cell_of_def on_memory_Value)
  then have "simulates P
     (then_do (addr_position_p E a) (\<lambda>q.
        case q of None \<Rightarrow> return None | Some q \<Rightarrow> then_do (on_memory (position_at q)) (\<lambda>pos. return (Some pos))))
     (then_do (addr_position E a) return) same"
    by (rule simulates_then_do [OF simulates_position_of_addr])
  moreover have "then_do (addr_position E a) return = addr_position E a"
    by (rule ext) (simp add: then_do_def split: option.split outcome.split)
  ultimately show ?thesis by simp
qed

lemma simulates_set_step_over_breakpoints:
  "simulates (\<lambda>ss mem. points_to p i ss mem \<and> True)
     (set_step_over_breakpoints_p E (Some p)) (set_step_over_breakpoints E (Some i)) same"
proof -
  have set: "simulates (\<lambda>ss mem. rel_option (\<lambda>q pos. points_to_position q pos ss mem) q pos \<and> True)
    (case (q, name, path) of
       (Some q, Some name, Some path) \<Rightarrow>
         then_do (on_memory (position_at q)) (\<lambda>pos.
         then_do (on_debugger (for_each_line_bp E name path (pos_line pos))) (\<lambda>dels. return (Some dels)))
     | _ \<Rightarrow> return None)
    (case (pos, name, path) of
       (Some pos, Some name, Some path) \<Rightarrow>
         then_do (for_each_line_bp E name path (pos_line pos)) (\<lambda>dels. return (Some dels))
     | _ \<Rightarrow> return None) same" for q pos name path
  proof (cases q; cases pos; cases name; cases path)
    fix q' pos' name' path' assume eq: "q = Some q'" "pos = Some pos'" "name = Some name'" "path = Some path'"
    have "simulates (\<lambda>ss mem. points_to_position q' pos' ss mem \<and> True)
       (then_do (on_memory (position_at q')) (\<lambda>pos.
        then_do (on_debugger (for_each_line_bp E name' path' (pos_line pos))) (\<lambda>dels. return (Some dels))))
       (then_do (return pos') (\<lambda>pos.
        then_do (for_each_line_bp E name' path' (pos_line pos)) (\<lambda>dels. return (Some dels)))) same"
      by (rule simulates_then_do [OF simulates_position_at], rule simulates_given, hypsubst,
          rule simulates_then_do [OF simulates_blind [OF blind_for_each_line]], rule simulates_given, hypsubst,
          rule simulates_return, simp)
    then show ?thesis by (simp only: eq then_do_return option.case prod.case option.rel_inject)
  qed (auto simp: simulates_def)
  let ?P = "\<lambda>q pos ss mem. rel_option (\<lambda>q pos. points_to_position q pos ss mem) q pos"
  have rest: "simulates (\<lambda>ss mem. points_to p i ss mem \<and> ?P q pos ss mem)
    (then_do (sym_name_p E (Some p)) (\<lambda>name. then_do (sym_filepath_p E (Some p)) (\<lambda>path.
       case (q, name, path) of
         (Some q, Some name, Some path) \<Rightarrow>
           then_do (on_memory (position_at q)) (\<lambda>pos.
           then_do (on_debugger (for_each_line_bp E name path (pos_line pos))) (\<lambda>dels. return (Some dels)))
       | _ \<Rightarrow> return None)))
    (then_do (sym_name E (Some i)) (\<lambda>name. then_do (sym_filepath E (Some i)) (\<lambda>path.
       case (pos, name, path) of
         (Some pos, Some name, Some path) \<Rightarrow>
           then_do (for_each_line_bp E name path (pos_line pos)) (\<lambda>dels. return (Some dels))
       | _ \<Rightarrow> return None))) same" for q pos
    by (rule simulates_then_do [OF simulates_name], rule simulates_given, hypsubst,
        rule simulates_then_do [OF simulates_filepath [OF stable_positions]], rule simulates_given, hypsubst,
        rule simulates_weaken [OF set]) auto
  show ?thesis
    unfolding set_step_over_breakpoints_p_def set_step_over_breakpoints_def option.case
    by (rule simulates_then_do [OF simulates_position [OF stable_pointers(4) [of True]]],
        rule simulates_weaken [OF rest]) auto
qed

lemma simulates_step_over_lookup:
  "simulates P (then_do (sym_by_addr_p E pc) (set_step_over_breakpoints_p E))
     (then_do (sym_by_addr E pc) (set_step_over_breakpoints E)) same"
proof (rule simulates_then_do [OF simulates_lookup(1)], rule simulates_pointer, goal_cases)
  case (2 p i)
  show ?case by (rule simulates_set_step_over_breakpoints)
qed (unfold set_step_over_breakpoints_p_def set_step_over_breakpoints_def option.case, rule simulates_return, simp)

end
