(* ===== verification/Symbol_Session.thy ===== *)
theory Symbol_Session
  imports Symbol_Simulation
begin

text \<open>
  The whole debugger with pointers into the buffer of symbols: the functions of
  \<^verbatim>\<open>src/src/debugger.c\<close> and \<^verbatim>\<open>src/src/backtrace.c\<close> that reach one of \<^verbatim>\<open>src/src/info.c\<close>, up to
  \<^verbatim>\<open>run_debugger\<close>, and what they do compared with those on indices.
\<close>

section \<open>Programs that have nothing to do with the symbols\<close>

lemma blind_tracee [blind_intros]:
  "blind (change_tracee g)" "blind (enable_bp E a)" "blind (disable_bp E a)" "blind (assert_some x)"
  "blind (save_command line)" "blind read_command" "blind (\<lambda>_. Some Aborted)" "blind (\<lambda>_. Some Undefined)"
  by (auto simp: blind_def change_tracee_def enable_bp_def disable_bp_def assert_some_def save_command_def
      read_command_def without_symbols_def split: prod.split run.split option.split)

lemma blind_prod [blind_intros]: "(\<And>a b. blind (f a b)) \<Longrightarrow> blind (case x of (a, b) \<Rightarrow> f a b)"
  by (simp split: prod.split)

lemma blind_stop [blind_intros]:
  "blind (set_pc E a)" "blind (print_info t)" "blind (print_signal t n)" "blind (handle_sigtrap E i)"
  unfolding set_pc_def print_info_def print_signal_def handle_sigtrap_def by (intro blind_intros)+

lemma blind_with [blind_intros]:
  assumes "blind wait"
  shows "blind (single_step_breakpoint_with E wait)" "blind (continue_execution_with E wait)"
  unfolding continue_execution_with_def single_step_breakpoint_with_def by (intro blind_intros assms)+

text \<open>The values of the least fixed point at two states are those of one approximation.\<close>

lemma admissible_rel: "option.admissible (\<lambda>f. rel_option R (f x) (f y))"
proof (rule ccpo.admissibleI)
  fix A assume chain: "Complete_Partial_Order.chain (fun_ord option_ord) A" and "A \<noteq> {}"
    and R: "\<forall>f\<in>A. rel_option R (f x) (f y)"
  let ?lub = "fun_lub (flat_lub None) A"
  have lub: "option_ord (f z) (?lub z)" if "f \<in> A" for f z
    using option.lub_upper [OF chain_fun [OF chain]] that unfolding fun_lub_def by blast
  have at: "?lub z = None \<or> (\<exists>f\<in>A. ?lub z = f z)" for z
    using flat_lub_in_chain [OF chain_fun [OF chain], of z] unfolding fun_lub_def by blast
  then consider "?lub x = None" "?lub y = None" | f where "f \<in> A" "?lub x = f x" "?lub y = f y"
  proof (cases "?lub x = None")
    case True
    with R lub have "\<forall>f\<in>A. f y = None" unfolding flat_ord_def by (metis option.rel_distinct(1) option.exhaust)
    with at have "?lub y = None" by metis
    with True show thesis by (rule that(1))
  next
    case False
    with at obtain f where f: "f \<in> A" "?lub x = f x" by metis
    with False R have "f y \<noteq> None" by (metis option.rel_distinct(2) option.exhaust)
    with lub [OF f(1), of y] have "?lub y = f y" by (simp add: flat_ord_def)
    with f show thesis by (rule that(2))
  qed
  then show "rel_option R (?lub x) (?lub y)" using R by cases auto
qed

lemma blind_cases_eta [blind_intros]:
  "blind m \<Longrightarrow> blind n \<Longrightarrow> blind (\<lambda>st. if b then m st else n st)"
  by (cases b) simp_all

lemma blind_wait [blind_intros]:
  fixes E :: "('d, 's, 'h, 'w) env"
  shows "blind (wait_for_signal E)"
proof -
  have "\<forall>(E :: ('d, 's, 'h, 'w) env) st. rel_option (rel_outcome (\<lambda>(b, st1) (a, st').
      b = a \<and> st1 = without_symbols st' \<and> symbols st' = symbols st))
    (wait_for_signal E (without_symbols st)) (wait_for_signal E st)"
  proof (rule wait_for_signal.fixp_induct, goal_cases)
    case 1
    show ?case unfolding curry_def by (intro admissible_all admissible_rel)
  next
    case 2
    then show ?case by simp
  next
    case (3 w)
    then have w: "blind (w E)" for E by (simp add: blind_def)
    show ?case 
      unfolding blind_def [symmetric] by (intro allI blind_intros w)
  qed
  then show ?thesis by (simp add: blind_def)
qed

lemma blind_steps [blind_intros]:
  "blind (single_step_breakpoint E)" "blind (continue_execution E)" "blind (single_step_instruction E)"
  "blind (set_return_address_breakpoint E)" "blind (step_out E)"
  unfolding single_step_breakpoint_def continue_execution_def single_step_instruction_def
    set_return_address_breakpoint_def step_out_def Let_def
  by (intro blind_intros)+

lemma blind_disable_all [blind_intros]: "blind (disable_all E as)"
  by (induction as) (simp_all only: disable_all.simps blind_intros)

lemma blind_info [blind_intros]:
  "blind m \<Longrightarrow> blind m' \<Longrightarrow> (\<And>r. blind (f r)) \<Longrightarrow> (\<And>r. blind (f' r)) \<Longrightarrow> (\<And>v. blind (g v)) \<Longrightarrow>
   (\<And>v. blind (g' v)) \<Longrightarrow>
   blind (case info of
      MEM_READ \<Rightarrow> m | MEM_READ_CONFIRM \<Rightarrow> m' | REG_READ r \<Rightarrow> f r | REG_READ_CONFIRM r \<Rightarrow> f' r
    | VAR_READ v \<Rightarrow> g v | VAR_READ_CONFIRM v \<Rightarrow> g' v)"
  by (cases info) simp_all

lemma blind_printing [blind_intros]:
  "blind (print_dereferenced E val info)" "blind (print_value_line E val f info)" "blind (print_filtered E val flt info)"
  "blind (register_err t r)" "blind (write_and_read name wr rd)" "blind (end_of_tokens tokens i)"
  "blind (warn_register_name_conflict name)" "blind (print_backtrace frames)" "blind (addr_at E path line)"
  unfolding print_filtered_def print_dereferenced_def print_value_line_def register_err_def write_and_read_def
    end_of_tokens_def warn_register_name_conflict_def print_backtrace_def addr_at_def
  by (intro blind_intros)+

lemma blind_location [blind_intros]: "blind (eval_location E ctx loclist)"
  by (auto simp: blind_def eval_location_def without_symbols_def split: option.split c_result.split prod.split)

lemma blind_variable [blind_intros]: "blind (init_var E pc load name)" "blind (current_var E name)"
proof -
  show "blind (init_var E pc load name)" for pc load
    unfolding init_var_def by (intro blind_intros)
  then show "blind (current_var E name)" unfolding current_var_def by (intro blind_intros)
qed

lemma blind_commands [blind_intros]:
  "blind (exec_print_memory E a flt)" "blind (exec_set_memory E a w flt)" "blind (exec_print_register E r t flt)"
  "blind (exec_set_register E r t w flt)" "blind (exec_print_variable E name flt)"
  "blind (exec_set_variable E name w flt)" "blind (exec_break E a)" "blind (exec_delete E a)"
  unfolding exec_print_memory_def exec_set_memory_def exec_print_register_def exec_set_register_def
    exec_print_variable_def exec_set_variable_def exec_break_def exec_delete_def
  by (intro blind_intros)+

lemma blind_handlers [blind_intros]:
  "blind (read_filter tokens i)" "blind (handle_print E tokens i)" "blind (handle_set E tokens i)"
proof -
  show filter: "blind (read_filter tokens i)" for i
    unfolding read_filter_def by (intro blind_intros)
  show "blind (handle_print E tokens i)" "blind (handle_set E tokens i)"
    unfolding handle_print_def handle_set_def by (intro blind_intros filter)+
qed

section \<open>Stepping\<close>

text \<open>
  \<^verbatim>\<open>pos\<close> is a pointer to the position in a symbol. The loop follows it before the next lookup, which
  may move the symbols, and replaces it by the result of that.
\<close>

partial_function (option) step_line_loop_p ::
  "('d, 's, 'h, 'w) env \<Rightarrow> u32 \<Rightarrow> sym_ptr \<Rightarrow> nat \<Rightarrow> ('s, 'h, 'w, SprayResult) mem_prog" where
  "step_line_loop_p E init_line q n st =
     then_do (on_memory (position_at q)) (\<lambda>pos st.
       if \<not> pos_is_exact pos \<or> pos_line pos = init_line then
         then_do (on_debugger (single_step_instruction E)) (\<lambda>res st.
           if res = SP_ERR then return SP_ERR st
           else
             then_do (on_debugger (get_dbg_pc E)) (\<lambda>pc st.
             then_do (addr_position_p E pc) (\<lambda>q' st.
               case q' of
                 None \<Rightarrow>
                   then_do (on_debugger (emit (Err ''Failed to find another line to step to'')))
                     (\<lambda>_. return SP_ERR) st
               | Some q' \<Rightarrow>
                   if Suc n \<ge> SINGLE_STEP_SEARCH_LIMIT then
                     then_do (on_debugger (emit (Err ''Failed to find another line to step to'')))
                       (\<lambda>_. return SP_ERR) st
                   else step_line_loop_p E init_line q' (Suc n) st) st) st) st
       else return SP_OK st) st"

definition single_step_line_p :: "('d, 's, 'h, 'w) env \<Rightarrow> ('s, 'h, 'w, SprayResult) mem_prog" where
  "single_step_line_p E =
     then_do (on_debugger (get_dbg_pc E)) (\<lambda>pc.
     then_do (addr_position_p E pc) (\<lambda>q.
       case q of
         None \<Rightarrow> then_do (on_debugger (emit (Out ''Failed to find current line''))) (\<lambda>_. return SP_ERR)
       | Some q \<Rightarrow>
           then_do (on_memory (position_at q)) (\<lambda>pos. step_line_loop_p E (pos_line pos) q 0)))"

definition step_over_p :: "('d, 's, 'h, 'w) env \<Rightarrow> ('s, 'h, 'w, SprayResult) mem_prog" where
  "step_over_p E =
     then_do (on_debugger (get_dbg_pc E)) (\<lambda>pc.
     then_do (sym_by_addr_p E pc) (\<lambda>func.
       case func of
         None \<Rightarrow>
           then_do (on_debugger (emit (Err ''Failed to find current function''))) (\<lambda>_. return SP_ERR)
       | Some _ \<Rightarrow>
           then_do (set_step_over_breakpoints_p E func) (\<lambda>set_res.
             case set_res of
               None \<Rightarrow>
                 then_do (on_debugger (emit (Err ''Failed to set breakpoints in current scope'')))
                   (\<lambda>_. return SP_ERR)
             | Some dels \<Rightarrow>
                 then_do (on_debugger (set_return_address_breakpoint E))
                   (\<lambda>(remove_internal_breakpoint, return_address).
                 then_do (on_debugger (continue_execution E)) (\<lambda>_.
                 then_do (on_debugger (wait_for_signal E)) (\<lambda>exec_res.
                 then_do (on_debugger (disable_all E dels)) (\<lambda>_.
                 then_do (on_debugger (if remove_internal_breakpoint
                          then then_do (disable_bp E return_address) (\<lambda>_. return ()) else return ())) (\<lambda>_.
                   return exec_res))))))))"

section \<open>Backtraces\<close>

partial_function (option) backtrace_loop_p ::
  "('d, 's, 'h, 'w) env \<Rightarrow> CallFrame \<Rightarrow> real_addr \<Rightarrow> ('s, 'h, 'w, CallFrame option) mem_prog" where
  "backtrace_loop_p E call_frame frame_pointer st =
     (if real_value frame_pointer \<noteq> 0 then
        then_do (on_debugger (read_tracee (pt_read_memory (e_kernel E) (e_pid E)
            (RealAddr (real_value frame_pointer + 8))))) (\<lambda>pc st.
          case pc of
            None \<Rightarrow> return None st
          | Some pc \<Rightarrow>
              then_do (on_debugger (read_tracee (pt_read_memory (e_kernel E) (e_pid E) frame_pointer)))
                (\<lambda>fp st.
                  case fp of
                    None \<Rightarrow> return None st
                  | Some fp \<Rightarrow>
                      then_do (init_call_frame_p E call_frame (DbgAddr pc) (RealAddr fp)) (\<lambda>frame st.
                        backtrace_loop_p E frame (RealAddr fp) st) st) st) st
      else return (Some call_frame) st)"

definition init_backtrace_p ::
  "('d, 's, 'h, 'w) env \<Rightarrow> dbg_addr \<Rightarrow> real_addr \<Rightarrow> ('s, 'h, 'w, CallFrame option) mem_prog" where
  "init_backtrace_p E pc load =
     then_do (on_debugger (read_tracee (get_register_value (e_kernel E) (e_pid E) RBP))) (\<lambda>frame_pointer.
       case frame_pointer of
         None \<Rightarrow> return None
       | Some frame_pointer \<Rightarrow>
           then_do (stores_frame_pointer_p E pc load) (\<lambda>stores.
           then_do (on_debugger (if \<not> stores then emit (Out no_frame_pointer_warning) else return ())) (\<lambda>_.
           then_do (init_call_frame_p E [] pc (RealAddr frame_pointer)) (\<lambda>call_frame.
             backtrace_loop_p E call_frame (RealAddr frame_pointer)))))"

section \<open>Commands\<close>

text \<open>Most commands end with a report of the current position if they have succeeded.\<close>

definition exec_continue_p :: "('d, 's, 'h, 'w) env \<Rightarrow> ('s, 'h, 'w, unit) mem_prog" where
  "exec_continue_p E =
     then_do (on_debugger (continue_execution E)) (\<lambda>res.
       if res = SP_OK then
         then_do (on_debugger (wait_for_signal E)) (\<lambda>res.
           if res = SP_OK then print_current_source_p E else return ())
       else return ())"

definition exec_inst_p :: "('d, 's, 'h, 'w) env \<Rightarrow> ('s, 'h, 'w, unit) mem_prog" where
  "exec_inst_p E =
     then_do (on_debugger (single_step_instruction E)) (\<lambda>res.
       if res = SP_OK then print_current_source_p E else return ())"

definition exec_leave_p :: "('d, 's, 'h, 'w) env \<Rightarrow> ('s, 'h, 'w, unit) mem_prog" where
  "exec_leave_p E =
     then_do (on_debugger (step_out E)) (\<lambda>res. if res = SP_OK then print_current_source_p E else return ())"

definition exec_step_p :: "('d, 's, 'h, 'w) env \<Rightarrow> ('s, 'h, 'w, unit) mem_prog" where
  "exec_step_p E =
     then_do (single_step_line_p E) (\<lambda>res. if res = SP_OK then print_current_source_p E else return ())"

definition exec_next_p :: "('d, 's, 'h, 'w) env \<Rightarrow> ('s, 'h, 'w, unit) mem_prog" where
  "exec_next_p E =
     then_do (step_over_p E) (\<lambda>res. if res = SP_OK then print_current_source_p E else return ())"

definition exec_backtrace_p :: "('d, 's, 'h, 'w) env \<Rightarrow> ('s, 'h, 'w, unit) mem_prog" where
  "exec_backtrace_p E =
     then_do (on_debugger (get_dbg_pc E)) (\<lambda>pc.
     then_do (on_debugger (get_state load_address)) (\<lambda>load.
     then_do (init_backtrace_p E pc load) (\<lambda>backtrace.
       case backtrace of
         None \<Rightarrow> on_debugger (emit (Err ''Failed to determine backtrace''))
       | Some frames \<Rightarrow> on_debugger (print_backtrace frames))))"

text \<open>Only the name of a function as a location needs a symbol.\<close>

definition parse_break_location_p ::
  "('d, 's, 'h, 'w) env \<Rightarrow> string \<Rightarrow> ('s, 'h, 'w, dbg_addr option) mem_prog" where
  "parse_break_location_p E location =
     (if is_valid_identifier location then then_do (sym_by_name_p E location) (function_start_addr_p E)
      else on_debugger (parse_break_location E location))"

definition handle_location_p ::
  "('d, 's, 'h, 'w) env \<Rightarrow> string \<Rightarrow> (real_addr \<Rightarrow> (('s, 'h, 'w) debugger, unit) prog) \<Rightarrow> string list \<Rightarrow> nat
     \<Rightarrow> ('s, 'h, 'w, unit) mem_prog" where
  "handle_location_p E name exec tokens i =
     (case next_token tokens i of
        (None, _) \<Rightarrow> on_debugger (emit (Err (''Missing location for '' @ [CHR 0x27] @ name @ [CHR 0x27])))
      | (Some loc_str, i) \<Rightarrow>
          then_do (parse_break_location_p E loc_str) (\<lambda>a.
            case a of
              Some a \<Rightarrow>
                then_do (on_debugger (end_of_tokens tokens i)) (\<lambda>at_end.
                  if \<not> at_end then return ()
                  else
                    then_do (on_debugger (get_state load_address)) (\<lambda>load.
                      on_debugger (exec (dbg_to_real load a))))
            | None \<Rightarrow>
                on_debugger (emit (Err (''Invalid location for '' @ [CHR 0x27] @ name @ [CHR 0x27])))))"

definition handle_plain_p ::
  "('s, 'h, 'w, unit) mem_prog \<Rightarrow> string list \<Rightarrow> nat \<Rightarrow> ('s, 'h, 'w, unit) mem_prog" where
  "handle_plain_p exec tokens i =
     then_do (on_debugger (end_of_tokens tokens i)) (\<lambda>at_end. if at_end then exec else return ())"

definition handle_debug_command_tokens_p ::
  "('d, 's, 'h, 'w) env \<Rightarrow> string list \<Rightarrow> ('s, 'h, 'w, unit) mem_prog" where
  "handle_debug_command_tokens_p E tokens =
     (case next_token tokens 0 of
        (cmd, i) \<Rightarrow>
          if is_command cmd (CHR ''c'') ''continue'' then handle_plain_p (exec_continue_p E) tokens i
          else if is_command cmd (CHR ''b'') ''break'' then handle_location_p E ''break'' (exec_break E) tokens i
          else if is_command cmd (CHR ''d'') ''delete'' then handle_location_p E ''delete'' (exec_delete E) tokens i
          else if is_command cmd (CHR ''p'') ''print'' then on_debugger (handle_print E tokens i)
          else if is_command cmd (CHR ''t'') ''set'' then on_debugger (handle_set E tokens i)
          else if is_command cmd (CHR ''i'') ''inst'' then handle_plain_p (exec_inst_p E) tokens i
          else if is_command cmd (CHR ''l'') ''leave'' then handle_plain_p (exec_leave_p E) tokens i
          else if is_command cmd (CHR ''s'') ''step'' then handle_plain_p (exec_step_p E) tokens i
          else if is_command cmd (CHR ''n'') ''next'' then handle_plain_p (exec_next_p E) tokens i
          else if is_command cmd (CHR ''a'') ''backtrace'' then exec_backtrace_p E
          else on_debugger (emit (Err ''Unknown command'')))"

definition handle_debug_command_p ::
  "('d, 's, 'h, 'w) env \<Rightarrow> string \<Rightarrow> ('s, 'h, 'w, unit) mem_prog" where
  "handle_debug_command_p E line =
     (let tokens = get_command_tokens line in
      case next_token tokens 0 of
        (None, _) \<Rightarrow>
          then_do (on_debugger read_command) (\<lambda>last.
            case last of
              Some last_line \<Rightarrow> handle_debug_command_tokens_p E (get_command_tokens last_line)
            | None \<Rightarrow> on_debugger (emit (Err ''No command to repeat'')))
      | (Some _, _) \<Rightarrow>
          then_do (on_debugger (save_command line)) (\<lambda>_. handle_debug_command_tokens_p E tokens))"

section \<open>The session\<close>

primrec command_loop_p :: "('d, 's, 'h, 'w) env \<Rightarrow> string list \<Rightarrow> ('s, 'h, 'w, unit) mem_prog" where
  "command_loop_p E [] = return ()"
| "command_loop_p E (line # lines) = then_do (handle_debug_command_p E line) (\<lambda>_. command_loop_p E lines)"

definition start_at_main_p :: "('d, 's, 'h, 'w) env \<Rightarrow> sym_ptr \<Rightarrow> ('s, 'h, 'w, SprayResult) mem_prog" where
  "start_at_main_p E main =
     then_do (function_start_addr_p E (Some main)) (\<lambda>start_main.
       case start_main of
         None \<Rightarrow> return SP_OK
       | Some start_main \<Rightarrow>
           then_do (on_debugger (get_state load_address)) (\<lambda>load.
           then_do (on_debugger (enable_bp E (dbg_to_real load start_main))) (\<lambda>_.
           then_do (on_debugger (continue_execution E)) (\<lambda>res.
             if res = SP_ERR then return SP_ERR
             else
               then_do (on_debugger (wait_for_signal E)) (\<lambda>res.
                 if res = SP_ERR then return SP_ERR
                 else
                   then_do (on_debugger (disable_bp E (dbg_to_real load start_main)))
                     (\<lambda>_. return SP_OK))))))"

definition run_debugger_p :: "('d, 's, 'h, 'w) env \<Rightarrow> string list \<Rightarrow> ('s, 'h, 'w, unit) mem_prog" where
  "run_debugger_p E lines =
     then_do (on_debugger (emit (Out (bugs @ '' '' @ show_int (e_pid E) @ '' '' @ bugs @ newline)))) (\<lambda>_.
     then_do (sym_by_name_p E ''main'') (\<lambda>main.
       case main of
         None \<Rightarrow> return ()
       | Some main \<Rightarrow>
           then_do (start_at_main_p E main) (\<lambda>res.
             if res = SP_ERR then return ()
             else then_do (print_current_source_p E) (\<lambda>_. command_loop_p E lines))))"

section \<open>Rules for the simulation\<close>

named_theorems simulates_intros \<open>what does the same with pointers\<close>

lemma simulates_same_then:
  "simulates P m n same \<Longrightarrow> (\<And>a. simulates (\<lambda>_ _. True) (f a) (g a) R) \<Longrightarrow>
   simulates P (then_do m f) (then_do n g) R"
  by (rule simulates_then_do, assumption)
    (rule simulates_weaken [where P = "\<lambda>ss mem. b = a \<and> True" for b a, OF simulates_given]; blast)

lemma simulates_blind_then:
  "blind n \<Longrightarrow> (\<And>a. simulates P (f a) (g a) R) \<Longrightarrow> simulates P (then_do (on_debugger n) f) (then_do n g) R"
  by (rule simulates_then_do [OF simulates_blind], assumption, rule simulates_given) simp

lemma simulates_only: "blind n \<Longrightarrow> simulates P (on_debugger n) n same"
  by (rule simulates_weaken [OF simulates_blind]) auto

lemma simulates_value: "simulates P (return a) (return a) same"
  by (rule simulates_return) (rule refl)

lemma simulates_choice:
  "simulates P m n R \<Longrightarrow> simulates P m' n' R \<Longrightarrow>
   simulates P (\<lambda>st. if b then m st else m' st) (\<lambda>st. if b then n st else n' st) R"
  "simulates P m n R \<Longrightarrow> (\<And>a. simulates P (f a) (g a) R) \<Longrightarrow>
   simulates P (case x of None \<Rightarrow> m | Some a \<Rightarrow> f a) (case x of None \<Rightarrow> n | Some a \<Rightarrow> g a) R"
  "(\<And>a b. simulates P (h a b) (k a b) R) \<Longrightarrow>
   simulates P (case y of (a, b) \<Rightarrow> h a b) (case y of (a, b) \<Rightarrow> k a b) R"
  by (cases b) (simp_all split: option.split prod.split)

lemma simulates_cong:
  "(\<And>st. m st = m' st) \<Longrightarrow> (\<And>st. n st = n' st) \<Longrightarrow> simulates P m' n' R \<Longrightarrow> simulates P m n R"
  by (simp add: simulates_def)

lemma simulates_read:
  "simulates (points_to_position q pos) (f pos) n R \<Longrightarrow>
   simulates (points_to_position q pos) (then_do (on_memory (position_at q)) f) n R"
  by (auto simp: simulates_def points_to_position_def points_to_def position_at_def then_do_def load_symbol
      cell_of_def on_memory_Value)

lemma simulates_found_position:
  assumes "simulates (\<lambda>_ _. True) (m None) (n None) R"
    and "\<And>q pos. simulates (points_to_position q pos) (m (Some q)) (n (Some pos)) R"
  shows "simulates (\<lambda>ss mem. rel_option (\<lambda>q pos. points_to_position q pos ss mem) x y) (m x) (n y) R"
  using assms by (cases x; cases y) (auto simp: simulates_def)

lemma simulates_found_position_eta:
  assumes "simulates (\<lambda>_ _. True) m n R"
    and "\<And>q pos. simulates (points_to_position q pos) (f q) (g pos) R"
  shows "simulates (\<lambda>ss mem. rel_option (\<lambda>q pos. points_to_position q pos ss mem) x y)
    (\<lambda>st. case x of None \<Rightarrow> m st | Some q \<Rightarrow> f q st) (\<lambda>st. case y of None \<Rightarrow> n st | Some pos \<Rightarrow> g pos st) R"
  using assms by (cases x; cases y) (auto simp: simulates_def)

section \<open>Stepping is simulated\<close>

lemma simulates_step_line_loop:
  "simulates (points_to_position q pos) (step_line_loop_p E l q n) (step_line_loop E l pos n) same"
proof (induction "SINGLE_STEP_SEARCH_LIMIT - n" arbitrary: n q pos rule: less_induct)
  case less
  show ?case
  proof (rule simulates_cong, rule step_line_loop_p.simps, rule step_line_loop.simps, rule simulates_read,
      rule simulates_choice(1), rule simulates_same_then [OF simulates_only [OF blind_steps(3)]],
      rule simulates_choice(1), rule simulates_value,
      rule simulates_blind_then [OF blind_debugger(2)],
      rule simulates_then_do [OF simulates_position_of_addr], goal_cases)
    case (1 _ _ q' pos')
    have stop: "simulates P (then_do (on_debugger (emit e)) (\<lambda>_. return SP_ERR)) (then_do (emit e) (\<lambda>_. return SP_ERR)) same"
      for P and e by (intro simulates_blind_then simulates_value blind_intros)
    show ?case
    proof (rule simulates_found_position_eta [OF stop])
      fix q pos
      show "simulates (points_to_position q pos)
        (\<lambda>st. if SINGLE_STEP_SEARCH_LIMIT \<le> Suc n then
                 then_do (on_debugger (emit (Err ''Failed to find another line to step to''))) (\<lambda>_. return SP_ERR) st
               else step_line_loop_p E l q (Suc n) st)
        (\<lambda>st. if SINGLE_STEP_SEARCH_LIMIT \<le> Suc n then
                 then_do (emit (Err ''Failed to find another line to step to'')) (\<lambda>_. return SP_ERR) st
               else step_line_loop E l pos (Suc n) st) same"
        using stop less [of "Suc n" q pos] by (cases "SINGLE_STEP_SEARCH_LIMIT \<le> Suc n") simp_all
    qed
  qed (rule simulates_value)
qed

lemma simulates_step_line: "simulates P (single_step_line_p E) (single_step_line E) same"
  unfolding single_step_line_p_def single_step_line_def
proof (rule simulates_blind_then [OF blind_debugger(2)], rule simulates_then_do [OF simulates_position_of_addr],
    rule simulates_found_position, unfold option.case, goal_cases)
  case 1
  show ?case by (intro simulates_blind_then simulates_value blind_intros)
next
  case 2
  show ?case by (rule simulates_read) (rule simulates_step_line_loop)
qed

lemma simulates_step_over: "simulates P (step_over_p E) (step_over E) same"
  unfolding step_over_p_def step_over_def
proof (rule simulates_blind_then [OF blind_debugger(2)], rule simulates_then_do [OF simulates_lookup(1)],
    rule simulates_pointer, goal_cases)
  case 1
  show ?case unfolding option.case by (intro simulates_blind_then simulates_value blind_intros)
next
  case (2 _ _ _ p i)
  show ?case
    unfolding option.case
    by (rule simulates_same_then [OF simulates_set_step_over_breakpoints])
      (intro simulates_choice simulates_blind_then simulates_value blind_intros)
qed

section \<open>Backtraces are simulated\<close>

text \<open>
  The walk over the frames need not end. One of the two programs at a time may not end where the
  other one does; together this gives that they do the same.
\<close>

definition ends_like ::
  "bool \<Rightarrow> bool \<Rightarrow> ('a \<Rightarrow> 'b \<Rightarrow> bool) \<Rightarrow> 'a outcome option \<Rightarrow> 'b outcome option \<Rightarrow> bool" where
  "ends_like l r S x y \<longleftrightarrow> l \<and> x = None \<or> r \<and> y = None \<or> rel_option (rel_outcome S) x y"

lemma ends_like_same [simp]:
  "ends_like l r S None None" "ends_like l r S (Some Aborted) (Some Aborted)"
  "ends_like l r S (Some Undefined) (Some Undefined)"
  by (simp_all add: ends_like_def)

lemma ends_like_both:
  "ends_like True False S x y \<Longrightarrow> ends_like False True S x y \<Longrightarrow> rel_option (rel_outcome S) x y"
  by (cases x; cases y) (auto simp: ends_like_def)

lemma ends_like_left: "(\<And>z. x = Some z \<Longrightarrow> ends_like True False S (Some z) y) \<Longrightarrow> ends_like True False S x y"
  by (cases x) (auto simp: ends_like_def)

lemma ends_like_right: "(\<And>z. y = Some z \<Longrightarrow> ends_like False True S x (Some z)) \<Longrightarrow> ends_like False True S x y"
  by (cases y) (auto simp: ends_like_def)

lemma ends_like_then_do:
  assumes "rel_option (rel_outcome R) (m s) (n t)"
    and "\<And>b s' a t'. R (b, s') (a, t') \<Longrightarrow> ends_like l r S (f b s') (g a t')"
  shows "ends_like l r S (then_do m f s) (then_do n g t)"
  using assms(1) by (auto simp: then_do_def intro: assms(2) elim!: option.rel_cases outcome.rel_cases)

definition simulates_ending ::
  "bool \<Rightarrow> bool \<Rightarrow> ('s, 'h, 'w, 'a) mem_prog \<Rightarrow> (('s, 'h, 'w) debugger, 'a) prog \<Rightarrow> bool" where
  "simulates_ending l r m n \<longleftrightarrow>
     (\<forall>st mem. holds mem (symbols st) \<longrightarrow>
        ends_like l r (\<lambda>(b, st1, mem') (a, st').
            st1 = without_symbols st' \<and> holds mem' (symbols st') \<and> same b a (symbols st') mem')
          (m (without_symbols st, mem)) (n st))"

lemma simulates_both_endings:
  assumes "simulates_ending True False m n" "simulates_ending False True m n"
  shows "simulates (\<lambda>_ _. True) m n same"
  using assms unfolding simulates_def simulates_ending_def by (auto intro!: ends_like_both)

lemma simulates_ending_left:
  "(\<And>st mem y. holds mem (symbols st) \<Longrightarrow> m (without_symbols st, mem) = Some y \<Longrightarrow>
      ends_like True False (\<lambda>(b, st1, mem') (a, st').
        st1 = without_symbols st' \<and> holds mem' (symbols st') \<and> same b a (symbols st') mem') (Some y) (n st)) \<Longrightarrow>
   simulates_ending True False m n"
  unfolding simulates_ending_def by (intro allI impI, rule ends_like_left, blast)

lemma simulates_ending_right:
  "(\<And>st mem y. holds mem (symbols st) \<Longrightarrow> n st = Some y \<Longrightarrow>
      ends_like False True (\<lambda>(b, st1, mem') (a, st').
        st1 = without_symbols st' \<and> holds mem' (symbols st') \<and> same b a (symbols st') mem')
        (m (without_symbols st, mem)) (Some y)) \<Longrightarrow>
   simulates_ending False True m n"
  unfolding simulates_ending_def by (intro allI impI, rule ends_like_right, blast)

lemma simulates_ending_value: "simulates_ending l r (return a) (return a)"
  by (simp add: simulates_ending_def ends_like_def)

lemma simulates_ending_then:
  assumes "simulates (\<lambda>_ _. True) m n same" and "\<And>a. simulates_ending l r (f a) (g a)"
  shows "simulates_ending l r (then_do m f) (then_do n g)"
  using assms unfolding simulates_ending_def simulates_def by (auto intro!: ends_like_then_do)

lemma simulates_ending_choice:
  "simulates_ending l r m n \<Longrightarrow> (\<And>a. simulates_ending l r (f a) (g a)) \<Longrightarrow>
   simulates_ending l r (\<lambda>st. case x of None \<Rightarrow> m st | Some a \<Rightarrow> f a st) (\<lambda>st. case x of None \<Rightarrow> n st | Some a \<Rightarrow> g a st)"
  by (cases x) simp_all

text \<open>The part of the walk behind the test, with what goes on from the next frame.\<close>

lemma simulates_ending_walk:
  assumes "\<And>frame fp. simulates_ending l r (v frame fp) (w frame fp)"
  shows "simulates_ending l r
    (then_do (on_debugger (read_tracee f)) (\<lambda>pc st.
       case pc of
         None \<Rightarrow> return None st
       | Some pc \<Rightarrow>
           then_do (on_debugger (read_tracee h)) (\<lambda>fp st.
             case fp of
               None \<Rightarrow> return None st
             | Some fp \<Rightarrow>
                 then_do (init_call_frame_p E frame (DbgAddr pc) (RealAddr fp)) (\<lambda>frame st. v frame (RealAddr fp) st) st) st))
    (then_do (read_tracee f) (\<lambda>pc st.
       case pc of
         None \<Rightarrow> return None st
       | Some pc \<Rightarrow>
           then_do (read_tracee h) (\<lambda>fp st.
             case fp of
               None \<Rightarrow> return None st
             | Some fp \<Rightarrow>
                 then_do (init_call_frame E frame (DbgAddr pc) (RealAddr fp)) (\<lambda>frame st. w frame (RealAddr fp) st) st) st))"
  by (intro simulates_ending_then simulates_ending_choice simulates_ending_value simulates_only
      simulates_init_call_frame blind_intros assms)

lemma backtrace_loop_left: "simulates_ending True False (backtrace_loop_p E frame fp) (backtrace_loop E frame fp)"
proof -
  let ?R = "\<lambda>(b, st1, mem') (a, st'). st1 = without_symbols st' \<and> holds mem' (symbols st') \<and> same b a (symbols st') mem'"
  have "\<forall>st mem. s = (without_symbols st, mem) \<longrightarrow> holds mem (symbols st) \<longrightarrow>
      ends_like True False ?R (Some y) (backtrace_loop E frame fp st)"
    if "backtrace_loop_p E frame fp s = Some y" for E :: "('d, 's, 'h, 'w) env" and frame fp s y
    using that
  proof (induction rule: backtrace_loop_p.raw_induct [rotated, consumes 1, case_names step])
    case (step w E frame fp s y)
    have w: "simulates_ending True False (w E frame fp) (backtrace_loop E frame fp)" for frame fp
      by (rule simulates_ending_left) (use step(1) in blast)
    show ?case
    proof (intro allI impI)
      fix st mem assume s: "s = (without_symbols st, mem)" "holds mem (symbols st)"
      note walk = simulates_ending_walk [where v = "w E" and w = "backtrace_loop E", OF w, unfolded simulates_ending_def,
          rule_format, OF s(2)]
      show "ends_like True False ?R (Some y) (backtrace_loop E frame fp st)"
      proof (cases "real_value fp = 0")
        case True
        with step(2) s show ?thesis by (subst backtrace_loop.simps) (auto simp: ends_like_def)
      next
        case False
        with step(2) s(1) show ?thesis
          by (subst backtrace_loop.simps) (simp only: if_True not_False_eq_True simp_thms, erule subst, rule walk)
      qed
    qed
  qed
  then show ?thesis
    by (intro simulates_ending_left) blast
qed

lemma backtrace_loop_right: "simulates_ending False True (backtrace_loop_p E frame fp) (backtrace_loop E frame fp)"
proof -
  let ?R = "\<lambda>(b, st1, mem') (a, st'). st1 = without_symbols st' \<and> holds mem' (symbols st') \<and> same b a (symbols st') mem'"
  have "\<forall>mem. holds mem (symbols st) \<longrightarrow>
      ends_like False True ?R (backtrace_loop_p E frame fp (without_symbols st, mem)) (Some y)"
    if "backtrace_loop E frame fp st = Some y" for E :: "('d, 's, 'h, 'w) env" and frame fp st y
    using that
  proof (induction rule: backtrace_loop.raw_induct [rotated, consumes 1, case_names step])
    case (step w E frame fp st y)
    have w: "simulates_ending False True (backtrace_loop_p E frame fp) (w E frame fp)" for frame fp
      by (rule simulates_ending_right) (use step(1) in blast)
    show ?case
    proof (intro allI impI)
      fix mem assume mem: "holds mem (symbols st)"
      note walk = simulates_ending_walk [where v = "backtrace_loop_p E" and w = "w E", OF w, unfolded simulates_ending_def,
          rule_format, OF mem]
      show "ends_like False True ?R (backtrace_loop_p E frame fp (without_symbols st, mem)) (Some y)"
      proof (cases "real_value fp = 0")
        case True
        with step(2) mem show ?thesis by (subst backtrace_loop_p.simps) (auto simp: ends_like_def)
      next
        case False
        with step(2) show ?thesis
          by (subst backtrace_loop_p.simps) (simp only: if_True not_False_eq_True simp_thms, erule subst, rule walk)
      qed
    qed
  qed
  then show ?thesis
    by (intro simulates_ending_right) blast
qed

lemmas simulates_backtrace_loop = simulates_both_endings [OF backtrace_loop_left backtrace_loop_right]

lemma simulates_init_backtrace: "simulates P (init_backtrace_p E pc load) (init_backtrace E pc load) same"
  unfolding init_backtrace_p_def init_backtrace_def
  by (intro simulates_blind_then simulates_choice simulates_value blind_intros
      simulates_same_then [OF simulates_stores_frame_pointer] simulates_same_then [OF simulates_init_call_frame]
      simulates_backtrace_loop)

section \<open>The session is simulated\<close>

lemma simulates_exec [simulates_intros]:
  "simulates P (exec_continue_p E) (exec_continue E) same" "simulates P (exec_inst_p E) (exec_inst E) same"
  "simulates P (exec_leave_p E) (exec_leave E) same" "simulates P (exec_step_p E) (exec_step E) same"
  "simulates P (exec_next_p E) (exec_next E) same" "simulates P (exec_backtrace_p E) (exec_backtrace E) same"
  unfolding exec_continue_p_def exec_continue_def exec_inst_p_def exec_inst_def exec_leave_p_def exec_leave_def
    exec_step_p_def exec_step_def exec_next_p_def exec_next_def exec_backtrace_p_def exec_backtrace_def
  by (intro simulates_blind_then simulates_if simulates_choice simulates_value simulates_only blind_intros
      simulates_print_current_source simulates_same_then [OF simulates_step_line]
      simulates_same_then [OF simulates_step_over] simulates_same_then [OF simulates_init_backtrace])+

lemma simulates_break_location: "simulates P (parse_break_location_p E t) (parse_break_location E t) same"
proof (cases "is_valid_identifier t")
  case True
  then show ?thesis by (simp add: parse_break_location_p_def parse_break_location_def simulates_function_location)
next
  case False
  moreover from this have "blind (parse_break_location E t)"
    unfolding parse_break_location_def by (simp only: if_False) (intro blind_intros)
  ultimately show ?thesis by (simp add: parse_break_location_p_def simulates_only)
qed

lemma simulates_handle_location [simulates_intros]:
  "(\<And>a. blind (exec a)) \<Longrightarrow> simulates P (handle_location_p E name exec tokens i) (handle_location E name exec tokens i) same"
  unfolding handle_location_p_def handle_location_def
  by (intro simulates_choice simulates_if simulates_same_then [OF simulates_break_location] simulates_blind_then
      simulates_only simulates_value blind_intros)

lemma simulates_handle_plain [simulates_intros]:
  "(\<And>P. simulates P m n same) \<Longrightarrow> simulates P (handle_plain_p m tokens i) (handle_plain n tokens i) same"
  unfolding handle_plain_p_def handle_plain_def
  by (intro simulates_blind_then simulates_if simulates_value blind_intros)

lemma simulates_tokens [simulates_intros]:
  "simulates P (handle_debug_command_tokens_p E tokens) (handle_debug_command_tokens E tokens) same"
  unfolding handle_debug_command_tokens_p_def handle_debug_command_tokens_def
  by (intro simulates_choice simulates_if simulates_intros simulates_only blind_intros)

lemma simulates_command [simulates_intros]:
  "simulates P (handle_debug_command_p E line) (handle_debug_command E line) same"
  unfolding handle_debug_command_p_def handle_debug_command_def Let_def
  by (intro simulates_choice simulates_blind_then simulates_intros simulates_only blind_intros)

lemma simulates_command_loop: "simulates P (command_loop_p E lines) (command_loop E lines) same"
  by (induction lines arbitrary: P)
    (simp_all only: command_loop_p.simps command_loop.simps simulates_value simulates_same_then [OF simulates_command])

lemma simulates_start_at_main:
  "simulates (\<lambda>ss mem. points_to p i ss mem \<and> P ss mem) (start_at_main_p E p) (start_at_main E i) same"
  unfolding start_at_main_p_def start_at_main_def
  by (rule simulates_same_then [OF simulates_function_start])
    (intro simulates_choice simulates_if simulates_blind_then simulates_value blind_intros)

lemma simulates_run_debugger: "simulates P (run_debugger_p E lines) (run_debugger E lines) same"
  unfolding run_debugger_p_def run_debugger_def
proof (rule simulates_blind_then [OF blind_primitives(3)], rule simulates_then_do [OF simulates_lookup(2)],
    rule simulates_pointer, goal_cases)
  case (2 _ _ _ p i)
  show ?case
    unfolding option.case
    by (rule simulates_same_then [OF simulates_start_at_main])
      (intro simulates_if simulates_value simulates_same_then [OF simulates_print_current_source] simulates_command_loop)
qed (unfold option.case, rule simulates_value)

end
