(* ===== verification/Memory_Properties.thy ===== *)
theory Memory_Properties
  imports Debugger_Properties Symbol_Session
begin

text \<open>
  Properties of the memory that holds the symbols: the buffer of \<^verbatim>\<open>src/src/info.c\<close> and the
  functions that follow pointers into it.
\<close>

section \<open>Pointers into the buffer\<close>

text \<open>The first program with the memory has the outcome of the second one, which has none.\<close>

definition same_outcome ::
  "('s, 'h, 'w, 'a) mem_prog \<Rightarrow> (('s, 'h, 'w) debugger, 'a) prog \<Rightarrow> ('s, 'h, 'w) debugger \<Rightarrow> symbol_memory \<Rightarrow> bool"
  where
  "same_outcome m n st mem \<longleftrightarrow>
     rel_option (rel_outcome (\<lambda>(b, st1, mem') (a, st').
         b = a \<and> st1 = without_symbols st' \<and> holds mem' (symbols st')))
       (m (without_symbols st, mem)) (n st)"

lemma same_outcome_simulates:
  "simulates (\<lambda>_ _. True) m n same \<Longrightarrow> holds mem (symbols st) \<Longrightarrow> same_outcome m n st mem"
  unfolding simulates_def same_outcome_def
  by (erule allE [of _ st], erule allE [of _ mem])
    (auto elim!: option.rel_mono [OF outcome.rel_mono, THEN predicate2D, rotated])

text \<open>
  No function of the debugger follows a pointer to a symbol, or to the position in one, after
  the buffer has moved: with real pointers into a buffer that \<^verbatim>\<open>realloc\<close> may move, the report of the
  current position, a frame of a backtrace, the check for a frame pointer, the breakpoints for
  stepping over a line, the position of an address and the start of a named function have the same
  outcome as with indices into a list that never become invalid.
\<close>

theorem symbol_uses_never_dangle:
  assumes "holds mem (symbols st)"
  shows "same_outcome (print_current_source_p E) (print_current_source E) st mem \<and>
    same_outcome (init_call_frame_p E caller pc fp) (init_call_frame E caller pc fp) st mem \<and>
    same_outcome (stores_frame_pointer_p E pc load) (stores_frame_pointer E pc load) st mem \<and>
    same_outcome (then_do (sym_by_addr_p E pc) (set_step_over_breakpoints_p E))
      (then_do (sym_by_addr E pc) (set_step_over_breakpoints E)) st mem \<and>
    same_outcome
      (then_do (addr_position_p E pc) (\<lambda>q.
         case q of None \<Rightarrow> return None | Some q \<Rightarrow> then_do (on_memory (position_at q)) (\<lambda>pos. return (Some pos))))
      (addr_position E pc) st mem \<and>
    same_outcome (then_do (sym_by_name_p E name) (function_start_addr_p E))
      (then_do (sym_by_name E name) (function_start_addr E)) st mem"
  using assms
  by (intro conjI same_outcome_simulates simulates_print_current_source simulates_init_call_frame
      simulates_stores_frame_pointer simulates_step_over_lookup simulates_addr_position
      simulates_function_location)

text \<open>A memory of which nothing has been used yet.\<close>

definition unused_memory :: symbol_memory where
  "unused_memory = \<lparr>blocks = Map.empty, next_block = 0, grants = (\<lambda>_. True), buf_struct = 0, buf_n_symbols = 0,
     buf_n_alloc = 0, buf_syms = 0\<rparr>"

lemma unused_buffer:
  "\<exists>mem. init_symbol_buf unused_memory = Some (Value (True, mem)) \<and> holds mem [] \<and> buf_n_alloc mem = 16"
  using init_symbol_buf_result [of unused_memory] by (auto simp: unused_memory_def SYM_ALLOC_SIZE_def)

theorem symbol_uses_never_dangle_example:
  "\<exists>mem st' mem'. init_symbol_buf unused_memory = Some (Value (True, mem)) \<and>
     init_call_frame_p sim_env [] (DbgAddr 0x401000) (RealAddr 0x7000) (sim_dbg, mem) =
       Some (Value ([\<lparr>cl_pc = DbgAddr 0x401000, cl_frame_pointer = RealAddr 0x7000, cl_lineno = Some 2,
                      cl_function = Some ''main''\<rparr>], (st', mem')))"
proof -
  from unused_buffer obtain mem where mem: "init_symbol_buf unused_memory = Some (Value (True, mem))"
    "holds mem (symbols sim_dbg)" by auto
  have "world_ok sim_env sim_dies sim_symbols sim_dbg" "cache_ok sim_env sim_dies (symbols sim_dbg)"
    using sim_world_ok sim_cache_ok by simp_all
  from init_call_frame_spec [OF this, where caller = "[]" and pc = "0x401000" and fp = "0x7000"] obtain st' where
    "init_call_frame sim_env [] (DbgAddr 0x401000) (RealAddr 0x7000) sim_dbg =
      Some (Value ([\<lparr>cl_pc = DbgAddr 0x401000, cl_frame_pointer = RealAddr 0x7000, cl_lineno = Some 2,
        cl_function = Some ''main''\<rparr>], st'))"
    by (auto simp: looks_up_def frame_spec_def sim_covering sim_position)
  moreover have "without_symbols sim_dbg = sim_dbg" by (simp add: without_symbols_def sim_dbg_def)
  moreover from symbol_uses_never_dangle [OF mem(2)] have
    "same_outcome (init_call_frame_p sim_env [] (DbgAddr 0x401000) (RealAddr 0x7000))
       (init_call_frame sim_env [] (DbgAddr 0x401000) (RealAddr 0x7000)) sim_dbg mem" by blast
  ultimately show ?thesis
    using mem(1) by (auto simp: same_outcome_def elim!: option.rel_cases outcome.rel_cases)
qed

section \<open>A whole session\<close>

text \<open>
  C13. No part of the debugger follows a pointer to a symbol, or to the position in one, after the
  buffer has moved: with real pointers into a buffer that \<^verbatim>\<open>realloc\<close> may move, a whole session of
  any number of lines, with its start at \<^verbatim>\<open>main\<close>, has the same outcome as with indices into a list
  that never become invalid, also where it stops at an assertion, does what C leaves undefined or
  never ends. When it has ended, the buffer can be freed, as \<^verbatim>\<open>del_debugger\<close> does.
\<close>

theorem symbol_pointers_never_dangle:
  assumes "holds mem (symbols st)"
  shows "same_outcome (run_debugger_p E lines) (run_debugger E lines) st mem \<and>
    same_outcome (command_loop_p E lines) (command_loop E lines) st mem \<and>
    (\<forall>u st' mem'. run_debugger_p E lines (without_symbols st, mem) = Some (Value (u, st', mem')) \<longrightarrow>
       (\<exists>mem''. free_symbol_buf mem' = Some (Value ((), mem''))))"
proof (intro conjI allI impI)
  show run: "same_outcome (run_debugger_p E lines) (run_debugger E lines) st mem"
    by (rule same_outcome_simulates [OF simulates_run_debugger assms])
  show "same_outcome (command_loop_p E lines) (command_loop E lines) st mem"
    by (rule same_outcome_simulates [OF simulates_command_loop assms])
  fix u st' mem' assume "run_debugger_p E lines (without_symbols st, mem) = Some (Value (u, st', mem'))"
  with run obtain ss where "holds mem' ss"
    by (auto simp: same_outcome_def elim!: option.rel_cases outcome.rel_cases)
  then show "\<exists>mem''. free_symbol_buf mem' = Some (Value ((), mem''))" using free_symbol_buf_result by blast
qed

theorem symbol_pointers_never_dangle_example:
  "\<exists>mem st' mem'. init_symbol_buf unused_memory = Some (Value (True, mem)) \<and>
     command_loop_p sim_env [''break main''] (sim_dbg, mem) = Some (Value ((), (st', mem'))) \<and>
     bp_set sim_env st' = {RealAddr 0x401008}"
proof -
  let ?st = "sim_dbg\<lparr>last_command := Some ''break main''\<rparr>"
  have tokens: "get_command_tokens ''break main'' = [''break'', ''main'']" by code_simp
  have "looks_ok sim_env sim_dies sim_symbols ?st"
    using sim_world_ok [of ?st] sim_cache_ok by (simp add: looks_ok_def)
  from location_lookup [OF this, of "''main''"] sim_main_location obtain st0 where
    "parse_break_location sim_env ''main'' ?st = Some (Value (Some (DbgAddr 0x401008), st0))"
    by (auto simp: looks_up_def)
  moreover have "table_ok sim_env ?st" using sim_table_ok by (simp add: table_ok_def)
  ultimately obtain st1 where
    "handle_debug_command_tokens sim_env [''break'', ''main''] ?st = Some (Value ((), st1))"
    "bp_set sim_env st1 = insert (RealAddr 0x401008) (bp_set sim_env ?st)"
    using break_command [of sim_env ?st "''main''"] sim_requests_ok by (fastforce simp: dbg_to_real_def)
  moreover have "bp_set sim_env ?st = {}" using sim_bp_set by (simp add: bp_set_def)
  ultimately have run: "command_loop sim_env [''break main''] sim_dbg = Some (Value ((), st1))"
    "bp_set sim_env (without_symbols st1) = {RealAddr 0x401008}"
    by (simp_all add: handle_debug_command_def tokens next_token_def then_do_def save_command_def
        bp_set_def without_symbols_def)
  from unused_buffer obtain mem where mem: "init_symbol_buf unused_memory = Some (Value (True, mem))"
    "holds mem (symbols sim_dbg)" by auto
  have "without_symbols sim_dbg = sim_dbg" by (simp add: without_symbols_def sim_dbg_def)
  with symbol_pointers_never_dangle [OF mem(2), of sim_env "[''break main'']"] run mem(1) show ?thesis
    by (auto simp: same_outcome_def elim!: option.rel_cases outcome.rel_cases)
qed

section \<open>The life of the buffer\<close>

text \<open>
  C14. A pointer to a symbol can be followed as long as the buffer has room for the symbols that
  are looked up after it, and gives that symbol. With the first symbol for which there is no room
  it becomes invalid; the header file names only the freeing of the debug information as the end
  of such a pointer.
\<close>

theorem symbol_pointer_lifetime:
  assumes "holds mem ss" and "i < length ss"
    and "alloc_symbols elfs mem = Some (Value ((), mem'))"
  shows "load_cell (SymPtr (buf_syms mem) i) mem' =
    (if length ss + length elfs \<le> buf_n_alloc mem then Some (Value (cell_of i (ss ! i), mem'))
     else Some Undefined)"
proof -
  from alloc_symbols_result [OF assms(1), of elfs] assms(3) have
    mem': "holds mem' (ss @ map named_symbol elfs)" and
    grown: "if length ss + length elfs \<le> buf_n_alloc mem then buf_syms mem' = buf_syms mem \<and>
        buf_n_alloc mem' = buf_n_alloc mem
      else buf_syms mem' \<noteq> buf_syms mem \<and> blocks mem' (buf_syms mem) = None" by auto
  show ?thesis
  proof (cases "length ss + length elfs \<le> buf_n_alloc mem")
    case True
    with grown load_symbol [OF mem', of i] assms(2) show ?thesis by (simp add: nth_append)
  next
    case False
    with grown show ?thesis by (simp add: load_cell_def)
  qed
qed

theorem symbol_pointer_lifetime_example:
  "\<exists>mem mem'. then_do init_symbol_buf (\<lambda>_. alloc_symbols [sim_main]) unused_memory = Some (Value ((), mem)) \<and>
     alloc_symbols (replicate 16 sim_main) mem = Some (Value ((), mem')) \<and>
     load_cell (SymPtr (buf_syms mem) 0) mem' = Some Undefined"
proof -
  from unused_buffer obtain m where m: "init_symbol_buf unused_memory = Some (Value (True, m))" "holds m []"
    "buf_n_alloc m = 16" by blast
  from alloc_symbols_result [OF m(2), of "[sim_main]"] obtain mem where
    1: "alloc_symbols [sim_main] m = Some (Value ((), mem))" "holds mem [named_symbol sim_main]"
      "buf_n_alloc mem = 16" using m(3) by auto
  from alloc_symbols_result [OF 1(2), of "replicate 16 sim_main"] obtain mem' where
    2: "alloc_symbols (replicate 16 sim_main) mem = Some (Value ((), mem'))" by blast
  from symbol_pointer_lifetime [OF 1(2) _ 2, of 0] 1(3) have "load_cell (SymPtr (buf_syms mem) 0) mem' = Some Undefined"
    by simp
  with m(1) 1(1) 2 show ?thesis by (auto simp: then_do_Value)
qed

text \<open>
  C15. The buffer gives back all of its memory, however often it has grown, and nothing twice: after
  it has been set up, filled with any number of symbols and freed, the blocks in use are those from
  before. Each read and each release on the way is one of a block in use.
\<close>

theorem symbol_buffer_lifecycle:
  assumes "\<And>b. grants mem b" and "\<And>b. next_block mem \<le> b \<Longrightarrow> blocks mem b = None"
  shows "\<exists>mem'. then_do init_symbol_buf (\<lambda>_. then_do (alloc_symbols elfs) (\<lambda>_. free_symbol_buf)) mem =
      Some (Value ((), mem')) \<and> blocks mem' = blocks mem"
proof -
  from init_symbol_buf_result [OF assms] obtain m1 where
    1: "init_symbol_buf mem = Some (Value (True, m1))" "holds m1 []"
      "blocks mem = (blocks m1)(buf_syms m1 := None, buf_struct m1 := None)" by blast
  from alloc_symbols_result [OF 1(2), of elfs] obtain m2 where
    2: "alloc_symbols elfs m1 = Some (Value ((), m2))" "holds m2 (map named_symbol elfs)" "keeps_others m1 m2"
    by auto
  from free_symbol_buf_result [OF 2(2)] obtain m3 where
    3: "free_symbol_buf m2 = Some (Value ((), m3))"
      "blocks m3 = (blocks m2)(buf_syms m2 := None, buf_struct m2 := None)" by blast
  have "buf_struct m2 = buf_struct m1" using 2(3) by (simp add: keeps_others_def)
  with 3(2) keeps_others_blocks [OF 1(2) 2(3)] 1(3) have "blocks m3 = blocks mem" by simp
  with 1(1) 2(1) 3(1) show ?thesis by (auto simp: then_do_Value)
qed

theorem symbol_buffer_lifecycle_example:
  "\<exists>mem'. then_do init_symbol_buf (\<lambda>_. then_do (alloc_symbols (replicate 40 sim_main)) (\<lambda>_. free_symbol_buf))
      unused_memory = Some (Value ((), mem')) \<and> blocks mem' = Map.empty"
  using symbol_buffer_lifecycle [of unused_memory "replicate 40 sim_main"] by (simp add: unused_memory_def)

end
