(* ===== verification/Die_Memory.thy ===== *)
theory Die_Memory
  imports Program
begin

text \<open>
  The search of \<^verbatim>\<open>src/src/spray_dwarf.c\<close> again, with the DIEs as the objects they are in C:
  \<^verbatim>\<open>dwarf_child\<close> and \<^verbatim>\<open>dwarf_siblingof_b\<close> allocate a DIE, \<^verbatim>\<open>dwarf_dealloc\<close> frees it, and a DIE
  must not be used after that. \<open>Dwarf_Search\<close> has the same search on the values of the DIEs. A
  search whose callback only reads its DIE never touches a freed one and comes to the same
  result; the callback that looks for a variable frees the DIE that it is called with.
\<close>

section \<open>Objects of libdwarf\<close>

type_synonym die_ptr = nat

record 'd die_memory =
  die_at :: "nat \<Rightarrow> 'd option"
  next_die :: nat

definition load_die :: "die_ptr \<Rightarrow> ('d die_memory, 'd) prog" where
  "load_die p m = (case die_at m p of None \<Rightarrow> Some Undefined | Some d \<Rightarrow> Some (Value (d, m)))"

definition with_die :: "'d \<Rightarrow> 'd die_memory \<Rightarrow> 'd die_memory" where
  "with_die d m = m\<lparr>die_at := (die_at m)(next_die m \<mapsto> d), next_die := next_die m + 1\<rparr>"

definition without_die :: "die_ptr \<Rightarrow> 'd die_memory \<Rightarrow> 'd die_memory" where
  "without_die p m = m\<lparr>die_at := (die_at m)(p := None)\<rparr>"

definition open_die :: "'d \<Rightarrow> ('d die_memory, die_ptr) prog" where
  "open_die d m = Some (Value (next_die m, with_die d m))"

definition free_die :: "die_ptr \<Rightarrow> ('d die_memory, unit) prog" where
  "free_die p m = (if die_at m p = None then Some Undefined else Some (Value ((), without_die p m)))"

definition open_result :: "'d dwres \<Rightarrow> ('d die_memory, die_ptr dwres) prog" where
  "open_result r =
     (case r of
        DW_OK d \<Rightarrow> then_do (open_die d) (\<lambda>p. return (DW_OK p))
      | DW_NO_ENTRY \<Rightarrow> return DW_NO_ENTRY
      | DW_ERROR \<Rightarrow> return DW_ERROR)"

text \<open>Nothing is allocated from the next address on.\<close>

definition unused :: "'d die_memory \<Rightarrow> bool" where
  "unused m \<longleftrightarrow> (\<forall>p \<ge> next_die m. die_at m p = None)"

section \<open>The search\<close>

type_synonym ('d, 'f) die_callback = "die_ptr \<Rightarrow> nat \<Rightarrow> 'f \<Rightarrow> ('d die_memory, bool \<times> 'f) prog"

partial_function (option) sd_search_die_loop_m ::
  "('d, 'w) libdwarf \<Rightarrow> bool \<Rightarrow> nat \<Rightarrow> ('d, 'f) die_callback \<Rightarrow> die_ptr \<Rightarrow> die_ptr \<Rightarrow> 'f
     \<Rightarrow> ('d die_memory, dw_code \<times> 'f) prog" where
  "sd_search_die_loop_m L is_info level cb in_die cur_die f m =
     then_do (load_die cur_die) (\<lambda>cur.
     then_do (open_result (lw_child L cur)) (\<lambda>child.
     then_do
       (\<lambda>m. case child of
          DW_ERROR \<Rightarrow> return (DW_DLV_ERROR, f) m
        | DW_NO_ENTRY \<Rightarrow> return (DW_DLV_NO_ENTRY, f) m
        | DW_OK child_die \<Rightarrow>
            then_do
              (then_do (cb child_die (level + 1) f) (\<lambda>(found, f') m.
                 if found then return (DW_DLV_OK, f') m
                 else sd_search_die_loop_m L is_info (level + 1) cb child_die child_die f' m))
              (\<lambda>r. then_do (free_die child_die) (\<lambda>_. return r)) m)
       (\<lambda>(res, f1) m.
          case res of
            DW_DLV_ERROR \<Rightarrow> return (DW_DLV_ERROR, f1) m
          | DW_DLV_OK \<Rightarrow> return (DW_DLV_OK, f1) m
          | DW_DLV_NO_ENTRY \<Rightarrow>
              then_do (load_die cur_die) (\<lambda>cur.
              then_do (open_result (lw_siblingof L is_info cur)) (\<lambda>sib.
              then_do (if cur_die \<noteq> in_die then free_die cur_die else return ()) (\<lambda>_ m.
                case sib of
                  DW_NO_ENTRY \<Rightarrow> return (DW_DLV_NO_ENTRY, f1) m
                | DW_ERROR \<Rightarrow> return (DW_DLV_ERROR, f1) m
                | DW_OK sib_die \<Rightarrow>
                    then_do (cb sib_die level f1) (\<lambda>(found, f2) m.
                      if found then return (DW_DLV_OK, f2) m
                      else sd_search_die_loop_m L is_info level cb in_die sib_die f2 m) m))) m))) m"

definition sd_search_dwarf_die_m ::
  "('d, 'w) libdwarf \<Rightarrow> bool \<Rightarrow> nat \<Rightarrow> ('d, 'f) die_callback \<Rightarrow> die_ptr \<Rightarrow> 'f
     \<Rightarrow> ('d die_memory, dw_code \<times> 'f) prog" where
  "sd_search_dwarf_die_m L is_info level cb in_die f =
     then_do (cb in_die level f) (\<lambda>(found, f').
       if found then return (DW_DLV_OK, f')
       else sd_search_die_loop_m L is_info level cb in_die in_die f')"

partial_function (option) sd_search_dbg_loop_m ::
  "('d, 'w) libdwarf \<Rightarrow> ('d, 'f) die_callback \<Rightarrow> bool \<Rightarrow> bool \<Rightarrow> 'f \<Rightarrow> 'w
     \<Rightarrow> ('d die_memory, dw_code \<times> 'f \<times> 'w) prog" where
  "sd_search_dbg_loop_m L cb is_info search_finished f w m =
     (case lw_next_cu L is_info w of (res, w') \<Rightarrow>
        (case res of
           DW_ERROR \<Rightarrow> return (DW_DLV_ERROR, f, w') m
         | DW_NO_ENTRY \<Rightarrow>
             if is_info then sd_search_dbg_loop_m L cb False search_finished f w' m
             else if search_finished then return (DW_DLV_OK, f, w') m
             else return (DW_DLV_NO_ENTRY, f, w') m
         | DW_OK _ \<Rightarrow>
             if search_finished then sd_search_dbg_loop_m L cb is_info search_finished f w' m
             else
               (case lw_cu_die L is_info w' of
                  DW_ERROR \<Rightarrow> return (DW_DLV_ERROR, f, w') m
                | DW_NO_ENTRY \<Rightarrow> return (DW_DLV_NO_ENTRY, f, w') m
                | DW_OK cu \<Rightarrow>
                    then_do (open_die cu) (\<lambda>cu_die.
                    then_do (sd_search_dwarf_die_m L is_info 0 cb cu_die f) (\<lambda>(res, f').
                    then_do (free_die cu_die) (\<lambda>_ m.
                      case res of
                        DW_DLV_ERROR \<Rightarrow> return (DW_DLV_ERROR, f', w') m
                      | DW_DLV_OK \<Rightarrow> sd_search_dbg_loop_m L cb is_info True f' w' m
                      | DW_DLV_NO_ENTRY \<Rightarrow>
                          sd_search_dbg_loop_m L cb is_info search_finished f' w' m))) m)))"

definition sd_search_dwarf_dbg_m ::
  "('d, 'w) libdwarf \<Rightarrow> ('d, 'f) die_callback \<Rightarrow> 'f \<Rightarrow> 'w \<Rightarrow> ('d die_memory, dw_code \<times> 'f \<times> 'w) prog"
  where
  "sd_search_dwarf_dbg_m L cb f w = sd_search_dbg_loop_m L cb True False f w"

section \<open>Callbacks\<close>

text \<open>All callbacks but one read the DIE that they are called with, and change none.\<close>

definition reading :: "('d, 'f) callback \<Rightarrow> ('d, 'f) die_callback" where
  "reading cb p level f = then_do (load_die p) (\<lambda>die. return (cb die level f))"

text \<open>
  The callback that looks for a variable. \<^verbatim>\<open>sd_variable_type\<close> frees the DIE it has built the
  type of. (The DIEs that the types and the compilation unit open on the way are never freed,
  and are left out.)
\<close>

definition sd_variable_type_m ::
  "('d, 'w) libdwarf \<Rightarrow> die_ptr \<Rightarrow> ('d die_memory, SdType option) prog" where
  "sd_variable_type_m L p =
     then_do (load_die p) (\<lambda>die.
       if \<not> sd_has_at L die DW_AT_type then return None
       else
         then_do (\<lambda>m. case sd_build_type L die 0 alloc_type of
                         None \<Rightarrow> None | Some r \<Rightarrow> return r m) (\<lambda>(ret, type).
         then_do (free_die p) (\<lambda>_. return (if ret = SP_OK then Some type else None))))"

definition match_variable_m ::
  "('d, 'w) libdwarf \<Rightarrow> string \<Rightarrow> die_ptr \<Rightarrow> 'd VarattrSearchFindings
     \<Rightarrow> ('d die_memory, bool \<times> 'd VarattrSearchFindings) prog" where
  "match_variable_m L var_name p f =
     then_do (load_die p) (\<lambda>die.
       if (sd_has_tag L die DW_TAG_variable \<or> sd_has_tag L die DW_TAG_formal_parameter) \<and>
          sd_has_at L die DW_AT_location
       then
         (case lw_diename L die of
            DW_OK die_var_name \<Rightarrow>
              if str_eq var_name die_var_name then
                then_do (sd_variable_type_m L p) (\<lambda>type.
                  case type of
                    None \<Rightarrow> return (False, f)
                  | Some type_buf \<Rightarrow>
                      then_do (load_die p) (\<lambda>die'.
                        case lw_attr L die' DW_AT_location of
                          DW_OK loc \<Rightarrow>
                            (case sd_init_loc_attr L die' loc of
                               Some loc_attr_buf \<Rightarrow>
                                 return (True, f\<lparr>decl_file := declared_in L die,
                                                 decl_line := declared_at L die,
                                                 loc_attr := Some loc_attr_buf,
                                                 var_type := type_buf\<rparr>)
                             | None \<Rightarrow> return (False, f))
                        | _ \<Rightarrow> return (False, f)))
              else return (False, f)
          | _ \<Rightarrow> return (False, f))
       else return (False, f))"

definition find_runtime_variable_m ::
  "('d, 'w) libdwarf \<Rightarrow> VarattrSearchFor \<Rightarrow> die_ptr \<Rightarrow> nat \<Rightarrow> 'd VarattrSearchFindings
     \<Rightarrow> ('d die_memory, bool \<times> 'd VarattrSearchFindings) prog" where
  "find_runtime_variable_m L search_for p level f =
     then_do (load_die p) (\<lambda>die.
       let f1 = (if use_scope search_for then leave_scope level f else f) in
       if use_scope search_for \<and> sd_has_tag L die DW_TAG_subprogram then
         return (False, enter_subprogram L (vs_pc search_for) die level f1)
       else if \<not> use_scope search_for \<or> (use_scope search_for \<and> in_scope f1) then
         match_variable_m L (vs_var_name search_for) p f1
       else return (False, f1))"

text \<open>As a callback, on the optional data of the search on values.\<close>

definition callback__find_runtime_variable_m ::
  "('d, 'w) libdwarf \<Rightarrow> VarattrSearchFor \<Rightarrow> ('d, 'd VarattrSearchFindings option) die_callback" where
  "callback__find_runtime_variable_m L search_for p level f =
     (case f of
        None \<Rightarrow> return (True, None)
      | Some f \<Rightarrow> then_do (find_runtime_variable_m L search_for p level f)
          (\<lambda>(found, f'). return (found, Some f')))"

definition search_variable_m ::
  "('d, 'w) libdwarf \<Rightarrow> VarattrSearchFor \<Rightarrow> 'd VarattrSearchFindings \<Rightarrow> 'w
     \<Rightarrow> ('d die_memory, dw_code \<times> 'd VarattrSearchFindings \<times> 'w) prog" where
  "search_variable_m L search_for f w =
     then_do (sd_search_dwarf_dbg_m L (callback__find_runtime_variable_m L search_for) (Some f) w)
       (\<lambda>(res, f', w') m. case f' of None \<Rightarrow> None | Some f' \<Rightarrow> return (res, f', w') m)"

definition sd_runtime_variable_m ::
  "('d, 'w) libdwarf \<Rightarrow> dbg_addr \<Rightarrow> string \<Rightarrow> 'w
     \<Rightarrow> ('d die_memory, ('d SdVarattr \<times> string option \<times> u32) option \<times> 'w) prog" where
  "sd_runtime_variable_m L pc var_name w =
     (let search_for = \<lparr>vs_pc = pc, use_scope = True, vs_var_name = var_name\<rparr> in
      then_do (search_variable_m L search_for no_findings w) (\<lambda>(res, f, w).
        case res of
          DW_DLV_ERROR \<Rightarrow> return (None, w)
        | DW_DLV_NO_ENTRY \<Rightarrow>
            then_do (search_variable_m L (search_for\<lparr>use_scope := False\<rparr>) f w) (\<lambda>(res, f', w).
              if res \<noteq> DW_DLV_OK then return (None, w)
              else return (Some (found_variable f'), w))
        | DW_DLV_OK \<Rightarrow> return (Some (found_variable f), w)))"

section \<open>How the search uses the DIEs\<close>

text \<open>
  A search that was entered with the DIE \<open>in_die\<close> and has come to \<open>cur_die\<close> leaves the other
  objects that were there as they were. When it has visited all DIEs, \<open>cur_die\<close> is freed unless
  it is \<open>in_die\<close>, and nothing that was opened is left.
\<close>

definition left_by :: "die_ptr \<Rightarrow> die_ptr \<Rightarrow> dw_code \<Rightarrow> 'd die_memory \<Rightarrow> 'd die_memory \<Rightarrow> bool" where
  "left_by in_die cur_die res m m' \<longleftrightarrow>
     unused m' \<and> next_die m \<le> next_die m' \<and>
     (\<forall>p < next_die m. p \<noteq> cur_die \<or> cur_die = in_die \<longrightarrow> die_at m' p = die_at m p) \<and>
     (res = DW_DLV_NO_ENTRY \<longrightarrow>
        die_at m' = (if cur_die = in_die then die_at m else (die_at m)(cur_die := None)))"

lemma memory_simps [simp]:
  "die_at (with_die d m) = (die_at m)(next_die m \<mapsto> d)" "next_die (with_die d m) = next_die m + 1"
  "die_at (without_die p m) = (die_at m)(p := None)" "next_die (without_die p m) = next_die m"
  by (simp_all add: with_die_def without_die_def)

lemma load_die_Some [simp]: "die_at m p = Some d \<Longrightarrow> load_die p m = Some (Value (d, m))"
  by (simp add: load_die_def)

lemma load_die_None [simp]: "die_at m p = None \<Longrightarrow> load_die p m = Some Undefined"
  by (simp add: load_die_def)

lemma free_die_Some [simp]: "die_at m p = Some d \<Longrightarrow> free_die p m = Some (Value ((), without_die p m))"
  by (simp add: free_die_def)

lemma open_die_apply [simp]: "open_die d m = Some (Value (next_die m, with_die d m))"
  by (simp add: open_die_def)

lemma unused_with_die [simp]: "unused m \<Longrightarrow> unused (with_die d m)"
  by (simp add: unused_def)

lemma unused_without_die [simp]: "unused m \<Longrightarrow> unused (without_die p m)"
  by (simp add: unused_def)

lemma unused_live: "unused m \<Longrightarrow> die_at m p = Some d \<Longrightarrow> p < next_die m"
  unfolding unused_def by (metis not_le option.distinct(1))

lemma unused_next [simp]: "unused m \<Longrightarrow> die_at m (next_die m) = None"
  by (simp add: unused_def)

lemma then_do_Undefined [simp]: "m st = Some Undefined \<Longrightarrow> then_do m f st = Some Undefined"
  by (simp add: then_do_def)

lemma left_by_sibling:
  assumes left: "left_by in_die (next_die m) res
      (if cur_die \<noteq> in_die then without_die cur_die (with_die c m) else with_die c m) m'"
    and "unused m" and live: "in_die < next_die m" "cur_die < next_die m"
  shows "left_by in_die cur_die res m m'"
proof -
  have new: "(die_at m)(next_die m := None) = die_at m"
    using \<open>unused m\<close> by (simp add: fun_upd_idem)
  show ?thesis
  proof (cases "cur_die = in_die")
    case True
    with left live show ?thesis by (simp add: left_by_def new)
  next
    case False
    have "((die_at m)(next_die m \<mapsto> c, cur_die := None))(next_die m := None) = (die_at m)(cur_die := None)"
      using live \<open>unused m\<close> by (auto simp: fun_eq_iff)
    with left live False show ?thesis by (simp add: left_by_def)
  qed
qed

text \<open>
  What a search with pointers comes to, beside the result of the search on values: the same
  result; or, if its callback may free DIEs, it uses one that was freed.
\<close>

definition agrees ::
  "bool \<Rightarrow> bool \<Rightarrow> die_ptr \<Rightarrow> die_ptr \<Rightarrow> 'd die_memory \<Rightarrow> dw_code \<times> 'f
     \<Rightarrow> ((dw_code \<times> 'f) \<times> 'd die_memory) outcome option \<Rightarrow> bool" where
  "agrees may_free may_find in_die cur_die m r x \<longleftrightarrow>
     may_free \<and> x = Some Undefined \<or>
     (\<exists>m'. x = Some (Value (r, m')) \<and> (fst r = DW_DLV_OK \<longrightarrow> may_find) \<and>
        left_by in_die cur_die (fst r) m m')"

lemma agreesE:
  assumes "agrees may_free may_find in_die cur_die m r x"
  obtains "may_free" "x = Some Undefined"
  | m' where "x = Some (Value (r, m'))" "fst r = DW_DLV_OK \<longrightarrow> may_find" "left_by in_die cur_die (fst r) m m'"
  using assms by (auto simp: agrees_def)

lemma agrees_left:
  "agrees may_free may_find in_die p n r x \<Longrightarrow>
   (\<And>m'. left_by in_die p (fst r) n m' \<Longrightarrow> left_by in_die cur_die (fst r) m m') \<Longrightarrow>
   agrees may_free may_find in_die cur_die m r x"
  by (auto simp: agrees_def)

lemma loop_m_freed:
  "die_at m cur_die = None \<Longrightarrow> sd_search_die_loop_m L is_info level cb in_die cur_die f m = Some Undefined"
  by (subst sd_search_die_loop_m.simps) simp

text \<open>
  The contract of a callback and its counterpart with pointers. \<open>good\<close> singles out the data that
  count; they come from data that count.
\<close>

locale die_search =
  fixes cb :: "('d, 'f) callback" and cbm :: "('d, 'f) die_callback"
    and good :: "'f \<Rightarrow> bool" and may_free may_find :: bool
  assumes good_back: "cb d level f = (b, f') \<Longrightarrow> good f' \<Longrightarrow> good f"
    and same: "cb d level f = (b, f') \<Longrightarrow> good f' \<Longrightarrow> die_at m p = Some d \<Longrightarrow>
      may_free \<and> cbm p level f m = Some Undefined \<or>
      (b \<longrightarrow> may_find) \<and> cbm p level f m = Some (Value ((b, f'), m)) \<or>
      may_free \<and> \<not> b \<and> cbm p level f m = Some (Value ((b, f'), without_die p m))"
begin

abbreviation step_m where
  "step_m L is_info level in_die p f \<equiv>
     then_do (cbm p level f) (\<lambda>(found, f') m.
       if found then return (DW_DLV_OK, f') m
       else sd_search_die_loop_m L is_info level cbm in_die p f' m)"

abbreviation sound where
  "sound S \<equiv> \<forall>L is_info level d f r. S L is_info level cb d f = Some r \<longrightarrow> good (snd r) \<longrightarrow>
     good f \<and> (\<forall>m in_die p. unused m \<longrightarrow> die_at m in_die \<noteq> None \<longrightarrow> die_at m p = Some d \<longrightarrow>
       agrees may_free may_find in_die p m r (sd_search_die_loop_m L is_info level cbm in_die p f m))"

lemma soundD:
  "sound S \<Longrightarrow> S L is_info level cb d f = Some r \<Longrightarrow> good (snd r) \<Longrightarrow>
   good f \<and> (unused m \<longrightarrow> die_at m in_die \<noteq> None \<longrightarrow> die_at m p = Some d \<longrightarrow>
     agrees may_free may_find in_die p m r (sd_search_die_loop_m L is_info level cbm in_die p f m))"
  by blast

text \<open>Calling the callback on a DIE and going on with the loop from there.\<close>

lemma step_agrees:
  assumes S: "sound S" and good: "good (snd r)"
    and r: "(case cb d level f of (found, f') \<Rightarrow>
      if found then Some (DW_DLV_OK, f') else S L is_info level cb d f') = Some r"
  shows "good f \<and> (unused m \<longrightarrow> die_at m in_die \<noteq> None \<longrightarrow> die_at m p = Some d \<longrightarrow>
    agrees may_free may_find in_die p m r (step_m L is_info level in_die p f m))"
proof -
  obtain b f' where cb: "cb d level f = (b, f')" by fastforce
  have rest: "good f' \<and> (unused m \<longrightarrow> die_at m in_die \<noteq> None \<longrightarrow> die_at m p = Some d \<longrightarrow>
      agrees may_free may_find in_die p m r (sd_search_die_loop_m L is_info level cbm in_die p f' m))"
    if "\<not> b"
    using r cb that by (intro soundD [where S = S, OF S _ good]) simp
  have f': "good f'" using rest good r cb by (cases b) auto
  have "agrees may_free may_find in_die p m r (step_m L is_info level in_die p f m)"
    if m: "unused m" "die_at m in_die \<noteq> None" "die_at m p = Some d"
  proof -
    consider "may_free" "cbm p level f m = Some Undefined"
      | "b \<longrightarrow> may_find" "cbm p level f m = Some (Value ((b, f'), m))"
      | "may_free" "\<not> b" "cbm p level f m = Some (Value ((b, f'), without_die p m))"
      using same [OF cb f' m(3)] by blast
    then show ?thesis
    proof cases
      case 2
      then show ?thesis
        using rest r cb m by (cases b) (auto simp: then_do_def agrees_def left_by_def)
    qed (simp_all add: agrees_def then_do_def loop_m_freed)
  qed
  with good_back [OF cb f'] show ?thesis by blast
qed

text \<open>The children of a DIE: what was opened for them is freed.\<close>

abbreviation child_part where
  "child_part L is_info level d f \<equiv>
     then_do (open_result (lw_child L d)) (\<lambda>child m.
       case child of
         DW_ERROR \<Rightarrow> return (DW_DLV_ERROR, f) m
       | DW_NO_ENTRY \<Rightarrow> return (DW_DLV_NO_ENTRY, f) m
       | DW_OK p \<Rightarrow>
           then_do (step_m L is_info (level + 1) p p f) (\<lambda>r. then_do (free_die p) (\<lambda>_. return r)) m)"

lemma child_agrees:
  assumes S: "sound S" and good: "good (snd r)"
    and r: "(case lw_child L d of
        DW_ERROR \<Rightarrow> Some (DW_DLV_ERROR, f)
      | DW_NO_ENTRY \<Rightarrow> Some (DW_DLV_NO_ENTRY, f)
      | DW_OK c \<Rightarrow> (case cb c (level + 1) f of (found, f') \<Rightarrow>
          if found then Some (DW_DLV_OK, f') else S L is_info (level + 1) cb c f')) = Some r"
  shows "good f \<and> (unused m \<longrightarrow> agrees may_free may_find p p m r (child_part L is_info level d f m))"
proof (cases "lw_child L d")
  case (DW_OK c)
  let ?p = "next_die m" and ?m = "with_die c m"
  have "good f \<and> (unused ?m \<longrightarrow> die_at ?m ?p \<noteq> None \<longrightarrow> die_at ?m ?p = Some c \<longrightarrow>
      agrees may_free may_find ?p ?p ?m r (step_m L is_info (level + 1) ?p ?p f ?m))"
    using DW_OK r by (intro step_agrees [where S = S, OF S good]) simp
  then show ?thesis
    using DW_OK unfolding agrees_def left_by_def
    by (auto simp: open_result_def then_do_def fun_upd_idem_iff fun_eq_iff unused_def)
next
  case DW_NO_ENTRY
  with r good show ?thesis by (auto simp: open_result_def agrees_def left_by_def)
next
  case DW_ERROR
  with r good show ?thesis by (auto simp: open_result_def agrees_def left_by_def)
qed

text \<open>The next sibling: the DIE that the search leaves is freed unless it came from outside.\<close>

abbreviation sibling_part where
  "sibling_part L is_info level in_die cur_die f \<equiv>
     then_do (load_die cur_die) (\<lambda>cur.
     then_do (open_result (lw_siblingof L is_info cur)) (\<lambda>sib.
     then_do (if cur_die \<noteq> in_die then free_die cur_die else return ()) (\<lambda>_ m.
       case sib of
         DW_NO_ENTRY \<Rightarrow> return (DW_DLV_NO_ENTRY, f) m
       | DW_ERROR \<Rightarrow> return (DW_DLV_ERROR, f) m
       | DW_OK p \<Rightarrow> step_m L is_info level in_die p f m)))"

lemma sibling_agrees:
  assumes S: "sound S" and good: "good (snd r)"
    and r: "(case lw_siblingof L is_info d of
        DW_NO_ENTRY \<Rightarrow> Some (DW_DLV_NO_ENTRY, f)
      | DW_ERROR \<Rightarrow> Some (DW_DLV_ERROR, f)
      | DW_OK c \<Rightarrow> (case cb c level f of (found, f') \<Rightarrow>
          if found then Some (DW_DLV_OK, f') else S L is_info level cb c f')) = Some r"
  shows "good f \<and> (unused m \<longrightarrow> die_at m in_die \<noteq> None \<longrightarrow> die_at m cur_die = Some d \<longrightarrow>
    agrees may_free may_find in_die cur_die m r (sibling_part L is_info level in_die cur_die f m))"
proof (cases "lw_siblingof L is_info d")
  case (DW_OK c)
  let ?p = "next_die m" and ?m = "if cur_die \<noteq> in_die then without_die cur_die (with_die c m) else with_die c m"
  have step: "good f \<and> (unused ?m \<longrightarrow> die_at ?m in_die \<noteq> None \<longrightarrow> die_at ?m ?p = Some c \<longrightarrow>
      agrees may_free may_find in_die ?p ?m r (step_m L is_info level in_die ?p f ?m))"
    using DW_OK r by (intro step_agrees [where S = S, OF S good]) simp
  have "agrees may_free may_find in_die cur_die m r (sibling_part L is_info level in_die cur_die f m)"
    if m: "unused m" "die_at m in_die \<noteq> None" "die_at m cur_die = Some d"
  proof -
    from m have live: "in_die < ?p" "cur_die < ?p" by (auto intro: unused_live)
    with m step have step: "agrees may_free may_find in_die ?p ?m r (step_m L is_info level in_die ?p f ?m)"
      by auto
    have part: "sibling_part L is_info level in_die cur_die f m = step_m L is_info level in_die ?p f ?m"
    proof -
      have "then_do (load_die cur_die) g m = g d m" for g :: "'d \<Rightarrow> ('d die_memory, dw_code \<times> 'f) prog"
        using m(3) by (simp add: then_do_def)
      moreover have "then_do (open_result (DW_OK c)) g m = g (DW_OK ?p) (with_die c m)"
        for g :: "_ \<Rightarrow> ('d die_memory, dw_code \<times> 'f) prog"
        by (simp add: open_result_def then_do_def)
      moreover have "then_do (if cur_die \<noteq> in_die then free_die cur_die else return ()) g (with_die c m) = g () ?m"
        for g :: "_ \<Rightarrow> ('d die_memory, dw_code \<times> 'f) prog"
        using m(3) live by (simp add: then_do_def)
      ultimately show ?thesis by (simp only: DW_OK dwres.case)
    qed
    show ?thesis
      unfolding part by (rule agrees_left [OF step left_by_sibling [OF _ m(1) live]])
  qed
  with step show ?thesis by blast
next
  case DW_NO_ENTRY
  with r good show ?thesis
    by (auto simp: open_result_def agrees_def left_by_def then_do_def)
next
  case DW_ERROR
  with r good show ?thesis
    by (auto simp: open_result_def agrees_def left_by_def then_do_def)
qed

lemma loop_m_parts:
  "sd_search_die_loop_m L is_info level cbm in_die p f m =
     then_do (load_die p) (\<lambda>d. then_do (child_part L is_info level d f) (\<lambda>(res, f1).
       case res of
         DW_DLV_ERROR \<Rightarrow> return (DW_DLV_ERROR, f1)
       | DW_DLV_OK \<Rightarrow> return (DW_DLV_OK, f1)
       | DW_DLV_NO_ENTRY \<Rightarrow> sibling_part L is_info level in_die p f1)) m"
  by (subst sd_search_die_loop_m.simps, unfold then_do_assoc)
    (intro arg_cong [where f = "\<lambda>g. then_do (load_die p) g m"] ext
      arg_cong2 [where f = then_do] refl, simp split: prod.split dw_code.split)

text \<open>What the search on values does with the children, and then with the next sibling.\<close>

abbreviation child_value where
  "child_value S L is_info level d f \<equiv>
     (case lw_child L d of
        DW_ERROR \<Rightarrow> Some (DW_DLV_ERROR, f)
      | DW_NO_ENTRY \<Rightarrow> Some (DW_DLV_NO_ENTRY, f)
      | DW_OK c \<Rightarrow> (case cb c (level + 1) f of (found, f') \<Rightarrow>
          if found then Some (DW_DLV_OK, f') else S L is_info (level + 1) cb c f'))"

abbreviation rest_value where
  "rest_value S L is_info level d r1 \<equiv>
     (case r1 of (res, f1) \<Rightarrow> case res of
        DW_DLV_ERROR \<Rightarrow> Some (DW_DLV_ERROR, f1)
      | DW_DLV_OK \<Rightarrow> Some (DW_DLV_OK, f1)
      | DW_DLV_NO_ENTRY \<Rightarrow> (case lw_siblingof L is_info d of
          DW_NO_ENTRY \<Rightarrow> Some (DW_DLV_NO_ENTRY, f1)
        | DW_ERROR \<Rightarrow> Some (DW_DLV_ERROR, f1)
        | DW_OK c \<Rightarrow> (case cb c level f1 of (found, f') \<Rightarrow>
            if found then Some (DW_DLV_OK, f') else S L is_info level cb c f')))"

abbreviation rest_part where
  "rest_part L is_info level in_die p r1 \<equiv>
     (case r1 of (res, f1) \<Rightarrow> case res of
        DW_DLV_ERROR \<Rightarrow> return (DW_DLV_ERROR, f1)
      | DW_DLV_OK \<Rightarrow> return (DW_DLV_OK, f1)
      | DW_DLV_NO_ENTRY \<Rightarrow> sibling_part L is_info level in_die p f1)"

lemma rest_agrees:
  assumes S: "sound S" and good: "good (snd r)" and r: "rest_value S L is_info level d r1 = Some r"
  shows "good (snd r1)"
    and "unused m \<Longrightarrow> die_at m in_die \<noteq> None \<Longrightarrow> die_at m p = Some d \<Longrightarrow> fst r1 = DW_DLV_OK \<longrightarrow> may_find \<Longrightarrow>
      left_by p p (fst r1) m m1 \<Longrightarrow> agrees may_free may_find in_die p m r (rest_part L is_info level in_die p r1 m1)"
proof -
  obtain code f1 where r1: "r1 = (code, f1)" by fastforce
  have sibling: "good f1 \<and> (unused m1 \<longrightarrow> die_at m1 in_die \<noteq> None \<longrightarrow> die_at m1 p = Some d \<longrightarrow>
      agrees may_free may_find in_die p m1 r (rest_part L is_info level in_die p r1 m1))"
    if "code = DW_DLV_NO_ENTRY" for m1
  proof -
    from r that have "(case lw_siblingof L is_info d of
          DW_NO_ENTRY \<Rightarrow> Some (DW_DLV_NO_ENTRY, f1)
        | DW_ERROR \<Rightarrow> Some (DW_DLV_ERROR, f1)
        | DW_OK c \<Rightarrow> (case cb c level f1 of (found, f') \<Rightarrow>
            if found then Some (DW_DLV_OK, f') else S L is_info level cb c f')) = Some r"
      by (simp only: r1 prod.case dw_code.case)
    then show ?thesis
      unfolding r1 that prod.case dw_code.case by (rule sibling_agrees [where S = S, OF S good])
  qed
  have ended: "r = r1" if "code \<noteq> DW_DLV_NO_ENTRY"
    using r that by (cases code) (simp_all add: r1)
  show "good (snd r1)"
    using ended good sibling by (cases "code = DW_DLV_NO_ENTRY") (auto simp: r1)
  assume m: "unused m" "die_at m in_die \<noteq> None" "die_at m p = Some d"
    and left: "left_by p p (fst r1) m m1" "fst r1 = DW_DLV_OK \<longrightarrow> may_find"
  show "agrees may_free may_find in_die p m r (rest_part L is_info level in_die p r1 m1)"
  proof (cases "code = DW_DLV_NO_ENTRY")
    case True
    with left(1) have m1: "unused m1" "die_at m1 = die_at m" "next_die m \<le> next_die m1"
      by (simp_all add: left_by_def r1)
    with sibling [OF True, of m1] m have step: "agrees may_free may_find in_die p m1 r (rest_part L is_info level in_die p r1 m1)"
      by metis
    show ?thesis by (rule agrees_left [OF step]) (use m1 in \<open>auto simp: left_by_def\<close>)
  next
    case False
    with left ended show ?thesis unfolding agrees_def left_by_def by (cases code) (auto simp: r1)
  qed
qed

lemma parts_agree:
  assumes S: "sound S" and good: "good (snd r)"
    and child: "child_value S L is_info level d f = Some r1" and rest: "rest_value S L is_info level d r1 = Some r"
  shows "good f \<and> (unused m \<longrightarrow> die_at m in_die \<noteq> None \<longrightarrow> die_at m p = Some d \<longrightarrow>
      agrees may_free may_find in_die p m r (sd_search_die_loop_m L is_info level cbm in_die p f m))"
proof -
  note children = child_agrees [where S = S, OF S rest_agrees(1) [where S = S, OF S good rest] child]
  have "agrees may_free may_find in_die p m r (sd_search_die_loop_m L is_info level cbm in_die p f m)"
    if m: "unused m" "die_at m in_die \<noteq> None" "die_at m p = Some d"
  proof -
    have parts: "sd_search_die_loop_m L is_info level cbm in_die p f m =
        then_do (child_part L is_info level d f) (\<lambda>r1. rest_part L is_info level in_die p r1) m"
      by (rule trans [OF loop_m_parts then_do_Value]) (rule load_die_Some [OF m(3)])
    from children m(1) have "agrees may_free may_find p p m r1 (child_part L is_info level d f m)" by blast
    then show ?thesis
    proof (cases rule: agreesE)
      case 1
      then show ?thesis unfolding parts agrees_def by simp
    next
      case (2 m1)
      then have "sd_search_die_loop_m L is_info level cbm in_die p f m = rest_part L is_info level in_die p r1 m1"
        unfolding parts by (simp add: then_do_Value)
      with rest_agrees(2) [where S = S, OF S good rest m 2(2,3)] show ?thesis by simp
    qed
  qed
  with children show ?thesis by blast
qed

lemma loop_agrees:
  assumes "sd_search_die_loop L is_info level c d f = Some r"
  shows "c = cb \<longrightarrow> good (snd r) \<longrightarrow>
    good f \<and> (\<forall>m in_die p. unused m \<longrightarrow> die_at m in_die \<noteq> None \<longrightarrow> die_at m p = Some d \<longrightarrow>
      agrees may_free may_find in_die p m r (sd_search_die_loop_m L is_info level cbm in_die p f m))"
  using assms
proof (induction rule: sd_search_die_loop.raw_induct [rotated, consumes 1, case_names step])
  case (step S L is_info level c d f r)
  show ?case
  proof (intro impI)
    assume c: "c = cb" and good: "good (snd r)"
    with step(1) have S: "sound S" by blast
    from step(2) [unfolded c] obtain r1 where
      "child_value S L is_info level d f = Some r1" "rest_value S L is_info level d r1 = Some r"
      unfolding bind_eq_Some_conv by blast
    from parts_agree [where S = S, OF S good this] show "good f \<and> (\<forall>m in_die p. unused m \<longrightarrow> die_at m in_die \<noteq> None \<longrightarrow>
        die_at m p = Some d \<longrightarrow>
        agrees may_free may_find in_die p m r (sd_search_die_loop_m L is_info level cbm in_die p f m))"
      by blast
  qed
qed

lemma die_agrees:
  assumes "sd_search_dwarf_die L is_info level cb d f = Some r" and good: "good (snd r)"
  shows "good f \<and> (unused m \<longrightarrow> die_at m p = Some d \<longrightarrow>
    agrees may_free may_find p p m r (sd_search_dwarf_die_m L is_info level cbm p f m))"
proof -
  have S: "sound sd_search_die_loop" using loop_agrees by blast
  have step: "sd_search_dwarf_die_m L is_info level cbm p f m = step_m L is_info level p p f m"
    unfolding sd_search_dwarf_die_m_def
    by (intro arg_cong2 [where f = "\<lambda>g m. then_do (cbm p level f) g m"] ext refl) (simp split: prod.split)
  show ?thesis
    unfolding step using assms(1)
    by (intro impI conjI step_agrees [where S = sd_search_die_loop, OF S good, THEN conjunct1]
        step_agrees [where S = sd_search_die_loop, OF S good, THEN conjunct2, rule_format])
      (simp_all add: sd_search_dwarf_die_def)
qed

text \<open>One compilation unit: its DIE is opened, searched and freed.\<close>

lemma unit_agrees:
  assumes "sd_search_dwarf_die L is_info 0 cb cu f = Some r" and good: "good (snd r)"
  shows "good f \<and> (unused m \<longrightarrow> agrees may_free may_find p p m r
    (then_do (open_die cu) (\<lambda>cu_die. then_do (sd_search_dwarf_die_m L is_info 0 cbm cu_die f)
       (\<lambda>r. then_do (free_die cu_die) (\<lambda>_. return r))) m))"
proof -
  let ?p = "next_die m" and ?m = "with_die cu m"
  have unit: "good f \<and> (unused ?m \<longrightarrow> die_at ?m ?p = Some cu \<longrightarrow>
      agrees may_free may_find ?p ?p ?m r (sd_search_dwarf_die_m L is_info 0 cbm ?p f ?m))"
    by (rule die_agrees [OF assms])
  have "agrees may_free may_find p p m r
      (then_do (sd_search_dwarf_die_m L is_info 0 cbm ?p f) (\<lambda>r. then_do (free_die ?p) (\<lambda>_. return r)) ?m)"
    if "unused m"
  proof -
    from unit that have "agrees may_free may_find ?p ?p ?m r (sd_search_dwarf_die_m L is_info 0 cbm ?p f ?m)"
      by simp
    then show ?thesis
      using that
      by (cases rule: agreesE)
        (auto simp: agrees_def left_by_def then_do_def fun_upd_idem_iff fun_eq_iff unused_def)
  qed
  with unit show ?thesis by (simp add: then_do_Value)
qed

abbreviation then_unit where
  "then_unit L is_info finished w r \<equiv> (case r of (code, f) \<Rightarrow> case code of
       DW_DLV_ERROR \<Rightarrow> return (DW_DLV_ERROR, f, w)
     | DW_DLV_OK \<Rightarrow> sd_search_dbg_loop_m L cbm is_info True f w
     | DW_DLV_NO_ENTRY \<Rightarrow> sd_search_dbg_loop_m L cbm is_info finished f w)"

lemma dbg_loop_m_unit:
  assumes "lw_cu_die L is_info w' = DW_OK cu" "lw_next_cu L is_info w = (DW_OK u, w')" "\<not> finished"
  shows "sd_search_dbg_loop_m L cbm is_info finished f w m =
    then_do (then_do (open_die cu) (\<lambda>cu_die. then_do (sd_search_dwarf_die_m L is_info 0 cbm cu_die f)
       (\<lambda>r. then_do (free_die cu_die) (\<lambda>_. return r)))) (then_unit L is_info finished w') m"
  unfolding sd_search_dbg_loop_m.simps [of L cbm is_info finished f w m] then_do_assoc
  using assms by (auto simp: then_do_def split: option.split outcome.split prod.split dw_code.split)

lemma unit_then_agrees:
  assumes cu: "lw_cu_die L is_info w' = DW_OK cu" "lw_next_cu L is_info w = (DW_OK u, w')" "\<not> finished"
    and unit: "sd_search_dwarf_die L is_info 0 cb cu f = Some (code, f1)"
    and f1: "good f1" and going_on: "code \<noteq> DW_DLV_NO_ENTRY \<longrightarrow> fst r \<noteq> DW_DLV_NO_ENTRY"
    and later: "\<And>m. unused m \<Longrightarrow>
      agrees may_free (may_find \<or> code = DW_DLV_OK) p p m r (then_unit L is_info finished w' (code, f1) m)"
    and m: "unused m"
  shows "good f" "agrees may_free may_find p p m r (sd_search_dbg_loop_m L cbm is_info finished f w m)"
proof -
  note unit_agrees = unit_agrees [OF unit, where m = m and p = p]
  from f1 unit_agrees show "good f" by simp
  from f1 unit_agrees m have "agrees may_free may_find p p m (code, f1)
      (then_do (open_die cu) (\<lambda>cu_die. then_do (sd_search_dwarf_die_m L is_info 0 cbm cu_die f)
         (\<lambda>r. then_do (free_die cu_die) (\<lambda>_. return r))) m)" by simp
  then show "agrees may_free may_find p p m r (sd_search_dbg_loop_m L cbm is_info finished f w m)"
  proof (cases rule: agreesE)
    case 1
    then show ?thesis unfolding dbg_loop_m_unit [OF cu] by (simp add: agrees_def)
  next
    case (2 m1)
    have result: "sd_search_dbg_loop_m L cbm is_info finished f w m = then_unit L is_info finished w' (code, f1) m1"
      unfolding dbg_loop_m_unit [OF cu] using 2(1) by (rule then_do_Value)
    have "unused m1" using 2(3) by (simp add: left_by_def)
    moreover have "(may_find \<or> code = DW_DLV_OK) = may_find" using 2(2) by auto
    ultimately have step: "agrees may_free may_find p p m1 r (then_unit L is_info finished w' (code, f1) m1)"
      using later by (simp only:)
    show ?thesis
      unfolding result by (rule agrees_left [OF step]) (use 2(3) going_on in \<open>auto simp: left_by_def\<close>)
  qed
qed

text \<open>The cases in which the loop stops at once or goes on without a unit.\<close>

lemma dbg_loop_m_simple:
  "lw_next_cu L is_info w = (DW_ERROR, w') \<Longrightarrow>
   sd_search_dbg_loop_m L cbm is_info finished f w m = Some (Value ((DW_DLV_ERROR, f, w'), m))"
  "lw_next_cu L True w = (DW_NO_ENTRY, w') \<Longrightarrow>
   sd_search_dbg_loop_m L cbm True finished f w m = sd_search_dbg_loop_m L cbm False finished f w' m"
  "lw_next_cu L False w = (DW_NO_ENTRY, w') \<Longrightarrow>
   sd_search_dbg_loop_m L cbm False finished f w m =
     Some (Value ((if finished then DW_DLV_OK else DW_DLV_NO_ENTRY, f, w'), m))"
  "lw_next_cu L is_info w = (DW_OK u, w') \<Longrightarrow>
   sd_search_dbg_loop_m L cbm is_info True f w m = sd_search_dbg_loop_m L cbm is_info True f w' m"
  "lw_next_cu L is_info w = (DW_OK u, w') \<Longrightarrow> lw_cu_die L is_info w' = DW_ERROR \<Longrightarrow>
   sd_search_dbg_loop_m L cbm is_info False f w m = Some (Value ((DW_DLV_ERROR, f, w'), m))"
  "lw_next_cu L is_info w = (DW_OK u, w') \<Longrightarrow> lw_cu_die L is_info w' = DW_NO_ENTRY \<Longrightarrow>
   sd_search_dbg_loop_m L cbm is_info False f w m = Some (Value ((DW_DLV_NO_ENTRY, f, w'), m))"
  by (simp_all add: sd_search_dbg_loop_m.simps [of L cbm is_info finished f w]
      sd_search_dbg_loop_m.simps [of L cbm True finished f w] sd_search_dbg_loop_m.simps [of L cbm False finished f w]
      sd_search_dbg_loop_m.simps [of L cbm is_info True f w] sd_search_dbg_loop_m.simps [of L cbm is_info False f w])

lemma dbg_loop_agrees:
  assumes "sd_search_dbg_loop L c is_info finished f w = Some r"
  shows "c = cb \<longrightarrow> good (fst (snd r)) \<longrightarrow>
    good f \<and> (finished \<longrightarrow> fst r \<noteq> DW_DLV_NO_ENTRY) \<and> (\<forall>m p. unused m \<longrightarrow>
      agrees may_free (may_find \<or> finished) p p m r (sd_search_dbg_loop_m L cbm is_info finished f w m))"
  using assms
proof (induction rule: sd_search_dbg_loop.raw_induct [rotated, consumes 1, case_names step])
  case (step S L c is_info finished f w r)
  let ?claim = "\<lambda>i fin g v. good g \<and> (fin \<longrightarrow> fst r \<noteq> DW_DLV_NO_ENTRY) \<and> (\<forall>m p. unused m \<longrightarrow>
      agrees may_free (may_find \<or> fin) p p m r (sd_search_dbg_loop_m L cbm i fin g v m))"
  obtain res w' where next_cu: "lw_next_cu L is_info w = (res, w')" by fastforce
  show ?case
  proof (intro impI)
    assume c: "c = cb" and good: "good (fst (snd r))"
    have IH: "?claim i fin g v" if "S L cb i fin g v = Some r" for i fin g v
      using step(1) [OF that] good by blast
    consider "res = DW_ERROR" | "res = DW_NO_ENTRY" is_info | "res = DW_NO_ENTRY" "\<not> is_info"
      | u where "res = DW_OK u" finished | u where "res = DW_OK u" "\<not> finished"
      by (cases res) auto
    then show "?claim is_info finished f w"
    proof cases
      case (5 u)
      note cu = next_cu [unfolded 5(1)] 5(2)
      show ?thesis
      proof (cases "lw_cu_die L is_info w'")
        case (DW_OK cu)
        from step(2) 5 next_cu DW_OK obtain code f1 where
          unit: "sd_search_dwarf_die L is_info 0 cb cu f = Some (code, f1)"
          and rest: "(case code of
              DW_DLV_ERROR \<Rightarrow> Some (DW_DLV_ERROR, f1, w')
            | DW_DLV_OK \<Rightarrow> S L cb is_info True f1 w'
            | DW_DLV_NO_ENTRY \<Rightarrow> S L cb is_info finished f1 w') = Some r"
          unfolding c by (auto simp: bind_eq_Some_conv)
        have later: "good f1 \<and> (code \<noteq> DW_DLV_NO_ENTRY \<longrightarrow> fst r \<noteq> DW_DLV_NO_ENTRY) \<and> (unused m \<longrightarrow>
            agrees may_free (may_find \<or> code = DW_DLV_OK) p p m r (then_unit L is_info finished w' (code, f1) m))" for m p
          using rest good IH [of is_info True f1 w'] IH [of is_info finished f1 w'] 5(2)
          by (cases code) (auto simp: agrees_def left_by_def)
        have "good f \<and> agrees may_free may_find p p m r (sd_search_dbg_loop_m L cbm is_info finished f w m)"
          if "unused m" for m p
          using unit_then_agrees [OF DW_OK cu unit, of r p m] later that by blast
        then show ?thesis using 5(2) unit_agrees [OF unit] later by auto
      qed (use step(2) 5 next_cu good in \<open>auto simp: c dbg_loop_m_simple agrees_def left_by_def\<close>)
    next
      case 2
      with step(2) next_cu have "S L cb False finished f w' = Some r" by (simp add: c)
      from IH [OF this] 2 next_cu show ?thesis by (simp add: dbg_loop_m_simple)
    next
      case (4 u)
      with step(2) next_cu have "S L cb is_info finished f w' = Some r" by (simp add: c)
      from IH [OF this] 4 next_cu show ?thesis by (simp add: dbg_loop_m_simple)
    qed (use step(2) next_cu good in \<open>auto simp: c dbg_loop_m_simple agrees_def left_by_def\<close>)
  qed
qed

lemma dbg_agrees:
  assumes "sd_search_dwarf_dbg L cb f w = Some r" and "good (fst (snd r))" and "unused m"
  shows "agrees may_free may_find p p m r (sd_search_dwarf_dbg_m L cbm f w m)"
  using dbg_loop_agrees [of L cb True False f w r] assms
  by (simp add: sd_search_dwarf_dbg_def sd_search_dwarf_dbg_m_def)

end

text \<open>A callback that only reads its DIE.\<close>

interpretation reading: die_search cb "reading cb" "\<lambda>_. True" False True for cb :: "('d, 'f) callback"
  by unfold_locales (simp_all add: reading_def then_do_Value)

text \<open>
  The callback that looks for a variable: when it accepts a DIE it has freed it before it reads
  the location.
\<close>

lemma variable_type_m:
  assumes "die_at m p = Some d" and "sd_variable_type L d = Some type"
  shows "sd_variable_type_m L p m = Some (Value (type, m)) \<and> type = None \<or>
    sd_variable_type_m L p m = Some (Value (type, without_die p m))"
  using assms
  by (auto simp: sd_variable_type_m_def sd_variable_type_def then_do_def split: if_splits prod.splits)

lemma match_variable_agrees:
  assumes die: "die_at m p = Some d" and match: "match_variable L name d f = Some (b, f')"
  shows "match_variable_m L name p f m = Some Undefined \<or>
    \<not> b \<and> match_variable_m L name p f m = Some (Value ((b, f'), m)) \<or>
    \<not> b \<and> match_variable_m L name p f m = Some (Value ((b, f'), without_die p m))"
proof (cases "is_variable_die L name d")
  case True
  with match obtain type where type: "sd_variable_type L d = Some type"
    by (auto simp: match_variable_def is_variable_die_def str_eq_def split: option.splits)
  from True match type have none: "type = None \<Longrightarrow> \<not> b \<and> f' = f"
    by (auto simp: match_variable_def is_variable_die_def str_eq_def)
  from True die have m: "match_variable_m L name p f m =
      then_do (sd_variable_type_m L p) (\<lambda>type.
        case type of
          None \<Rightarrow> return (False, f)
        | Some type_buf \<Rightarrow>
            then_do (load_die p) (\<lambda>die'.
              case lw_attr L die' DW_AT_location of
                DW_OK loc \<Rightarrow>
                  (case sd_init_loc_attr L die' loc of
                     Some loc_attr_buf \<Rightarrow>
                       return (True, f\<lparr>decl_file := declared_in L d, decl_line := declared_at L d,
                                       loc_attr := Some loc_attr_buf, var_type := type_buf\<rparr>)
                   | None \<Rightarrow> return (False, f))
              | _ \<Rightarrow> return (False, f))) m"
    by (simp add: match_variable_m_def is_variable_die_def str_eq_def then_do_Value)
  from variable_type_m [OF die type] show ?thesis
    unfolding m
    by (cases type) (auto simp: then_do_Value none)
next
  case False
  with assms show ?thesis
    by (auto simp: match_variable_m_def match_variable_def is_variable_die_def str_eq_def then_do_Value
        split: if_splits dwres.splits)
qed

lemma find_runtime_variable_agrees:
  assumes die: "die_at m p = Some d" and "find_runtime_variable L sf d level f = Some (b, f')"
  shows "find_runtime_variable_m L sf p level f m = Some Undefined \<or>
    \<not> b \<and> find_runtime_variable_m L sf p level f m = Some (Value ((b, f'), m)) \<or>
    \<not> b \<and> find_runtime_variable_m L sf p level f m = Some (Value ((b, f'), without_die p m))"
  using assms match_variable_agrees [OF die, of L "vs_var_name sf"]
  by (auto simp: find_runtime_variable_m_def find_runtime_variable_def then_do_Value Let_def
      split: if_splits)

interpretation variable: die_search "callback__find_runtime_variable L sf"
  "callback__find_runtime_variable_m L sf" "\<lambda>f. f \<noteq> None" True False
  for L :: "('d, 'w) libdwarf" and sf
proof
  show "f \<noteq> None" if "callback__find_runtime_variable L sf d level f = (b, f')" "f' \<noteq> None"
    for d level f b f'
    using that by (auto simp: callback__find_runtime_variable_def split: option.splits)
  show "True \<and> callback__find_runtime_variable_m L sf p level f m = Some Undefined \<or>
      (b \<longrightarrow> False) \<and> callback__find_runtime_variable_m L sf p level f m = Some (Value ((b, f'), m)) \<or>
      True \<and> \<not> b \<and> callback__find_runtime_variable_m L sf p level f m =
        Some (Value ((b, f'), without_die p m))"
    if "callback__find_runtime_variable L sf d level f = (b, f')" "f' \<noteq> None" "die_at m p = Some d"
    for d level f b f' p m
  proof -
    from that(1,2) obtain g g' where f: "f = Some g" "f' = Some g'"
      and found: "find_runtime_variable L sf d level g = Some (b, g')"
      by (auto simp: callback__find_runtime_variable_def split: option.splits)
    from find_runtime_variable_agrees [OF that(3) found] show ?thesis
      by (auto simp: callback__find_runtime_variable_m_def f then_do_Value)
  qed
qed

end
