(* ===== verification/Die_Properties.thy ===== *)
theory Die_Properties
  imports Simulation_Env Die_Memory
begin

text \<open>
  Properties of the DIEs that the search of \<^verbatim>\<open>src/src/spray_dwarf.c\<close> opens and frees.
\<close>

section \<open>Callbacks that only read\<close>

text \<open>
  C16. A search whose callback only reads the DIE it is called with never uses a DIE that was
  freed and frees none twice: it comes to the result of the search on values, the DIEs that were
  open before are still open, and a search that has visited all DIEs has freed every one that it
  has opened.
\<close>

theorem search_uses_open_dies:
  assumes "sd_search_dwarf_dbg L cb f w = Some (res, f', w')" and "unused m"
  shows "\<exists>m'. sd_search_dwarf_dbg_m L (reading cb) f w m = Some (Value ((res, f', w'), m')) \<and>
    (\<forall>p d. die_at m p = Some d \<longrightarrow> die_at m' p = Some d) \<and>
    (res = DW_DLV_NO_ENTRY \<longrightarrow> die_at m' = die_at m)"
proof -
  from reading.dbg_agrees [OF assms(1) _ assms(2), of 0] obtain m' where
    "sd_search_dwarf_dbg_m L (reading cb) f w m = Some (Value ((res, f', w'), m'))"
    and left: "left_by 0 0 res m m'" by (auto simp: agrees_def)
  moreover from left have "die_at m' p = Some d" if "die_at m p = Some d" for p d
    using that unused_live [OF assms(2) that] by (simp add: left_by_def)
  ultimately show ?thesis by (auto simp: left_by_def)
qed

definition no_dies :: "nat die_memory" where
  "no_dies = \<lparr>die_at = Map.empty, next_die = 0\<rparr>"

lemma unused_no_dies: "unused no_dies"
  by (simp add: unused_def no_dies_def)

theorem search_uses_open_dies_example:
  "\<exists>m'. sd_search_dwarf_dbg_m sim_dwarf (reading (\<lambda>d level n. (False, n + 1))) (0 :: nat) 0 no_dies =
     Some (Value ((DW_DLV_NO_ENTRY, 4, 0), m')) \<and> die_at m' = Map.empty"
proof -
  have "sd_search_dwarf_dbg sim_dwarf (\<lambda>d level n. (False, n + 1)) (0 :: nat) 0 = Some (DW_DLV_NO_ENTRY, 4, 0)"
    by (simp add: search_dwarf_dbg_scan [OF sim_dwarf_ok] sim_info_dies sim_dies_def search_code_def)
  from search_uses_open_dies [OF this unused_no_dies] show ?thesis by (simp add: no_dies_def)
qed

section \<open>The search for a variable\<close>

text \<open>
  C17. Whenever a variable is found, its DIE was freed before: \<^verbatim>\<open>sd_variable_type\<close> frees the DIE of
  its caller, which goes on to read the location from it. What the rest of the development says
  about the values of variables rests on libdwarf leaving the freed DIE as it was.
\<close>

theorem variable_die_used_after_free:
  assumes found: "sd_runtime_variable L pc name w = Some (Some v, w')" and "unused m"
  shows "sd_runtime_variable_m L pc name w m = Some Undefined"
proof -
  let ?sf = "\<lparr>vs_pc = pc, use_scope = True, vs_var_name = name\<rparr>"
  have search: "search_variable_m L sf f u n = Some Undefined \<or> res = DW_DLV_NO_ENTRY \<and>
      (\<exists>n'. search_variable_m L sf f u n = Some (Value ((res, g, u'), n')) \<and> unused n')"
    if "search_variable L sf f u = Some ((res, g), u')" "unused n" "res \<noteq> DW_DLV_ERROR" for sf f u res g u' n
  proof -
    from that(1) have "sd_search_dwarf_dbg L (callback__find_runtime_variable L sf) (Some f) u = Some (res, Some g, u')"
      by (auto simp: search_variable_def split: option.splits)
    from variable.dbg_agrees [OF this _ that(2), of 0] that(3) show ?thesis
      by (cases res) (auto simp: agrees_def left_by_def search_variable_m_def then_do_def)
  qed
  from found obtain res f u where first: "search_variable L ?sf no_findings w = Some ((res, f), u)"
    and ok: "res \<noteq> DW_DLV_ERROR"
    and second: "res = DW_DLV_NO_ENTRY \<Longrightarrow>
      \<exists>g. search_variable L (?sf\<lparr>use_scope := False\<rparr>) f u = Some ((DW_DLV_OK, g), w')"
    by (auto simp: sd_runtime_variable_def dw_bind_def dw_return_def Let_def
      split: option.splits dw_code.splits if_splits)
  from search [OF first assms(2) ok] show ?thesis
  proof
    assume "res = DW_DLV_NO_ENTRY \<and>
      (\<exists>n'. search_variable_m L ?sf no_findings w m = Some (Value ((res, f, u), n')) \<and> unused n')"
    then obtain n where n: "search_variable_m L ?sf no_findings w m = Some (Value ((DW_DLV_NO_ENTRY, f, u), n))"
      "unused n" and "res = DW_DLV_NO_ENTRY" by blast
    with second obtain g where "search_variable L (?sf\<lparr>use_scope := False\<rparr>) f u = Some ((DW_DLV_OK, g), w')" by blast
    from search [OF this n(2)] n(1) show ?thesis
      by (simp add: sd_runtime_variable_m_def then_do_Value Let_def)
  qed (simp add: sd_runtime_variable_m_def Let_def)
qed

theorem variable_die_used_after_free_example:
  "sd_runtime_variable_m sim_dwarf (DbgAddr 0x401008) ''x'' 0 no_dies = Some Undefined"
  by (rule variable_die_used_after_free [OF sim_variable unused_no_dies]) simp_all

end
