(* ===== verification/Loclist_Text.thy ===== *)
theory Loclist_Text
  imports Variables
begin

text \<open>
  \<^verbatim>\<open>print_loclist\<close> of \<^verbatim>\<open>src/src/spray_dwarf.c\<close> with \<^verbatim>\<open>indent_by\<close> of \<^verbatim>\<open>src/src/magic.c\<close>: the text of a
  location list. \<^verbatim>\<open>n_digits\<close> is computed in floating point, which is not exact for large numbers,
  so that the number of digits of an address is a parameter here.
\<close>

section \<open>The text\<close>

definition indent_by :: "nat \<Rightarrow> string" where
  "indent_by n_spaces = replicate n_spaces (CHR '' '')"

definition operands_text :: "SdOperation \<Rightarrow> string" where
  "operands_text op =
     (let n = sd_n_operands (opcode op) in
      (if n > 0 then '':'' else []) @
      concat (map (\<lambda>v. '' '' @ show_int (sint v)) (take n [operand1 op, operand2 op, operand3 op])))"

text \<open>An operator without a name is a null pointer, which \<^verbatim>\<open>printf\<close> must not be given.\<close>

definition operation_text :: "SdOperation \<Rightarrow> string c_result" where
  "operation_text op =
     (case sd_what_operator (opcode op) of
        None \<Rightarrow> UB
      | Some name \<Rightarrow> Defined (name @ operands_text op @ newline))"

text \<open>All operations but the first are indented.\<close>

fun operations_text :: "nat \<Rightarrow> nat \<Rightarrow> SdExpression \<Rightarrow> string c_result" where
  "operations_text w j [] = Defined []"
| "operations_text w j (op # ops) =
     c_bind (operation_text op) (\<lambda>line.
     c_bind (operations_text w (j + 1) ops) (\<lambda>rest.
       Defined ((if j > 0 then indent_by w else []) @ line @ rest)))"

definition range_text :: "SdLocRange \<Rightarrow> string" where
  "range_text rng =
     (if meaningful rng
      then ''PC: [0x'' @ show_base 16 (unat (dbg_value (lr_lowpc rng))) @ '', 0x'' @
        show_base 16 (unat (dbg_value (lr_highpc rng))) @ '') ''
      else [])"

definition entry_text :: "(u64 \<Rightarrow> nat) \<Rightarrow> nat \<Rightarrow> SdExpression \<times> SdLocRange \<Rightarrow> string c_result" where
  "entry_text digits i = (\<lambda>(expr, rng).
     let n_index_chars = digits (of_nat i) + 1;
         n_range_chars =
           (if meaningful rng then digits (dbg_value (lr_lowpc rng)) + digits (dbg_value (lr_highpc rng)) + 13 else 0)
     in c_bind (operations_text (n_index_chars + n_range_chars) 0 expr) (\<lambda>operations.
          Defined (show_base 10 i @ '' '' @ range_text rng @ operations)))"

fun print_entries :: "(u64 \<Rightarrow> nat) \<Rightarrow> nat \<Rightarrow> SdLoclist \<Rightarrow> string c_result" where
  "print_entries digits i [] = Defined []"
| "print_entries digits i (entry # entries) =
     c_bind (entry_text digits i entry) (\<lambda>s.
     c_bind (print_entries digits (i + 1) entries) (\<lambda>rest. Defined (s @ rest)))"

definition print_loclist :: "(u64 \<Rightarrow> nat) \<Rightarrow> SdLoclist \<Rightarrow> string c_result" where
  "print_loclist digits loclist = print_entries digits 0 loclist"

section \<open>The columns\<close>

text \<open>The text is defined if every operator has a name.\<close>

definition line_of :: "SdOperation \<Rightarrow> string" where
  "line_of op = the (sd_what_operator (opcode op)) @ operands_text op @ newline"

lemma operations_text_named:
  assumes "\<forall>op \<in> set ops. sd_what_operator (opcode op) \<noteq> None"
  shows "operations_text w (Suc j) ops = Defined (concat (map (\<lambda>op. indent_by w @ line_of op) ops))"
  using assms by (induction ops arbitrary: j) (auto simp: operation_text_def line_of_def)

text \<open>
  The first operation of an entry starts behind the index and the range, the others behind as many
  spaces. Even if the digits are counted exactly the columns differ for an entry with a range: the
  addresses are printed in base 16, but their digits are counted in base 10.
\<close>

lemma entry_columns:
  assumes named: "\<forall>op \<in> set (op # ops). sd_what_operator (opcode op) \<noteq> None"
    and digits: "\<And>v. digits v = n_digits (unat v)" and small: "i < 2 ^ 64"
  shows "\<exists>start w. entry_text digits i (op # ops, rng) =
      Defined (start @ line_of op @ concat (map (\<lambda>op. indent_by w @ line_of op) ops)) \<and>
    (if meaningful rng
     then int w - int (length start) =
       int (length (show_base 10 (unat (dbg_value (lr_lowpc rng))))) -
       int (length (show_base 16 (unat (dbg_value (lr_lowpc rng))))) +
       (int (length (show_base 10 (unat (dbg_value (lr_highpc rng))))) -
       int (length (show_base 16 (unat (dbg_value (lr_highpc rng))))))
     else w = length start)"
proof -
  let ?w = "digits (of_nat i) + 1 + (if meaningful rng
      then digits (dbg_value (lr_lowpc rng)) + digits (dbg_value (lr_highpc rng)) + 13 else 0)"
  have i: "unat (of_nat i :: u64) = i" using small by (simp add: unat_of_nat)
  have "entry_text digits i (op # ops, rng) = Defined ((show_base 10 i @ '' '' @ range_text rng) @ line_of op @
      concat (map (\<lambda>op. indent_by ?w @ line_of op) ops))"
    using named operations_text_named [of ops ?w 0]
    by (auto simp: entry_text_def operation_text_def line_of_def Let_def)
  then show ?thesis
    by (intro exI [of _ "show_base 10 i @ '' '' @ range_text rng"] exI [of _ ?w])
      (simp add: digits n_digits_length i range_text_def)
qed

end
