(* ===== verification/Spec2Isabelle.thy ===== *)
theory Spec2Isabelle
  imports Machine_Properties Debug_Info_Properties Debugger_Properties Memory_Properties
    Die_Properties Loclist_Text
begin

text \<open>
  A verification development of Spray, a small source-level debugger for C programs on Linux
  and x86-64 (\<^verbatim>\<open>src/src/\<close>). Spray forks, lets the child execute the program under \<^verbatim>\<open>ptrace\<close>, and
  reads commands that set breakpoints, step, and print and set registers, memory and variables.

  The parts of the program and the theories that model them, from the machine upwards:

  \<^item> \<^verbatim>\<open>Prelude\<close>: words and bytes, C strings, the numbers that \<^verbatim>\<open>printf\<close> prints and \<^verbatim>\<open>strtol\<close> reads,
    and \<open>c_result\<close>, the result of a computation that C may leave undefined or that aborts.
  \<^item> \<^verbatim>\<open>Magic\<close> (\<^verbatim>\<open>magic.c\<close>): address types, filters for values, relative paths.
  \<^item> \<^verbatim>\<open>Ptrace\<close> (\<^verbatim>\<open>ptrace.c\<close>) and \<^verbatim>\<open>Registers\<close> (\<^verbatim>\<open>registers.c\<close>): the requests to the kernel with
    their error conventions, and the table of registers. The kernel is a record of functions on
    an arbitrary state of the process; what the code relies on of it are the hypotheses
    \<open>kernel_mem\<close> and \<open>kernel_regs\<close>.
  \<^item> \<^verbatim>\<open>Breakpoints\<close> (\<^verbatim>\<open>breakpoints.c\<close>): the table of breakpoints and the patching of the code with
    \<^verbatim>\<open>int 3\<close>. The hash map is a parameter with the hypothesis \<open>hashmap_ok\<close>. The locale
    \<open>breakpoint_store\<close> states the contract of the table for its clients.
  \<^item> \<^verbatim>\<open>Dwarf_Search\<close>, \<^verbatim>\<open>Dwarf_Die\<close>, \<^verbatim>\<open>Dwarf_Lines\<close>, \<^verbatim>\<open>Dwarf_Types\<close>, \<^verbatim>\<open>Dwarf_Ops\<close>, \<^verbatim>\<open>Dwarf_Loc\<close>,
    \<^verbatim>\<open>Loclist_Text\<close> (\<^verbatim>\<open>spray_dwarf.c\<close>): the recursive search over DIEs and compilation units; attributes; line tables;
    types and variables; the tables of operators; location lists, the stack machine that
    evaluates them, and their text. libdwarf is the record \<open>libdwarf\<close>; \<open>dwarf_ok\<close> says that it presents trees.
  \<^item> \<^verbatim>\<open>Die_Memory\<close> (\<^verbatim>\<open>spray_dwarf.c\<close>): the search and the look-up of variables again, with the DIEs
    as objects that libdwarf opens and that the code frees. The other theories take DIEs as values.
  \<^item> \<^verbatim>\<open>Elf\<close> (\<^verbatim>\<open>spray_elf.c\<close>): parsing of executables, byte by byte, and the symbol table. The locale
    \<open>symbol_table\<close> is its interface.
  \<^item> \<^verbatim>\<open>Program\<close>: the state of the debugger, the environment, and programs on it as a state monad
    whose results are values, an abort, undefined behaviour, or \<open>None\<close> for no end.
  \<^item> \<^verbatim>\<open>Info\<close> (\<^verbatim>\<open>info.c\<close>): debug symbols in a buffer with cached positions and files; \<^verbatim>\<open>Variables\<close>
    (\<^verbatim>\<open>info.c\<close>): variables, the masking and printing of their values. \<^verbatim>\<open>Symbol_Memory\<close>: the same
    buffer as blocks of memory that \<^verbatim>\<open>realloc\<close> moves, and the functions that use symbols, with
    pointers. \<^verbatim>\<open>Symbol_Session\<close>: the functions on top of these, up to \<^verbatim>\<open>run_debugger\<close>, with pointers.
  \<^item> \<^verbatim>\<open>Backtrace\<close> (\<^verbatim>\<open>backtrace.c\<close>), \<^verbatim>\<open>History\<close> (\<^verbatim>\<open>history.c\<close>), \<^verbatim>\<open>Args\<close> (\<^verbatim>\<open>args.c\<close>), \<^verbatim>\<open>Messages\<close> (the
    messages of \<^verbatim>\<open>magic.c\<close>).
  \<^item> \<^verbatim>\<open>Stepping\<close>, \<^verbatim>\<open>Tokens\<close>, \<^verbatim>\<open>Commands\<close> (\<^verbatim>\<open>debugger.c\<close>): waiting and stepping; the language of the
    commands; their execution, the load address, the set-up of the tracee and the main loop.
  \<^item> \<^verbatim>\<open>Entry\<close> (\<^verbatim>\<open>spray.c\<close>, \<^verbatim>\<open>print_source.c\<close>): \<^verbatim>\<open>main\<close>, from the command line to the exit status.

  The state that the parts share is the record \<open>debugger\<close>: the process, the table of breakpoints,
  the position of libdwarf's iterator, the buffer of symbols, the load address, the last command
  and what has been printed. Pointers to symbols are indices into the buffer, but in
  \<^verbatim>\<open>Symbol_Memory\<close> and \<^verbatim>\<open>Symbol_Session\<close>. The functions that
  print are modelled by the events that they append to the output.

  What the groups of lemmas show:

  \<^item> \<^verbatim>\<open>Running\<close>: the locale \<open>stopped_process\<close> has the contract of a table of breakpoints in a state
    that lets the process run, and proves once, for any such invariant, that stepping is safe.
    Its interpretations are \<open>tab\<close>, the table alone, and \<open>code\<close>, the table with the code in memory.
  \<^item> \<^verbatim>\<open>Symbol_Simulation\<close> and \<^verbatim>\<open>Symbol_Session\<close>: the functions with pointers do what those with
    indices do, step by step for the functions that use symbols, and for whole sessions.
  \<^item> \<^verbatim>\<open>Die_Memory\<close>: the locale \<open>die_search\<close> has the contract of a callback and its counterpart on
    DIEs that can be freed, and compares the two searches once. Its interpretations are \<open>reading\<close>,
    for all callbacks that only read, where they agree, and \<open>variable\<close>, for the one that frees its
    DIE before it goes on to read it.
  \<^item> \<^verbatim>\<open>Ending\<close> and \<^verbatim>\<open>Commands_End\<close>: which computations and which commands come to an end.
    \<^verbatim>\<open>Session\<close>: which commands change what. \<^verbatim>\<open>Lookups\<close>: no command spoils the debug information or what is cached of it.
    \<^verbatim>\<open>Session_Effect\<close>: what a location means, and what a whole session does to the breakpoints,
    computed from its lines and the debug information.
  \<^item> The theories of the components hold the specifications that the properties refer to: a scan of
    the preorder of DIEs for the search, a search in a list for the symbol table, positions without
    a cache for the cached ones, chains of frame pointers for the backtraces.
  \<^item> \<^verbatim>\<open>Machine_Properties\<close>, \<^verbatim>\<open>Debug_Info_Properties\<close>, \<^verbatim>\<open>Debugger_Properties\<close>,
    \<^verbatim>\<open>Memory_Properties\<close> and \<^verbatim>\<open>Die_Properties\<close> state the properties C1 to C40.
  \<^item> \<^verbatim>\<open>Simulation\<close>, \<^verbatim>\<open>Simulation_Elf\<close> and \<^verbatim>\<open>Simulation_Env\<close>: a concrete kernel, hash map, libdwarf,
    executable file and process, for which all hypotheses hold; the examples use them.

  Bounds. \<^verbatim>\<open>step_line_loop\<close> gives up after \<^verbatim>\<open>SINGLE_STEP_SEARCH_LIMIT\<close> instructions, as the code does.
  No fuel is used: loops without a bound in the code (waiting, the walk over frames, the types of
  a variable, the search over units) are \<^theory_text>\<open>partial_function (option)\<close>, and the properties prove that they
  end, or say when they do not. Numbers have the width of the code; where C leaves the overflow of
  a signed sum undefined (\<^verbatim>\<open>DW_OP_fbreg\<close>), so does the model.

  Assumed of libdwarf, beyond \<open>dwarf_ok\<close>: \<^verbatim>\<open>sd_variable_type\<close> frees the DIE of its caller, which
  then reads the location of the variable from it. C does not define what that gives
  (\<open>variable_die_used_after_free\<close>); what is said elsewhere of variables rests on the freed DIE
  being left as it was.

  Not modelled:

  \<^item> The Scheme files, compiled by CHICKEN, that read, highlight and print source files: they are a
    parameter and an event of the output.
  \<^item> \<^verbatim>\<open>hashmap.c\<close> and \<^verbatim>\<open>linenoise\<close>, git submodules that are not part of the repository's files.
  \<^item> The freeing of memory and failing allocations, but for the buffer of symbols and
    the DIEs of the search; the floating-point
    numbers in which \<^verbatim>\<open>n_digits\<close> counts; the unit and integration tests.
\<close>

end
